(* ===== verification/Prelude.thy ===== *)
theory Prelude
  imports Main "HOL-Library.Word"
begin

text \<open>
  Shared vocabulary of the development: Go errors and the outcome of a fallible
  call, Go integer widths, byte slices, the big-endian encoding of
  \<^verbatim>\<open>encoding/binary\<close>, and the string functions of \<^verbatim>\<open>bytes\<close> and
  \<^verbatim>\<open>strings\<close> that the sources call.  Everything here models the language and
  its standard library; the components import it.
\<close>

named_theorems wire_simps \<open>layout facts of the client message: offsets, widths, slices\<close>
named_theorems res_simps \<open>evaluation of outcomes: binding, wrapping, slicing\<close>

type_synonym byte = "8 word"
type_synonym bytes = "byte list"
type_synonym uint32 = "32 word"
type_synonym uint64 = "64 word"

text \<open>Go's signed integers are HOL integers; every operation of the sources that can
  leave the width is followed by the conversion that brings it back.\<close>
type_synonym int32 = int
type_synonym int64 = int
type_synonym duration = int

section \<open>Errors and outcomes\<close>

text \<open>
  The sentinel errors of the sources, errors produced by code outside them
  (\<open>External\<close>, and the sentinels of the standard library from \<open>ErrInvalidFile\<close> on),
  \<open>Wrap\<close> for \<^verbatim>\<open>fmt.Errorf("context: %w", err)\<close>, and \<open>Joined\<close> for
  \<^verbatim>\<open>errors.Join\<close> and for a format with several \<^verbatim>\<open>%w\<close>.
  A sentinel that is decorated with values for display only, as in
  \<^verbatim>\<open>fmt.Errorf("%w: offset %d", ErrOffsetOutside, offset)\<close>, is the sentinel.
\<close>

datatype go_error =
    ErrOffsetOutside | ErrNotEnoughSpace | ErrNegative | ErrNil | ErrInvalid
  | ErrNegativeValue | ErrOverflow
  | ErrInvalidVersion | ErrLengthMismatch | ErrSyntax | ErrRange
  | ErrTimedOut | ErrUnknownSessionType | ErrUnsupportedAction
  | EOF | ErrConnectionClosed | ErrEmptyInput | ErrWebsocketNil | ErrMessageType
  | ErrZeroWidthOrHeight | ErrNotTCPListener | ErrConnectionFailed
  | ErrInvalidARN | ErrInvalidSessionType
  | ErrServiceNotFound | ErrContainerNotFound | ErrTaskNotFound | ErrNoTasks | ErrInvalidImage
  | ErrInvalidTaskDefinition | ErrInvalidOption
  | ErrInvalidFile | Canceled | ErrUnexpectedEOF | ErrClosed | ErrClosedPipe | ErrNotExist
  | External nat
  | Wrap string go_error
  | Joined "go_error list"

text \<open>\<^verbatim>\<open>errors.Is\<close>: follows the tree of wrapped errors.
  \<^verbatim>\<open>ErrConnectionClosed\<close> is itself declared as a wrapper of \<^verbatim>\<open>io.EOF\<close>.\<close>

fun errors_Is :: "go_error \<Rightarrow> go_error \<Rightarrow> bool" where
  "errors_Is (Wrap s e) t = (Wrap s e = t \<or> errors_Is e t)"
| "errors_Is (Joined es) t = (Joined es = t \<or> (\<exists>e \<in> set es. errors_Is e t))"
| "errors_Is ErrConnectionClosed t = (t = ErrConnectionClosed \<or> t = EOF)"
| "errors_Is e t = (e = t)"

text \<open>A call returns a value, returns an error, panics, or blocks on a channel or a mutex
  (until another goroutine acts, which is outside the call).\<close>

datatype 'a res = Ok 'a | Err go_error | Panic | Blocked

definition rbind :: "'a res \<Rightarrow> ('a \<Rightarrow> 'b res) \<Rightarrow> 'b res" where
  "rbind r f = (case r of Ok x \<Rightarrow> f x | Err e \<Rightarrow> Err e | Panic \<Rightarrow> Panic | Blocked \<Rightarrow> Blocked)"

definition wrap_err :: "string \<Rightarrow> 'a res \<Rightarrow> 'a res" where
  "wrap_err s r =
     (case r of Ok x \<Rightarrow> Ok x | Err e \<Rightarrow> Err (Wrap s e) | Panic \<Rightarrow> Panic | Blocked \<Rightarrow> Blocked)"

lemma rbind_res [simp, res_simps]:
  "rbind (Ok x) f = f x" "rbind (Err e) f = Err e" "rbind Panic f = Panic"
  "rbind Blocked f = Blocked"
  by (simp_all add: rbind_def)

lemma wrap_err_res [simp, res_simps]:
  "wrap_err s (Ok x) = Ok x" "wrap_err s (Err e) = Err (Wrap s e)" "wrap_err s Panic = Panic"
  "wrap_err s Blocked = Blocked"
  by (simp_all add: wrap_err_def)

lemma rbind_Ok_iff: "rbind r f = Ok y \<longleftrightarrow> (\<exists>x. r = Ok x \<and> f x = Ok y)"
  by (cases r) auto

lemma wrap_err_Ok_iff [simp]: "wrap_err s r = Ok x \<longleftrightarrow> r = Ok x"
  by (cases r) auto

lemma wrap_err_Panic_iff [simp]: "wrap_err s r = Panic \<longleftrightarrow> r = Panic"
  by (cases r) auto

text \<open>A call that neither panics nor blocks.\<close>

definition settled :: "'a res \<Rightarrow> bool" where
  "settled r \<longleftrightarrow> r \<noteq> Panic \<and> r \<noteq> Blocked"

lemma settled_simps [simp]:
  "settled (Ok x)" "settled (Err e)" "\<not> settled Panic" "\<not> settled Blocked"
  "settled (wrap_err s r) \<longleftrightarrow> settled r"
  by (simp_all add: settled_def) (cases r; simp)

lemma settled_no_block: "settled r \<Longrightarrow> r \<noteq> Blocked" by (simp add: settled_def)

lemma rbind_settled: "settled r \<Longrightarrow> (\<And>x. r = Ok x \<Longrightarrow> settled (f x)) \<Longrightarrow> settled (rbind r f)"
  by (cases r) simp_all

lemma rbind_no_block: "r \<noteq> Blocked \<Longrightarrow> (\<And>x. r = Ok x \<Longrightarrow> f x \<noteq> Blocked) \<Longrightarrow> rbind r f \<noteq> Blocked"
  by (cases r) simp_all

lemma wrap_err_Blocked_iff [simp]: "wrap_err s r = Blocked \<longleftrightarrow> r = Blocked"
  by (cases r) auto

text \<open>The same for calls that change a state \<open>'s\<close>: the outcome is paired with the state
  after the call, which an error or a panic leaves behind too.\<close>

definition sbind :: "'a res \<times> 's \<Rightarrow> ('a \<Rightarrow> 's \<Rightarrow> 'b res \<times> 's) \<Rightarrow> 'b res \<times> 's" where
  "sbind r f = (case fst r of Ok x \<Rightarrow> f x (snd r) | Err e \<Rightarrow> (Err e, snd r)
     | Panic \<Rightarrow> (Panic, snd r) | Blocked \<Rightarrow> (Blocked, snd r))"

definition swrap :: "string \<Rightarrow> 'a res \<times> 's \<Rightarrow> 'a res \<times> 's" where
  "swrap s r = (wrap_err s (fst r), snd r)"

lemma sbind_res [simp, res_simps]:
  "sbind (Ok x, s) f = f x s" "sbind (Err e, s) f = (Err e, s)"
  "sbind (Panic, s) f = (Panic, s)" "sbind (Blocked, s) f = (Blocked, s)"
  by (simp_all add: sbind_def)

lemma swrap_res [simp, res_simps]:
  "swrap c (r, s) = (wrap_err c r, s)" "snd (swrap c p) = snd p" "fst (swrap c p) = wrap_err c (fst p)"
  by (simp_all add: swrap_def)

lemma sbind_snd:
  assumes "P (snd r)" and "\<And>x s. fst r = Ok x \<Longrightarrow> s = snd r \<Longrightarrow> P s \<Longrightarrow> P (snd (f x s))"
  shows "P (snd (sbind r f))"
  using assms by (cases "fst r") (auto simp: sbind_def)

lemma sbind_OkE:
  assumes "sbind r f = (Ok y, s')"
  obtains x where "fst r = Ok x" "f x (snd r) = (Ok y, s')"
  using assms by (cases "fst r") (auto simp: sbind_def)

lemma errors_Is_refl [simp]: "errors_Is e e"
  by (cases e) auto

section \<open>Integer widths\<close>

text \<open>The conversions \<^verbatim>\<open>int(v)\<close>, \<^verbatim>\<open>int64(v)\<close>, \<^verbatim>\<open>int32(v)\<close> and
  \<^verbatim>\<open>uint32(v)\<close> of Go keep the low bits of the value (\<^verbatim>\<open>int\<close> has 64 bits).\<close>

definition to_i64 :: "int \<Rightarrow> int64" where "to_i64 v = signed_take_bit 63 v"
definition to_i32 :: "int \<Rightarrow> int32" where "to_i32 v = signed_take_bit 31 v"

abbreviation MaxInt32 :: int where "MaxInt32 \<equiv> 2147483647"
abbreviation MaxUint32 :: int where "MaxUint32 \<equiv> 4294967295"
abbreviation MaxInt64 :: int where "MaxInt64 \<equiv> 9223372036854775807"

definition is_i64 :: "int \<Rightarrow> bool" where "is_i64 v \<longleftrightarrow> - (2 ^ 63) \<le> v \<and> v < 2 ^ 63"
definition is_i32 :: "int \<Rightarrow> bool" where "is_i32 v \<longleftrightarrow> - (2 ^ 31) \<le> v \<and> v < 2 ^ 31"

lemma to_i64_id: "is_i64 v \<Longrightarrow> to_i64 v = v"
  by (simp add: to_i64_def is_i64_def signed_take_bit_int_eq_self)

lemma to_i32_id: "is_i32 v \<Longrightarrow> to_i32 v = v"
  by (simp add: to_i32_def is_i32_def signed_take_bit_int_eq_self)

lemma is_i64_to_i64 [simp]: "is_i64 (to_i64 v)"
  using signed_take_bit_int_less_exp [of 63 v] signed_take_bit_int_greater_eq_minus_exp [of 63 v]
  by (simp add: to_i64_def is_i64_def)

lemma is_i32_to_i32 [simp]: "is_i32 (to_i32 v)"
  using signed_take_bit_int_less_exp [of 31 v] signed_take_bit_int_greater_eq_minus_exp [of 31 v]
  by (simp add: to_i32_def is_i32_def)

lemma nat_take_bit_uint32 [simp]: "nat (take_bit 32 (uint (w :: uint32))) = unat w"
  using uint_bounded [of w] by (simp add: take_bit_int_eq_self)

lemma nat_take_bit_uint64 [simp]: "nat (take_bit 64 (uint (w :: uint64))) = unat w"
  using uint_bounded [of w] by (simp add: take_bit_int_eq_self)

lemma unat_uint32_small: "unat (w :: uint32) < 2 ^ 62"
proof -
  have "unat w < 2 ^ 32" using unsigned_less [of w, where ?'a = nat] by simp
  then show ?thesis by simp
qed

section \<open>Byte slices\<close>

definition len :: "'a list \<Rightarrow> int" where "len xs = int (length xs)"

lemma len_nonneg [simp]: "0 \<le> len xs" by (simp add: len_def)


text \<open>\<^verbatim>\<open>s[lo:hi]\<close>: panics unless \<open>0 \<le> lo \<le> hi \<le> len s\<close>.\<close>

definition go_slice :: "'a list \<Rightarrow> int \<Rightarrow> int \<Rightarrow> 'a list res" where
  "go_slice xs lo hi =
     (if 0 \<le> lo \<and> lo \<le> hi \<and> hi \<le> len xs
      then Ok (take (nat (hi - lo)) (drop (nat lo) xs)) else Panic)"

text \<open>\<open>n\<close> consecutive bytes at position \<open>i\<close>, and the buffer with bytes written there.\<close>

definition field :: "'a list \<Rightarrow> nat \<Rightarrow> nat \<Rightarrow> 'a list" where
  "field xs i n = take n (drop i xs)"

definition overwrite :: "'a list \<Rightarrow> nat \<Rightarrow> 'a list \<Rightarrow> 'a list" where
  "overwrite xs i ys = take i xs @ ys @ drop (i + length ys) xs"

text \<open>\<^verbatim>\<open>copy(dst[lo:hi], src)\<close>: copies as many elements as both sides have.\<close>

definition go_copy :: "'a list \<Rightarrow> int \<Rightarrow> int \<Rightarrow> 'a list \<Rightarrow> 'a list res" where
  "go_copy dst lo hi src =
     rbind (go_slice dst lo hi) (\<lambda>win. Ok (overwrite dst (nat lo) (take (length win) src)))"

lemma length_overwrite [simp]:
  "i + length ys \<le> length xs \<Longrightarrow> length (overwrite xs i ys) = length xs"
  by (simp add: overwrite_def)

lemma field_overwrite_same:
  "i + length ys \<le> length xs \<Longrightarrow> field (overwrite xs i ys) i (length ys) = ys"
  by (simp add: field_def overwrite_def)

lemma field_overwrite_before:
  "j + n \<le> i \<Longrightarrow> i \<le> length xs \<Longrightarrow> field (overwrite xs i ys) j n = field xs j n"
  by (simp add: field_def overwrite_def drop_take)

lemma field_overwrite_after:
  assumes "i + length ys \<le> j" "i + length ys \<le> length xs"
  shows "field (overwrite xs i ys) j n = field xs j n"
proof -
  have "drop j (overwrite xs i ys) = drop j xs"
    using assms by (simp add: overwrite_def)
  then show ?thesis by (simp add: field_def)
qed

lemma overwrite_overwrite:
  assumes "j = i + length ys" "j + length zs \<le> length xs"
  shows "overwrite (overwrite xs i ys) j zs = overwrite xs i (ys @ zs)"
  using assms by (simp add: overwrite_def ac_simps)

lemma field_append_split: "field xs i (m + n) = field xs i m @ field xs (i + m) n"
  by (simp add: field_def take_add add.commute)

lemma go_slice_field:
  "0 \<le> lo \<Longrightarrow> 0 \<le> n \<Longrightarrow> lo + n \<le> len xs \<Longrightarrow> go_slice xs lo (lo + n) = Ok (field xs (nat lo) (nat n))"
  by (simp add: go_slice_def field_def)

lemma go_slice_tail:
  "go_slice xs lo (len xs) = (if 0 \<le> lo \<and> lo \<le> len xs then Ok (drop (nat lo) xs) else Panic)"
  by (simp add: go_slice_def len_def)

lemma length_field: "i + n \<le> length xs \<Longrightarrow> length (field xs i n) = n"
  by (simp add: field_def)

lemma go_copy_exact:
  assumes "0 \<le> lo" "lo + len src \<le> len dst"
  shows "go_copy dst lo (lo + len src) src = Ok (overwrite dst (nat lo) src)"
proof -
  have "length (field dst (nat lo) (length src)) = length src"
    using assms by (intro length_field) (simp add: len_def)
  moreover have "go_slice dst lo (lo + len src) = Ok (field dst (nat lo) (length src))"
    using assms by (subst go_slice_field) (simp_all add: len_def)
  ultimately show ?thesis by (simp add: go_copy_def)
qed

section \<open>Big-endian integers (\<^verbatim>\<open>encoding/binary\<close>)\<close>

fun be_bytes :: "nat \<Rightarrow> nat \<Rightarrow> bytes" where
  "be_bytes 0 k = []"
| "be_bytes (Suc n) k = be_bytes n (k div 256) @ [of_nat k]"

lemma be_bytes_numeral:
  "be_bytes (numeral k) n = be_bytes (pred_numeral k) (n div 256) @ [of_nat n]"
  by (simp only: numeral_eq_Suc be_bytes.simps)

definition be_nat :: "bytes \<Rightarrow> nat" where
  "be_nat bs = foldl (\<lambda>a b. 256 * a + unat b) 0 bs"

lemma length_be_bytes [simp]: "length (be_bytes n k) = n"
  by (induction n k rule: be_bytes.induct) auto

lemma be_nat_Nil [simp]: "be_nat [] = 0" by (simp add: be_nat_def)

lemma be_nat_snoc [simp]: "be_nat (bs @ [b]) = 256 * be_nat bs + unat b"
  by (simp add: be_nat_def)

lemma be_nat_be_bytes: "be_nat (be_bytes n k) = k mod 256 ^ n"
proof (induction n k rule: be_bytes.induct)
  case (2 n k)
  have "unat (of_nat k :: byte) = k mod 256" by (simp add: unat_of_nat)
  with "2" show ?case by (simp add: mod_mult2_eq)
qed simp

lemma be_bytes_be_nat: "be_bytes (length bs) (be_nat bs) = bs"
proof (induction bs rule: rev_induct)
  case (snoc b bs)
  have "(256 * be_nat bs + unat b) div 256 = be_nat bs"
    using unsigned_less [of b, where ?'a = nat] by simp
  moreover have "of_nat (256 * be_nat bs + unat b) = b"
  proof -
    have "(of_nat 256 :: byte) = 0" by simp
    then show ?thesis
      by (simp only: of_nat_add of_nat_mult mult_zero_left add_0) simp
  qed
  ultimately show ?case using snoc by simp
qed simp

lemma be_nat_less: "be_nat bs < 256 ^ length bs"
proof (induction bs rule: rev_induct)
  case (snoc b bs)
  have "unat b < 256" using unsigned_less [of b, where ?'a = nat] by simp
  with snoc have "256 * be_nat bs + unat b < 256 * (be_nat bs + 1)" by simp
  also have "\<dots> \<le> 256 * 256 ^ length bs" using snoc by simp
  finally show ?case by simp
qed simp

section \<open>Strings\<close>

text \<open>A Go string is a byte sequence; the model writes it as a HOL string, whose
  characters are the bytes.\<close>

definition byte_of_char :: "char \<Rightarrow> byte" where "byte_of_char c = of_nat (of_char c)"
definition char_of_byte :: "byte \<Rightarrow> char" where "char_of_byte b = char_of (unat b)"

definition str_bytes :: "string \<Rightarrow> bytes" where "str_bytes s = map byte_of_char s"
definition bytes_str :: "bytes \<Rightarrow> string" where "bytes_str b = map char_of_byte b"

lemma char_of_byte_of_char [simp]: "char_of_byte (byte_of_char c) = c"
proof -
  have "(of_char c :: nat) < 256" by simp
  then show ?thesis by (simp add: char_of_byte_def byte_of_char_def unat_of_nat)
qed

lemma byte_of_char_of_byte [simp]: "byte_of_char (char_of_byte b) = b"
proof -
  have "unat b < 256" using unsigned_less [of b, where ?'a = nat] by simp
  then show ?thesis by (simp add: char_of_byte_def byte_of_char_def)
qed

lemma bytes_str_str_bytes [simp]: "bytes_str (str_bytes s) = s"
  by (simp add: bytes_str_def str_bytes_def comp_def)

lemma str_bytes_bytes_str [simp]: "str_bytes (bytes_str b) = b"
  by (simp add: bytes_str_def str_bytes_def comp_def)

lemma length_str_bytes [simp]: "length (str_bytes s) = length s"
  by (simp add: str_bytes_def)

text \<open>\<^verbatim>\<open>bytes.Trim(b, "\x00")\<close> removes leading and trailing NUL bytes.\<close>

definition trim_nul :: "bytes \<Rightarrow> bytes" where
  "trim_nul b = rev (dropWhile (\<lambda>x. x = 0) (rev (dropWhile (\<lambda>x. x = 0) b)))"

text \<open>\<^verbatim>\<open>strings.TrimSpace\<close> removes leading and trailing white space as defined by
  Unicode.  The encodings of the white space code points: six of ASCII, U+0085, U+00A0,
  U+1680, U+2000 to U+200A, U+2028, U+2029, U+202F, U+205F and U+3000.\<close>

definition unicode_spaces :: "bytes list" where
  "unicode_spaces =
     [[9], [10], [11], [12], [13], [32], [0xC2, 0x85], [0xC2, 0xA0], [0xE1, 0x9A, 0x80]] @
     map (\<lambda>b. [0xE2, 0x80, b])
       [0x80, 0x81, 0x82, 0x83, 0x84, 0x85, 0x86, 0x87, 0x88, 0x89, 0x8A, 0xA8, 0xA9, 0xAF] @
     [[0xE2, 0x81, 0x9F], [0xE3, 0x80, 0x80]]"

definition strip_prefix :: "'a list list \<Rightarrow> 'a list \<Rightarrow> 'a list option" where
  "strip_prefix ws s =
     (case List.find (\<lambda>w. w \<noteq> [] \<and> take (length w) s = w) ws of
        None \<Rightarrow> None | Some w \<Rightarrow> Some (drop (length w) s))"

lemma strip_prefix_shorter:
  assumes "strip_prefix ws s = Some t"
  shows "length t < length s"
proof -
  from assms obtain w where "w \<noteq> []" "take (length w) s = w" "t = drop (length w) s"
    by (auto simp: strip_prefix_def find_Some_iff split: option.splits)
  then show ?thesis by (cases s; cases w) auto
qed

function trim_prefixes :: "'a list list \<Rightarrow> 'a list \<Rightarrow> 'a list" where
  "trim_prefixes ws s = (case strip_prefix ws s of None \<Rightarrow> s | Some t \<Rightarrow> trim_prefixes ws t)"
  by pat_completeness auto
termination
  by (relation "measure (\<lambda>(ws, s). length s)") (auto dest: strip_prefix_shorter)

declare trim_prefixes.simps [simp del]

definition trim_space :: "bytes \<Rightarrow> bytes" where
  "trim_space s =
     rev (trim_prefixes (map rev unicode_spaces) (rev (trim_prefixes unicode_spaces s)))"

text \<open>\<^verbatim>\<open>strconv.Itoa\<close> and \<^verbatim>\<open>%d\<close>.\<close>

fun dec_nat :: "nat \<Rightarrow> string" where
  "dec_nat n = (if n < 10 then [char_of (48 + n)] else dec_nat (n div 10) @ [char_of (48 + n mod 10)])"

declare dec_nat.simps [simp del]

definition Itoa :: "int \<Rightarrow> string" where
  "Itoa i = (if i < 0 then ''-'' @ dec_nat (nat (- i)) else dec_nat (nat i))"

text \<open>\<^verbatim>\<open>strings.Split\<close> with a separator of one byte, and \<^verbatim>\<open>strings.Join\<close>.\<close>

fun split_on :: "char \<Rightarrow> string \<Rightarrow> string list" where
  "split_on sep [] = [[]]"
| "split_on sep (x # xs) =
     (if x = sep then [] # split_on sep xs
      else (case split_on sep xs of [] \<Rightarrow> [[x]] | y # ys \<Rightarrow> (x # y) # ys))"

fun join_with :: "string \<Rightarrow> string list \<Rightarrow> string" where
  "join_with sep [] = []"
| "join_with sep [x] = x"
| "join_with sep (x # y # ys) = x @ sep @ join_with sep (y # ys)"

lemma split_on_Cons: "\<exists>y ys. split_on sep xs = y # ys"
  by (induction xs) (auto split: list.splits)

lemma join_split [simp]: "join_with [sep] (split_on sep xs) = xs"
proof (induction xs)
  case (Cons x xs)
  obtain y ys where "split_on sep xs = y # ys" using split_on_Cons by blast
  with Cons show ?case by (cases ys) auto
qed simp

lemma split_on_no_sep: "sep \<notin> set xs \<Longrightarrow> split_on sep xs = [xs]"
  by (induction xs) auto

lemma split_on_append: "sep \<notin> set xs \<Longrightarrow> split_on sep (xs @ sep # ys) = xs # split_on sep ys"
  by (induction xs) auto

lemma split_join:
  "xs \<noteq> [] \<Longrightarrow> \<forall>x \<in> set xs. sep \<notin> set x \<Longrightarrow> split_on sep (join_with [sep] xs) = xs"
  by (induction "[sep]" xs rule: join_with.induct) (auto simp: split_on_no_sep split_on_append)

end
