(* ===== verification/Safe.thy ===== *)
theory Safe
  imports Prelude
begin

text \<open>
  \<^verbatim>\<open>src/util/safe.go\<close>: the checked integer conversions.  They are generic over the
  integer types \<^verbatim>\<open>~int | ~int32 | ~int64 | ~uint | ~uint32 | ~uint64\<close>; the model
  takes the type argument explicitly and the value as an integer of that type's range.
  \<open>Predeclared\<close> and \<open>Defined\<close> separate \<^verbatim>\<open>uint32\<close> from a type declared
  on top of it, which \<^verbatim>\<open>SafeInt64\<close>'s type switch tells apart.
\<close>

datatype int_kind = K_int | K_int32 | K_int64 | K_uint | K_uint32 | K_uint64

datatype go_type = Predeclared int_kind | Defined int_kind

fun kind_of :: "go_type \<Rightarrow> int_kind" where
  "kind_of (Predeclared k) = k"
| "kind_of (Defined k) = k"

fun in_kind :: "int_kind \<Rightarrow> int \<Rightarrow> bool" where
  "in_kind K_int v = is_i64 v"
| "in_kind K_int64 v = is_i64 v"
| "in_kind K_int32 v = is_i32 v"
| "in_kind K_uint v = (0 \<le> v \<and> v < 2 ^ 64)"
| "in_kind K_uint64 v = (0 \<le> v \<and> v < 2 ^ 64)"
| "in_kind K_uint32 v = (0 \<le> v \<and> v < 2 ^ 32)"

definition SafeUint32 :: "go_type \<Rightarrow> int \<Rightarrow> uint32 res" where
  "SafeUint32 T value =
     (if value < 0 then Err ErrNegativeValue
      else if to_i64 value > MaxUint32 then Err ErrOverflow
      else Ok (word_of_int value))"

definition SafeInt32 :: "go_type \<Rightarrow> int \<Rightarrow> int32 res" where
  "SafeInt32 T value =
     (if to_i64 value > MaxInt32 then Err ErrOverflow else Ok (to_i32 value))"

definition SafeInt64 :: "go_type \<Rightarrow> int \<Rightarrow> int64 res" where
  "SafeInt64 T value =
     (case T of
        Predeclared K_int \<Rightarrow> Ok (to_i64 value)
      | Predeclared K_int32 \<Rightarrow> Ok (to_i64 value)
      | Predeclared K_int64 \<Rightarrow> Ok (to_i64 value)
      | Predeclared _ \<Rightarrow>
          (if take_bit 64 value > take_bit 64 MaxInt64 then Err ErrOverflow
           else Ok (to_i64 value))
      | Defined _ \<Rightarrow> Ok (to_i64 value))"

lemma to_i64_small: "0 \<le> v \<Longrightarrow> v < 2 ^ 63 \<Longrightarrow> to_i64 v = v"
  by (rule to_i64_id) (simp add: is_i64_def)

lemma to_i64_big:
  assumes "2 ^ 63 \<le> v" "v < 2 ^ 64"
  shows "to_i64 v < 0"
proof -
  have "bit v 63"
  proof -
    have "v div 2 ^ 63 = 1" using assms by (intro int_div_pos_eq [of v "2 ^ 63" 1 "v - 2 ^ 63"]) auto
    then show ?thesis by (simp add: bit_iff_odd)
  qed
  then show ?thesis by (simp add: to_i64_def signed_take_bit_negative_iff)
qed

text \<open>On a value of type \<^verbatim>\<open>uint32\<close> the conversion to \<^verbatim>\<open>int32\<close> is exact.\<close>

lemma SafeInt32_uint32:
  "SafeInt32 (Predeclared K_uint32) (uint (w :: uint32)) =
     (if uint w \<le> MaxInt32 then Ok (uint w) else Err ErrOverflow)"
proof -
  have "uint w < 2 ^ 32" using uint_bounded [of w] by simp
  then have "to_i64 (uint w) = uint w" by (simp add: to_i64_small)
  moreover have "uint w \<le> MaxInt32 \<Longrightarrow> to_i32 (uint w) = uint w"
    by (rule to_i32_id) (simp add: is_i32_def order_trans [OF _ uint_nonnegative])
  ultimately show ?thesis by (simp add: SafeInt32_def)
qed

lemma SafeInt64_uint64:
  "SafeInt64 (Predeclared K_uint64) (uint (w :: uint64)) =
     (if uint w \<le> MaxInt64 then Ok (uint w) else Err ErrOverflow)"
proof -
  have "uint w < 2 ^ 64" using uint_bounded [of w] by simp
  then have "take_bit 64 (uint w) = uint w" by (simp add: take_bit_int_eq_self)
  moreover have "uint w \<le> MaxInt64 \<Longrightarrow> to_i64 (uint w) = uint w"
    by (rule to_i64_small) simp_all
  ultimately show ?thesis by (simp add: SafeInt64_def take_bit_int_eq_self)
qed

lemma SafeUint32_int:
  "is_i64 v \<Longrightarrow> SafeUint32 T v =
     (if v < 0 then Err ErrNegativeValue else if v > MaxUint32 then Err ErrOverflow
      else Ok (word_of_int v))"
  by (simp add: SafeUint32_def to_i64_id)

lemma in_kind_below_i64: "in_kind k v \<Longrightarrow> v < 2 ^ 63 \<Longrightarrow> is_i64 v"
  by (cases k) (auto simp: is_i64_def is_i32_def)

lemma in_kind_less_u64: "in_kind k v \<Longrightarrow> v < 2 ^ 64"
  by (cases k) (auto simp: is_i64_def is_i32_def)

text \<open>
  \<^verbatim>\<open>SafeUint32\<close>, on every value below \<open>2 ^ 63\<close> of every type it is
  instantiated with, succeeds precisely on the \<^verbatim>\<open>uint32\<close> range, with the value
  unchanged, and tells negative values from too large ones.
\<close>

theorem SafeUint32_exact:
  assumes "in_kind (kind_of T) v" "v < 2 ^ 63"
  shows "SafeUint32 T v =
    (if v < 0 then Err ErrNegativeValue else if v \<ge> 2 ^ 32 then Err ErrOverflow
     else Ok (word_of_int v)) \<and>
    (\<forall>w. SafeUint32 T v = Ok w \<longrightarrow> uint w = v)"
proof -
  have "is_i64 v" using assms by (rule in_kind_below_i64)
  note eq = SafeUint32_int [OF this, of T]
  show ?thesis
    by (auto simp: eq uint_word_of_int take_bit_int_eq_self split: if_splits)
qed

theorem SafeUint32_exact_witness:
  "in_kind (kind_of (Predeclared K_int)) 70000 \<and> (70000::int) < 2 ^ 63 \<and>
   SafeUint32 (Predeclared K_int) 70000 = Ok 70000"
proof -
  have h: "in_kind (kind_of (Predeclared K_int)) 70000" "(70000::int) < 2 ^ 63"
    by (simp_all add: is_i64_def)
  show ?thesis using h SafeUint32_exact [OF h] by simp
qed

text \<open>
  What \<^verbatim>\<open>SafeInt32\<close> checks: it refuses exactly the values above the
  \<^verbatim>\<open>int32\<close> range and below \<open>2 ^ 63\<close>.  Every other value is converted by
  keeping its low 32 bits: a value below the range wraps instead of being refused (one
  below the least \<^verbatim>\<open>int32\<close> becomes the largest one), and so does an unsigned value
  from \<open>2 ^ 63\<close> on.
\<close>

theorem SafeInt32_checks_upper_bound_only:
  assumes "in_kind (kind_of T) v"
  shows "SafeInt32 T v =
      (if MaxInt32 < v \<and> v < 2 ^ 63 then Err ErrOverflow else Ok (to_i32 v)) \<and>
    SafeInt32 (Predeclared K_int) (- (2 ^ 31) - 1) = Ok MaxInt32"
proof -
  have "SafeInt32 T v =
      (if MaxInt32 < v \<and> v < 2 ^ 63 then Err ErrOverflow else Ok (to_i32 v))"
  proof (cases "v < 2 ^ 63")
    case True
    then have "to_i64 v = v" using assms by (intro to_i64_id in_kind_below_i64)
    with True show ?thesis by (simp add: SafeInt32_def)
  next
    case False
    then have "to_i64 v < 0" using in_kind_less_u64 [OF assms] by (intro to_i64_big) simp_all
    with False show ?thesis by (simp add: SafeInt32_def)
  qed
  moreover have "SafeInt32 (Predeclared K_int) (- (2 ^ 31) - 1) = Ok MaxInt32"
    by (simp add: SafeInt32_def to_i64_def to_i32_def)
  ultimately show ?thesis by blast
qed

theorem SafeInt32_checks_upper_bound_only_witness:
  "in_kind (kind_of (Predeclared K_uint64)) (2 ^ 63 + 5) \<and>
   SafeInt32 (Predeclared K_uint64) (2 ^ 63 + 5) = Ok 5"
proof -
  have h: "in_kind (kind_of (Predeclared K_uint64)) (2 ^ 63 + 5)" by simp
  show ?thesis using h SafeInt32_checks_upper_bound_only [OF h] by (simp add: to_i32_def)
qed

end
