(* ===== verification/Config.thy ===== *)
theory Config
  imports Prelude Complex_Main
begin

text \<open>
  \<^verbatim>\<open>src/config/config.go\<close>: the constants of the program.  A duration is a number
  of nanoseconds, as in \<^verbatim>\<open>time.Duration\<close>.
\<close>

definition Millisecond :: duration where "Millisecond = 1000000"
definition Second :: duration where "Second = 1000 * Millisecond"

definition RolePublishSubscribe :: string where "RolePublishSubscribe = ''publish_subscribe''"
definition MessageSchemaVersion :: string where "MessageSchemaVersion = ''1.0''"
definition DefaultTransmissionTimeout :: duration where
  "DefaultTransmissionTimeout = 200 * Millisecond"
definition DefaultRoundTripTime :: duration where "DefaultRoundTripTime = 100 * Millisecond"
definition DefaultRoundTripTimeVariation :: int where "DefaultRoundTripTimeVariation = 0"
definition ResendSleepInterval :: duration where "ResendSleepInterval = 100 * Millisecond"
definition ResendMaxAttempt :: int where "ResendMaxAttempt = 3000"
definition StreamDataPayloadSize :: int where "StreamDataPayloadSize = 1024"
definition OutgoingMessageBufferCapacity :: int where "OutgoingMessageBufferCapacity = 10000"
definition IncomingMessageBufferCapacity :: int where "IncomingMessageBufferCapacity = 10000"
definition RTTConstant :: rat where "RTTConstant = 1 / 8"
definition RTTVConstant :: rat where "RTTVConstant = 1 / 4"
definition ClockGranularity :: duration where "ClockGranularity = 10 * Millisecond"
definition MaxTransmissionTimeout :: duration where "MaxTransmissionTimeout = 1 * Second"
definition RetryBase :: int where "RetryBase = 2"
definition DataChannelNumMaxRetries :: int where "DataChannelNumMaxRetries = 5"
definition DataChannelRetryInitialDelayMillis :: int where
  "DataChannelRetryInitialDelayMillis = 100"
definition DataChannelRetryMaxIntervalMillis :: int where
  "DataChannelRetryMaxIntervalMillis = 5000"
definition RetryAttempt :: int where "RetryAttempt = 5"
definition PingTimeInterval :: duration where "PingTimeInterval = 5 * 60 * Second"
definition ShellPluginName :: string where "ShellPluginName = ''Standard_Stream''"
definition PortPluginName :: string where "PortPluginName = ''Port''"
definition InteractiveCommandsPluginName :: string where
  "InteractiveCommandsPluginName = ''InteractiveCommands''"
definition NonInteractiveCommandsPluginName :: string where
  "NonInteractiveCommandsPluginName = ''NonInteractiveCommands''"
definition TerminateSessionFlagSupportedAfterThisAgentVersion :: string where
  "TerminateSessionFlagSupportedAfterThisAgentVersion = ''2.3.722.0''"
definition TCPMultiplexingSupportedAfterThisAgentVersion :: string where
  "TCPMultiplexingSupportedAfterThisAgentVersion = ''3.0.196.0''"
definition TCPMultiplexingWithSmuxKeepAliveDisabledAfterThisAgentVersion :: string where
  "TCPMultiplexingWithSmuxKeepAliveDisabledAfterThisAgentVersion = ''3.1.1511.0''"

text \<open>\<^verbatim>\<open>src/version/version.go\<close>.\<close>

definition Version :: string where "Version = ''1.3.0.0''"

lemmas plugin_names = ShellPluginName_def PortPluginName_def InteractiveCommandsPluginName_def
  NonInteractiveCommandsPluginName_def

lemmas duration_consts = Millisecond_def Second_def DefaultTransmissionTimeout_def
  DefaultRoundTripTime_def ResendSleepInterval_def ClockGranularity_def MaxTransmissionTimeout_def

end
