(* ===== verification/Versions.thy ===== *)
theory Versions
  imports Config "HOL-Library.List_Lexorder"
begin

text \<open>
  \<^verbatim>\<open>src/version\<close>: agent version numbers and the feature tests built on them
  (\<^verbatim>\<open>versionutil.go\<close>, \<^verbatim>\<open>versionvalidator.go\<close>).
  \<^verbatim>\<open>strconv.Atoi\<close> is modelled as the standard library documents it.  The locale \<open>three_way\<close> is the contract of a comparison
  function that answers \<open>-1\<close>, \<open>0\<close> or \<open>1\<close>; \<^verbatim>\<open>Number.compare\<close> fulfils
  it on version numbers with equally many numeric components.
\<close>

section \<open>Standard library\<close>

definition is_digit :: "char \<Rightarrow> bool" where
  "is_digit c \<longleftrightarrow> (48 :: nat) \<le> of_char c \<and> of_char c \<le> (57 :: nat)"

text \<open>The loop of \<^verbatim>\<open>strconv.ParseUint\<close> in base 10 with 64 bits.\<close>

fun parse_uint :: "int \<Rightarrow> string \<Rightarrow> int res" where
  "parse_uint n [] = Ok n"
| "parse_uint n (c # cs) =
     (if \<not> is_digit c then Err ErrSyntax
      else let n1 = 10 * n + int (of_char c) - 48
           in if n1 \<ge> 2 ^ 64 then Err ErrRange else parse_uint n1 cs)"

definition parse_digits :: "string \<Rightarrow> int res" where
  "parse_digits ds = (if ds = [] then Err ErrSyntax else parse_uint 0 ds)"

definition check_i64 :: "int \<Rightarrow> int res" where
  "check_i64 v = (if is_i64 v then Ok v else Err ErrRange)"

definition Atoi :: "string \<Rightarrow> int res" where
  "Atoi s =
     (case s of
        [] \<Rightarrow> Err ErrSyntax
      | c # cs \<Rightarrow>
          (if c = CHR ''-'' then rbind (parse_digits cs) (\<lambda>un. check_i64 (- un))
           else if c = CHR ''+'' then rbind (parse_digits cs) check_i64
           else rbind (parse_digits s) check_i64))"

section \<open>Version numbers\<close>

record Number =
  version :: "string list"

definition NewVersion :: "string \<Rightarrow> Number res" where
  "NewVersion versionString =
     (if versionString = [] then Err ErrInvalidVersion
      else Ok \<lparr>version = split_on CHR ''.'' versionString\<rparr>)"

text \<open>The loop of \<^verbatim>\<open>compare\<close>, over the components of both numbers.\<close>

fun compare_slices :: "string list \<Rightarrow> string list \<Rightarrow> int res" where
  "compare_slices (t # ts) (u # us) =
     rbind (wrap_err ''converting version slice to integer'' (Atoi t)) (\<lambda>thisVersionSlice.
     rbind (wrap_err ''converting other version slice to integer'' (Atoi u)) (\<lambda>otherVersionSlice.
     if thisVersionSlice > otherVersionSlice then Ok 1
     else if thisVersionSlice < otherVersionSlice then Ok (- 1)
     else compare_slices ts us))"
| "compare_slices _ _ = Ok 0"

definition compare :: "Number \<Rightarrow> Number \<Rightarrow> int res" where
  "compare thisVersion otherVersion =
     (if length (version thisVersion) \<noteq> length (version otherVersion) then Err ErrLengthMismatch
      else compare_slices (version thisVersion) (version otherVersion))"

definition isAgentVersionGreaterThanSupportedVersion :: "string \<Rightarrow> string \<Rightarrow> bool res" where
  "isAgentVersionGreaterThanSupportedVersion agentVersionString supportedVersionString =
     rbind (wrap_err ''initializing supported version'' (NewVersion supportedVersionString))
       (\<lambda>supportedVersion.
     rbind (wrap_err ''initializing agent version'' (NewVersion agentVersionString))
       (\<lambda>agentVersion.
     rbind (wrap_err ''comparing agent version with supported version''
       (compare agentVersion supportedVersion))
       (\<lambda>compareResult. Ok (compareResult = 1))))"

definition DoesAgentSupportTCPMultiplexing :: "string \<Rightarrow> bool res" where
  "DoesAgentSupportTCPMultiplexing agentVersion =
     isAgentVersionGreaterThanSupportedVersion agentVersion
       TCPMultiplexingSupportedAfterThisAgentVersion"

definition DoesAgentSupportDisableSmuxKeepAlive :: "string \<Rightarrow> bool res" where
  "DoesAgentSupportDisableSmuxKeepAlive agentVersion =
     isAgentVersionGreaterThanSupportedVersion agentVersion
       TCPMultiplexingWithSmuxKeepAliveDisabledAfterThisAgentVersion"

definition DoesAgentSupportTerminateSessionFlag :: "string \<Rightarrow> bool res" where
  "DoesAgentSupportTerminateSessionFlag agentVersion =
     isAgentVersionGreaterThanSupportedVersion agentVersion
       TerminateSessionFlagSupportedAfterThisAgentVersion"

section \<open>The contract of a three-way comparison\<close>

locale three_way =
  fixes cmp :: "'a \<Rightarrow> 'a \<Rightarrow> int res"
    and ok :: "'a \<Rightarrow> bool"
    and key :: "'a \<Rightarrow> 'k :: linorder"
  assumes cmp_key: "ok a \<Longrightarrow> ok b \<Longrightarrow>
    cmp a b = Ok (if key b < key a then 1 else if key a < key b then - 1 else 0)"
begin

lemma cmp_swap: "ok a \<Longrightarrow> ok b \<Longrightarrow> cmp a b = Ok r \<Longrightarrow> cmp b a = Ok (- r)"
  by (auto simp: cmp_key split: if_splits)

lemma cmp_greater_trans:
  "ok a \<Longrightarrow> ok b \<Longrightarrow> ok c \<Longrightarrow> cmp a b = Ok 1 \<Longrightarrow> cmp b c = Ok 1 \<Longrightarrow> cmp a c = Ok 1"
  by (auto simp: cmp_key split: if_splits)

lemma cmp_greater_iff: "ok a \<Longrightarrow> ok b \<Longrightarrow> cmp a b = Ok 1 \<longleftrightarrow> key b < key a"
  by (auto simp: cmp_key)

lemma cmp_refl: "ok a \<Longrightarrow> cmp a a = Ok 0"
  by (simp add: cmp_key)

end

definition slice_value :: "string \<Rightarrow> int" where
  "slice_value s = (case Atoi s of Ok v \<Rightarrow> v | _ \<Rightarrow> 0)"

definition numeric :: "string list \<Rightarrow> bool" where
  "numeric ts \<longleftrightarrow> list_all (\<lambda>t. \<exists>v. Atoi t = Ok v) ts"

definition version_ok :: "nat \<Rightarrow> Number \<Rightarrow> bool" where
  "version_ok n v \<longleftrightarrow> length (version v) = n \<and> numeric (version v)"

definition version_key :: "Number \<Rightarrow> int list" where
  "version_key v = map slice_value (version v)"

lemma compare_slices_key:
  assumes "length ts = length us" "numeric ts" "numeric us"
  shows "compare_slices ts us =
    Ok (if map slice_value us < map slice_value ts then 1
        else if map slice_value ts < map slice_value us then - 1 else 0)"
  using assms
proof (induction ts us rule: list_induct2)
  case (Cons t ts u us)
  then obtain x y where "Atoi t = Ok x" "Atoi u = Ok y" by (auto simp: numeric_def)
  with Cons show ?case by (auto simp: slice_value_def numeric_def)
qed simp

interpretation ver4: three_way compare "version_ok 4" version_key
  by unfold_locales (simp add: compare_def version_ok_def version_key_def compare_slices_key)

section \<open>Properties\<close>

lemma NewVersion_Ok: "s \<noteq> [] \<Longrightarrow> NewVersion s = Ok \<lparr>version = split_on CHR ''.'' s\<rparr>"
  by (simp add: NewVersion_def)

abbreviation dotted4 :: "string \<Rightarrow> bool" where
  "dotted4 s \<equiv> s \<noteq> [] \<and> version_ok 4 \<lparr>version = split_on CHR ''.'' s\<rparr>"

lemma greater_iff_key:
  assumes "dotted4 a" "dotted4 s"
  shows "isAgentVersionGreaterThanSupportedVersion a s =
    Ok (version_key \<lparr>version = split_on CHR ''.'' s\<rparr> < version_key \<lparr>version = split_on CHR ''.'' a\<rparr>)"
  using assms ver4.cmp_key
  by (auto simp: isAgentVersionGreaterThanSupportedVersion_def NewVersion_def)

lemma split_supported:
  "split_on CHR ''.'' TerminateSessionFlagSupportedAfterThisAgentVersion = [''2'', ''3'', ''722'', ''0'']"
  "split_on CHR ''.'' TCPMultiplexingSupportedAfterThisAgentVersion = [''3'', ''0'', ''196'', ''0'']"
  "split_on CHR ''.'' TCPMultiplexingWithSmuxKeepAliveDisabledAfterThisAgentVersion
    = [''3'', ''1'', ''1511'', ''0'']"
  by (simp_all add: TerminateSessionFlagSupportedAfterThisAgentVersion_def
      TCPMultiplexingSupportedAfterThisAgentVersion_def
      TCPMultiplexingWithSmuxKeepAliveDisabledAfterThisAgentVersion_def)

lemma Atoi_supported:
  "Atoi ''0'' = Ok 0" "Atoi ''1'' = Ok 1" "Atoi ''2'' = Ok 2" "Atoi ''3'' = Ok 3"
  "Atoi ''196'' = Ok 196" "Atoi ''722'' = Ok 722" "Atoi ''1511'' = Ok 1511"
  by (simp_all add: Atoi_def parse_digits_def is_digit_def check_i64_def is_i64_def)

lemma greater_True_iff:
  "isAgentVersionGreaterThanSupportedVersion a s = Ok True \<longleftrightarrow>
    s \<noteq> [] \<and> a \<noteq> [] \<and> length (split_on CHR ''.'' a) = length (split_on CHR ''.'' s) \<and>
    compare_slices (split_on CHR ''.'' a) (split_on CHR ''.'' s) = Ok 1"
  by (auto simp: isAgentVersionGreaterThanSupportedVersion_def NewVersion_def compare_def rbind_Ok_iff)

text \<open>A version newer than one bound is newer than every lower bound, whatever the
  components after the deciding one are.\<close>

lemma compare_slices_mono:
  assumes "length ts = length us" "length us = length vs" "numeric us" "numeric vs"
    and "compare_slices ts us = Ok 1" "map slice_value vs < map slice_value us"
  shows "compare_slices ts vs = Ok 1"
  using assms
proof (induction ts us vs rule: list_induct3)
  case (Cons t ts u us v vs)
  then obtain y z where "Atoi u = Ok y" "Atoi v = Ok z" by (auto simp: numeric_def)
  with Cons show ?case
    by (cases "Atoi t") (auto simp: slice_value_def numeric_def split: if_splits)
qed simp

lemma supported_nonempty:
  "TerminateSessionFlagSupportedAfterThisAgentVersion \<noteq> []"
  "TCPMultiplexingSupportedAfterThisAgentVersion \<noteq> []"
  "TCPMultiplexingWithSmuxKeepAliveDisabledAfterThisAgentVersion \<noteq> []"
  by (simp_all add: TerminateSessionFlagSupportedAfterThisAgentVersion_def
      TCPMultiplexingSupportedAfterThisAgentVersion_def
      TCPMultiplexingWithSmuxKeepAliveDisabledAfterThisAgentVersion_def)

lemmas supported_simps = split_supported Atoi_supported supported_nonempty

text \<open>
  C22. On agent and supported versions with four numeric components,
  \<^verbatim>\<open>isAgentVersionGreaterThanSupportedVersion\<close> decides the strict lexicographic
  order of the components read as numbers; in particular a version is never newer than
  itself, and of two versions at most one is newer.
\<close>

theorem agent_version_order:
  assumes "dotted4 a" "dotted4 s"
  shows "isAgentVersionGreaterThanSupportedVersion a s =
      Ok (map slice_value (split_on CHR ''.'' s) < map slice_value (split_on CHR ''.'' a)) \<and>
    (isAgentVersionGreaterThanSupportedVersion a s = Ok True \<longrightarrow>
     isAgentVersionGreaterThanSupportedVersion s a = Ok False) \<and>
    isAgentVersionGreaterThanSupportedVersion a a = Ok False"
  using greater_iff_key [OF assms] greater_iff_key [OF assms(2,1)] greater_iff_key [OF assms(1,1)]
  by (auto simp: version_key_def)

theorem agent_version_order_witness:
  "dotted4 ''3.1.1511.0'' \<and> dotted4 ''3.0.196.0'' \<and>
   isAgentVersionGreaterThanSupportedVersion ''3.1.1511.0'' ''3.0.196.0'' = Ok True"
proof -
  have h: "dotted4 ''3.1.1511.0''" "dotted4 ''3.0.196.0''"
    by (simp_all add: version_ok_def numeric_def Atoi_supported)
  show ?thesis using h agent_version_order [OF h]
    by (simp add: slice_value_def Atoi_supported)
qed

text \<open>
  The feature tests are nested for every agent version string, well formed or not: an
  agent that supports disabling the multiplexer's keep-alive supports multiplexing, and
  an agent that supports multiplexing supports the terminate session flag.
\<close>

theorem feature_tests_nested:
  "(DoesAgentSupportDisableSmuxKeepAlive a = Ok True \<longrightarrow> DoesAgentSupportTCPMultiplexing a = Ok True) \<and>
   (DoesAgentSupportTCPMultiplexing a = Ok True \<longrightarrow> DoesAgentSupportTerminateSessionFlag a = Ok True)"
  unfolding DoesAgentSupportDisableSmuxKeepAlive_def DoesAgentSupportTCPMultiplexing_def
    DoesAgentSupportTerminateSessionFlag_def greater_True_iff supported_simps
  by (auto simp: supported_simps numeric_def slice_value_def
      intro: compare_slices_mono [of _ "[''3'', ''1'', ''1511'', ''0'']"]
        compare_slices_mono [of _ "[''3'', ''0'', ''196'', ''0'']"])

theorem feature_tests_nested_witness:
  "DoesAgentSupportDisableSmuxKeepAlive ''3.2.0.0'' = Ok True \<and>
   DoesAgentSupportTerminateSessionFlag ''3.2.0.0'' = Ok True"
proof -
  have "DoesAgentSupportDisableSmuxKeepAlive ''3.2.0.0'' = Ok True"
    by (simp add: DoesAgentSupportDisableSmuxKeepAlive_def greater_True_iff supported_simps)
  then show ?thesis using feature_tests_nested [of "''3.2.0.0''"] by blast
qed

text \<open>
  When the test fails instead of answering: an empty agent version is refused, and a
  version with another number of components than the supported one is a length mismatch,
  even if its first component already decides (version 4.0 against 3.0.196.0).
\<close>

theorem agent_version_errors:
  "DoesAgentSupportTCPMultiplexing [] = Err (Wrap ''initializing agent version'' ErrInvalidVersion) \<and>
   (a \<noteq> [] \<longrightarrow> length (split_on CHR ''.'' a) \<noteq> 4 \<longrightarrow>
     DoesAgentSupportTCPMultiplexing a =
       Err (Wrap ''comparing agent version with supported version'' ErrLengthMismatch))"
  by (simp add: DoesAgentSupportTCPMultiplexing_def isAgentVersionGreaterThanSupportedVersion_def
      NewVersion_def compare_def supported_simps)

theorem agent_version_errors_witness:
  "DoesAgentSupportTCPMultiplexing ''4.0'' =
     Err (Wrap ''comparing agent version with supported version'' ErrLengthMismatch)"
  using agent_version_errors [of "''4.0''"] by simp

end
