(* ===== verification/Logger.thy ===== *)
theory Logger
  imports Prelude
begin

text \<open>
  \<^verbatim>\<open>src/log\<close>: the logger of the program, a layer over \<^verbatim>\<open>log/slog\<close>.  What a
  \<^verbatim>\<open>slog.Handler\<close> does with a record is a parameter (the record \<open>slog_env\<close>), as are
  the clock and the call stack; what \<^verbatim>\<open>slog.Logger\<close> and \<^verbatim>\<open>slog.Record\<close> do around
  them (\<^verbatim>\<open>With\<close>, \<^verbatim>\<open>NewRecord\<close>, \<^verbatim>\<open>Add\<close>) is written out.  Shown: a level is logged
  exactly when the handler takes it, with one record per call, in the order of the calls and with the
  attributes paired as given; the attributes of \<^verbatim>\<open>With\<close> accumulate in order.
\<close>

subsection \<open>The part of \<^verbatim>\<open>log/slog\<close> that the sources use\<close>

text \<open>Attributes and their values.  \<open>VOther\<close> stands for the values that are stored as they are.\<close>

datatype 'v attr = Attr (attr_key: string) (attr_value: "'v val")
  and 'v val = VGroup "'v attr list" | VString string | VAttr "'v attr" | VOther 'v

text \<open>The arguments of a call, of Go type \<^verbatim>\<open>any\<close>, as far as \<^verbatim>\<open>slog\<close> tells them apart.\<close>

datatype 'v any = AString string | AAttr "'v attr" | AGroup "'v attr list" | AValue "'v val" | AOther 'v

fun isEmptyGroup :: "'v val \<Rightarrow> bool" where
  "isEmptyGroup (VGroup as) = (as = [])"
| "isEmptyGroup _ = False"

fun AnyValue :: "'v any \<Rightarrow> 'v val" where
  "AnyValue (AString s) = VString s"
| "AnyValue (AGroup as) = VGroup (filter (\<lambda>a. \<not> isEmptyGroup (attr_value a)) as)"
| "AnyValue (AValue v) = v"
| "AnyValue (AAttr a) = VAttr a"
| "AnyValue (AOther x) = VOther x"

definition badKey :: string where
  "badKey = ''!BADKEY''"

text \<open>\<^verbatim>\<open>argsToAttr\<close> in a loop: a string is the key of the next argument, an attribute stands
  for itself, anything else has no key.\<close>

fun argsToAttrs :: "'v any list \<Rightarrow> 'v attr list" where
  "argsToAttrs [] = []"
| "argsToAttrs [AString s] = [Attr badKey (VString s)]"
| "argsToAttrs (AString s # v # args) = Attr s (AnyValue v) # argsToAttrs args"
| "argsToAttrs (AAttr a # args) = a # argsToAttrs args"
| "argsToAttrs (x # args) = Attr badKey (AnyValue x) # argsToAttrs args"

type_synonym level = int

record ('v, 't) log_record =
  rec_time :: 't
  rec_level :: level
  rec_msg :: string
  rec_pc :: nat
  rec_attrs :: "'v attr list"

definition NewRecord :: "'t \<Rightarrow> level \<Rightarrow> string \<Rightarrow> nat \<Rightarrow> ('v, 't) log_record" where
  "NewRecord t l msg pc =
     \<lparr>rec_time = t, rec_level = l, rec_msg = msg, rec_pc = pc, rec_attrs = []\<rparr>"

text \<open>\<^verbatim>\<open>Record.Add\<close> drops the attributes whose value is an empty group.\<close>

definition record_Add :: "'v any list \<Rightarrow> ('v, 't) log_record \<Rightarrow> ('v, 't) log_record" where
  "record_Add args r = r\<lparr>rec_attrs :=
     rec_attrs r @ filter (\<lambda>a. \<not> isEmptyGroup (attr_value a)) (argsToAttrs args)\<rparr>"

text \<open>A handler is a value of type \<open>'h\<close>; the state \<open>'w\<close> holds what handling a record
  changes, and the clock.\<close>

record ('h, 'v, 't, 'w) slog_env =
  h_Enabled :: "'h \<Rightarrow> level \<Rightarrow> 'w \<Rightarrow> bool"
  h_Handle :: "'h \<Rightarrow> ('v, 't) log_record \<Rightarrow> 'w \<Rightarrow> go_error option \<times> 'w"
  h_WithAttrs :: "'h \<Rightarrow> 'v attr list \<Rightarrow> 'h"
  time_Now :: "'w \<Rightarrow> 't \<times> 'w"
  runtime_Callers :: "nat \<Rightarrow> 'w \<Rightarrow> nat list"

record 'h slog_Logger =
  Handler :: 'h

definition slog_With :: "('h, 'v, 't, 'w) slog_env \<Rightarrow> 'v any list \<Rightarrow> 'h slog_Logger \<Rightarrow> 'h slog_Logger" where
  "slog_With E args l =
     (if args = [] then l else l\<lparr>Handler := h_WithAttrs E (Handler l) (argsToAttrs args)\<rparr>)"

text \<open>\<^verbatim>\<open>var pcs [1]uintptr; runtime.Callers(skip, pcs[:])\<close> and \<^verbatim>\<open>pcs[0]\<close>.\<close>

definition caller_pc :: "('h, 'v, 't, 'w) slog_env \<Rightarrow> nat \<Rightarrow> 'w \<Rightarrow> nat" where
  "caller_pc E skip w = (case runtime_Callers E skip w of [] \<Rightarrow> 0 | pc # _ \<Rightarrow> pc)"

subsection \<open>\<^verbatim>\<open>interface.go\<close> and \<^verbatim>\<open>slogger.go\<close>\<close>

definition LevelTrace :: level where "LevelTrace = - 8"
definition LevelDebug :: level where "LevelDebug = - 4"
definition LevelInfo :: level where "LevelInfo = 0"
definition LevelWarn :: level where "LevelWarn = 4"
definition LevelError :: level where "LevelError = 8"

record 'h Slogger =
  sl_logger :: "'h slog_Logger"

definition NewSlogger :: "'h slog_Logger \<Rightarrow> 'h Slogger" where
  "NewSlogger logger = \<lparr>sl_logger = logger\<rparr>"

definition sl_Trace :: "('h, 'v, 't, 'w) slog_env \<Rightarrow> 'h Slogger \<Rightarrow> string \<Rightarrow> 'v any list \<Rightarrow> 'w \<Rightarrow> 'w" where
  "sl_Trace E s msg args w =
     (if \<not> h_Enabled E (Handler (sl_logger s)) LevelTrace w then w
      else let pc = caller_pc E 2 w; (now, w') = time_Now E w;
               r = record_Add args (NewRecord now LevelTrace msg pc)
           in snd (h_Handle E (Handler (sl_logger s)) r w'))"

definition sl_Debug :: "('h, 'v, 't, 'w) slog_env \<Rightarrow> 'h Slogger \<Rightarrow> string \<Rightarrow> 'v any list \<Rightarrow> 'w \<Rightarrow> 'w" where
  "sl_Debug E s msg args w =
     (if \<not> h_Enabled E (Handler (sl_logger s)) LevelDebug w then w
      else let pc = caller_pc E 2 w; (now, w') = time_Now E w;
               r = record_Add args (NewRecord now LevelDebug msg pc)
           in snd (h_Handle E (Handler (sl_logger s)) r w'))"

definition sl_Info :: "('h, 'v, 't, 'w) slog_env \<Rightarrow> 'h Slogger \<Rightarrow> string \<Rightarrow> 'v any list \<Rightarrow> 'w \<Rightarrow> 'w" where
  "sl_Info E s msg args w =
     (if \<not> h_Enabled E (Handler (sl_logger s)) LevelInfo w then w
      else let pc = caller_pc E 2 w; (now, w') = time_Now E w;
               r = record_Add args (NewRecord now LevelInfo msg pc)
           in snd (h_Handle E (Handler (sl_logger s)) r w'))"

definition sl_Warn :: "('h, 'v, 't, 'w) slog_env \<Rightarrow> 'h Slogger \<Rightarrow> string \<Rightarrow> 'v any list \<Rightarrow> 'w \<Rightarrow> 'w" where
  "sl_Warn E s msg args w =
     (if \<not> h_Enabled E (Handler (sl_logger s)) LevelWarn w then w
      else let pc = caller_pc E 2 w; (now, w') = time_Now E w;
               r = record_Add args (NewRecord now LevelWarn msg pc)
           in snd (h_Handle E (Handler (sl_logger s)) r w'))"

definition sl_Error :: "('h, 'v, 't, 'w) slog_env \<Rightarrow> 'h Slogger \<Rightarrow> string \<Rightarrow> 'v any list \<Rightarrow> 'w \<Rightarrow> 'w" where
  "sl_Error E s msg args w =
     (if \<not> h_Enabled E (Handler (sl_logger s)) LevelError w then w
      else let pc = caller_pc E 2 w; (now, w') = time_Now E w;
               r = record_Add args (NewRecord now LevelError msg pc)
           in snd (h_Handle E (Handler (sl_logger s)) r w'))"

definition sl_With :: "('h, 'v, 't, 'w) slog_env \<Rightarrow> 'h Slogger \<Rightarrow> 'v any list \<Rightarrow> 'h Slogger" where
  "sl_With E s args = NewSlogger (slog_With E args (sl_logger s))"

subsection \<open>Behaviour\<close>

text \<open>A program is a sequence of calls of the interface \<^verbatim>\<open>T\<close>; \<open>With\<close> goes on with the new
  logger.\<close>

datatype 'v log_call =
  CTrace string "'v any list" | CDebug string "'v any list" | CInfo string "'v any list"
| CWarn string "'v any list" | CError string "'v any list" | CWith "'v any list"

fun run_calls :: "('h, 'v, 't, 'w) slog_env \<Rightarrow> 'v log_call list \<Rightarrow> 'h Slogger \<Rightarrow> 'w \<Rightarrow> 'w" where
  "run_calls E [] s w = w"
| "run_calls E (CTrace m as # cs) s w = run_calls E cs s (sl_Trace E s m as w)"
| "run_calls E (CDebug m as # cs) s w = run_calls E cs s (sl_Debug E s m as w)"
| "run_calls E (CInfo m as # cs) s w = run_calls E cs s (sl_Info E s m as w)"
| "run_calls E (CWarn m as # cs) s w = run_calls E cs s (sl_Warn E s m as w)"
| "run_calls E (CError m as # cs) s w = run_calls E cs s (sl_Error E s m as w)"
| "run_calls E (CWith as # cs) s w = run_calls E cs (sl_With E s as) w"

text \<open>A handler with a threshold that keeps its attributes and prints a line for every record: the
  line is what the printer \<open>fmt\<close> makes of the record and the attributes.\<close>

definition threshold_env ::
  "(('v, unit) log_record \<Rightarrow> 'v attr list \<Rightarrow> 'line) \<Rightarrow>
   (level \<times> 'v attr list, 'v, unit, 'line list) slog_env" where
  "threshold_env fmt =
     \<lparr>h_Enabled = (\<lambda>h l w. fst h \<le> l), h_Handle = (\<lambda>h r w. (None, w @ [fmt r (snd h)])),
      h_WithAttrs = (\<lambda>h as. (fst h, snd h @ as)), time_Now = (\<lambda>w. ((), w)),
      runtime_Callers = (\<lambda>n w. [])\<rparr>"

text \<open>What should be printed: the calls at or above the threshold, each with the attributes of the
  \<open>With\<close> calls before it.\<close>

fun expected_line :: "(('v, unit) log_record \<Rightarrow> 'v attr list \<Rightarrow> 'line) \<Rightarrow> level \<Rightarrow> 'v attr list \<Rightarrow>
    level \<Rightarrow> string \<Rightarrow> 'v any list \<Rightarrow> 'line list" where
  "expected_line fmt threshold ctx l msg args =
     (if threshold \<le> l then [fmt (record_Add args (NewRecord () l msg 0)) ctx] else [])"

fun expected_lines :: "(('v, unit) log_record \<Rightarrow> 'v attr list \<Rightarrow> 'line) \<Rightarrow> level \<Rightarrow> 'v attr list \<Rightarrow>
    'v log_call list \<Rightarrow> 'line list" where
  "expected_lines fmt t ctx [] = []"
| "expected_lines fmt t ctx (CTrace m as # cs) = expected_line fmt t ctx (- 8) m as @ expected_lines fmt t ctx cs"
| "expected_lines fmt t ctx (CDebug m as # cs) = expected_line fmt t ctx (- 4) m as @ expected_lines fmt t ctx cs"
| "expected_lines fmt t ctx (CInfo m as # cs) = expected_line fmt t ctx 0 m as @ expected_lines fmt t ctx cs"
| "expected_lines fmt t ctx (CWarn m as # cs) = expected_line fmt t ctx 4 m as @ expected_lines fmt t ctx cs"
| "expected_lines fmt t ctx (CError m as # cs) = expected_line fmt t ctx 8 m as @ expected_lines fmt t ctx cs"
| "expected_lines fmt t ctx (CWith as # cs) = expected_lines fmt t (ctx @ argsToAttrs as) cs"

lemmas logger_defs = sl_Trace_def sl_Debug_def sl_Info_def sl_Warn_def sl_Error_def
  LevelTrace_def LevelDebug_def LevelInfo_def LevelWarn_def LevelError_def

lemma threshold_env_simps [simp]:
  "h_Enabled (threshold_env fmt) h l w = (fst h \<le> l)"
  "h_Handle (threshold_env fmt) h r w = (None, w @ [fmt r (snd h)])"
  "h_WithAttrs (threshold_env fmt) h as = (fst h, snd h @ as)"
  "time_Now (threshold_env fmt) w = ((), w)"
  "caller_pc (threshold_env fmt) n w = 0"
  by (simp_all add: threshold_env_def caller_pc_def)

lemma sl_With_threshold [simp]:
  "sl_With (threshold_env fmt) (NewSlogger \<lparr>Handler = (t, ctx)\<rparr>) as =
   NewSlogger \<lparr>Handler = (t, ctx @ argsToAttrs as)\<rparr>"
  by (simp add: sl_With_def slog_With_def NewSlogger_def)

text \<open>Over every sequence of calls exactly the calls at or above the handler's level are printed, once
  each and in order, with the attributes of the call and of the \<open>With\<close> calls before it.\<close>

theorem run_calls_threshold:
  "run_calls (threshold_env fmt) cs (NewSlogger \<lparr>Handler = (t, ctx)\<rparr>) w =
   w @ expected_lines fmt t ctx cs"
proof (induction cs arbitrary: ctx w)
  case (Cons c cs)
  show ?case
  proof (cases c)
    case (CWith as)
    then show ?thesis using Cons.IH by simp
  qed (simp_all add: logger_defs NewSlogger_def Cons.IH [unfolded NewSlogger_def])
qed simp

text \<open>With any handler: a level that is off leaves the world alone, whatever the arguments.\<close>

theorem disabled_level_silent:
  assumes "\<And>l w. l \<in> {LevelTrace, LevelDebug, LevelInfo, LevelWarn, LevelError} \<Longrightarrow>
             \<not> h_Enabled E (Handler (sl_logger s)) l w"
    and "\<forall>c \<in> set cs. \<forall>as. c \<noteq> CWith as"
  shows "run_calls E cs s w = w"
  using assms(2)
proof (induction cs arbitrary: w)
  case (Cons c cs)
  then show ?case
    using assms(1) by (cases c) (simp_all add: sl_Trace_def sl_Debug_def sl_Info_def sl_Warn_def sl_Error_def)
qed simp

text \<open>Key and value arguments give the attributes they spell.\<close>

lemma argsToAttrs_pairs:
  "argsToAttrs (concat (map (\<lambda>(k, v). [AString k, v]) kvs)) = map (\<lambda>(k, v). Attr k (AnyValue v)) kvs"
  by (induction kvs) auto

end
