(* ===== verification/Codec.thy ===== *)
theory Codec
  imports Safe
begin

text \<open>
  \<^verbatim>\<open>src/message/readers.go\<close> and \<^verbatim>\<open>src/message/writers.go\<close>: reading and
  writing the fields of a client message at fixed offsets of a byte slice.  A writer
  mutates its slice argument in place; the model returns the slice after the call.

  The locale \<open>field_codec\<close> states what a reader and a writer of the same field
  promise each other; it is interpreted on the six pairs of the sources, and the facts it
  gives (what a field holds after it was written, and after another one was) carry the
  round trip of the whole message.

  \<^verbatim>\<open>google/uuid\<close> is not part of the sources.  Its type is documented as an array of
  16 bytes with \<^verbatim>\<open>Nil\<close> all zero; its conversions are parameters.
\<close>

definition integerLength :: int where "integerLength = 4"
definition longLength :: int where "longLength = 8"
definition uuidLength :: int where "uuidLength = 16"

lemmas length_consts = integerLength_def longLength_def uuidLength_def

type_synonym uuid = bytes

record uuid_pkg =
  FromBytes :: "bytes \<Rightarrow> uuid res"
  MarshalBinary :: "uuid \<Rightarrow> bytes res"

definition uuid_Nil :: uuid where "uuid_Nil = replicate 16 0"

lemma uuid_Nil_Cons [simp]: "x \<noteq> 0 \<Longrightarrow> x # xs \<noteq> uuid_Nil"
proof
  assume x: "x \<noteq> 0" and eq: "x # xs = uuid_Nil"
  have "set (x # xs) \<subseteq> {0}" unfolding eq by (simp add: uuid_Nil_def)
  then show False using x by simp
qed

text \<open>Documented behaviour of \<^verbatim>\<open>uuid.FromBytes\<close> (copies 16 bytes, refuses other
  lengths) and of \<^verbatim>\<open>UUID.MarshalBinary\<close> (the 16 bytes).\<close>

definition uuid_pkg_ok :: "uuid_pkg \<Rightarrow> bool" where
  "uuid_pkg_ok U \<longleftrightarrow>
     (\<forall>b. length b = 16 \<longrightarrow> FromBytes U b = Ok b) \<and>
     (\<forall>b. length b \<noteq> 16 \<longrightarrow> (\<exists>e. FromBytes U b = Err e)) \<and>
     (\<forall>u. length u = 16 \<longrightarrow> MarshalBinary U u = Ok u)"

section \<open>Readers\<close>

definition GetString :: "bytes \<Rightarrow> int \<Rightarrow> int \<Rightarrow> string res" where
  "GetString byteArray offset stringLength =
     (let byteArrayLength = len byteArray in
      if offset > byteArrayLength - 1
        \<or> to_i64 (offset + stringLength - 1) > byteArrayLength - 1 \<or> offset < 0
      then Err ErrOffsetOutside
      else rbind (go_slice byteArray offset (to_i64 (offset + stringLength)))
             (\<lambda>b. Ok (bytes_str (trim_space (trim_nul b)))))"

definition bytesToInteger :: "bytes \<Rightarrow> int32 res" where
  "bytesToInteger input =
     (if len input \<noteq> integerLength then Err ErrOffsetOutside
      else Ok (to_i32 (int (be_nat input))))"

definition GetInteger :: "bytes \<Rightarrow> int \<Rightarrow> int32 res" where
  "GetInteger byteArray offset =
     (let byteArrayLength = len byteArray in
      if offset > byteArrayLength - 1
        \<or> to_i64 (offset + integerLength) > byteArrayLength \<or> offset < 0
      then Err ErrOffsetOutside
      else rbind (go_slice byteArray offset (to_i64 (offset + integerLength))) bytesToInteger)"

definition GetUInteger :: "bytes \<Rightarrow> int \<Rightarrow> uint32 res" where
  "GetUInteger byteArray offset =
     rbind (GetInteger byteArray offset)
       (\<lambda>temp. if temp < 0 then Err ErrNegative else Ok (word_of_int temp))"

definition bytesToLong :: "bytes \<Rightarrow> int64 res" where
  "bytesToLong input =
     (if len input \<noteq> longLength then Err ErrOffsetOutside
      else Ok (to_i64 (int (be_nat input))))"

definition GetLong :: "bytes \<Rightarrow> int \<Rightarrow> int64 res" where
  "GetLong byteArray offset =
     (let byteArrayLength = len byteArray in
      if offset > byteArrayLength - 1
        \<or> to_i64 (offset + longLength) > byteArrayLength \<or> offset < 0
      then Err ErrOffsetOutside
      else rbind (go_slice byteArray offset (to_i64 (offset + longLength))) bytesToLong)"

definition GetULong :: "bytes \<Rightarrow> int \<Rightarrow> uint64 res" where
  "GetULong byteArray offset =
     rbind (GetLong byteArray offset)
       (\<lambda>temp. if temp < 0 then Err ErrNegative else Ok (word_of_int temp))"

definition LongToBytes :: "int64 \<Rightarrow> bytes res" where
  "LongToBytes input =
     (let buf = be_bytes 8 (nat (take_bit 64 input)) in
      if len buf \<noteq> longLength then Err ErrOffsetOutside else Ok buf)"

text \<open>A failure of one of the calls is reported as \<^verbatim>\<open>ErrOffsetOutside\<close>, not wrapped.\<close>

definition as_offset_outside :: "'a res \<Rightarrow> 'a res" where
  "as_offset_outside r = (case r of Err _ \<Rightarrow> Err ErrOffsetOutside | _ \<Rightarrow> r)"

definition GetUUID :: "uuid_pkg \<Rightarrow> bytes \<Rightarrow> int \<Rightarrow> uuid res" where
  "GetUUID U byteArray offset =
     (let byteArrayLength = len byteArray in
      if offset > byteArrayLength - 1
        \<or> to_i64 (offset + uuidLength - 1) > byteArrayLength - 1 \<or> offset < 0
      then Err ErrOffsetOutside
      else
        rbind (as_offset_outside (GetLong byteArray offset)) (\<lambda>leastSignificantLong.
        rbind (as_offset_outside (LongToBytes leastSignificantLong)) (\<lambda>leastSignificantBytes.
        rbind (as_offset_outside (GetLong byteArray (to_i64 (offset + longLength))))
          (\<lambda>mostSignificantLong.
        rbind (as_offset_outside (LongToBytes mostSignificantLong)) (\<lambda>mostSignificantBytes.
        wrap_err ''creating UUID from bytes''
          (FromBytes U (mostSignificantBytes @ leastSignificantBytes)))))))"

definition GetBytes :: "bytes \<Rightarrow> int \<Rightarrow> int \<Rightarrow> bytes res" where
  "GetBytes byteArray offset byteLength =
     (let byteArrayLength = len byteArray in
      if offset > byteArrayLength - 1
        \<or> to_i64 (offset + byteLength - 1) > byteArrayLength - 1 \<or> offset < 0
      then (if byteLength < 0 then Panic else Err ErrOffsetOutside)
      else go_slice byteArray offset (to_i64 (offset + byteLength)))"

section \<open>Writers\<close>

definition IntegerToBytes :: "int32 \<Rightarrow> bytes res" where
  "IntegerToBytes input =
     (let buf = be_bytes 4 (nat (take_bit 32 input)) in
      if len buf \<noteq> integerLength then Err ErrOffsetOutside else Ok buf)"

definition PutInteger :: "bytes \<Rightarrow> int \<Rightarrow> int32 \<Rightarrow> bytes res" where
  "PutInteger byteArray offset value =
     (let byteArrayLength = len byteArray in
      if offset > byteArrayLength - 1
        \<or> to_i64 (offset + integerLength) > byteArrayLength \<or> offset < 0
      then Err ErrOffsetOutside
      else rbind (wrap_err ''converting to bytes'' (IntegerToBytes value))
             (go_copy byteArray offset (to_i64 (offset + integerLength))))"

definition PutUInteger :: "bytes \<Rightarrow> int \<Rightarrow> uint32 \<Rightarrow> bytes res" where
  "PutUInteger byteArray offset value =
     rbind (wrap_err ''getting int32'' (SafeInt32 (Predeclared K_uint32) (uint value)))
       (PutInteger byteArray offset)"

definition PutString :: "bytes \<Rightarrow> int \<Rightarrow> int \<Rightarrow> string \<Rightarrow> bytes res" where
  "PutString byteArray offsetStart offsetEnd inputString =
     (let byteArrayLength = len byteArray in
      if offsetStart > byteArrayLength - 1 \<or> offsetEnd > byteArrayLength - 1
        \<or> offsetStart > offsetEnd \<or> offsetStart < 0
      then Err ErrOffsetOutside
      else if offsetEnd - offsetStart + 1 < len inputString
      then Err ErrNotEnoughSpace
      else
        let wiped = overwrite byteArray (nat offsetStart)
                      (replicate (nat (offsetEnd - offsetStart + 1)) (byte_of_char CHR '' ''))
        in go_copy wiped offsetStart (offsetEnd + 1) (str_bytes inputString))"

definition PutBytes :: "bytes \<Rightarrow> int \<Rightarrow> int \<Rightarrow> bytes \<Rightarrow> bytes res" where
  "PutBytes byteArray offsetStart offsetEnd inputBytes =
     (let byteArrayLength = len byteArray in
      if offsetStart > byteArrayLength - 1 \<or> offsetEnd > byteArrayLength - 1
        \<or> offsetStart > offsetEnd \<or> offsetStart < 0
      then Err ErrOffsetOutside
      else if offsetEnd - offsetStart + 1 \<noteq> len inputBytes
      then Err ErrNotEnoughSpace
      else go_copy byteArray offsetStart (offsetEnd + 1) inputBytes)"

definition PutLong :: "bytes \<Rightarrow> int \<Rightarrow> int64 \<Rightarrow> bytes res" where
  "PutLong byteArray offset value =
     (let byteArrayLength = len byteArray in
      if offset > byteArrayLength - 1
        \<or> to_i64 (offset + longLength) > byteArrayLength \<or> offset < 0
      then Err ErrOffsetOutside
      else rbind (wrap_err ''converting to bytes'' (LongToBytes value))
             (go_copy byteArray offset (to_i64 (offset + longLength))))"

definition PutUUID :: "uuid_pkg \<Rightarrow> bytes \<Rightarrow> int \<Rightarrow> uuid \<Rightarrow> bytes res" where
  "PutUUID U byteArray offset input =
     (if input = uuid_Nil then Err ErrNil
      else let byteArrayLength = len byteArray in
      if offset > byteArrayLength - 1
        \<or> to_i64 (offset + uuidLength - 1) > byteArrayLength - 1 \<or> offset < 0
      then Err ErrOffsetOutside
      else
        rbind (wrap_err ''marshaling UUID to bytes'' (MarshalBinary U input)) (\<lambda>uuidBytes.
        rbind (go_slice uuidBytes longLength (longLength + longLength)) (\<lambda>lsb.
        rbind (wrap_err ''getting LSB long value'' (bytesToLong lsb)) (\<lambda>leastSignificantLong.
        rbind (go_slice uuidBytes 0 longLength) (\<lambda>msb.
        rbind (wrap_err ''getting MSB long value'' (bytesToLong msb)) (\<lambda>mostSignificantLong.
        rbind (wrap_err ''putting LSB long value''
          (PutLong byteArray offset leastSignificantLong)) (\<lambda>byteArray.
        wrap_err ''putting MSB long value''
          (PutLong byteArray (to_i64 (offset + longLength)) mostSignificantLong))))))))"

definition PutULong :: "bytes \<Rightarrow> int \<Rightarrow> uint64 \<Rightarrow> bytes res" where
  "PutULong byteArray offset value =
     rbind (wrap_err ''getting int64'' (SafeInt64 (Predeclared K_uint64) (uint value)))
       (PutLong byteArray offset)"

section \<open>The contract of a reader and a writer\<close>

locale field_codec =
  fixes put :: "bytes \<Rightarrow> int \<Rightarrow> 'v \<Rightarrow> bytes res"
    and get :: "bytes \<Rightarrow> int \<Rightarrow> 'v res"
    and width :: nat
    and enc :: "'v \<Rightarrow> bytes"
    and valid :: "'v \<Rightarrow> bool"
  assumes length_enc: "valid v \<Longrightarrow> length (enc v) = width"
    and put_enc: "valid v \<Longrightarrow> 0 \<le> off \<Longrightarrow> off + int width \<le> len buf \<Longrightarrow> len buf < 2 ^ 63 \<Longrightarrow>
      put buf off v = Ok (overwrite buf (nat off) (enc v))"
    and get_enc: "valid v \<Longrightarrow> 0 \<le> off \<Longrightarrow> off + int width \<le> len buf \<Longrightarrow> len buf < 2 ^ 63 \<Longrightarrow>
      field buf (nat off) width = enc v \<Longrightarrow> get buf off = Ok v"
begin

text \<open>What was written is read back.\<close>

lemma get_after_put:
  assumes "valid v" "0 \<le> off" "off + int width \<le> len buf" "len buf < 2 ^ 63"
  shows "rbind (put buf off v) (\<lambda>buf'. get buf' off) = Ok v"
proof -
  let ?buf = "overwrite buf (nat off) (enc v)"
  have fits: "nat off + length (enc v) \<le> length buf"
    using assms by (simp add: length_enc len_def)
  have "field ?buf (nat off) width = enc v"
    using field_overwrite_same [OF fits] assms(1) by (simp add: length_enc)
  then have "get ?buf off = Ok v"
    using assms fits by (intro get_enc) (simp_all add: len_def)
  then show ?thesis using assms by (simp add: put_enc)
qed

text \<open>A write outside the field leaves what it holds.\<close>

lemma get_after_other_write:
  assumes "valid v" "0 \<le> off" "off + int width \<le> len buf" "len buf < 2 ^ 63"
    and "field buf (nat off) width = enc v"
    and "i + length ys \<le> length buf" "i + length ys \<le> nat off \<or> nat off + width \<le> i"
  shows "get (overwrite buf i ys) off = Ok v"
proof -
  have "field (overwrite buf i ys) (nat off) width = field buf (nat off) width"
    using assms(6,7) by (auto intro: field_overwrite_before field_overwrite_after)
  then show ?thesis
    using assms by (intro get_enc) (simp_all add: len_def)
qed

text \<open>The field is read wherever its encoding stands in a buffer.\<close>

lemma get_in_context:
  assumes "valid v" "off = len pre" "len (pre @ enc v @ post) < 2 ^ 63"
  shows "get (pre @ enc v @ post) off = Ok v"
  using assms length_enc [OF assms(1)]
  by (intro get_enc) (simp_all add: len_def field_def)

text \<open>Writing into a zeroed tail extends the written part.\<close>

lemma put_in_context:
  assumes "valid v" "off = len pre" "len (pre @ replicate (width + n) z) < 2 ^ 63"
  shows "put (pre @ replicate (width + n) z) off v = Ok (pre @ enc v @ replicate n z)"
proof -
  have "overwrite (pre @ replicate (width + n) z) (length pre) (enc v) = pre @ enc v @ replicate n z"
    using assms(1) by (simp add: overwrite_def length_enc)
  then show ?thesis using assms by (subst put_enc) (simp_all add: len_def)
qed

end

section \<open>The six fields\<close>

lemma Long_field: "field_codec PutLong GetLong 8 (\<lambda>v. be_bytes 8 (nat (take_bit 64 v))) is_i64"
proof
  fix v off and buf :: bytes
  assume v: "is_i64 v" and off: "0 \<le> off" "off + int 8 \<le> len buf" "len buf < 2 ^ 63"
  let ?e = "be_bytes 8 (nat (take_bit 64 v))"
  have w: "to_i64 (off + longLength) = off + longLength"
    using off by (intro to_i64_id) (simp add: is_i64_def longLength_def)
  have g: "\<not> (off > len buf - 1 \<or> to_i64 (off + longLength) > len buf \<or> off < 0)"
    using off w by (simp add: longLength_def)
  have c: "go_copy buf off (off + 8) ?e = Ok (overwrite buf (nat off) ?e)"
    using go_copy_exact [of off ?e buf] off by (simp add: len_def)
  show "PutLong buf off v = Ok (overwrite buf (nat off) ?e)"
    using g c unfolding PutLong_def w
    by (simp add: LongToBytes_def len_def longLength_def)
  assume f: "field buf (nat off) 8 = ?e"
  have s: "go_slice buf off (off + 8) = Ok ?e"
    using go_slice_field [of off 8 buf] off f by simp
  have "int (be_nat ?e) = take_bit 64 v"
    by (simp add: be_nat_be_bytes take_bit_eq_mod)
  then have "to_i64 (int (be_nat ?e)) = v"
    using to_i64_id [OF v] by (simp add: to_i64_def signed_take_bit_take_bit)
  then show "GetLong buf off = Ok v"
    using g s unfolding GetLong_def w
    by (simp add: bytesToLong_def len_def longLength_def)
qed simp

lemma UInteger_field:
  "field_codec PutUInteger GetUInteger 4 (\<lambda>w. be_bytes 4 (unat w)) (\<lambda>w. uint w \<le> MaxInt32)"
proof
  fix v :: uint32 and off and buf :: bytes
  assume v: "uint v \<le> MaxInt32" and off: "0 \<le> off" "off + int 4 \<le> len buf" "len buf < 2 ^ 63"
  let ?e = "be_bytes 4 (unat v)"
  have w: "to_i64 (off + integerLength) = off + integerLength"
    using off by (intro to_i64_id) (simp add: is_i64_def integerLength_def)
  have g: "\<not> (off > len buf - 1 \<or> to_i64 (off + integerLength) > len buf \<or> off < 0)"
    using off w by (simp add: integerLength_def)
  have c: "go_copy buf off (off + 4) ?e = Ok (overwrite buf (nat off) ?e)"
    using go_copy_exact [of off ?e buf] off by (simp add: len_def)
  have b: "IntegerToBytes (uint v) = Ok ?e"
    by (simp add: IntegerToBytes_def len_def integerLength_def)
  have "PutInteger buf off (uint v) = Ok (overwrite buf (nat off) ?e)"
    using g c unfolding PutInteger_def w by (simp add: b len_def integerLength_def)
  then show "PutUInteger buf off v = Ok (overwrite buf (nat off) ?e)"
    using v by (simp add: PutUInteger_def SafeInt32_uint32)
  assume f: "field buf (nat off) 4 = ?e"
  have s: "go_slice buf off (off + 4) = Ok ?e"
    using go_slice_field [of off 4 buf] off f by simp
  have u: "unat v < 2 ^ 32" using unsigned_less [of v, where ?'a = nat] by simp
  have "be_nat ?e = unat v" using u by (simp add: be_nat_be_bytes)
  then have "to_i32 (int (be_nat ?e)) = uint v"
    using v to_i32_id [of "uint v"] by (simp add: is_i32_def order_trans [OF _ uint_nonnegative])
  then have "GetInteger buf off = Ok (uint v)"
    using g s unfolding GetInteger_def w
    by (simp add: bytesToInteger_def len_def integerLength_def)
  then show "GetUInteger buf off = Ok v" by (simp add: GetUInteger_def)
qed simp

interpretation long: field_codec PutLong GetLong 8 "\<lambda>v. be_bytes 8 (nat (take_bit 64 v))" is_i64
  by (rule Long_field)

interpretation uinteger: field_codec PutUInteger GetUInteger 4 "\<lambda>w. be_bytes 4 (unat w)"
    "\<lambda>w. uint w \<le> MaxInt32"
  by (rule UInteger_field)

lemma ULong_field:
  "field_codec PutULong GetULong 8 (\<lambda>w. be_bytes 8 (unat w)) (\<lambda>w. uint w \<le> MaxInt64)"
proof
  fix v :: uint64 and off and buf :: bytes
  assume v: "uint v \<le> MaxInt64" and off: "0 \<le> off" "off + int 8 \<le> len buf" "len buf < 2 ^ 63"
  have i: "is_i64 (uint v)"
    using v by (simp add: is_i64_def order_trans [OF _ uint_nonnegative])
  have e: "be_bytes 8 (nat (take_bit 64 (uint v))) = be_bytes 8 (unat v)"
    by simp
  show "PutULong buf off v = Ok (overwrite buf (nat off) (be_bytes 8 (unat v)))"
    using v long.put_enc [OF i off] by (simp add: PutULong_def SafeInt64_uint64 e)
  assume "field buf (nat off) 8 = be_bytes 8 (unat v)"
  then have "GetLong buf off = Ok (uint v)"
    using i off by (intro long.get_enc) (simp_all add: e)
  then show "GetULong buf off = Ok v" by (simp add: GetULong_def)
qed simp

interpretation ulong: field_codec PutULong GetULong 8 "\<lambda>w. be_bytes 8 (unat w)"
    "\<lambda>w. uint w \<le> MaxInt64"
  by (rule ULong_field)

lemma long_enc_bytes:
  assumes "length b = 8"
  shows "be_bytes 8 (nat (take_bit 64 (to_i64 (int (be_nat b))))) = b"
proof -
  have "be_nat b < 2 ^ 64" using be_nat_less [of b] assms by simp
  then have "take_bit 64 (int (be_nat b)) = int (be_nat b)"
    by (simp add: take_bit_int_eq_self)
  then have "take_bit 64 (to_i64 (int (be_nat b))) = int (be_nat b)"
    by (simp add: to_i64_def take_bit_signed_take_bit)
  then show ?thesis using be_bytes_be_nat [of b] assms by simp
qed

lemma bytesToLong_ok: "length b = 8 \<Longrightarrow> bytesToLong b = Ok (to_i64 (int (be_nat b)))"
  by (simp add: bytesToLong_def len_def longLength_def)

lemma LongToBytes_ok: "LongToBytes v = Ok (be_bytes 8 (nat (take_bit 64 v)))"
  by (simp add: LongToBytes_def len_def longLength_def)

lemma as_offset_outside_Ok [simp]: "as_offset_outside (Ok x) = Ok x"
  by (simp add: as_offset_outside_def)

text \<open>Eight bytes written, respectively read, as a long.\<close>

lemma PutLong_bytes:
  assumes "length b = 8" "0 \<le> off" "off + 8 \<le> len buf" "len buf < 2 ^ 63"
  shows "PutLong buf off (to_i64 (int (be_nat b))) = Ok (overwrite buf (nat off) b)"
  using long.put_enc [of "to_i64 (int (be_nat b))" off buf] assms by (simp add: long_enc_bytes)

lemma GetLong_bytes:
  assumes "length b = 8" "0 \<le> off" "off + 8 \<le> len buf" "len buf < 2 ^ 63"
    and "field buf (nat off) 8 = b"
  shows "GetLong buf off = Ok (to_i64 (int (be_nat b)))"
  using assms by (intro long.get_enc) (simp_all add: long_enc_bytes)

lemma UUID_field:
  assumes U: "uuid_pkg_ok U"
  shows "field_codec (PutUUID U) (GetUUID U) 16 (\<lambda>u. drop 8 u @ take 8 u)
    (\<lambda>u. length u = 16 \<and> u \<noteq> uuid_Nil)"
proof
  fix v :: uuid and off and buf :: bytes
  assume v: "length v = 16 \<and> v \<noteq> uuid_Nil"
    and off: "0 \<le> off" "off + int 16 \<le> len buf" "len buf < 2 ^ 63"
  let ?l = "drop 8 v" and ?m = "take 8 v"
  have ll: "length ?l = 8" "length ?m = 8" using v by simp_all
  have w: "to_i64 (off + uuidLength - 1) = off + 15" "to_i64 (off + longLength) = off + 8"
    using off by (simp_all add: to_i64_id is_i64_def uuidLength_def longLength_def)
  have g: "\<not> (off > len buf - 1 \<or> to_i64 (off + uuidLength - 1) > len buf - 1 \<or> off < 0)"
    using off w by simp
  have p1: "PutLong buf off (to_i64 (int (be_nat ?l))) = Ok (overwrite buf (nat off) ?l)"
    using ll off by (intro PutLong_bytes) simp_all
  have p2: "PutLong (overwrite buf (nat off) ?l) (off + 8) (to_i64 (int (be_nat ?m)))
      = Ok (overwrite buf (nat off) (?l @ ?m))"
  proof -
    have fits: "nat off + length ?l \<le> length buf" "nat off + 8 + length ?m \<le> length buf"
      using off ll by (simp_all add: len_def)
    have "PutLong (overwrite buf (nat off) ?l) (off + 8) (to_i64 (int (be_nat ?m)))
        = Ok (overwrite (overwrite buf (nat off) ?l) (nat (off + 8)) ?m)"
      using ll off fits by (intro PutLong_bytes) (simp_all add: len_def)
    also have "overwrite (overwrite buf (nat off) ?l) (nat (off + 8)) ?m
        = overwrite buf (nat off) (?l @ ?m)"
      using off ll fits by (intro overwrite_overwrite) simp_all
    finally show ?thesis .
  qed
  have sl: "go_slice v longLength (2 * longLength) = Ok ?l" "go_slice v 0 longLength = Ok ?m"
    using v by (simp_all add: go_slice_def len_def longLength_def)
  have m: "MarshalBinary U v = Ok v" using U v by (simp add: uuid_pkg_ok_def)
  show "PutUUID U buf off v = Ok (overwrite buf (nat off) (?l @ ?m))"
    unfolding PutUUID_def Let_def if_not_P [OF g] using v
    by (simp add: m sl bytesToLong_ok ll p1 p2 w)
  assume f: "field buf (nat off) 16 = ?l @ ?m"
  have f12: "field buf (nat off) 8 = ?l" "field buf (nat (off + 8)) 8 = ?m"
  proof -
    have "length (field buf (nat off) 8) = 8"
      using off by (intro length_field) (simp add: len_def)
    moreover have "field buf (nat off) 8 @ field buf (nat off + 8) 8 = ?l @ ?m"
      using f field_append_split [of buf "nat off" 8 8] by simp
    ultimately show "field buf (nat off) 8 = ?l" "field buf (nat (off + 8)) 8 = ?m"
      using ll off by (auto simp: nat_add_distrib)
  qed
  have "GetLong buf off = Ok (to_i64 (int (be_nat ?l)))"
    "GetLong buf (off + 8) = Ok (to_i64 (int (be_nat ?m)))"
    using ll off f12 by (auto intro!: GetLong_bytes)
  moreover have "FromBytes U (?m @ ?l) = Ok v" using U v by (simp add: uuid_pkg_ok_def)
  ultimately show "GetUUID U buf off = Ok v"
    unfolding GetUUID_def Let_def if_not_P [OF g]
    by (simp add: w LongToBytes_ok long_enc_bytes [OF ll(1)] long_enc_bytes [OF ll(2)])
qed simp

text \<open>
  A message type survives the wire when it does not begin or end with a byte that the
  reader trims: the first and the last byte are printable ASCII.
\<close>

definition graphic :: "byte \<Rightarrow> bool" where "graphic b \<longleftrightarrow> 33 \<le> b \<and> b \<le> 126"

definition wire_string :: "string \<Rightarrow> bool" where
  "wire_string s \<longleftrightarrow> length s \<le> 32 \<and>
     (s = [] \<or> graphic (byte_of_char (hd s)) \<and> graphic (byte_of_char (last s)))"

definition pad_string :: "string \<Rightarrow> bytes" where
  "pad_string s = str_bytes s @ replicate (32 - length s) 32"

lemma strip_prefix_head:
  assumes "\<forall>w\<in>set ws. w \<noteq> [] \<and> hd w \<noteq> b"
  shows "strip_prefix ws (b # s) = None"
proof -
  have "take (length w) (b # s) \<noteq> w" if "w \<in> set ws" for w
    using assms that by (cases w) auto
  then have "List.find (\<lambda>w. w \<noteq> [] \<and> take (length w) (b # s) = w) ws = None"
    by (auto simp: find_None_iff)
  then show ?thesis by (simp add: strip_prefix_def)
qed

lemma unicode_spaces_heads:
  "\<forall>w\<in>set unicode_spaces. w \<noteq> [] \<and> \<not> graphic (hd w)"
  "\<forall>w\<in>set (map rev unicode_spaces). w \<noteq> [] \<and> \<not> graphic (hd w)"
  by (simp_all add: unicode_spaces_def graphic_def)

lemma strip_prefix_graphic:
  "graphic b \<Longrightarrow> strip_prefix unicode_spaces (b # s) = None"
  "graphic b \<Longrightarrow> strip_prefix (map rev unicode_spaces) (b # s) = None"
  using unicode_spaces_heads by (blast intro!: strip_prefix_head)+

lemma strip_prefix_space:
  "strip_prefix unicode_spaces (32 # s) = Some s"
  "strip_prefix (map rev unicode_spaces) (32 # s) = Some s"
  by (simp_all add: strip_prefix_def unicode_spaces_def)

lemma strip_prefix_Nil: "strip_prefix ws [] = None"
  by (auto simp: strip_prefix_def find_None_iff split: option.splits)

lemma trim_prefixes_stop: "strip_prefix ws s = None \<Longrightarrow> trim_prefixes ws s = s"
  by (simp add: trim_prefixes.simps)

lemma trim_prefixes_spaces:
  assumes "ws = unicode_spaces \<or> ws = map rev unicode_spaces"
  shows "trim_prefixes ws (replicate n 32 @ s) = trim_prefixes ws s"
proof (induction n)
  case (Suc n)
  have "strip_prefix ws (32 # replicate n 32 @ s) = Some (replicate n 32 @ s)"
    using assms strip_prefix_space by blast
  then show ?case using Suc by (simp add: trim_prefixes.simps [of ws "32 # replicate n 32 @ s"])
qed simp

lemma trim_nul_id:
  assumes "b \<noteq> []" "hd b \<noteq> 0" "last b \<noteq> 0"
  shows "trim_nul b = b"
proof -
  have "dropWhile (\<lambda>x. x = 0) b = b" using assms by (cases b) auto
  moreover have "dropWhile (\<lambda>x. x = 0) (rev b) = rev b"
    using assms by (cases b rule: rev_cases) auto
  ultimately show ?thesis by (simp add: trim_nul_def)
qed

lemma trim_pad_string:
  assumes "wire_string s"
  shows "trim_space (trim_nul (pad_string s)) = str_bytes s"
proof (cases "s = []")
  case True
  have "trim_nul (pad_string s) = replicate 32 32"
    using True by (simp add: pad_string_def str_bytes_def trim_nul_id)
  moreover have "trim_prefixes unicode_spaces (replicate 32 32) = []"
    using trim_prefixes_spaces [of unicode_spaces 32 "[]"]
    by (simp add: trim_prefixes_stop strip_prefix_Nil)
  ultimately show ?thesis using True
    by (simp add: trim_space_def trim_prefixes_stop strip_prefix_Nil str_bytes_def)
next
  case False
  define b where "b = str_bytes s"
  have b: "b \<noteq> []" "graphic (hd b)" "graphic (last b)" and l: "length b \<le> 32"
    using assms False by (auto simp: b_def wire_string_def str_bytes_def hd_map last_map)
  have g0: "graphic x \<Longrightarrow> x \<noteq> 0" for x by (auto simp: graphic_def)
  have p: "pad_string s = b @ replicate (32 - length b) 32"
    by (simp add: pad_string_def b_def)
  have "trim_nul (pad_string s) = pad_string s"
    using b g0 by (intro trim_nul_id) (auto simp: p last_append)
  moreover have "trim_prefixes unicode_spaces (pad_string s) = pad_string s"
    using b by (intro trim_prefixes_stop) (cases b; simp add: p strip_prefix_graphic)
  moreover have "trim_prefixes (map rev unicode_spaces) (rev (pad_string s)) = rev b"
  proof -
    have "strip_prefix (map rev unicode_spaces) (rev b) = None"
      using b by (cases b rule: rev_cases) (simp_all add: strip_prefix_graphic)
    then show ?thesis
      by (simp add: p trim_prefixes_spaces trim_prefixes_stop)
  qed
  ultimately show ?thesis by (simp add: trim_space_def b_def)
qed

lemma PutString_pad:
  assumes "length v \<le> 32" "0 \<le> off" "off + 32 \<le> len buf"
  shows "PutString buf off (off + 31) v = Ok (overwrite buf (nat off) (pad_string v))"
proof -
  let ?sp = "byte_of_char CHR '' ''"
  have sp: "?sp = 32" by (simp add: byte_of_char_def)
  let ?w = "overwrite buf (nat off) (replicate 32 32)"
  have fits: "nat off + 32 \<le> length buf" using assms by (simp add: len_def)
  have "length (field ?w (nat off) 32) = 32" using fits by (intro length_field) simp
  moreover have "go_slice ?w off (off + 32) = Ok (field ?w (nat off) 32)"
    using go_slice_field [of off 32 ?w] assms fits by (simp add: len_def)
  ultimately have "go_copy ?w off (off + 32) (str_bytes v) = Ok (overwrite ?w (nat off) (str_bytes v))"
    using assms by (simp add: go_copy_def)
  moreover have "overwrite ?w (nat off) (str_bytes v) = overwrite buf (nat off) (pad_string v)"
    using fits assms by (simp add: overwrite_def pad_string_def)
  ultimately show ?thesis
    using assms by (simp add: PutString_def sp len_def add.commute)
qed

lemma String_field:
  "field_codec (\<lambda>buf off. PutString buf off (off + 31)) (\<lambda>buf off. GetString buf off 32) 32
    pad_string wire_string"
proof
  fix v :: string and off and buf :: bytes
  assume v: "wire_string v" and off: "0 \<le> off" "off + int 32 \<le> len buf" "len buf < 2 ^ 63"
  show "PutString buf off (off + 31) v = Ok (overwrite buf (nat off) (pad_string v))"
    using v off by (intro PutString_pad) (simp_all add: wire_string_def)
  assume f: "field buf (nat off) 32 = pad_string v"
  have w: "to_i64 (31 + off) = off + 31" "to_i64 (off + 32) = off + 32"
    using off by (simp_all add: to_i64_id is_i64_def)
  have "go_slice buf off (off + 32) = Ok (pad_string v)"
    using go_slice_field [of off 32 buf] off f by simp
  then show "GetString buf off 32 = Ok v"
    using off trim_pad_string [OF v] by (simp add: GetString_def w)
next
  fix v assume "wire_string v"
  then show "length (pad_string v) = 32" by (simp add: pad_string_def wire_string_def)
qed

lemma Bytes_field:
  assumes n: "0 < n" "n < 2 ^ 31"
  shows "field_codec (\<lambda>buf off. PutBytes buf off (off + int n - 1)) (\<lambda>buf off. GetBytes buf off (int n))
    n (\<lambda>b. b) (\<lambda>b. length b = n)"
proof
  fix v :: bytes and off and buf :: bytes
  assume v: "length v = n" and off: "0 \<le> off" "off + int n \<le> len buf" "len buf < 2 ^ 63"
  have "go_copy buf off (off + int n) v = Ok (overwrite buf (nat off) v)"
    using go_copy_exact [of off v buf] off v by (simp add: len_def)
  then show "PutBytes buf off (off + int n - 1) v = Ok (overwrite buf (nat off) v)"
    using off v n by (simp add: PutBytes_def len_def)
  assume f: "field buf (nat off) n = v"
  have w: "to_i64 (off + int n - 1) = off + int n - 1" "to_i64 (off + int n) = off + int n"
    using off n by (simp_all add: to_i64_id is_i64_def)
  have "go_slice buf off (off + int n) = Ok v"
    using go_slice_field [of off "int n" buf] off f by simp
  then show "GetBytes buf off (int n) = Ok v"
    using off n by (simp add: GetBytes_def w)
qed simp

interpretation mtype: field_codec "\<lambda>buf off. PutString buf off (off + 31)"
    "\<lambda>buf off. GetString buf off 32" 32 pad_string wire_string
  by (rule String_field)

interpretation digest: field_codec "\<lambda>buf off. PutBytes buf off (off + int 32 - 1)"
    "\<lambda>buf off. GetBytes buf off (int 32)" 32 "\<lambda>b. b" "\<lambda>b. length b = 32"
  by (rule Bytes_field) simp_all

section \<open>What a successful write implies\<close>

lemma PutUInteger_OkD: "PutUInteger buf off w = Ok buf' \<Longrightarrow> uint w \<le> MaxInt32"
  by (auto simp: PutUInteger_def SafeInt32_uint32 split: if_splits)

lemma PutULong_OkD: "PutULong buf off w = Ok buf' \<Longrightarrow> uint w \<le> MaxInt64"
  by (auto simp: PutULong_def SafeInt64_uint64 split: if_splits)

lemma PutString_OkD: "PutString buf off (off + 31) s = Ok buf' \<Longrightarrow> length s \<le> 32"
  by (auto simp: PutString_def Let_def len_def split: if_splits)

lemma PutUUID_OkD: "PutUUID U buf off u = Ok buf' \<Longrightarrow> u \<noteq> uuid_Nil"
  by (auto simp: PutUUID_def)

lemma PutBytes_OkD: "PutBytes buf lo hi b = Ok buf' \<Longrightarrow> lo \<le> hi"
  by (auto simp: PutBytes_def Let_def split: if_splits)

lemmas put_OkD = PutUInteger_OkD PutULong_OkD PutString_OkD PutUUID_OkD PutBytes_OkD

section \<open>Writers do not panic\<close>

text \<open>A write into a buffer of less than \<open>2 ^ 62\<close> bytes ends with an error or with a
  buffer of the same size.\<close>

definition safe_put :: "nat \<Rightarrow> bytes res \<Rightarrow> bool" where
  "safe_put n r \<longleftrightarrow> settled r \<and> (\<forall>b. r = Ok b \<longrightarrow> length b = n)"

lemma safe_put_Err [simp]: "safe_put n (Err e)" by (simp add: safe_put_def)

lemma safe_put_wrap [simp]: "safe_put n (wrap_err s r) = safe_put n r"
  by (cases r) (simp_all add: safe_put_def)

lemma safe_put_rbind:
  "safe_put n r \<Longrightarrow> (\<And>b. length b = n \<Longrightarrow> safe_put n (f b)) \<Longrightarrow> safe_put n (rbind r f)"
  by (cases r) (simp_all add: safe_put_def)

lemma safe_go_copy:
  assumes "0 \<le> lo" "lo \<le> hi" "hi \<le> len buf"
  shows "safe_put (length buf) (go_copy buf lo hi src)"
proof -
  have l: "length (take (nat (hi - lo)) (drop (nat lo) buf)) = nat (hi - lo)"
    using assms by (simp add: len_def min_def) linarith
  have "nat lo + length (take (nat (hi - lo)) src) \<le> length buf"
    using assms by (simp add: len_def min_def) linarith
  then show ?thesis
    using assms by (simp add: go_copy_def go_slice_def safe_put_def l del: length_take)
qed

lemma safe_PutLong:
  assumes "len buf < 2 ^ 62"
  shows "safe_put (length buf) (PutLong buf off v)"
proof (cases "off > len buf - 1 \<or> to_i64 (off + longLength) > len buf \<or> off < 0")
  case False
  then have "to_i64 (off + longLength) = off + 8"
    using assms by (simp add: to_i64_id is_i64_def longLength_def)
  with False show ?thesis unfolding PutLong_def LongToBytes_ok
    by (simp add: safe_go_copy)
qed (auto simp: PutLong_def)

lemma safe_PutInteger:
  assumes "len buf < 2 ^ 62"
  shows "safe_put (length buf) (PutInteger buf off v)"
proof (cases "off > len buf - 1 \<or> to_i64 (off + integerLength) > len buf \<or> off < 0")
  case False
  then have "to_i64 (off + integerLength) = off + 4"
    using assms by (simp add: to_i64_id is_i64_def integerLength_def)
  with False show ?thesis unfolding PutInteger_def IntegerToBytes_def
    by (simp add: safe_go_copy len_def integerLength_def)
qed (auto simp: PutInteger_def)

lemma safe_PutUInteger: "len buf < 2 ^ 62 \<Longrightarrow> safe_put (length buf) (PutUInteger buf off w)"
  by (simp add: PutUInteger_def SafeInt32_uint32 safe_PutInteger)

lemma safe_PutULong: "len buf < 2 ^ 62 \<Longrightarrow> safe_put (length buf) (PutULong buf off w)"
  by (simp add: PutULong_def SafeInt64_uint64 safe_PutLong)

lemma safe_PutBytes: "safe_put (length buf) (PutBytes buf lo hi b)"
  by (simp add: PutBytes_def Let_def safe_go_copy)

lemma safe_PutString: "safe_put (length buf) (PutString buf lo hi s)"
proof (cases "lo > len buf - 1 \<or> hi > len buf - 1 \<or> lo > hi \<or> lo < 0")
  case False
  let ?w = "overwrite buf (nat lo) (replicate (nat (hi - lo + 1)) (byte_of_char CHR '' ''))"
  have "length ?w = length buf" using False by (intro length_overwrite) (simp add: len_def, linarith)
  then have "safe_put (length buf) (go_copy ?w lo (hi + 1) (str_bytes s))"
    using False safe_go_copy [of lo "hi + 1" ?w "str_bytes s"] by (simp add: len_def)
  then show ?thesis unfolding PutString_def Let_def by simp
qed (auto simp: PutString_def)

lemma safe_PutUUID:
  assumes "uuid_pkg_ok U" "length u = 16" "len buf < 2 ^ 62"
  shows "safe_put (length buf) (PutUUID U buf off u)"
proof -
  have sl: "go_slice u longLength (2 * longLength) = Ok (drop 8 u)" "go_slice u 0 longLength = Ok (take 8 u)"
    using assms(2) by (simp_all add: go_slice_def len_def longLength_def)
  have m: "MarshalBinary U u = Ok u" using assms by (simp add: uuid_pkg_ok_def)
  have bl: "bytesToLong (drop 8 u) = Ok (to_i64 (int (be_nat (drop 8 u))))"
    "bytesToLong (take 8 u) = Ok (to_i64 (int (be_nat (take 8 u))))"
    using assms(2) by (simp_all add: bytesToLong_ok)
  have "safe_put (length buf) (rbind (wrap_err s (PutLong buf off x)) (\<lambda>b. wrap_err t (PutLong b off' y)))"
    for x y off' s t
  proof (intro safe_put_rbind)
    show "safe_put (length buf) (wrap_err s (PutLong buf off x))"
      using assms(3) by (simp add: safe_PutLong)
    show "safe_put (length buf) (wrap_err t (PutLong b off' y))" if "length b = length buf" for b
      using safe_PutLong [of b off' y] assms(3) that by (simp add: len_def)
  qed
  then show ?thesis unfolding PutUUID_def Let_def by (simp add: m sl bl)
qed

lemma safe_puts:
  "length buf = n \<Longrightarrow> n < 2 ^ 62 \<Longrightarrow> safe_put n (PutLong buf off v)"
  "length buf = n \<Longrightarrow> n < 2 ^ 62 \<Longrightarrow> safe_put n (PutUInteger buf off w)"
  "length buf = n \<Longrightarrow> n < 2 ^ 62 \<Longrightarrow> safe_put n (PutULong buf off x)"
  "length buf = n \<Longrightarrow> safe_put n (PutBytes buf lo hi b)"
  "length buf = n \<Longrightarrow> safe_put n (PutString buf lo hi s)"
  "uuid_pkg_ok U \<Longrightarrow> length u = 16 \<Longrightarrow> length buf = n \<Longrightarrow> n < 2 ^ 62 \<Longrightarrow>
    safe_put n (PutUUID U buf off u)"
  by (auto simp: safe_PutLong safe_PutUInteger safe_PutULong safe_PutBytes safe_PutString
      safe_PutUUID len_def)

section \<open>Readers do not panic\<close>

lemma GetInteger_settled:
  assumes "len b < 2 ^ 62"
  shows "settled (GetInteger b off)"
proof (cases "off > len b - 1 \<or> to_i64 (off + integerLength) > len b \<or> off < 0")
  case False
  then have "to_i64 (off + integerLength) = off + 4"
    using assms by (simp add: to_i64_id is_i64_def integerLength_def)
  with False show ?thesis unfolding GetInteger_def
    by (auto simp: go_slice_def bytesToInteger_def split: if_splits)
qed (auto simp: GetInteger_def)

lemma GetLong_settled:
  assumes "len b < 2 ^ 62"
  shows "settled (GetLong b off)"
proof (cases "off > len b - 1 \<or> to_i64 (off + longLength) > len b \<or> off < 0")
  case False
  then have "to_i64 (off + longLength) = off + 8"
    using assms by (simp add: to_i64_id is_i64_def longLength_def)
  with False show ?thesis unfolding GetLong_def
    by (auto simp: go_slice_def bytesToLong_def split: if_splits)
qed (auto simp: GetLong_def)

lemma GetUInteger_settled: "len b < 2 ^ 62 \<Longrightarrow> settled (GetUInteger b off)"
  unfolding GetUInteger_def by (intro rbind_settled GetInteger_settled) simp_all

lemma GetULong_settled: "len b < 2 ^ 62 \<Longrightarrow> settled (GetULong b off)"
  unfolding GetULong_def by (intro rbind_settled GetLong_settled) simp_all

lemma as_offset_outside_settled [simp]: "settled (as_offset_outside r) \<longleftrightarrow> settled r"
  by (cases r) (simp_all add: as_offset_outside_def)

lemma FromBytes_settled: "uuid_pkg_ok U \<Longrightarrow> settled (FromBytes U b)"
  unfolding uuid_pkg_ok_def by (cases "length b = 16") fastforce+

lemma GetUUID_settled:
  assumes "uuid_pkg_ok U" "len b < 2 ^ 62"
  shows "settled (GetUUID U b off)"
proof -
  have l: "settled (rbind (as_offset_outside (GetLong b i)) f)" if "\<And>x. settled (f x)" for i f
    using that assms(2) by (intro rbind_settled) (simp_all add: GetLong_settled)
  show ?thesis unfolding GetUUID_def Let_def LongToBytes_ok as_offset_outside_Ok rbind_res
    using FromBytes_settled [OF assms(1)] by (simp, intro impI l) simp
qed

lemma GetString_settled:
  assumes "len b < 2 ^ 62" "0 \<le> n" "n < 2 ^ 31"
  shows "settled (GetString b off n)"
proof (cases "off > len b - 1 \<or> to_i64 (off + n - 1) > len b - 1 \<or> off < 0")
  case False
  then have "to_i64 (off + n) = off + n" "to_i64 (off + n - 1) = off + n - 1"
    using assms by (simp_all add: to_i64_id is_i64_def)
  with False assms show ?thesis unfolding GetString_def by (simp add: go_slice_def)
qed (auto simp: GetString_def)

lemma GetBytes_settled:
  assumes "len b < 2 ^ 62" "0 \<le> n" "n < 2 ^ 31"
  shows "settled (GetBytes b off n)"
proof (cases "off > len b - 1 \<or> to_i64 (off + n - 1) > len b - 1 \<or> off < 0")
  case False
  then have "to_i64 (off + n) = off + n" "to_i64 (off + n - 1) = off + n - 1"
    using assms by (simp_all add: to_i64_id is_i64_def)
  with False assms show ?thesis unfolding GetBytes_def by (simp add: go_slice_def)
qed (use assms in \<open>auto simp: GetBytes_def\<close>)

lemmas get_settled = GetUInteger_settled GetULong_settled GetLong_settled GetUUID_settled
  GetString_settled GetBytes_settled

lemma GetUInteger_OkD:
  "GetUInteger b off = Ok w \<Longrightarrow> 0 \<le> off \<Longrightarrow> off < 2 ^ 31 \<Longrightarrow> off + 4 \<le> len b"
  by (auto simp: GetUInteger_def GetInteger_def Let_def integerLength_def to_i64_id is_i64_def
      rbind_Ok_iff split: if_splits)

lemma GetUInteger_range: "GetUInteger b off = Ok w \<Longrightarrow> uint w \<le> MaxInt32"
proof -
  assume "GetUInteger b off = Ok w"
  then obtain t where t: "GetInteger b off = Ok t" "0 \<le> t" "w = word_of_int t"
    by (auto simp: GetUInteger_def rbind_Ok_iff split: if_splits)
  then have "is_i32 t"
    by (auto simp: GetInteger_def Let_def bytesToInteger_def rbind_Ok_iff split: if_splits)
  then show ?thesis using t by (simp add: is_i32_def uint_word_of_int take_bit_int_eq_self)
qed

end
