(* ===== verification/Sha256.thy ===== *)
theory Sha256
  imports Prelude
begin

text \<open>
  \<^verbatim>\<open>crypto/sha256\<close> as the sources use it: \<^verbatim>\<open>sha256.New\<close>, \<^verbatim>\<open>Write\<close>
  and \<^verbatim>\<open>Sum(nil)\<close> compute the SHA-256 digest of a payload.  The definitions follow
  the Secure Hash Standard (padding, message schedule, 64 rounds per block).  What the
  rest of the development needs of it is that a digest has 32 bytes.
\<close>

unbundle bit_operations_syntax

type_synonym hash_state = "uint32 \<times> uint32 \<times> uint32 \<times> uint32 \<times> uint32 \<times> uint32 \<times> uint32 \<times> uint32"

definition sha_rotr :: "nat \<Rightarrow> uint32 \<Rightarrow> uint32" where
  "sha_rotr n x = drop_bit n x OR push_bit (32 - n) x"

definition big_sigma0 :: "uint32 \<Rightarrow> uint32" where
  "big_sigma0 x = sha_rotr 2 x XOR sha_rotr 13 x XOR sha_rotr 22 x"
definition big_sigma1 :: "uint32 \<Rightarrow> uint32" where
  "big_sigma1 x = sha_rotr 6 x XOR sha_rotr 11 x XOR sha_rotr 25 x"
definition small_sigma0 :: "uint32 \<Rightarrow> uint32" where
  "small_sigma0 x = sha_rotr 7 x XOR sha_rotr 18 x XOR drop_bit 3 x"
definition small_sigma1 :: "uint32 \<Rightarrow> uint32" where
  "small_sigma1 x = sha_rotr 17 x XOR sha_rotr 19 x XOR drop_bit 10 x"

text \<open>
  The constants are the first 32 bits of the fractional parts of roots of primes: cube roots
  for the rounds, square roots for the initial state.  They are computed, not listed:
  \<open>root_bits k n b acc\<close> extends \<open>acc\<close> bit by bit to the largest number whose
  power \<open>k\<close> is at most \<open>n\<close>.
\<close>

fun root_bits :: "nat \<Rightarrow> nat \<Rightarrow> nat \<Rightarrow> nat \<Rightarrow> nat" where
  "root_bits k n 0 acc = acc"
| "root_bits k n (Suc b) acc =
     root_bits k n b (if (acc + 2 ^ b) ^ k \<le> n then acc + 2 ^ b else acc)"

definition root_word :: "nat \<Rightarrow> nat \<Rightarrow> uint32" where
  "root_word k p = of_nat (root_bits k (p * 2 ^ (32 * k)) 37 0)"

definition is_prime :: "nat \<Rightarrow> bool" where
  "is_prime p = (1 < p \<and> (\<forall>d \<in> set [2..<p]. p mod d \<noteq> 0))"

definition sha_primes :: "nat list" where
  "sha_primes = filter is_prime [2..<312]"

definition sha_k :: "uint32 list" where
  "sha_k = map (root_word 3) sha_primes"

fun state_of :: "uint32 list \<Rightarrow> hash_state" where
  "state_of [a, b, c, d, e, f, g, h] = (a, b, c, d, e, f, g, h)"
| "state_of _ = (0, 0, 0, 0, 0, 0, 0, 0)"

definition sha_init :: hash_state where
  "sha_init = state_of (map (root_word 2) (take 8 sha_primes))"

text \<open>The message schedule, newest word first.\<close>

fun sha_extend :: "nat \<Rightarrow> uint32 list \<Rightarrow> uint32 list" where
  "sha_extend 0 ws = ws"
| "sha_extend (Suc n) ws =
     sha_extend n ((small_sigma1 (ws ! 1) + ws ! 6 + small_sigma0 (ws ! 14) + ws ! 15) # ws)"

fun sha_words :: "bytes \<Rightarrow> uint32 list" where
  "sha_words (a # b # c # d # bs) = of_nat (be_nat [a, b, c, d]) # sha_words bs"
| "sha_words _ = []"

definition sha_schedule :: "bytes \<Rightarrow> uint32 list" where
  "sha_schedule block = rev (sha_extend 48 (rev (sha_words block)))"

fun sha_round :: "hash_state \<Rightarrow> uint32 \<times> uint32 \<Rightarrow> hash_state" where
  "sha_round (a, b, c, d, e, f, g, h) (k, w) =
     (let t1 = h + big_sigma1 e + ((e AND f) XOR (NOT e AND g)) + k + w;
          t2 = big_sigma0 a + ((a AND b) XOR (a AND c) XOR (b AND c))
      in (t1 + t2, a, b, c, d + t1, e, f, g))"

fun sha_add :: "hash_state \<Rightarrow> hash_state \<Rightarrow> hash_state" where
  "sha_add (a, b, c, d, e, f, g, h) (a', b', c', d', e', f', g', h') =
     (a + a', b + b', c + c', d + d', e + e', f + f', g + g', h + h')"

definition sha_block :: "hash_state \<Rightarrow> bytes \<Rightarrow> hash_state" where
  "sha_block st block = sha_add st (foldl sha_round st (zip sha_k (sha_schedule block)))"

definition sha_pad :: "bytes \<Rightarrow> bytes" where
  "sha_pad msg =
     msg @ [0x80] @ replicate ((119 - length msg mod 64) mod 64) 0 @ be_bytes 8 (8 * length msg)"

function sha_blocks :: "hash_state \<Rightarrow> bytes \<Rightarrow> hash_state" where
  "sha_blocks st bs =
     (if length bs < 64 then st else sha_blocks (sha_block st (take 64 bs)) (drop 64 bs))"
  by pat_completeness auto
termination
  by (relation "measure (\<lambda>(st, bs). length bs)") auto

declare sha_blocks.simps [simp del]

fun sha_output :: "hash_state \<Rightarrow> bytes" where
  "sha_output (a, b, c, d, e, f, g, h) = concat (map (\<lambda>w. be_bytes 4 (unat w)) [a, b, c, d, e, f, g, h])"

definition sha256 :: "bytes \<Rightarrow> bytes" where
  "sha256 msg = sha_output (sha_blocks sha_init (sha_pad msg))"

lemma length_sha_output: "length (sha_output st) = 32"
  by (cases st rule: sha_output.cases) simp

lemma length_sha256 [simp]: "length (sha256 msg) = 32"
  by (simp add: sha256_def length_sha_output)

text \<open>Padding fills the last block, so \<open>sha_blocks\<close> consumes the whole message.\<close>

lemma length_sha_pad: "length (sha_pad msg) mod 64 = 0"
proof -
  define q r where "q = length msg div 64" and "r = length msg mod 64"
  then have l: "length msg = 64 * q + r" and r: "r < 64" by simp_all
  have "(119 - r) mod 64 + r + 9 = (if r \<le> 55 then 64 else 128)"
    using r by (auto simp: mod_if)
  then have "length (sha_pad msg) = 64 * q + (if r \<le> 55 then 64 else 128)"
    using l r by (simp add: sha_pad_def r_def [symmetric])
  then show ?thesis by simp
qed

end
