(* ===== verification/Message.thy ===== *)
theory Message
  imports Codec Sha256
begin

text \<open>
  \<^verbatim>\<open>src/message\<close>: the client message and its wire format
  (\<^verbatim>\<open>types.go\<close>, \<^verbatim>\<open>clientmessage.go\<close>, \<^verbatim>\<open>messageparser.go\<close>,
  \<^verbatim>\<open>handshakemessage.go\<close>).  JSON encodings are those of \<^verbatim>\<open>encoding/json\<close>
  and enter as the parameter \<open>json_pkg\<close>, one function for each type the sources
  marshal or unmarshal.  A receiver that a method changes is returned changed, except
  where the method overwrites all of it: deserialization is a function of the input only.
\<close>

definition InputStreamMessage :: string where "InputStreamMessage = ''input_stream_data''"
definition OutputStreamMessage :: string where "OutputStreamMessage = ''output_stream_data''"
definition AcknowledgeMessage :: string where "AcknowledgeMessage = ''acknowledge''"
definition ChannelClosedMessage :: string where "ChannelClosedMessage = ''channel_closed''"
definition StartPublicationMessage :: string where "StartPublicationMessage = ''start_publication''"
definition PausePublicationMessage :: string where "PausePublicationMessage = ''pause_publication''"

lemmas message_types = InputStreamMessage_def OutputStreamMessage_def AcknowledgeMessage_def
  ChannelClosedMessage_def StartPublicationMessage_def PausePublicationMessage_def

record AcknowledgeContent =
  ack_MessageType :: string
  ack_MessageID :: string
  ack_SequenceNumber :: int64
  ack_IsSequentialMessage :: bool

record ChannelClosed =
  cc_MessageID :: string
  cc_CreatedDate :: string
  cc_DestinationID :: string
  cc_SessionID :: string
  cc_MessageType :: string
  cc_SchemaVersion :: int
  cc_Output :: string

definition Output :: uint32 where "Output = 1"
definition Error :: uint32 where "Error = 2"
definition Size :: uint32 where "Size = 3"
definition Parameter :: uint32 where "Parameter = 4"
definition HandshakeRequestPayloadType :: uint32 where "HandshakeRequestPayloadType = 5"
definition HandshakeResponsePayloadType :: uint32 where "HandshakeResponsePayloadType = 6"
definition HandshakeCompletePayloadType :: uint32 where "HandshakeCompletePayloadType = 7"
definition EncChallengeRequest :: uint32 where "EncChallengeRequest = 8"
definition EncChallengeResponse :: uint32 where "EncChallengeResponse = 9"
definition Flag :: uint32 where "Flag = 10"
definition StdErr :: uint32 where "StdErr = 11"
definition ExitCode :: uint32 where "ExitCode = 12"

lemmas payload_types = Output_def Error_def Size_def Parameter_def HandshakeRequestPayloadType_def
  HandshakeResponsePayloadType_def HandshakeCompletePayloadType_def EncChallengeRequest_def
  EncChallengeResponse_def Flag_def StdErr_def ExitCode_def

definition DisconnectToPort :: uint32 where "DisconnectToPort = 1"
definition TerminateSession :: uint32 where "TerminateSession = 2"
definition ConnectToPortError :: uint32 where "ConnectToPortError = 3"

record SizeData =
  Cols :: uint32
  Rows :: uint32

section \<open>Layout\<close>

definition ClientMessageHLLength :: int where "ClientMessageHLLength = 4"
definition ClientMessageMessageTypeLength :: int where "ClientMessageMessageTypeLength = 32"
definition ClientMessageSchemaVersionLength :: int where "ClientMessageSchemaVersionLength = 4"
definition ClientMessageCreatedDateLength :: int where "ClientMessageCreatedDateLength = 8"
definition ClientMessageSequenceNumberLength :: int where "ClientMessageSequenceNumberLength = 8"
definition ClientMessageFlagsLength :: int where "ClientMessageFlagsLength = 8"
definition ClientMessageMessageIDLength :: int where "ClientMessageMessageIDLength = 16"
definition ClientMessagePayloadDigestLength :: int where "ClientMessagePayloadDigestLength = 32"
definition ClientMessagePayloadTypeLength :: int where "ClientMessagePayloadTypeLength = 4"
definition ClientMessagePayloadLengthLength :: int where "ClientMessagePayloadLengthLength = 4"

lemmas wire_lengths = ClientMessageHLLength_def ClientMessageMessageTypeLength_def
  ClientMessageSchemaVersionLength_def ClientMessageCreatedDateLength_def
  ClientMessageSequenceNumberLength_def ClientMessageFlagsLength_def
  ClientMessageMessageIDLength_def ClientMessagePayloadDigestLength_def
  ClientMessagePayloadTypeLength_def ClientMessagePayloadLengthLength_def

definition ClientMessageHLOffset :: int where "ClientMessageHLOffset = 0"
definition ClientMessageMessageTypeOffset :: int where
  "ClientMessageMessageTypeOffset = ClientMessageHLOffset + ClientMessageHLLength"
definition ClientMessageSchemaVersionOffset :: int where
  "ClientMessageSchemaVersionOffset = ClientMessageMessageTypeOffset + ClientMessageMessageTypeLength"
definition ClientMessageCreatedDateOffset :: int where
  "ClientMessageCreatedDateOffset = ClientMessageSchemaVersionOffset + ClientMessageSchemaVersionLength"
definition ClientMessageSequenceNumberOffset :: int where
  "ClientMessageSequenceNumberOffset = ClientMessageCreatedDateOffset + ClientMessageCreatedDateLength"
definition ClientMessageFlagsOffset :: int where
  "ClientMessageFlagsOffset = ClientMessageSequenceNumberOffset + ClientMessageSequenceNumberLength"
definition ClientMessageMessageIDOffset :: int where
  "ClientMessageMessageIDOffset = ClientMessageFlagsOffset + ClientMessageFlagsLength"
definition ClientMessagePayloadDigestOffset :: int where
  "ClientMessagePayloadDigestOffset = ClientMessageMessageIDOffset + ClientMessageMessageIDLength"
definition ClientMessagePayloadTypeOffset :: int where
  "ClientMessagePayloadTypeOffset = ClientMessagePayloadDigestOffset + ClientMessagePayloadDigestLength"
definition ClientMessagePayloadLengthOffset :: int where
  "ClientMessagePayloadLengthOffset = ClientMessagePayloadTypeOffset + ClientMessagePayloadTypeLength"
definition ClientMessagePayloadOffset :: int where
  "ClientMessagePayloadOffset = ClientMessagePayloadLengthOffset + ClientMessagePayloadLengthLength"

lemmas wire_offset_defs = ClientMessageHLOffset_def ClientMessageMessageTypeOffset_def
  ClientMessageSchemaVersionOffset_def ClientMessageCreatedDateOffset_def
  ClientMessageSequenceNumberOffset_def ClientMessageFlagsOffset_def ClientMessageMessageIDOffset_def
  ClientMessagePayloadDigestOffset_def ClientMessagePayloadTypeOffset_def
  ClientMessagePayloadLengthOffset_def ClientMessagePayloadOffset_def

lemma wire_offsets [wire_simps]:
  "ClientMessageHLOffset = 0" "ClientMessageMessageTypeOffset = 4"
  "ClientMessageSchemaVersionOffset = 36" "ClientMessageCreatedDateOffset = 40"
  "ClientMessageSequenceNumberOffset = 48" "ClientMessageFlagsOffset = 56"
  "ClientMessageMessageIDOffset = 64" "ClientMessagePayloadDigestOffset = 80"
  "ClientMessagePayloadTypeOffset = 112" "ClientMessagePayloadLengthOffset = 116"
  "ClientMessagePayloadOffset = 120"
  by (simp_all add: wire_offset_defs wire_lengths)

section \<open>The client message\<close>

record ClientMessage =
  HeaderLength :: uint32
  MessageType :: string
  SchemaVersion :: uint32
  CreatedDate :: uint64
  SequenceNumber :: int64
  Flags :: uint64
  MessageID :: uuid
  PayloadDigest :: bytes
  PayloadType :: uint32
  PayloadLength :: uint32
  Payload :: bytes

definition DeserializeClientMessage :: "uuid_pkg \<Rightarrow> bytes \<Rightarrow> ClientMessage res" where
  "DeserializeClientMessage U input =
     rbind (wrap_err ''deserializing MessageType''
       (GetString input ClientMessageMessageTypeOffset ClientMessageMessageTypeLength)) (\<lambda>mt.
     rbind (wrap_err ''deserializing SchemaVersion''
       (GetUInteger input ClientMessageSchemaVersionOffset)) (\<lambda>sv.
     rbind (wrap_err ''deserializing CreatedDate''
       (GetULong input ClientMessageCreatedDateOffset)) (\<lambda>cd.
     rbind (wrap_err ''deserializing SequenceNumber''
       (GetLong input ClientMessageSequenceNumberOffset)) (\<lambda>sn.
     rbind (wrap_err ''deserializing Flags''
       (GetULong input ClientMessageFlagsOffset)) (\<lambda>fl.
     rbind (wrap_err ''deserializing MessageID''
       (GetUUID U input ClientMessageMessageIDOffset)) (\<lambda>mid.
     rbind (wrap_err ''deserializing PayloadDigest''
       (GetBytes input ClientMessagePayloadDigestOffset ClientMessagePayloadDigestLength)) (\<lambda>pd.
     rbind (wrap_err ''deserializing PayloadType''
       (GetUInteger input ClientMessagePayloadTypeOffset)) (\<lambda>pt.
     rbind (wrap_err ''deserializing PayloadLength''
       (GetUInteger input ClientMessagePayloadLengthOffset)) (\<lambda>pl.
     rbind (wrap_err ''deserializing HeaderLength''
       (GetUInteger input ClientMessageHLOffset)) (\<lambda>hl.
     rbind (go_slice input (uint (hl + word_of_int ClientMessagePayloadLengthLength)) (len input))
       (\<lambda>p. Ok \<lparr>HeaderLength = hl, MessageType = mt, SchemaVersion = sv, CreatedDate = cd,
             SequenceNumber = sn, Flags = fl, MessageID = mid, PayloadDigest = pd,
             PayloadType = pt, PayloadLength = pl, Payload = p\<rparr>)))))))))))"

definition Validate :: "ClientMessage \<Rightarrow> unit res" where
  "Validate m =
     (if StartPublicationMessage = MessageType m \<or> PausePublicationMessage = MessageType m
      then Ok ()
      else if HeaderLength m = 0 then Err ErrInvalid
      else if MessageType m = '''' then Err ErrInvalid
      else if CreatedDate m = 0 then Err ErrInvalid
      else if PayloadLength m \<noteq> 0 \<and> sha256 (Payload m) \<noteq> PayloadDigest m then Err ErrInvalid
      else Ok ())"

definition SerializeClientMessage :: "uuid_pkg \<Rightarrow> ClientMessage \<Rightarrow> bytes res" where
  "SerializeClientMessage U m =
     rbind (wrap_err ''converting PayloadLength to uint32''
       (SafeUint32 (Predeclared K_int) (len (Payload m)))) (\<lambda>payloadLength.
     let headerLength = word_of_int ClientMessagePayloadLengthOffset :: uint32;
         m = m\<lparr>PayloadLength := payloadLength\<rparr>;
         totalMessageLength =
           headerLength + word_of_int ClientMessagePayloadLengthLength + payloadLength;
         result = replicate (unat totalMessageLength) 0
     in
     rbind (wrap_err ''serializing HeaderLength''
       (PutUInteger result ClientMessageHLOffset headerLength)) (\<lambda>result.
     rbind (wrap_err ''serializing MessageType''
       (PutString result ClientMessageMessageTypeOffset
         (ClientMessageMessageTypeOffset + ClientMessageMessageTypeLength - 1) (MessageType m)))
       (\<lambda>result.
     rbind (wrap_err ''serializing SchemaVersion''
       (PutUInteger result ClientMessageSchemaVersionOffset (SchemaVersion m))) (\<lambda>result.
     rbind (wrap_err ''serializing CreatedDate''
       (PutULong result ClientMessageCreatedDateOffset (CreatedDate m))) (\<lambda>result.
     rbind (wrap_err ''serializing SequenceNumber''
       (PutLong result ClientMessageSequenceNumberOffset (SequenceNumber m))) (\<lambda>result.
     rbind (wrap_err ''serializing Flags''
       (PutULong result ClientMessageFlagsOffset (Flags m))) (\<lambda>result.
     rbind (wrap_err ''serializing MessageID''
       (PutUUID U result ClientMessageMessageIDOffset (MessageID m))) (\<lambda>result.
     rbind (wrap_err ''serializing PayloadDigest''
       (PutBytes result ClientMessagePayloadDigestOffset
         (ClientMessagePayloadDigestOffset + ClientMessagePayloadDigestLength - 1)
         (sha256 (Payload m)))) (\<lambda>result.
     rbind (wrap_err ''serializing PayloadType''
       (PutUInteger result ClientMessagePayloadTypeOffset (PayloadType m))) (\<lambda>result.
     rbind (wrap_err ''serializing PayloadLength''
       (PutUInteger result ClientMessagePayloadLengthOffset (PayloadLength m))) (\<lambda>result.
     wrap_err ''serializing Payload''
       (PutBytes result ClientMessagePayloadOffset
         (ClientMessagePayloadOffset + uint payloadLength - 1) (Payload m)))))))))))))"

section \<open>The wire format\<close>

text \<open>Values a \<open>ClientMessage\<close> of the Go type can have.\<close>

definition wf_msg :: "ClientMessage \<Rightarrow> bool" where
  "wf_msg m \<longleftrightarrow> is_i64 (SequenceNumber m) \<and> length (MessageID m) = 16 \<and> length (Payload m) < 2 ^ 63"

text \<open>The messages the writers accept.\<close>

definition serializable :: "ClientMessage \<Rightarrow> bool" where
  "serializable m \<longleftrightarrow>
     length (MessageType m) \<le> 32 \<and> uint (SchemaVersion m) \<le> MaxInt32 \<and>
     uint (CreatedDate m) \<le> MaxInt64 \<and> uint (Flags m) \<le> MaxInt64 \<and>
     MessageID m \<noteq> uuid_Nil \<and> uint (PayloadType m) \<le> MaxInt32 \<and>
     Payload m \<noteq> [] \<and> len (Payload m) \<le> MaxInt32"

definition wire_header :: "ClientMessage \<Rightarrow> bytes" where
  "wire_header m =
     be_bytes 4 116 @ pad_string (MessageType m) @ be_bytes 4 (unat (SchemaVersion m)) @
     be_bytes 8 (unat (CreatedDate m)) @ be_bytes 8 (nat (take_bit 64 (SequenceNumber m))) @
     be_bytes 8 (unat (Flags m)) @ (drop 8 (MessageID m) @ take 8 (MessageID m)) @
     sha256 (Payload m) @ be_bytes 4 (unat (PayloadType m)) @ be_bytes 4 (length (Payload m))"

definition wire_message :: "ClientMessage \<Rightarrow> bytes" where
  "wire_message m = wire_header m @ Payload m"

lemma length_wire_header:
  "wf_msg m \<Longrightarrow> serializable m \<Longrightarrow> length (wire_header m) = 120"
  by (simp add: wire_header_def wf_msg_def serializable_def pad_string_def)

text \<open>Writing a payload that fills the rest of the buffer.\<close>

lemma PutBytes_rest:
  assumes "b \<noteq> []" "off = len pre"
  shows "PutBytes (pre @ replicate (length b) z) off (off + len b - 1) b = Ok (pre @ b)"
proof -
  have "go_copy (pre @ replicate (length b) z) off (off + len b) b = Ok (pre @ b)"
    using assms by (subst go_copy_exact) (simp_all add: len_def overwrite_def)
  moreover have "0 < len b" using assms by (simp add: len_def)
  ultimately show ?thesis using assms unfolding PutBytes_def Let_def
    by (simp add: len_def)
qed

lemma PutString_in_context:
  assumes "length v \<le> 32" "off = len pre"
  shows "PutString (pre @ replicate (32 + n) z) off (off + 31) v
    = Ok (pre @ pad_string v @ replicate n z)"
proof -
  have "overwrite (pre @ replicate (32 + n) z) (length pre) (pad_string v)
      = pre @ pad_string v @ replicate n z"
    using assms(1) by (simp add: overwrite_def pad_string_def)
  then show ?thesis using assms by (subst PutString_pad) (simp_all add: len_def)
qed

lemma Serialize_total_length:
  assumes "length p < 2 ^ 31"
  shows "unat (word_of_int ClientMessagePayloadLengthOffset
      + word_of_int ClientMessagePayloadLengthLength + (word_of_int (len p) :: uint32)) = 120 + length p"
proof -
  have "word_of_int ClientMessagePayloadLengthOffset + word_of_int ClientMessagePayloadLengthLength
      + (word_of_int (len p) :: uint32) = word_of_nat (120 + length p)"
    by (simp add: wire_simps wire_lengths len_def)
  moreover have "unat (word_of_nat (120 + length p) :: uint32) = 120 + length p"
    using assms by (subst unat_of_nat) simp
  ultimately show ?thesis by simp
qed

lemma SerializeClientMessage_layout:
  assumes U: "uuid_pkg_ok U" and wf: "wf_msg m" and ser: "serializable m"
  shows "SerializeClientMessage U m = Ok (wire_message m)"
proof -
  let ?p = "Payload m" let ?n = "length ?p"
  have n: "?n < 2 ^ 31" "?p \<noteq> []" using ser by (auto simp: serializable_def len_def)
  define pl :: uint32 where "pl = word_of_int (len ?p)"
  have pl: "unat pl = ?n" "uint pl = int ?n"
    using n by (simp_all add: pl_def len_def unat_of_nat uint_nat)
  have len: "SafeUint32 (Predeclared K_int) (len ?p) = Ok pl"
    using n by (subst SafeUint32_int) (simp_all add: is_i64_def len_def pl_def)
  define A1 where "A1 = be_bytes 4 116"
  define A2 where "A2 = A1 @ pad_string (MessageType m)"
  define A3 where "A3 = A2 @ be_bytes 4 (unat (SchemaVersion m))"
  define A4 where "A4 = A3 @ be_bytes 8 (unat (CreatedDate m))"
  define A5 where "A5 = A4 @ be_bytes 8 (nat (take_bit 64 (SequenceNumber m)))"
  define A6 where "A6 = A5 @ be_bytes 8 (unat (Flags m))"
  define A7 where "A7 = A6 @ (drop 8 (MessageID m) @ take 8 (MessageID m))"
  define A8 where "A8 = A7 @ sha256 ?p"
  define A9 where "A9 = A8 @ be_bytes 4 (unat (PayloadType m))"
  define A10 where "A10 = A9 @ be_bytes 4 ?n"
  note As = A1_def A2_def A3_def A4_def A5_def A6_def A7_def A8_def A9_def A10_def
  have l: "len A1 = 4" "len A2 = 36" "len A3 = 40" "len A4 = 48" "len A5 = 56" "len A6 = 64"
    "len A7 = 80" "len A8 = 112" "len A9 = 116" "len A10 = 120"
    using ser wf by (simp_all add: As len_def pad_string_def serializable_def wf_msg_def)
  have lr: "len (A @ replicate k (0::byte)) = len A + int k" for A k by (simp add: len_def)
  have small: "int ?n < 2 ^ 31" using n by simp
  have s1: "PutUInteger (replicate (120 + ?n) 0) 0 116 = Ok (A1 @ replicate (116 + ?n) 0)"
    using uinteger.put_in_context [of 116 0 "[]" "116 + ?n" 0] small by (simp add: A1_def len_def)
  have s2: "PutString (A1 @ replicate (116 + ?n) 0) 4 35 (MessageType m) = Ok (A2 @ replicate (84 + ?n) 0)"
    using PutString_in_context [of "MessageType m" 4 A1 "84 + ?n" 0] ser l
    by (simp add: A2_def serializable_def)
  have s3: "PutUInteger (A2 @ replicate (84 + ?n) 0) 36 (SchemaVersion m) = Ok (A3 @ replicate (80 + ?n) 0)"
    using uinteger.put_in_context [of "SchemaVersion m" 36 A2 "80 + ?n" 0] ser l small
    by (simp add: A3_def serializable_def lr)
  have s4: "PutULong (A3 @ replicate (80 + ?n) 0) 40 (CreatedDate m) = Ok (A4 @ replicate (72 + ?n) 0)"
    using ulong.put_in_context [of "CreatedDate m" 40 A3 "72 + ?n" 0] ser l small
    by (simp add: A4_def serializable_def lr)
  have s5: "PutLong (A4 @ replicate (72 + ?n) 0) 48 (SequenceNumber m) = Ok (A5 @ replicate (64 + ?n) 0)"
    using long.put_in_context [of "SequenceNumber m" 48 A4 "64 + ?n" 0] wf l small
    by (simp add: A5_def wf_msg_def lr)
  have s6: "PutULong (A5 @ replicate (64 + ?n) 0) 56 (Flags m) = Ok (A6 @ replicate (56 + ?n) 0)"
    using ulong.put_in_context [of "Flags m" 56 A5 "56 + ?n" 0] ser l small
    by (simp add: A6_def serializable_def lr)
  have s7: "PutUUID U (A6 @ replicate (56 + ?n) 0) 64 (MessageID m) = Ok (A7 @ replicate (40 + ?n) 0)"
    using field_codec.put_in_context [OF UUID_field [OF U], of "MessageID m" 64 A6 "40 + ?n" 0]
      ser wf l small by (simp add: A7_def serializable_def wf_msg_def lr)
  have s8: "PutBytes (A7 @ replicate (40 + ?n) 0) 80 111 (sha256 ?p) = Ok (A8 @ replicate (8 + ?n) 0)"
    using digest.put_in_context [of "sha256 ?p" 80 A7 "8 + ?n" 0] l small by (simp add: A8_def lr)
  have s9: "PutUInteger (A8 @ replicate (8 + ?n) 0) 112 (PayloadType m) = Ok (A9 @ replicate (4 + ?n) 0)"
    using uinteger.put_in_context [of "PayloadType m" 112 A8 "4 + ?n" 0] ser l small
    by (simp add: A9_def serializable_def lr)
  have s10: "PutUInteger (A9 @ replicate (4 + ?n) 0) 116 pl = Ok (A10 @ replicate ?n 0)"
    using uinteger.put_in_context [of pl 116 A9 ?n 0] l small pl by (simp add: A10_def lr)
  have s11: "PutBytes (A10 @ replicate ?n 0) 120 (119 + uint pl) ?p = Ok (A10 @ ?p)"
    using PutBytes_rest [of ?p 120 A10 0] n l pl by (simp add: len_def)
  have tot: "unat (word_of_int ClientMessagePayloadLengthOffset
      + word_of_int ClientMessagePayloadLengthLength + pl) = 120 + ?n"
    using Serialize_total_length n by (simp add: pl_def)
  have "SerializeClientMessage U m = Ok (A10 @ ?p)"
    unfolding SerializeClientMessage_def len wrap_err_res rbind_res Let_def tot
    by (simp add: wire_simps wire_lengths s1 s2 s3 s4 s5 s6 s7 s8 s9 s10 s11)
  then show ?thesis by (simp add: wire_message_def wire_header_def As)
qed

lemma Serialize_OkD:
  assumes "wf_msg m" "SerializeClientMessage U m = Ok b"
  shows "serializable m"
proof -
  let ?p = "Payload m"
  from assms obtain pl where pl: "SafeUint32 (Predeclared K_int) (len ?p) = Ok pl"
    by (auto simp: SerializeClientMessage_def rbind_Ok_iff)
  have "is_i64 (len ?p)" using assms(1) by (simp add: wf_msg_def is_i64_def len_def)
  then have "len ?p \<le> MaxUint32" "pl = word_of_int (len ?p)"
    using pl by (auto simp: SafeUint32_int split: if_splits)
  then have "uint pl = len ?p" by (simp add: uint_word_of_int take_bit_int_eq_self)
  note steps = assms(2) [unfolded SerializeClientMessage_def pl wrap_err_res rbind_res Let_def
      rbind_Ok_iff wrap_err_Ok_iff, simplified wire_simps wire_lengths]
  have "uint pl \<le> MaxInt32" and "120 \<le> 119 + uint pl"
    using steps by (auto dest: PutUInteger_OkD PutBytes_OkD)
  moreover have "length (MessageType m) \<le> 32"
    using steps PutString_OkD [where off = 4] by force
  ultimately show ?thesis using steps \<open>uint pl = len ?p\<close>
    by (auto simp: serializable_def len_def dest: PutUInteger_OkD PutULong_OkD PutUUID_OkD)
qed

text \<open>The header fields of a serialized message, each at its offset.\<close>

lemma length_wire_message:
  "wf_msg m \<Longrightarrow> serializable m \<Longrightarrow> length (wire_message m) = 120 + length (Payload m)"
  by (simp add: wire_message_def length_wire_header)

lemma wire_message_fields:
  assumes "wf_msg m" "serializable m"
  shows "field (wire_message m) 0 4 = be_bytes 4 116"
    and "field (wire_message m) 4 32 = pad_string (MessageType m)"
    and "field (wire_message m) 36 4 = be_bytes 4 (unat (SchemaVersion m))"
    and "field (wire_message m) 40 8 = be_bytes 8 (unat (CreatedDate m))"
    and "field (wire_message m) 48 8 = be_bytes 8 (nat (take_bit 64 (SequenceNumber m)))"
    and "field (wire_message m) 56 8 = be_bytes 8 (unat (Flags m))"
    and "field (wire_message m) 64 16 = drop 8 (MessageID m) @ take 8 (MessageID m)"
    and "field (wire_message m) 80 32 = sha256 (Payload m)"
    and "field (wire_message m) 112 4 = be_bytes 4 (unat (PayloadType m))"
    and "field (wire_message m) 116 4 = be_bytes 4 (length (Payload m))"
    and "drop 120 (wire_message m) = Payload m"
proof -
  have "length (pad_string (MessageType m)) = 32" "length (MessageID m) = 16"
    using assms by (simp_all add: serializable_def wf_msg_def pad_string_def)
  note l = this
  show "field (wire_message m) 0 4 = be_bytes 4 116"
    "field (wire_message m) 4 32 = pad_string (MessageType m)"
    "field (wire_message m) 36 4 = be_bytes 4 (unat (SchemaVersion m))"
    "field (wire_message m) 40 8 = be_bytes 8 (unat (CreatedDate m))"
    "field (wire_message m) 48 8 = be_bytes 8 (nat (take_bit 64 (SequenceNumber m)))"
    "field (wire_message m) 56 8 = be_bytes 8 (unat (Flags m))"
    "field (wire_message m) 64 16 = drop 8 (MessageID m) @ take 8 (MessageID m)"
    "field (wire_message m) 80 32 = sha256 (Payload m)"
    "field (wire_message m) 112 4 = be_bytes 4 (unat (PayloadType m))"
    "field (wire_message m) 116 4 = be_bytes 4 (length (Payload m))"
    "drop 120 (wire_message m) = Payload m"
    by (simp_all add: wire_message_def wire_header_def field_def l)
qed

text \<open>What the reader makes of a buffer that holds these fields, whatever the header
  length field says.\<close>

lemma Deserialize_fields:
  assumes U: "uuid_pkg_ok U" and wf: "wf_msg m" and ser: "serializable m"
    and ws: "wire_string (MessageType m)" and h: "uint (h :: uint32) \<le> MaxInt32"
    and b: "b = be_bytes 4 (unat h) @ drop 4 (wire_message m)"
  shows "DeserializeClientMessage U b =
    rbind (go_slice b (uint h + 4) (len b)) (\<lambda>p.
      Ok (m\<lparr>HeaderLength := h, PayloadDigest := sha256 (Payload m),
            PayloadLength := word_of_nat (length (Payload m)), Payload := p\<rparr>))"
proof -
  define pl :: uint32 where "pl = word_of_nat (length (Payload m))"
  have n: "length (Payload m) < 2 ^ 31" using ser by (auto simp: serializable_def len_def)
  have pl: "unat pl = length (Payload m)" "uint pl = int (length (Payload m))"
    using n by (simp_all add: pl_def unat_of_nat uint_nat)
  have lb: "len b = 120 + int (length (Payload m))"
    using length_wire_message [OF wf ser] by (simp add: b len_def)
  have big: "len b < 2 ^ 63" using lb n by simp
  have f: "4 \<le> i \<Longrightarrow> field b i k = field (wire_message m) i k" for i k
    by (simp add: b field_def)
  note flds = wire_message_fields [OF wf ser]
  have "GetString b 4 32 = Ok (MessageType m)"
    using ws big lb by (intro mtype.get_enc) (simp_all add: f flds)
  moreover have "GetUInteger b 36 = Ok (SchemaVersion m)" "GetUInteger b 112 = Ok (PayloadType m)"
    using ser big lb by (auto intro!: uinteger.get_enc simp: f flds serializable_def)
  moreover have "GetULong b 40 = Ok (CreatedDate m)" "GetULong b 56 = Ok (Flags m)"
    using ser big lb by (auto intro!: ulong.get_enc simp: f flds serializable_def)
  moreover have "GetLong b 48 = Ok (SequenceNumber m)"
    using wf big lb by (intro long.get_enc) (simp_all add: f flds wf_msg_def)
  moreover have "GetUUID U b 64 = Ok (MessageID m)"
    using ser wf big lb by (intro field_codec.get_enc [OF UUID_field [OF U]])
      (simp_all add: f flds serializable_def wf_msg_def)
  moreover have "GetBytes b 80 32 = Ok (sha256 (Payload m))"
    using digest.get_enc [of "sha256 (Payload m)" 80 b] big lb by (simp add: f flds)
  moreover have "GetUInteger b 116 = Ok pl"
    using n big lb by (intro uinteger.get_enc) (simp_all add: f flds pl)
  moreover have "GetUInteger b 0 = Ok h"
    using h big lb by (intro uinteger.get_enc) (simp_all add: b field_def)
  moreover have "uint (h + word_of_int ClientMessagePayloadLengthLength) = uint h + 4"
    using h by (simp add: wire_lengths uint_plus_if')
  ultimately show ?thesis
    by (cases m, simp add: DeserializeClientMessage_def wire_simps wire_lengths pl_def)
qed

lemma Serialize_settled:
  assumes "uuid_pkg_ok U" "wf_msg m"
  shows "settled (SerializeClientMessage U m)"
proof (cases "SafeUint32 (Predeclared K_int) (len (Payload m))")
  case (Ok pl)
  define n where "n = unat (word_of_int ClientMessagePayloadLengthOffset
    + word_of_int ClientMessagePayloadLengthLength + pl :: uint32)"
  have "n < 2 ^ 62" unfolding n_def by (rule unat_uint32_small)
  then have "safe_put n (SerializeClientMessage U m)"
    unfolding SerializeClientMessage_def Ok wrap_err_res rbind_res Let_def n_def [symmetric]
    using assms by (intro safe_put_rbind) (simp_all add: safe_puts wf_msg_def)
  then show ?thesis by (simp add: safe_put_def)
qed (simp_all add: SerializeClientMessage_def SafeUint32_def split: if_splits)

text \<open>
  C9. What \<^verbatim>\<open>SerializeClientMessage\<close> accepts and what it writes.  It succeeds
  exactly when the message type fits its 32 bytes, the unsigned fields fit the signed
  types they are written with, the message id is not nil and the payload is neither empty
  nor longer than the largest \<^verbatim>\<open>int32\<close>; the bytes are then the documented layout
  with the digest and the length of the payload computed.  Every other message gives an
  error, and no message makes it panic.
\<close>

theorem SerializeClientMessage_spec:
  assumes "uuid_pkg_ok U" "wf_msg m"
  shows "case SerializeClientMessage U m of
      Ok b \<Rightarrow> serializable m \<and> b = wire_message m
    | Err e \<Rightarrow> \<not> serializable m
    | _ \<Rightarrow> False"
  using assms Serialize_OkD [OF assms(2)] SerializeClientMessage_layout [OF assms]
    Serialize_settled [OF assms]
  by (cases "SerializeClientMessage U m") auto

text \<open>A concrete \<^verbatim>\<open>uuid\<close> package and a concrete message, for evaluation.\<close>

definition uuid_plain :: uuid_pkg where
  "uuid_plain = \<lparr>FromBytes = (\<lambda>b. if length b = 16 then Ok b else Err (External 0)),
                 MarshalBinary = Ok\<rparr>"

definition example_msg :: ClientMessage where
  "example_msg = \<lparr>HeaderLength = 0, MessageType = InputStreamMessage, SchemaVersion = 1,
     CreatedDate = 1503434274948, SequenceNumber = 3, Flags = 0,
     MessageID = [1, 2, 3, 4, 5, 6, 7, 8, 9, 10, 11, 12, 13, 14, 15, 16], PayloadDigest = [],
     PayloadType = Output, PayloadLength = 0, Payload = [108, 115]\<rparr>"

lemma uuid_plain_ok: "uuid_pkg_ok uuid_plain"
  by (simp add: uuid_pkg_ok_def uuid_plain_def)

lemma example_msg_ok:
  "wf_msg example_msg" "serializable example_msg" "wire_string (MessageType example_msg)"
  by (simp_all add: example_msg_def wf_msg_def serializable_def is_i64_def len_def message_types
      payload_types wire_string_def graphic_def byte_of_char_def)

theorem SerializeClientMessage_spec_witness:
  "uuid_pkg_ok uuid_plain \<and> wf_msg example_msg \<and>
   SerializeClientMessage uuid_plain example_msg = Ok (wire_message example_msg)"
  using uuid_plain_ok example_msg_ok SerializeClientMessage_spec [OF uuid_plain_ok example_msg_ok(1)]
  by (auto split: res.splits)

lemma Deserialize_wire:
  assumes "uuid_pkg_ok U" "wf_msg m" "serializable m" "wire_string (MessageType m)"
  shows "DeserializeClientMessage U (wire_message m) =
    Ok (m\<lparr>HeaderLength := 116, PayloadDigest := sha256 (Payload m),
          PayloadLength := word_of_nat (length (Payload m))\<rparr>)"
proof -
  let ?b = "wire_message m"
  have b: "?b = be_bytes 4 (unat (116 :: uint32)) @ drop 4 ?b"
    using wire_message_fields(1) [OF assms(2,3)] append_take_drop_id [of 4 ?b]
    by (simp add: field_def)
  have "go_slice ?b 120 (len ?b) = Ok (Payload m)"
    using wire_message_fields(11) [OF assms(2,3)] length_wire_message [OF assms(2,3)]
    by (simp add: go_slice_def len_def)
  then show ?thesis using Deserialize_fields [OF assms _ b] by simp
qed

text \<open>
  C8. Round trip of the wire format: deserializing what was serialized gives the message
  back, with the header length, the digest and the payload length that serialization
  computed.  The message type must not begin or end with a byte that the reader trims.
\<close>

theorem Deserialize_Serialize:
  assumes "uuid_pkg_ok U" "wf_msg m" "serializable m" "wire_string (MessageType m)"
  shows "rbind (SerializeClientMessage U m) (DeserializeClientMessage U) =
    Ok (m\<lparr>HeaderLength := 116, PayloadDigest := sha256 (Payload m),
          PayloadLength := word_of_nat (length (Payload m))\<rparr>)"
  using SerializeClientMessage_layout [OF assms(1-3)] Deserialize_wire [OF assms] by simp

theorem Deserialize_Serialize_witness:
  "uuid_pkg_ok uuid_plain \<and> serializable example_msg \<and>
   rbind (SerializeClientMessage uuid_plain example_msg) (DeserializeClientMessage uuid_plain) =
   Ok (example_msg\<lparr>HeaderLength := 116, PayloadDigest := sha256 [108, 115], PayloadLength := 2\<rparr>)"
  using Deserialize_Serialize [OF uuid_plain_ok example_msg_ok] uuid_plain_ok example_msg_ok
  by (simp add: example_msg_def)

lemma payload_length_nonzero:
  assumes "serializable m"
  shows "word_of_nat (length (Payload m)) \<noteq> (0 :: uint32)"
proof -
  have "length (Payload m) < 2 ^ 31" "0 < length (Payload m)"
    using assms by (auto simp: serializable_def len_def)
  then have "unat (word_of_nat (length (Payload m)) :: uint32) = length (Payload m)"
    by (subst unat_of_nat) simp
  then show ?thesis using \<open>0 < length (Payload m)\<close> by auto
qed

text \<open>
  The reader trusts the header length field: a well-formed message of which only that
  field is changed to point behind the end of the input makes
  \<^verbatim>\<open>DeserializeClientMessage\<close> panic with a slice out of range instead of
  returning an error.
\<close>

theorem Deserialize_header_length_panics:
  assumes "uuid_pkg_ok U" "wf_msg m" "serializable m" "wire_string (MessageType m)"
    and "uint (h :: uint32) \<le> MaxInt32" "uint h + 4 > len (wire_message m)"
  shows "DeserializeClientMessage U (overwrite (wire_message m) 0 (be_bytes 4 (unat h))) = Panic"
proof -
  have b: "overwrite (wire_message m) 0 (be_bytes 4 (unat h)) = be_bytes 4 (unat h) @ drop 4 (wire_message m)"
    by (simp add: overwrite_def)
  have "len (be_bytes 4 (unat h) @ drop 4 (wire_message m)) = len (wire_message m)"
    using length_wire_message [OF assms(2,3)] by (simp add: len_def)
  then show ?thesis
    unfolding b using Deserialize_fields [OF assms(1-5) refl] assms(6)
    by (simp add: go_slice_def)
qed

theorem Deserialize_header_length_panics_witness:
  "DeserializeClientMessage uuid_plain (overwrite (wire_message example_msg) 0 (be_bytes 4 200)) = Panic"
proof -
  have "len (wire_message example_msg) = 122"
    using length_wire_message [OF example_msg_ok(1,2)] by (simp add: len_def example_msg_def)
  then show ?thesis
    using Deserialize_header_length_panics [OF uuid_plain_ok example_msg_ok, of 200] by simp
qed

text \<open>
  C17. \<^verbatim>\<open>Validate\<close> accepts every message that went through the wire with a
  creation date and a type, and after any change of the payload that keeps the
  header it accepts only a payload with the same SHA-256 digest.
\<close>

theorem Validate_wire:
  assumes "uuid_pkg_ok U" "wf_msg m" "serializable m" "wire_string (MessageType m)"
    and "MessageType m \<noteq> []" "CreatedDate m \<noteq> 0"
    and r: "rbind (SerializeClientMessage U m) (DeserializeClientMessage U) = Ok r"
  shows "Validate r = Ok () \<and>
    (Validate (r\<lparr>Payload := p\<rparr>) = Ok () \<longleftrightarrow>
      MessageType m \<in> {StartPublicationMessage, PausePublicationMessage} \<or>
      sha256 p = sha256 (Payload m))"
proof -
  have "r = m\<lparr>HeaderLength := 116, PayloadDigest := sha256 (Payload m),
      PayloadLength := word_of_nat (length (Payload m))\<rparr>"
    using Deserialize_wire [OF assms(1-4)] r SerializeClientMessage_layout [OF assms(1-3)] by simp
  then show ?thesis
    using assms(5,6) payload_length_nonzero [OF assms(3)] by (auto simp: Validate_def)
qed

text \<open>
  C16. \<^verbatim>\<open>DeserializeClientMessage\<close> on any input: an input shorter than the fixed
  header is an error, never a panic; the only panic is the one of a header length that
  points behind the end; and a message that is returned has as its payload the rest of
  the input from where the header length points to.
\<close>

theorem DeserializeClientMessage_total:
  assumes U: "uuid_pkg_ok U" and small: "len input < 2 ^ 62"
  shows "(len input < 120 \<longrightarrow> (\<exists>e. DeserializeClientMessage U input = Err e)) \<and>
    (DeserializeClientMessage U input = Panic \<longrightarrow>
      (\<exists>hl. GetUInteger input 0 = Ok hl \<and> uint hl + 4 > len input)) \<and>
    (\<forall>m. DeserializeClientMessage U input = Ok m \<longrightarrow>
      uint (HeaderLength m) + 4 \<le> len input \<and>
      Payload m = drop (unat (HeaderLength m) + 4) input)"
proof -
  let ?D = "DeserializeClientMessage U input"
  have off: "uint (hl + word_of_int ClientMessagePayloadLengthLength) = uint hl + 4"
    "unat (hl + word_of_int ClientMessagePayloadLengthLength) = unat hl + 4"
    if "GetUInteger input i = Ok hl" for hl i
  proof -
    show "uint (hl + word_of_int ClientMessagePayloadLengthLength) = uint hl + 4"
      using GetUInteger_range [OF that] by (simp add: wire_lengths uint_plus_if')
    then show "unat (hl + word_of_int ClientMessagePayloadLengthLength) = unat hl + 4"
      by (metis nat_uint_eq nat_add_distrib uint_ge_0 zero_le_numeral nat_numeral)
  qed
  have ok: "120 \<le> len input \<and> uint (HeaderLength m) + 4 \<le> len input \<and>
      Payload m = drop (unat (HeaderLength m) + 4) input" if "?D = Ok m" for m
    using that off unfolding DeserializeClientMessage_def
    by (auto simp: rbind_Ok_iff wire_simps go_slice_tail dest: GetUInteger_OkD split: if_splits)
  have noblock: "?D \<noteq> Blocked"
    unfolding DeserializeClientMessage_def wire_simps wire_lengths(2,8)
    using U small
    by (intro rbind_no_block) (auto simp: get_settled settled_no_block wire_lengths go_slice_tail)
  have panic: "120 \<le> len input \<and> (\<exists>hl. GetUInteger input 0 = Ok hl \<and> uint hl + 4 > len input)"
    if p: "?D = Panic"
  proof (rule ccontr)
    assume n: "\<not> ?thesis"
    have "settled ?D"
      unfolding DeserializeClientMessage_def wire_simps wire_lengths(2,8)
      using U small n off
      by (intro rbind_settled)
        (auto simp: get_settled wire_lengths go_slice_tail not_less dest: GetUInteger_OkD)
    with p show False by simp
  qed
  show ?thesis using ok panic noblock by (cases ?D) force+
qed

theorem DeserializeClientMessage_total_witness:
  "\<exists>e. DeserializeClientMessage uuid_plain [1, 2, 3] = Err e"
  using DeserializeClientMessage_total [OF uuid_plain_ok, of "[1, 2, 3]"] by (simp add: len_def)

theorem Validate_wire_witness:
  "\<exists>r. rbind (SerializeClientMessage uuid_plain example_msg) (DeserializeClientMessage uuid_plain) = Ok r \<and>
     Validate r = Ok ()"
proof -
  have "rbind (SerializeClientMessage uuid_plain example_msg) (DeserializeClientMessage uuid_plain) =
      Ok (example_msg\<lparr>HeaderLength := 116, PayloadDigest := sha256 (Payload example_msg),
        PayloadLength := word_of_nat (length (Payload example_msg))\<rparr>)"
    using SerializeClientMessage_layout [OF uuid_plain_ok example_msg_ok(1,2)]
      Deserialize_wire [OF uuid_plain_ok example_msg_ok] by simp
  moreover have "MessageType example_msg \<noteq> []" "CreatedDate example_msg \<noteq> 0"
    by (simp_all add: example_msg_def message_types)
  ultimately show ?thesis using Validate_wire [OF uuid_plain_ok example_msg_ok] by blast
qed

end
