(* ===== verification/Handshake.thy ===== *)
theory Handshake
  imports Message
begin

text \<open>
  \<^verbatim>\<open>src/message/handshakemessage.go\<close>, \<^verbatim>\<open>messageparser.go\<close> and the payload
  parsers of \<^verbatim>\<open>clientmessage.go\<close>: the JSON payloads of the protocol.

  JSON text is produced and read by \<^verbatim>\<open>encoding/json\<close>; the record \<open>json_pkg\<close>
  holds one function for each type that the sources marshal or unmarshal, so that every
  theorem holds for whatever these functions do.  The type variable \<open>'p\<close> is the type
  of decoded session properties (\<^verbatim>\<open>any\<close> in Go).  Error texts inside a payload are
  represented by the error value they print.
\<close>

definition KMSEncryption :: string where "KMSEncryption = ''KMSEncryption''"
definition SessionType :: string where "SessionType = ''SessionType''"

definition Success :: int where "Success = 1"
definition Failed :: int where "Failed = 2"
definition Unsupported :: int where "Unsupported = 3"

record KMSEncryptionRequest =
  KMSKeyID :: string

record KMSEncryptionResponse =
  KMSCipherTextKey :: bytes
  KMSCipherTextHash :: bytes

record 'p SessionTypeRequest =
  str_SessionType :: string
  str_Properties :: 'p

record RequestedClientAction =
  ActionType :: string
  ActionParameters :: bytes

record HandshakeRequestPayload =
  AgentVersion :: string
  RequestedClientActions :: "RequestedClientAction list"

datatype action_result = NoResult | KMSResult KMSEncryptionResponse | StatusResult int

record ProcessedClientAction =
  pca_ActionType :: string
  pca_ActionStatus :: int
  pca_ActionResult :: action_result
  pca_Error :: "go_error option"

record HandshakeResponsePayload =
  hrp_ClientVersion :: string
  hrp_ProcessedClientActions :: "ProcessedClientAction list"
  hrp_Errors :: "go_error list"

record EncryptionChallengeRequest =
  creq_Challenge :: bytes

record EncryptionChallengeResponse =
  cresp_Challenge :: bytes

record HandshakeCompletePayload =
  HandshakeTimeToComplete :: duration
  CustomerMessage :: string

text \<open>\<^verbatim>\<open>src/service/service.go\<close>.\<close>

record OpenDataChannelInput =
  odc_MessageSchemaVersion :: string
  odc_RequestID :: string
  odc_TokenValue :: string
  odc_ClientID :: string
  odc_ClientVersion :: string

record 'p json_pkg =
  marshal_AcknowledgeContent :: "AcknowledgeContent \<Rightarrow> bytes res"
  unmarshal_AcknowledgeContent :: "bytes \<Rightarrow> AcknowledgeContent res"
  unmarshal_ChannelClosed :: "bytes \<Rightarrow> ChannelClosed res"
  unmarshal_HandshakeRequestPayload :: "bytes \<Rightarrow> HandshakeRequestPayload res"
  unmarshal_HandshakeCompletePayload :: "bytes \<Rightarrow> HandshakeCompletePayload res"
  unmarshal_KMSEncryptionRequest :: "bytes \<Rightarrow> KMSEncryptionRequest res"
  unmarshal_SessionTypeRequest :: "bytes \<Rightarrow> 'p SessionTypeRequest res"
  marshal_HandshakeResponsePayload :: "HandshakeResponsePayload \<Rightarrow> bytes res"
  unmarshal_EncryptionChallengeRequest :: "bytes \<Rightarrow> EncryptionChallengeRequest res"
  marshal_EncryptionChallengeResponse :: "EncryptionChallengeResponse \<Rightarrow> bytes res"
  marshal_OpenDataChannelInput :: "OpenDataChannelInput \<Rightarrow> bytes res"

definition DeserializeDataStreamAcknowledgeContent ::
    "'p json_pkg \<Rightarrow> ClientMessage \<Rightarrow> AcknowledgeContent res" where
  "DeserializeDataStreamAcknowledgeContent J m =
     (if MessageType m \<noteq> AcknowledgeMessage then Err ErrInvalid
      else wrap_err ''unmarshaling AcknowledgeContent''
             (unmarshal_AcknowledgeContent J (Payload m)))"

definition DeserializeChannelClosedMessage ::
    "'p json_pkg \<Rightarrow> ClientMessage \<Rightarrow> ChannelClosed res" where
  "DeserializeChannelClosedMessage J m =
     (if MessageType m \<noteq> ChannelClosedMessage then Err ErrInvalid
      else wrap_err ''unmarshaling ChannelClosed'' (unmarshal_ChannelClosed J (Payload m)))"

definition DeserializeHandshakeRequest ::
    "'p json_pkg \<Rightarrow> ClientMessage \<Rightarrow> HandshakeRequestPayload res" where
  "DeserializeHandshakeRequest J m =
     (if PayloadType m \<noteq> HandshakeRequestPayloadType then Err ErrInvalid
      else wrap_err ''unmarshaling HandshakeRequestPayload''
             (unmarshal_HandshakeRequestPayload J (Payload m)))"

definition DeserializeHandshakeComplete ::
    "'p json_pkg \<Rightarrow> ClientMessage \<Rightarrow> HandshakeCompletePayload res" where
  "DeserializeHandshakeComplete J m =
     (if PayloadType m \<noteq> HandshakeCompletePayloadType then Err ErrInvalid
      else wrap_err ''unmarshaling HandshakeCompletePayload''
             (unmarshal_HandshakeCompletePayload J (Payload m)))"

text \<open>\<^verbatim>\<open>SerializeClientMessageWithAcknowledgeContent\<close>; the fresh message id and the
  current time in milliseconds are arguments.\<close>

definition acknowledge_message :: "uuid \<Rightarrow> int64 \<Rightarrow> bytes \<Rightarrow> ClientMessage" where
  "acknowledge_message messageID nowMilli acknowledgeContentBytes =
     \<lparr>HeaderLength = 0, MessageType = AcknowledgeMessage, SchemaVersion = 1,
      CreatedDate = word_of_int nowMilli, SequenceNumber = 0, Flags = 3,
      MessageID = messageID, PayloadDigest = [], PayloadType = 0, PayloadLength = 0,
      Payload = acknowledgeContentBytes\<rparr>"

definition SerializeClientMessageWithAcknowledgeContent ::
    "uuid_pkg \<Rightarrow> 'p json_pkg \<Rightarrow> uuid \<Rightarrow> int64 \<Rightarrow> AcknowledgeContent \<Rightarrow> bytes res" where
  "SerializeClientMessageWithAcknowledgeContent U J messageID nowMilli acknowledgeContent =
     rbind (wrap_err ''serializing acknowledge content payload''
       (wrap_err ''marshaling message'' (marshal_AcknowledgeContent J acknowledgeContent)))
       (\<lambda>acknowledgeContentBytes.
     wrap_err ''serializing acknowledge content''
       (SerializeClientMessage U (acknowledge_message messageID nowMilli acknowledgeContentBytes)))"

lemma acknowledge_message_ok:
  assumes id: "length messageID = 16" "messageID \<noteq> uuid_Nil"
    and now: "0 < nowMilli" "is_i64 nowMilli"
    and payload: "payload \<noteq> []" "len payload \<le> MaxInt32"
  shows "wf_msg (acknowledge_message messageID nowMilli payload)"
    "serializable (acknowledge_message messageID nowMilli payload)"
    "wire_string (MessageType (acknowledge_message messageID nowMilli payload))"
    "uint (word_of_int nowMilli :: uint64) = nowMilli"
proof -
  show cd: "uint (word_of_int nowMilli :: uint64) = nowMilli"
    using now by (simp add: is_i64_def uint_word_of_int take_bit_int_eq_self)
  show "wf_msg (acknowledge_message messageID nowMilli payload)"
    using id payload by (simp add: wf_msg_def acknowledge_message_def is_i64_def len_def)
  show "serializable (acknowledge_message messageID nowMilli payload)"
    using id payload now cd
    by (simp add: serializable_def acknowledge_message_def message_types is_i64_def)
  show "wire_string (MessageType (acknowledge_message messageID nowMilli payload))"
    by (simp add: acknowledge_message_def message_types wire_string_def graphic_def byte_of_char_def)
qed

lemma acknowledge_serializes:
  assumes "uuid_pkg_ok U" "length messageID = 16" "messageID \<noteq> uuid_Nil" "0 < nowMilli" "is_i64 nowMilli"
    and "marshal_AcknowledgeContent J content = Ok payload" "payload \<noteq> []" "len payload \<le> MaxInt32"
  shows "SerializeClientMessageWithAcknowledgeContent U J messageID nowMilli content =
    Ok (wire_message (acknowledge_message messageID nowMilli payload))"
  using SerializeClientMessage_layout [OF assms(1) acknowledge_message_ok(1,2) [OF assms(2-5,7,8)]] assms(6)
  by (simp add: SerializeClientMessageWithAcknowledgeContent_def)

text \<open>
  C15. An acknowledgement can be read by its receiver: what
  \<^verbatim>\<open>SerializeClientMessageWithAcknowledgeContent\<close> produces deserializes to a valid
  message of type acknowledge, from which the same content is parsed.  Hypotheses: the
  time is a positive \<^verbatim>\<open>int64\<close>, the fresh id is a non-nil id, and
  \<^verbatim>\<open>encoding/json\<close> reads back this content.
\<close>

theorem acknowledge_roundtrip:
  assumes U: "uuid_pkg_ok U"
    and id: "length messageID = 16" "messageID \<noteq> uuid_Nil"
    and now: "0 < nowMilli" "is_i64 nowMilli"
    and json: "marshal_AcknowledgeContent J content = Ok payload"
      "unmarshal_AcknowledgeContent J payload = Ok content"
      "payload \<noteq> []" "len payload \<le> MaxInt32"
  shows "\<exists>raw m. SerializeClientMessageWithAcknowledgeContent U J messageID nowMilli content = Ok raw \<and>
    DeserializeClientMessage U raw = Ok m \<and> Validate m = Ok () \<and>
    MessageType m = AcknowledgeMessage \<and> MessageID m = messageID \<and>
    DeserializeDataStreamAcknowledgeContent J m = Ok content"
proof -
  let ?m = "acknowledge_message messageID nowMilli payload"
  note ok = acknowledge_message_ok [OF id now json(3,4)]
  let ?r = "?m\<lparr>HeaderLength := 116, PayloadDigest := sha256 payload,
      PayloadLength := word_of_nat (length payload)\<rparr>"
  have "SerializeClientMessageWithAcknowledgeContent U J messageID nowMilli content = Ok (wire_message ?m)"
    by (rule acknowledge_serializes [OF U id now json(1,3,4)])
  moreover have d: "DeserializeClientMessage U (wire_message ?m) = Ok ?r"
    using Deserialize_wire [OF U ok(1-3)] by (simp add: acknowledge_message_def)
  moreover have "Validate ?r = Ok ()"
  proof -
    have "(word_of_int nowMilli :: uint64) \<noteq> 0" using ok(4) now by auto
    then show ?thesis by (simp add: Validate_def acknowledge_message_def message_types)
  qed
  moreover have "MessageType ?r = AcknowledgeMessage" "MessageID ?r = messageID"
    "DeserializeDataStreamAcknowledgeContent J ?r = Ok content"
    using json by (simp_all add: acknowledge_message_def DeserializeDataStreamAcknowledgeContent_def)
  ultimately show ?thesis by blast
qed

text \<open>A JSON package for evaluation: acknowledgements print their sequence number as eight
  bytes; everything else is an error.\<close>

definition json_toy :: "unit json_pkg" where
  "json_toy =
    \<lparr>marshal_AcknowledgeContent = (\<lambda>a. Ok (be_bytes 8 (nat (ack_SequenceNumber a)))),
     unmarshal_AcknowledgeContent = (\<lambda>b. Ok \<lparr>ack_MessageType = OutputStreamMessage,
       ack_MessageID = [], ack_SequenceNumber = int (be_nat b), ack_IsSequentialMessage = True\<rparr>),
     unmarshal_ChannelClosed = (\<lambda>b. Err (External 1)),
     unmarshal_HandshakeRequestPayload = (\<lambda>b. Err (External 1)),
     unmarshal_HandshakeCompletePayload = (\<lambda>b. Err (External 1)),
     unmarshal_KMSEncryptionRequest = (\<lambda>b. Err (External 1)),
     unmarshal_SessionTypeRequest = (\<lambda>b. Err (External 1)),
     marshal_HandshakeResponsePayload = (\<lambda>r. Ok [123]),
     unmarshal_EncryptionChallengeRequest = (\<lambda>b. Ok \<lparr>creq_Challenge = b\<rparr>),
     marshal_EncryptionChallengeResponse = (\<lambda>r. Ok (cresp_Challenge r)),
     marshal_OpenDataChannelInput = (\<lambda>i. Ok [123])\<rparr>"

definition example_ack :: AcknowledgeContent where
  "example_ack = \<lparr>ack_MessageType = OutputStreamMessage, ack_MessageID = [],
     ack_SequenceNumber = 7, ack_IsSequentialMessage = True\<rparr>"

theorem acknowledge_roundtrip_witness:
  "\<exists>raw m. SerializeClientMessageWithAcknowledgeContent uuid_plain json_toy
       [1, 2, 3, 4, 5, 6, 7, 8, 9, 10, 11, 12, 13, 14, 15, 16] 1503434274948 example_ack = Ok raw \<and>
    DeserializeClientMessage uuid_plain raw = Ok m \<and>
    DeserializeDataStreamAcknowledgeContent json_toy m = Ok example_ack"
proof -
  have b: "be_bytes 8 7 = [0, 0, 0, 0, 0, 0, 0, 7]" by (simp add: be_bytes_numeral)
  let ?id = "[1, 2, 3, 4, 5, 6, 7, 8, 9, 10, 11, 12, 13, 14, 15, 16] :: uuid"
  let ?p = "[0, 0, 0, 0, 0, 0, 0, 7] :: bytes"
  have m: "marshal_AcknowledgeContent json_toy example_ack = Ok ?p"
    by (simp add: json_toy_def example_ack_def b)
  have u: "unmarshal_AcknowledgeContent json_toy ?p = Ok example_ack"
    by (simp add: json_toy_def example_ack_def be_nat_def)
  have i: "length ?id = 16" "?id \<noteq> uuid_Nil" by simp_all
  have t: "(0::int) < 1503434274948" "is_i64 1503434274948" by (simp_all add: is_i64_def)
  have p: "?p \<noteq> []" "len ?p \<le> MaxInt32" by (simp_all add: len_def)
  show ?thesis using acknowledge_roundtrip [OF uuid_plain_ok i t m u p] by blast
qed

end
