(* ===== verification/Buffers.thy ===== *)
theory Buffers
  imports Prelude "HOL-Library.AList"
begin

text \<open>
  \<^verbatim>\<open>src/datachannel/listmessagebuffer.go\<close>, \<^verbatim>\<open>mapmessagebuffer.go\<close> and
  \<^verbatim>\<open>streaming.go\<close>: the buffer of sent messages that wait for an acknowledgement, the
  buffer of received messages that wait for their predecessors, and the entries both hold.

  A linked list is the list of its values, a Go map an association list with distinct keys
  whose order is not observable.  Each operation takes the buffer's mutex for its whole body,
  so an operation is one atomic step.  Two locales state what the buffers promise to the
  data channel; the sections below interpret them on the code's buffers.
\<close>

type_synonym go_time = int

record StreamingMessage =
  sm_Content :: bytes
  sm_SequenceNumber :: int64
  sm_LastSentTime :: go_time
  sm_ResendAttempt :: int

text \<open>\<^verbatim>\<open>time.Since\<close>: instants are nanoseconds on the monotonic clock; a difference that
  a \<^verbatim>\<open>Duration\<close> cannot hold saturates.\<close>

definition time_Sub :: "go_time \<Rightarrow> go_time \<Rightarrow> duration" where
  "time_Sub t u = max (- (2 ^ 63)) (min MaxInt64 (t - u))"

definition GetRoundTripTime :: "StreamingMessage \<Rightarrow> go_time \<Rightarrow> duration" where
  "GetRoundTripTime m now = time_Sub now (sm_LastSentTime m)"

lemma is_i64_time_Sub [simp]: "is_i64 (time_Sub t u)"
  by (simp add: is_i64_def time_Sub_def)

lemma find_first: "\<forall>x\<in>set xs. \<not> P x \<Longrightarrow> P y \<Longrightarrow> List.find P (xs @ y # ys) = Some y"
  by (induction xs) auto

section \<open>Contracts\<close>

text \<open>A queue that drops its oldest entry when it is full, and from whose inside an entry can
  be removed.  \<open>items\<close> is what it holds, oldest first.\<close>

locale evicting_queue =
  fixes items :: "'q \<Rightarrow> 'a list"
    and cap :: "'q \<Rightarrow> int"
    and peek :: "'q \<Rightarrow> 'a option"
    and push :: "'q \<Rightarrow> 'a \<Rightarrow> 'q res"
    and pull :: "'q \<Rightarrow> ('a \<Rightarrow> bool) \<Rightarrow> 'a option \<times> 'q"
  assumes peek_items: "peek q = (case items q of [] \<Rightarrow> None | x # xs \<Rightarrow> Some x)"
    and push_items: "0 < cap q \<Longrightarrow> len (items q) \<le> cap q \<Longrightarrow> \<exists>q'. push q x = Ok q' \<and> cap q' = cap q \<and>
          items q' = (if len (items q) = cap q then tl (items q) else items q) @ [x]"
    and pull_items: "items (snd (pull q P)) =
          takeWhile (\<lambda>x. \<not> P x) (items q) @ tl (dropWhile (\<lambda>x. \<not> P x) (items q))"
    and pull_result: "fst (pull q P) = List.find P (items q)"
    and pull_cap: "cap (snd (pull q P)) = cap q"
begin

definition ok :: "'q \<Rightarrow> bool" where
  "ok q \<longleftrightarrow> 0 < cap q \<and> len (items q) \<le> cap q"

lemma push_ok:
  assumes "ok q"
  shows "\<exists>q'. push q x = Ok q' \<and> ok q' \<and> cap q' = cap q \<and> items q' \<noteq> [] \<and> last (items q') = x \<and>
    set (items q') \<subseteq> insert x (set (items q))"
proof -
  from assms have c: "0 < cap q" "len (items q) \<le> cap q" by (auto simp: ok_def)
  then obtain q' where q': "push q x = Ok q'" "cap q' = cap q"
    "items q' = (if len (items q) = cap q then tl (items q) else items q) @ [x]"
    using push_items by blast
  have "len (items q') \<le> cap q"
    using c q'(3) by (cases "items q") (auto simp: len_def)
  then show ?thesis
    using q' c by (cases "items q") (auto simp: ok_def)
qed

lemma pull_split:
  "items q = xs @ y # ys \<Longrightarrow> (\<forall>x\<in>set xs. \<not> P x) \<Longrightarrow> P y \<Longrightarrow>
    fst (pull q P) = Some y \<and> items (snd (pull q P)) = xs @ ys"
  by (simp add: pull_items pull_result find_first)

lemma pull_none:
  "\<forall>x\<in>set (items q). \<not> P x \<Longrightarrow> fst (pull q P) = None \<and> items (snd (pull q P)) = items q"
  by (auto simp: pull_items pull_result find_None_iff takeWhile_eq_all_conv [THEN iffD2]
        dropWhile_eq_Nil_conv [THEN iffD2])

lemma pull_cases:
  obtains (found) xs y ys where "items q = xs @ y # ys" "\<forall>x\<in>set xs. \<not> P x" "P y"
  | (absent) "\<forall>x\<in>set (items q). \<not> P x"
  using split_list_first_prop [of "items q" P] by blast

lemma pull_ok:
  assumes "ok q"
  shows "ok (snd (pull q P))"
proof (cases rule: pull_cases [of q P])
  case (found xs y ys)
  with pull_split [OF found] assms show ?thesis by (simp add: ok_def len_def pull_cap)
next
  case absent
  with pull_none [of q P] assms show ?thesis by (simp add: ok_def pull_cap)
qed

lemma pull_subset: "set (items (snd (pull q P))) \<subseteq> set (items q)"
proof (cases rule: pull_cases [of q P])
  case (found xs y ys)
  with pull_split [OF found] show ?thesis by auto
next
  case absent
  with pull_none [of q P] show ?thesis by simp
qed

text \<open>Entries that are pushed in increasing order stay in increasing order.\<close>

lemma push_sorted:
  assumes "0 < cap q" "len (items q) \<le> cap q" "sorted_wrt (<) (map key (items q))"
    and "\<forall>y\<in>set (items q). key y < (key x :: 'k :: linorder)" and "push q x = Ok q'"
  shows "sorted_wrt (<) (map key (items q'))"
proof -
  obtain r where r: "push q x = Ok r"
    "items r = (if len (items q) = cap q then tl (items q) else items q) @ [x]"
    using push_items [OF assms(1,2)] by blast
  moreover have "sorted_wrt (<) (map key (tl (items q)))" "set (tl (items q)) \<subseteq> set (items q)"
    using assms(3) by (cases "items q"; auto)+
  ultimately show ?thesis
    using assms(3-5) by (auto simp: sorted_wrt_append)
qed

lemma pull_sorted:
  assumes "sorted_wrt (<) (map key (items q) :: 'k :: linorder list)"
  shows "sorted_wrt (<) (map key (items (snd (pull q P))))"
proof (cases rule: pull_cases [of q P])
  case (found xs y ys)
  with pull_split [OF found] assms show ?thesis by (auto simp: sorted_wrt_append)
next
  case absent
  with pull_none [of q P] assms show ?thesis by simp
qed

end

text \<open>A map of bounded size that refuses any write when it is full.\<close>

locale bounded_map =
  fixes lookup :: "'m \<Rightarrow> 'k \<Rightarrow> 'v option"
    and cap :: "'m \<Rightarrow> int"
    and sz :: "'m \<Rightarrow> int"
    and wf :: "'m \<Rightarrow> bool"
    and put :: "'m \<Rightarrow> 'k \<Rightarrow> 'v \<Rightarrow> bool \<times> 'm"
    and del :: "'m \<Rightarrow> 'k \<Rightarrow> 'v option \<times> 'm"
  assumes put_full: "sz m = cap m \<Longrightarrow> put m k v = (False, m)"
    and put_lookup: "sz m \<noteq> cap m \<Longrightarrow> fst (put m k v) \<and>
          lookup (snd (put m k v)) = (lookup m)(k \<mapsto> v)"
    and del_lookup: "wf m \<Longrightarrow> fst (del m k) = lookup m k \<and>
          lookup (snd (del m k)) = (lookup m)(k := None)"
    and put_wf: "wf m \<Longrightarrow> wf (snd (put m k v)) \<and> cap (snd (put m k v)) = cap m"
    and del_wf: "wf m \<Longrightarrow> wf (snd (del m k)) \<and> cap (snd (del m k)) = cap m"
    and size_card: "wf m \<Longrightarrow> sz m = int (card (dom (lookup m))) \<and> finite (dom (lookup m))"
    and wf_size: "wf m \<Longrightarrow> sz m \<le> cap m"
begin

lemma put_cases:
  "(fst (put m k v) \<and> lookup (snd (put m k v)) = (lookup m)(k \<mapsto> v)) \<or> put m k v = (False, m)"
  using put_full put_lookup by blast

lemma entries_put:
  assumes "\<forall>j w. lookup m j = Some w \<longrightarrow> P j w" and "P k v"
  shows "\<forall>j w. lookup (snd (put m k v)) j = Some w \<longrightarrow> P j w"
  using put_cases [of m k v] assms by (auto split: if_splits)

lemma entries_del:
  assumes "wf m" and "\<forall>j w. lookup m j = Some w \<longrightarrow> P j w"
  shows "\<forall>j w. lookup (snd (del m k)) j = Some w \<longrightarrow> P j w"
  using del_lookup [OF assms(1), of k] assms(2) by auto

lemma del_size:
  assumes "wf m"
  shows "sz (snd (del m k)) = (if lookup m k = None then sz m else sz m - 1)"
proof -
  have d: "dom (lookup (snd (del m k))) = dom (lookup m) - {k}"
    using del_lookup [OF assms, of k] by auto
  have s: "sz m = int (card (dom (lookup m)))" "finite (dom (lookup m))"
    "sz (snd (del m k)) = int (card (dom (lookup (snd (del m k)))))"
    using size_card assms del_wf [OF assms, of k] by auto
  show ?thesis
  proof (cases "lookup m k")
    case None
    then show ?thesis using d s by (simp add: domIff)
  next
    case (Some v)
    then have "card (dom (lookup m)) > 0" "k \<in> dom (lookup m)"
      using s(2) by (auto simp: card_gt_0_iff)
    then show ?thesis using Some d s by simp
  qed
qed

lemma put_after_del:
  assumes "wf m" "lookup m k = Some w"
  shows "fst (put (snd (del m k)) j v)"
  using del_size [OF assms(1), of k] assms wf_size [OF assms(1)] del_wf [OF assms(1), of k]
    put_lookup [of "snd (del m k)" j v] by simp

end

section \<open>The list buffer\<close>

record 'a ListMessageBuffer =
  lmb_messages :: "'a list"
  lmb_capacity :: int

definition NewListMessageBuffer :: "int \<Rightarrow> 'a ListMessageBuffer" where
  "NewListMessageBuffer c = \<lparr>lmb_messages = [], lmb_capacity = c\<rparr>"

definition Front :: "'a ListMessageBuffer \<Rightarrow> 'a option" where
  "Front b = (case lmb_messages b of [] \<Rightarrow> None | x # xs \<Rightarrow> Some x)"

text \<open>With an empty list and capacity 0, \<^verbatim>\<open>Front()\<close> is nil and
  \<^verbatim>\<open>list.Remove(nil)\<close> panics.\<close>

definition ForcePushBack :: "'a ListMessageBuffer \<Rightarrow> 'a \<Rightarrow> 'a ListMessageBuffer res" where
  "ForcePushBack b item =
     (if len (lmb_messages b) = lmb_capacity b then
        (case lmb_messages b of
           [] \<Rightarrow> Panic
         | x # xs \<Rightarrow> Ok (b\<lparr>lmb_messages := xs @ [item]\<rparr>))
      else Ok (b\<lparr>lmb_messages := lmb_messages b @ [item]\<rparr>))"

fun remove_first :: "('a \<Rightarrow> bool) \<Rightarrow> 'a list \<Rightarrow> 'a option \<times> 'a list" where
  "remove_first P [] = (None, [])"
| "remove_first P (x # xs) =
     (if P x then (Some x, xs) else (fst (remove_first P xs), x # snd (remove_first P xs)))"

definition RemoveIf :: "'a ListMessageBuffer \<Rightarrow> ('a \<Rightarrow> bool) \<Rightarrow> 'a option \<times> 'a ListMessageBuffer" where
  "RemoveIf b predicate =
     (let r = remove_first predicate (lmb_messages b) in (fst r, b\<lparr>lmb_messages := snd r\<rparr>))"

lemma remove_first_find: "fst (remove_first P xs) = List.find P xs"
  by (induction xs) auto

lemma remove_first_rest:
  "snd (remove_first P xs) = takeWhile (\<lambda>x. \<not> P x) xs @ tl (dropWhile (\<lambda>x. \<not> P x) xs)"
  by (induction xs) auto

interpretation lmb: evicting_queue lmb_messages lmb_capacity Front ForcePushBack RemoveIf
proof unfold_locales
  fix q :: "'a ListMessageBuffer" and x
  assume "0 < lmb_capacity q" "len (lmb_messages q) \<le> lmb_capacity q"
  then show "\<exists>q'. ForcePushBack q x = Ok q' \<and> lmb_capacity q' = lmb_capacity q \<and> lmb_messages q' =
      (if len (lmb_messages q) = lmb_capacity q then tl (lmb_messages q) else lmb_messages q) @ [x]"
    by (cases "lmb_messages q") (auto simp: ForcePushBack_def len_def)
qed (simp_all add: Front_def RemoveIf_def Let_def remove_first_find remove_first_rest)

section \<open>The map buffer\<close>

record ('k, 'v) MapMessageBuffer =
  mmb_messages :: "('k \<times> 'v) list"
  mmb_capacity :: int

definition NewMapMessageBuffer :: "int \<Rightarrow> ('k, 'v) MapMessageBuffer" where
  "NewMapMessageBuffer c = \<lparr>mmb_messages = [], mmb_capacity = c\<rparr>"

definition Get :: "('k, 'v) MapMessageBuffer \<Rightarrow> 'k \<Rightarrow> 'v option" where
  "Get b idx = map_of (mmb_messages b) idx"

definition SetUnlessFull ::
    "('k, 'v) MapMessageBuffer \<Rightarrow> 'k \<Rightarrow> 'v \<Rightarrow> bool \<times> ('k, 'v) MapMessageBuffer" where
  "SetUnlessFull b idx item =
     (if len (mmb_messages b) = mmb_capacity b then (False, b)
      else (True, b\<lparr>mmb_messages := AList.update idx item (mmb_messages b)\<rparr>))"

definition Remove ::
    "('k, 'v) MapMessageBuffer \<Rightarrow> 'k \<Rightarrow> 'v option \<times> ('k, 'v) MapMessageBuffer" where
  "Remove b idx =
     (case map_of (mmb_messages b) idx of
        Some item \<Rightarrow> (Some item, b\<lparr>mmb_messages := AList.delete idx (mmb_messages b)\<rparr>)
      | None \<Rightarrow> (None, b))"

definition IsFull :: "('k, 'v) MapMessageBuffer \<Rightarrow> bool" where
  "IsFull b \<longleftrightarrow> len (mmb_messages b) = mmb_capacity b"

definition mmb_wf :: "('k, 'v) MapMessageBuffer \<Rightarrow> bool" where
  "mmb_wf b \<longleftrightarrow> distinct (map fst (mmb_messages b)) \<and> len (mmb_messages b) \<le> mmb_capacity b"

lemma length_update_le: "length (AList.update k v al) \<le> Suc (length al)"
  by (induction al) auto

lemma length_delete_le: "length (AList.delete k al) \<le> length al"
  by (simp add: AList.delete_eq)

lemma map_of_None_delete: "map_of al k = None \<Longrightarrow> (map_of al)(k := None) = map_of al"
  by auto

interpretation mmb: bounded_map Get mmb_capacity "\<lambda>b. len (mmb_messages b)" mmb_wf SetUnlessFull Remove
proof unfold_locales
  fix m :: "('k, 'v) MapMessageBuffer" and k v
  assume "len (mmb_messages m) \<noteq> mmb_capacity m"
  then show "fst (SetUnlessFull m k v) \<and> Get (snd (SetUnlessFull m k v)) = (Get m)(k \<mapsto> v)"
    by (auto simp: SetUnlessFull_def Get_def fun_eq_iff update_conv')
next
  fix m :: "('k, 'v) MapMessageBuffer" and k
  assume "mmb_wf m"
  then show "fst (Remove m k) = Get m k \<and> Get (snd (Remove m k)) = (Get m)(k := None)"
    by (auto simp: Remove_def Get_def fun_eq_iff delete_conv' split: option.splits)
next
  fix m :: "('k, 'v) MapMessageBuffer" and k v
  assume "mmb_wf m"
  then show "mmb_wf (snd (SetUnlessFull m k v)) \<and>
      mmb_capacity (snd (SetUnlessFull m k v)) = mmb_capacity m"
    using length_update_le [of k v "mmb_messages m"]
    by (auto simp: mmb_wf_def SetUnlessFull_def len_def intro!: distinct_update)
next
  fix m :: "('k, 'v) MapMessageBuffer" and k
  assume "mmb_wf m"
  then show "mmb_wf (snd (Remove m k)) \<and> mmb_capacity (snd (Remove m k)) = mmb_capacity m"
    using length_delete_le [of k "mmb_messages m"]
    by (auto simp: mmb_wf_def Remove_def len_def intro!: distinct_delete split: option.splits)
next
  fix m :: "('k, 'v) MapMessageBuffer"
  assume w: "mmb_wf m"
  have d: "dom (Get m) = set (map fst (mmb_messages m))"
    unfolding Get_def by (simp add: dom_map_of_conv_image_fst)
  show "len (mmb_messages m) = int (card (dom (Get m))) \<and> finite (dom (Get m))"
    using w distinct_card [of "map fst (mmb_messages m)"] unfolding d by (simp add: mmb_wf_def len_def)
qed (simp_all add: SetUnlessFull_def mmb_wf_def)

lemma mmb_wf_New: "0 \<le> c \<Longrightarrow> mmb_wf (NewMapMessageBuffer c)"
  by (simp add: mmb_wf_def NewMapMessageBuffer_def len_def)

lemma lmb_ok_New: "0 < c \<Longrightarrow> lmb.ok (NewListMessageBuffer c)"
  by (simp add: lmb.ok_def NewListMessageBuffer_def len_def)

section \<open>Properties\<close>

fun push_all :: "'a ListMessageBuffer \<Rightarrow> 'a list \<Rightarrow> 'a ListMessageBuffer res" where
  "push_all b [] = Ok b"
| "push_all b (x # xs) = rbind (ForcePushBack b x) (\<lambda>b'. push_all b' xs)"

lemma push_all_contents:
  assumes "lmb.ok b"
  shows "\<exists>b'. push_all b xs = Ok b' \<and> lmb.ok b' \<and> lmb_capacity b' = lmb_capacity b \<and>
    lmb_messages b' =
      drop (nat (len (lmb_messages b @ xs) - lmb_capacity b)) (lmb_messages b @ xs)"
  using assms
proof (induction xs arbitrary: b)
  case Nil
  then show ?case by (simp add: lmb.ok_def)
next
  case (Cons x xs)
  obtain b' where b': "ForcePushBack b x = Ok b'" "lmb.ok b'" "lmb_capacity b' = lmb_capacity b"
    using lmb.push_ok [OF Cons.prems, of x] by blast
  have c: "lmb_messages b' =
      (if len (lmb_messages b) = lmb_capacity b then tl (lmb_messages b) else lmb_messages b) @ [x]"
    using b'(1) lmb.push_items [of b x] Cons.prems by (auto simp: lmb.ok_def)
  have pos: "0 < lmb_capacity b" "len (lmb_messages b) \<le> lmb_capacity b"
    using Cons.prems by (auto simp: lmb.ok_def)
  have "drop (nat (len (lmb_messages b' @ xs) - lmb_capacity b)) (lmb_messages b' @ xs) =
      drop (nat (len (lmb_messages b @ x # xs) - lmb_capacity b)) (lmb_messages b @ x # xs)"
  proof (cases "len (lmb_messages b) = lmb_capacity b")
    case True
    with pos obtain y ys where y: "lmb_messages b = y # ys" by (cases "lmb_messages b") (auto simp: len_def)
    with True have "lmb_capacity b = 1 + len ys" by (simp add: len_def)
    then show ?thesis using c y True by (simp add: len_def nat_add_distrib)
  qed (simp add: c len_def)
  with Cons.IH [OF b'(2)] b' show ?case by auto
qed

text \<open>
  The buffer of unacknowledged messages never exceeds its capacity and never fails: on a
  new buffer of positive capacity, any sequence of \<^verbatim>\<open>ForcePushBack\<close> succeeds and leaves
  exactly the newest \<open>capacity\<close> messages, in the order in which they were pushed.
\<close>

theorem ForcePushBack_keeps_newest:
  assumes "0 < c"
  shows "\<exists>b. push_all (NewListMessageBuffer c) xs = Ok b \<and> len (lmb_messages b) \<le> c \<and>
    lmb_messages b = drop (nat (len xs - c)) xs"
  using push_all_contents [OF lmb_ok_New [OF assms], of xs] assms
  by (auto simp: NewListMessageBuffer_def lmb.ok_def)

theorem ForcePushBack_keeps_newest_witness:
  "\<exists>b. push_all (NewListMessageBuffer 2) [10, 20, 30 :: int] = Ok b \<and> lmb_messages b = [20, 30]"
  using ForcePushBack_keeps_newest [of 2 "[10, 20, 30 :: int]"] by (auto simp: len_def)

text \<open>The operations of the map buffer as commands, their results, and the same machine over
  a partial function that refuses writes at \<open>c\<close> entries.\<close>

datatype ('k, 'v) buffer_op = OpGet 'k | OpSet 'k 'v | OpRemove 'k | OpIsFull
datatype 'v buffer_result = RItem "'v option" | RFlag bool

fun buffer_step :: "('k, 'v) buffer_op \<Rightarrow> ('k, 'v) MapMessageBuffer \<Rightarrow>
    'v buffer_result \<times> ('k, 'v) MapMessageBuffer" where
  "buffer_step (OpGet k) b = (RItem (Get b k), b)"
| "buffer_step (OpSet k v) b = map_prod RFlag id (SetUnlessFull b k v)"
| "buffer_step (OpRemove k) b = map_prod RItem id (Remove b k)"
| "buffer_step OpIsFull b = (RFlag (IsFull b), b)"

fun spec_step :: "int \<Rightarrow> ('k, 'v) buffer_op \<Rightarrow> ('k \<rightharpoonup> 'v) \<Rightarrow> 'v buffer_result \<times> ('k \<rightharpoonup> 'v)" where
  "spec_step c (OpGet k) m = (RItem (m k), m)"
| "spec_step c (OpSet k v) m =
     (if int (card (dom m)) < c then (RFlag True, m(k \<mapsto> v)) else (RFlag False, m))"
| "spec_step c (OpRemove k) m = (RItem (m k), m(k := None))"
| "spec_step c OpIsFull m = (RFlag (int (card (dom m)) \<ge> c), m)"

fun run :: "('o \<Rightarrow> 's \<Rightarrow> 'r \<times> 's) \<Rightarrow> 'o list \<Rightarrow> 's \<Rightarrow> 'r list \<times> 's" where
  "run f [] s = ([], s)"
| "run f (op # ops) s =
     (let (r, s') = f op s; (rs, s'') = run f ops s' in (r # rs, s''))"

lemma buffer_step_refines:
  assumes "mmb_wf b"
  shows "spec_step (mmb_capacity b) op (Get b) = map_prod id Get (buffer_step op b) \<and>
    mmb_wf (snd (buffer_step op b)) \<and> mmb_capacity (snd (buffer_step op b)) = mmb_capacity b"
proof -
  have s: "int (card (dom (Get b))) = len (mmb_messages b)" using mmb.size_card [OF assms] by simp
  have le: "len (mmb_messages b) \<le> mmb_capacity b" using mmb.wf_size [OF assms] .
  show ?thesis
  proof (cases op)
    case (OpSet k v)
    then show ?thesis
      using mmb.put_full [of b k v] mmb.put_lookup [of b k v] mmb.put_wf [OF assms, of k v] s le
      by (cases "len (mmb_messages b) = mmb_capacity b") (auto simp: prod_eq_iff)
  next
    case (OpRemove k)
    then show ?thesis using mmb.del_lookup [OF assms, of k] mmb.del_wf [OF assms, of k]
      by (auto simp: prod_eq_iff)
  qed (use s le assms in \<open>auto simp: IsFull_def\<close>)
qed

lemma run_refines:
  assumes "mmb_wf b"
  shows "run (spec_step (mmb_capacity b)) ops (Get b) = map_prod id Get (run buffer_step ops b) \<and>
    mmb_wf (snd (run buffer_step ops b))"
  using assms
proof (induction ops arbitrary: b)
  case (Cons op ops)
  let ?b = "snd (buffer_step op b)"
  have "spec_step (mmb_capacity b) op (Get b) = (fst (buffer_step op b), Get ?b)"
    "mmb_wf ?b" "mmb_capacity ?b = mmb_capacity b"
    using buffer_step_refines [OF Cons.prems, of op] by (auto simp: prod_eq_iff)
  then show ?case using Cons.IH [of ?b] by (auto simp: case_prod_beta prod_eq_iff Let_def)
qed simp

text \<open>
  C12. The map buffer refines a partial function with a bound on its domain: for every
  sequence of \<^verbatim>\<open>Get\<close>, \<^verbatim>\<open>SetUnlessFull\<close>, \<^verbatim>\<open>Remove\<close> and \<^verbatim>\<open>IsFull\<close> on a
  new buffer, the results are those of the partial function, a write being refused exactly
  when the domain has \<open>capacity\<close> elements, and the number of entries stays within the capacity.
\<close>

theorem MapMessageBuffer_refines_map:
  assumes "0 \<le> c"
  shows "fst (run buffer_step ops (NewMapMessageBuffer c)) = fst (run (spec_step c) ops Map.empty) \<and>
    Get (snd (run buffer_step ops (NewMapMessageBuffer c))) = snd (run (spec_step c) ops Map.empty) \<and>
    len (mmb_messages (snd (run buffer_step ops (NewMapMessageBuffer c)))) \<le>
      mmb_capacity (snd (run buffer_step ops (NewMapMessageBuffer c)))"
proof -
  have e: "Get (NewMapMessageBuffer c) = Map.empty" "mmb_capacity (NewMapMessageBuffer c) = c"
    by (auto simp: Get_def NewMapMessageBuffer_def)
  show ?thesis
    using run_refines [OF mmb_wf_New [OF assms], of ops] mmb.wf_size unfolding e
    by (auto simp: prod_eq_iff)
qed

theorem MapMessageBuffer_refines_map_witness:
  "fst (run buffer_step [OpSet 5 ''a'', OpSet 6 ''b'', OpGet 5, OpRemove 5, OpGet (5 :: int)]
     (NewMapMessageBuffer 1)) =
   [RFlag True, RFlag False, RItem (Some ''a''), RItem (Some ''a''), RItem None]"
  using MapMessageBuffer_refines_map [of 1 "[OpSet 5 ''a'', OpSet 6 ''b'', OpGet 5, OpRemove 5, OpGet (5 :: int)]"]
  by simp

end
