(* ===== verification/Retry.thy ===== *)
theory Retry
  imports Config
begin

text \<open>
  \<^verbatim>\<open>src/retry\<close>: the two back-off strategies (\<^verbatim>\<open>retry.go\<close>,
  \<^verbatim>\<open>retryer.go\<close>).  The retried function and \<^verbatim>\<open>time.Sleep\<close> act on a state
  \<open>'w\<close> that is passed through; a sleep is the argument \<open>slp\<close>.

  \<open>float64\<close> values are rationals; \<open>fl\<close> rounds an exact result to the nearest
  \<^verbatim>\<open>float64\<close>.  The loop of \<^verbatim>\<open>Call\<close> has no bound when the number of
  attempts is negative, so the loop returns an option, \<open>None\<close> for not returning.
\<close>

definition trunc_rat :: "rat \<Rightarrow> int" where
  "trunc_rat x = (if 0 \<le> x then \<lfloor>x\<rfloor> else \<lceil>x\<rceil>)"

definition trunc_div :: "int \<Rightarrow> int \<Rightarrow> int" where
  "trunc_div x y = (\<bar>x\<bar> div \<bar>y\<bar>) * (sgn x * sgn y)"

section \<open>Retry\<close>

definition sleepConstant :: int where "sleepConstant = 2"

text \<open>\<open>lastErr\<close> is \<open>Ok ()\<close> as long as it is nil.\<close>

function Retry_loop :: "(duration \<Rightarrow> 'w \<Rightarrow> 'w) \<Rightarrow> ('w \<Rightarrow> unit res \<times> 'w) \<Rightarrow> int \<Rightarrow> duration \<Rightarrow>
    unit res \<Rightarrow> 'w \<Rightarrow> unit res \<times> 'w" where
  "Retry_loop slp fn attempts sleep lastErr w =
     (if attempts > 0 then
        (case fn w of
           (Err e, w') \<Rightarrow>
             Retry_loop slp fn (attempts - 1) (to_i64 (sleep * sleepConstant)) (Err e) (slp sleep w')
         | (r, w') \<Rightarrow> (r, w'))
      else (lastErr, w))"
  by pat_completeness auto
termination
  by (relation "measure (\<lambda>(slp, fn, attempts, sleep, lastErr, w). nat attempts)") auto

declare Retry_loop.simps [simp del]

definition Retry :: "(duration \<Rightarrow> 'w \<Rightarrow> 'w) \<Rightarrow> int \<Rightarrow> duration \<Rightarrow> ('w \<Rightarrow> unit res \<times> 'w) \<Rightarrow>
    'w \<Rightarrow> unit res \<times> 'w" where
  "Retry slp attempts sleep fn w = Retry_loop slp fn attempts sleep (Ok ()) w"

section \<open>The repeatable exponential retryer\<close>

record RepeatableExponentialRetryer =
  GeometricRatio :: rat
  InitialDelayInMilli :: int
  MaxDelayInMilli :: int
  MaxAttempts :: int

definition NextSleepTime :: "(rat \<Rightarrow> rat) \<Rightarrow> RepeatableExponentialRetryer \<Rightarrow> int \<Rightarrow> duration" where
  "NextSleepTime fl r attempt =
     to_i64 (trunc_rat (fl (of_int (InitialDelayInMilli r) * fl (GeometricRatio r ^ nat attempt)))
       * Millisecond)"

text \<open>The delay of one iteration and the attempt counter it leaves: a delay above the
  maximum restarts the geometric sequence.\<close>

definition next_delay :: "(rat \<Rightarrow> rat) \<Rightarrow> RepeatableExponentialRetryer \<Rightarrow> int \<Rightarrow> int \<times> duration" where
  "next_delay fl r attempt =
     (let sleep = NextSleepTime fl r attempt in
      if trunc_div sleep Millisecond > MaxDelayInMilli r then (0, NextSleepTime fl r 0)
      else (attempt, sleep))"

partial_function (option) Call_loop :: "(rat \<Rightarrow> rat) \<Rightarrow> (duration \<Rightarrow> 'w \<Rightarrow> 'w) \<Rightarrow>
    RepeatableExponentialRetryer \<Rightarrow> ('w \<Rightarrow> unit res \<times> 'w) \<Rightarrow> int \<Rightarrow> int \<Rightarrow> 'w \<Rightarrow>
    (unit res \<times> 'w) option" where
  "Call_loop fl slp r fn attempt failedAttemptsSoFar w =
     (let err = fst (fn w); w' = snd (fn w) in
      if err = Panic \<or> err = Blocked \<or> err = Ok () \<or> failedAttemptsSoFar = MaxAttempts r then Some (err, w')
      else Call_loop fl slp r fn (fst (next_delay fl r attempt) + 1) (failedAttemptsSoFar + 1)
             (slp (snd (next_delay fl r attempt)) w'))"

definition Call :: "(rat \<Rightarrow> rat) \<Rightarrow> (duration \<Rightarrow> 'w \<Rightarrow> 'w) \<Rightarrow> RepeatableExponentialRetryer \<Rightarrow>
    ('w \<Rightarrow> unit res \<times> 'w) \<Rightarrow> 'w \<Rightarrow> (unit res \<times> 'w) option" where
  "Call fl slp r fn w = Call_loop fl slp r fn 0 0 w"

section \<open>Properties\<close>

text \<open>
  A scripted operation: its \<open>n\<close>-th call has the outcome \<open>script n\<close>; the state
  counts the calls and records the sleeps.  Every deterministic operation without other
  effects behaves like some script.
\<close>

definition scripted :: "(nat \<Rightarrow> unit res) \<Rightarrow> nat \<times> duration list \<Rightarrow> unit res \<times> nat \<times> duration list" where
  "scripted script s = (script (fst s), Suc (fst s), snd s)"

definition log_sleep :: "duration \<Rightarrow> nat \<times> duration list \<Rightarrow> nat \<times> duration list" where
  "log_sleep d s = (fst s, snd s @ [d])"

text \<open>The call at which the retryer stops: the first that does not return an error, or the
  one after \<open>n\<close> failures.\<close>

fun stops_at :: "(nat \<Rightarrow> unit res) \<Rightarrow> nat \<Rightarrow> nat \<Rightarrow> nat" where
  "stops_at script 0 i = i"
| "stops_at script (Suc n) i = (case script i of Err _ \<Rightarrow> stops_at script n (Suc i) | _ \<Rightarrow> i)"

lemma stops_at_bounds: "i \<le> stops_at script n i \<and> stops_at script n i \<le> i + n"
  by (induction script n i rule: stops_at.induct) (auto split: res.splits)

lemma stops_at_earlier: "i \<le> j \<Longrightarrow> j < stops_at script n i \<Longrightarrow> \<exists>e. script j = Err e"
proof (induction script n i rule: stops_at.induct)
  case (2 script n i)
  then show ?case by (cases "i = j") (auto split: res.splits)
qed simp

lemma stops_at_not_error:
  "stops_at script n i < i + n \<Longrightarrow> (\<forall>e. script (stops_at script n i) \<noteq> Err e)"
  by (induction script n i rule: stops_at.induct) (auto split: res.splits)

fun sleeps :: "(rat \<Rightarrow> rat) \<Rightarrow> RepeatableExponentialRetryer \<Rightarrow> int \<Rightarrow> nat \<Rightarrow> duration list" where
  "sleeps fl r attempt 0 = []"
| "sleeps fl r attempt (Suc n) =
     snd (next_delay fl r attempt) # sleeps fl r (fst (next_delay fl r attempt) + 1) n"

lemma length_sleeps [simp]: "length (sleeps fl r a n) = n"
  by (induction fl r a n rule: sleeps.induct) auto

lemma scripted_apply: "scripted script (i, ss) = (script i, Suc i, ss)"
  by (simp add: scripted_def)

lemma log_sleep_apply: "log_sleep d (i, ss) = (i, ss @ [d])"
  by (simp add: log_sleep_def)

lemma Call_loop_scripted:
  "Call_loop fl log_sleep r (scripted script) attempt (MaxAttempts r - int n) (i, ss) =
    Some (script (stops_at script n i), Suc (stops_at script n i),
      ss @ sleeps fl r attempt (stops_at script n i - i))"
proof (induction n arbitrary: i ss attempt)
  case 0
  show ?case by (subst Call_loop.simps) (simp add: scripted_def)
next
  case (Suc n)
  show ?case
  proof (cases "script i")
    case (Err e)
    let ?k = "stops_at script n (Suc i)"
    have k: "?k - i = Suc (?k - Suc i)" using stops_at_bounds [of "Suc i" script n] by linarith
    have "MaxAttempts r - int (Suc n) + 1 = MaxAttempts r - int n" by simp
    then show ?thesis using Suc.IH Err k
      by (subst Call_loop.simps) (simp add: scripted_apply log_sleep_apply)
  next
    case (Ok u)
    then show ?thesis by (subst Call_loop.simps) (simp add: scripted_def)
  next
    case Panic
    then show ?thesis by (subst Call_loop.simps) (simp add: scripted_def)
  next
    case Blocked
    then show ?thesis by (subst Call_loop.simps) (simp add: scripted_def)
  qed
qed

text \<open>
  C20. \<^verbatim>\<open>Call\<close> returns whenever \<^verbatim>\<open>MaxAttempts\<close> is not negative.  It makes at
  most \<open>MaxAttempts + 1\<close> calls, stops at the first that does not fail, sleeps once
  between two calls, and its outcome is that of the last call: it reports success exactly
  if one of these calls succeeded after errors only.
\<close>

theorem Call_terminates:
  assumes n: "MaxAttempts r = int n"
  shows "\<exists>k ss. Call fl log_sleep r (scripted script) (0, []) = Some (script k, Suc k, ss) \<and>
    k \<le> n \<and> length ss = k \<and> (\<forall>j<k. \<exists>e. script j = Err e) \<and>
    (k < n \<longrightarrow> (\<forall>e. script k \<noteq> Err e))"
proof -
  let ?k = "stops_at script n 0"
  have "Call fl log_sleep r (scripted script) (0, []) = Some (script ?k, Suc ?k, sleeps fl r 0 ?k)"
    using Call_loop_scripted [of fl r script 0 n 0 "[]"] n by (simp add: Call_def)
  moreover have "?k \<le> n" using stops_at_bounds [of 0 script n] by simp
  moreover have "\<forall>j<?k. \<exists>e. script j = Err e" using stops_at_earlier [of 0 _ script n] by blast
  moreover have "?k < n \<longrightarrow> (\<forall>e. script ?k \<noteq> Err e)"
    using stops_at_not_error [of script n 0] by simp
  ultimately show ?thesis using length_sleeps by blast
qed

lemma Call_loop_preserves:
  assumes "Call_loop fl slp r fn i k w = Some y" "P w"
    and fn: "\<And>w. P w \<Longrightarrow> P (snd (fn w))" and slp: "\<And>d w. P w \<Longrightarrow> P (slp d w)"
  shows "P (snd y)"
proof -
  have "(\<forall>w. P w \<longrightarrow> P (snd (fn w))) \<longrightarrow> (\<forall>d w. P w \<longrightarrow> P (slp d w)) \<longrightarrow> P w \<longrightarrow> P (snd y)"
  proof (rule Call_loop.raw_induct [OF _ assms(1)], goal_cases)
    case (1 loop fl slp r fn i k w y)
    show ?case
    proof (cases "fst (fn w) = Panic \<or> fst (fn w) = Blocked \<or> fst (fn w) = Ok () \<or> k = MaxAttempts r")
      case True
      with 1(2) have "y = fn w" by (auto simp: Let_def)
      then show ?thesis by simp
    next
      case False
      with 1(2) have "loop fl slp r fn (fst (next_delay fl r i) + 1) (k + 1)
          (slp (snd (next_delay fl r i)) (snd (fn w))) = Some y" by (auto simp: Let_def)
      from 1(1) [OF this] show ?thesis by blast
    qed
  qed
  then show ?thesis using assms(2) fn slp by blast
qed

definition open_retrier :: "int \<Rightarrow> RepeatableExponentialRetryer" where
  "open_retrier initial = \<lparr>GeometricRatio = of_int RetryBase, InitialDelayInMilli = initial,
     MaxDelayInMilli = DataChannelRetryMaxIntervalMillis, MaxAttempts = DataChannelNumMaxRetries\<rparr>"

theorem Call_terminates_witness:
  "\<exists>k ss. Call (\<lambda>x. x) log_sleep (open_retrier 150)
      (scripted (\<lambda>i. if i < 2 then Err (External 0) else Ok ())) (0, []) = Some (Ok (), Suc k, ss) \<and> k = 2"
proof -
  let ?s = "\<lambda>i. if i < 2 then Err (External 0) else Ok ()"
  have "MaxAttempts (open_retrier 150) = int 5"
    by (simp add: open_retrier_def DataChannelNumMaxRetries_def)
  from Call_terminates [OF this, of "\<lambda>x. x" ?s] obtain k ss where
    c: "Call (\<lambda>x. x) log_sleep (open_retrier 150) (scripted ?s) (0, []) = Some (?s k, Suc k, ss)"
    and k: "\<forall>j<k. \<exists>e. ?s j = Err e" "k < 5 \<longrightarrow> (\<forall>e. ?s k \<noteq> Err e)" "k \<le> 5" by blast
  have "\<not> k > 2" using k(1) by force
  moreover have "\<not> k < 2" using k(2) by auto
  ultimately have "k = 2" by simp
  with c show ?thesis by auto
qed

end
