(* ===== verification/System.thy ===== *)
theory System
  imports Handshake Buffers Retry
begin

text \<open>
  What the sources call outside of themselves: the clock, randomness, \<^verbatim>\<open>google/uuid\<close>,
  \<^verbatim>\<open>crypto/aes\<close> and \<^verbatim>\<open>crypto/cipher\<close>, the KMS client, \<^verbatim>\<open>encoding/json\<close>
  and the connections of \<^verbatim>\<open>gorilla/websocket\<close>.  The record \<open>sys\<close> has one function
  for each; functions with effects act on a state \<open>'w\<close> of which nothing is known.  An
  object of these packages (a cipher, a connection) is a handle.  What a theorem needs from
  these functions it states as a hypothesis, by the predicates of this theory.
\<close>

type_synonym handle = nat

record ('w, 'p) sys =
  uuidp :: uuid_pkg
  json :: "'p json_pkg"
  uuid_New :: "'w \<Rightarrow> uuid res \<times> 'w"
  uuid_String :: "uuid \<Rightarrow> string"
  time_Now :: "'w \<Rightarrow> go_time \<times> 'w"
  time_UnixMilli :: "'w \<Rightarrow> int64 \<times> 'w"
  time_Sleep :: "duration \<Rightarrow> 'w \<Rightarrow> 'w"
  rand_Intn :: "int \<Rightarrow> 'w \<Rightarrow> int \<times> 'w"
  rand_ReadFull :: "int \<Rightarrow> 'w \<Rightarrow> bytes res \<times> 'w"
  aes_NewCipher :: "bytes \<Rightarrow> handle res"
  cipher_NewGCM :: "handle \<Rightarrow> handle res"
  aead_Seal :: "handle \<Rightarrow> bytes \<Rightarrow> bytes \<Rightarrow> bytes res"
  aead_Open :: "handle \<Rightarrow> bytes \<Rightarrow> bytes \<Rightarrow> bytes res"
  kms_GenerateDataKey :: "string \<Rightarrow> int32 \<Rightarrow> (string \<times> string) list \<Rightarrow> 'w \<Rightarrow> (bytes \<times> bytes) res \<times> 'w"
  dialer_Dial :: "string \<Rightarrow> 'w \<Rightarrow> handle res \<times> 'w"
  conn_WriteMessage :: "handle \<Rightarrow> int \<Rightarrow> bytes \<Rightarrow> 'w \<Rightarrow> unit res \<times> 'w"
  conn_ReadMessage :: "handle \<Rightarrow> 'w \<Rightarrow> (int \<times> bytes) res \<times> 'w"
  conn_Close :: "handle \<Rightarrow> 'w \<Rightarrow> unit res \<times> 'w"
  float_round :: "rat \<Rightarrow> rat"
  float_to_int64_outside :: "rat \<Rightarrow> int64"

text \<open>\<^verbatim>\<open>int64(x)\<close> of a \<^verbatim>\<open>float64\<close>: truncates; outside the range the result is up
  to the implementation.\<close>

definition float_to_int64 :: "('w, 'p) sys \<Rightarrow> rat \<Rightarrow> int64" where
  "float_to_int64 S x =
     (if is_i64 (trunc_rat x) then trunc_rat x else float_to_int64_outside S x)"

section \<open>Documented behaviour used as hypotheses\<close>

text \<open>The authenticated cipher: a key of 32 bytes gives a cipher, and opening with the same
  key and nonce of 12 bytes returns what was sealed.\<close>

definition gcm_of :: "('w, 'p) sys \<Rightarrow> bytes \<Rightarrow> handle res" where
  "gcm_of S k = rbind (aes_NewCipher S k) (cipher_NewGCM S)"

definition aead_ok :: "('w, 'p) sys \<Rightarrow> bool" where
  "aead_ok S \<longleftrightarrow>
     (\<forall>k. length k = 32 \<longrightarrow> (\<exists>h. gcm_of S k = Ok h)) \<and>
     (\<forall>h n p. length n = 12 \<longrightarrow> (\<exists>c. aead_Seal S h n p = Ok c \<and> aead_Open S h n c = Ok p))"

text \<open>\<^verbatim>\<open>io.ReadFull\<close> on the system's random source fills the whole buffer.\<close>

definition rand_ok :: "('w, 'p) sys \<Rightarrow> bool" where
  "rand_ok S \<longleftrightarrow> (\<forall>n w. 0 \<le> n \<longrightarrow>
     (\<exists>b w'. rand_ReadFull S n w = (Ok b, w') \<and> len b = n))"

section \<open>A concrete system, for evaluation\<close>

text \<open>The clock advances by a millisecond per reading, ids and nonces are constant, the cipher
  reverses its text, and a connection records what is written and hands out an inbox.\<close>

record demo_world =
  dw_time :: int
  dw_sent :: "(int \<times> bytes) list"
  dw_inbox :: "(int \<times> bytes) list"
  dw_shown :: "ClientMessage list"

definition demo_start :: demo_world where
  "demo_start = \<lparr>dw_time = 1, dw_sent = [], dw_inbox = [], dw_shown = []\<rparr>"

definition demo :: "(demo_world, unit) sys" where
  "demo =
    \<lparr>uuidp = uuid_plain, json = json_toy,
     uuid_New = (\<lambda>w. (Ok [1, 2, 3, 4, 5, 6, 7, 8, 9, 10, 11, 12, 13, 14, 15, 16], w)),
     uuid_String = (\<lambda>u. bytes_str u),
     time_Now = (\<lambda>w. (dw_time w, w\<lparr>dw_time := dw_time w + Millisecond\<rparr>)),
     time_UnixMilli = (\<lambda>w. (1503434274948, w)),
     time_Sleep = (\<lambda>d w. w\<lparr>dw_time := dw_time w + d\<rparr>),
     rand_Intn = (\<lambda>n w. (0, w)),
     rand_ReadFull = (\<lambda>n w. (Ok (replicate (nat n) 7), w)),
     aes_NewCipher = (\<lambda>k. if length k = 32 then Ok 0 else Err (External 2)),
     cipher_NewGCM = Ok,
     aead_Seal = (\<lambda>h n p. Ok (rev p)),
     aead_Open = (\<lambda>h n c. Ok (rev c)),
     kms_GenerateDataKey = (\<lambda>k n c w. (Ok ([1], replicate (nat n) 3), w)),
     dialer_Dial = (\<lambda>url w. (Ok 1, w)),
     conn_WriteMessage = (\<lambda>h t b w. (Ok (), w\<lparr>dw_sent := dw_sent w @ [(t, b)]\<rparr>)),
     conn_ReadMessage = (\<lambda>h w. case dw_inbox w of [] \<Rightarrow> (Err EOF, w)
       | m # ms \<Rightarrow> (Ok m, w\<lparr>dw_inbox := ms\<rparr>)),
     conn_Close = (\<lambda>h w. (Ok (), w)),
     float_round = (\<lambda>x. x), float_to_int64_outside = (\<lambda>x. 0)\<rparr>"

lemma demo_aead_ok: "aead_ok demo"
  by (simp add: aead_ok_def demo_def gcm_of_def)

lemma demo_rand_ok: "rand_ok demo"
  by (simp add: rand_ok_def demo_def len_def)

lemma demo_simps:
  "uuidp demo = uuid_plain" "json demo = json_toy"
  "uuid_New demo w = (Ok [1, 2, 3, 4, 5, 6, 7, 8, 9, 10, 11, 12, 13, 14, 15, 16], w)"
  "time_Now demo w = (dw_time w, w\<lparr>dw_time := dw_time w + Millisecond\<rparr>)"
  "time_UnixMilli demo w = (1503434274948, w)"
  "rand_Intn demo k w = (0, w)"
  "dialer_Dial demo url w = (Ok 1, w)"
  "conn_WriteMessage demo h t b w = (Ok (), w\<lparr>dw_sent := dw_sent w @ [(t, b)]\<rparr>)"
  "conn_Close demo h w = (Ok (), w)" "float_round demo = (\<lambda>x. x)"
  by (simp_all add: demo_def)

end
