(* ===== verification/Encryption.thy ===== *)
theory Encryption
  imports System
begin

text \<open>
  \<^verbatim>\<open>src/encryption/encrypter.go\<close>, \<^verbatim>\<open>kmsservice.go\<close> and
  \<^verbatim>\<open>src/datachannel/encryption.go\<close>: the data key from KMS, its two halves, and the
  format of an encrypted payload (nonce, then the sealed text).
\<close>

definition nonceSize :: int where "nonceSize = 12"
definition KMSKeySizeInBytes :: int32 where "KMSKeySizeInBytes = 64"

record Encrypter =
  kmsKeyID :: string
  cipherTextKey :: bytes
  encryptionKey :: bytes
  decryptionKey :: bytes

definition KMSGenerateDataKey :: "('w, 'p) sys \<Rightarrow> string \<Rightarrow> (string \<times> string) list \<Rightarrow> 'w \<Rightarrow>
    (bytes \<times> bytes) res \<times> 'w" where
  "KMSGenerateDataKey S keyID encryptionContext w =
     swrap ''calling KMS GenerateDataKey API''
       (kms_GenerateDataKey S keyID KMSKeySizeInBytes encryptionContext w)"

definition generateEncryptionKey :: "('w, 'p) sys \<Rightarrow> Encrypter \<Rightarrow> string \<Rightarrow> (string \<times> string) list \<Rightarrow>
    'w \<Rightarrow> Encrypter res \<times> 'w" where
  "generateEncryptionKey S e keyID encryptionContext w =
     sbind (swrap ''generating data key from KMS'' (KMSGenerateDataKey S keyID encryptionContext w))
       (\<lambda>(cipherTextKey, plainTextKey) w.
        let keySize = length plainTextKey div 2 in
        (Ok (e\<lparr>decryptionKey := take keySize plainTextKey,
               encryptionKey := drop keySize plainTextKey,
               cipherTextKey := cipherTextKey\<rparr>), w))"

definition NewEncrypter :: "('w, 'p) sys \<Rightarrow> string \<Rightarrow> (string \<times> string) list \<Rightarrow> 'w \<Rightarrow>
    Encrypter res \<times> 'w" where
  "NewEncrypter S keyID encryptionContext w =
     generateEncryptionKey S
       \<lparr>kmsKeyID = keyID, cipherTextKey = [], encryptionKey = [], decryptionKey = []\<rparr>
       keyID encryptionContext w"

definition GetEncryptedDataKey :: "Encrypter \<Rightarrow> bytes" where
  "GetEncryptedDataKey e = cipherTextKey e"

definition GetKMSKeyID :: "Encrypter \<Rightarrow> string" where
  "GetKMSKeyID e = kmsKeyID e"

definition getAEAD :: "('w, 'p) sys \<Rightarrow> bytes \<Rightarrow> handle res" where
  "getAEAD S plainTextKey =
     rbind (wrap_err ''error creating NewCipher'' (aes_NewCipher S plainTextKey)) (\<lambda>block.
     wrap_err ''error creating NewGCM'' (cipher_NewGCM S block))"

text \<open>The buffer \<^verbatim>\<open>cipherText\<close> starts as zeros; the first \<^verbatim>\<open>append\<close> keeps 12 zeros
  and puts the nonce behind them, the second drops the zeros.\<close>

definition Encrypt :: "('w, 'p) sys \<Rightarrow> Encrypter \<Rightarrow> bytes \<Rightarrow> 'w \<Rightarrow> bytes res \<times> 'w" where
  "Encrypt S e plainText w =
     sbind (wrap_err ''getAEAD'' (getAEAD S (encryptionKey e)), w) (\<lambda>aesgcm w.
     let cipherText = replicate (nat nonceSize + length plainText) 0 in
     sbind (swrap ''error when generating nonce for encryption'' (rand_ReadFull S nonceSize w))
       (\<lambda>nonce w.
     sbind (aead_Seal S aesgcm nonce plainText, w) (\<lambda>cipherTextWithoutNonce w.
     sbind (go_slice cipherText 0 nonceSize, w) (\<lambda>zeros w.
     let cipherText = zeros @ nonce in
     sbind (go_slice cipherText nonceSize (len cipherText), w) (\<lambda>front w.
     (Ok (front @ cipherTextWithoutNonce), w))))))"

definition Decrypt :: "('w, 'p) sys \<Rightarrow> Encrypter \<Rightarrow> bytes \<Rightarrow> bytes res" where
  "Decrypt S e cipherText =
     rbind (wrap_err ''getAEAD'' (getAEAD S (decryptionKey e))) (\<lambda>aesgcm.
     rbind (go_slice cipherText 0 nonceSize) (\<lambda>nonce.
     rbind (go_slice cipherText nonceSize (len cipherText)) (\<lambda>cipherTextWithoutNonce.
     wrap_err ''error decrypting encrypted test''
       (aead_Open S aesgcm nonce cipherTextWithoutNonce))))"

text \<open>\<^verbatim>\<open>KMSEncryptorBuilder.Build\<close>.\<close>

definition Build :: "('w, 'p) sys \<Rightarrow> string \<Rightarrow> string \<Rightarrow> string \<Rightarrow> 'w \<Rightarrow> Encrypter res \<times> 'w" where
  "Build S keyID sessionID targetID w =
     (let encryptionContext = [(''aws:ssm:SessionId'', sessionID), (''aws:ssm:TargetId'', targetID)] in
      swrap ''creating encryptor'' (NewEncrypter S keyID encryptionContext w))"

section \<open>Properties\<close>

lemma getAEAD_Ok: "gcm_of S k = Ok h \<Longrightarrow> getAEAD S k = Ok h"
  by (auto simp: getAEAD_def gcm_of_def rbind_Ok_iff)

text \<open>
  The data key that KMS returns is split without loss: the first half is the key the client
  decrypts with, the second half the one it encrypts with, and the blob that the client
  returns to the agent is the ciphertext KMS gave with this key.  With the 64 bytes the client
  asks for, both halves are AES-256 keys.
\<close>

theorem Build_splits_data_key:
  assumes "kms_GenerateDataKey S keyID KMSKeySizeInBytes
      [(''aws:ssm:SessionId'', sessionID), (''aws:ssm:TargetId'', targetID)] w = (Ok (blob, key), w')"
  shows "\<exists>e. Build S keyID sessionID targetID w = (Ok e, w') \<and>
    decryptionKey e @ encryptionKey e = key \<and> GetEncryptedDataKey e = blob \<and> GetKMSKeyID e = keyID \<and>
    (length key = 64 \<longrightarrow> length (decryptionKey e) = 32 \<and> length (encryptionKey e) = 32)"
  using assms by (simp add: Build_def NewEncrypter_def generateEncryptionKey_def
      KMSGenerateDataKey_def GetEncryptedDataKey_def GetKMSKeyID_def Let_def)

lemma Encrypt_format:
  assumes "gcm_of S (encryptionKey e) = Ok h" "rand_ReadFull S nonceSize w = (Ok n, w')"
    "len n = nonceSize" "aead_Seal S h n p = Ok c"
  shows "Encrypt S e p w = (Ok (n @ c), w')"
proof -
  have "go_slice (replicate (nat nonceSize + length p) (0 :: byte)) 0 nonceSize = Ok (replicate 12 0)"
    by (simp add: go_slice_def nonceSize_def len_def min_def)
  moreover have "go_slice (replicate 12 0 @ n) nonceSize (len (replicate 12 0 @ n)) = Ok n"
    unfolding go_slice_tail using assms(3) by (simp add: nonceSize_def len_def)
  ultimately show ?thesis using assms by (simp add: Encrypt_def Let_def getAEAD_Ok)
qed

lemma Decrypt_format:
  assumes "gcm_of S (decryptionKey e) = Ok h" "len n = nonceSize"
  shows "Decrypt S e (n @ c) = wrap_err ''error decrypting encrypted test'' (aead_Open S h n c)"
proof -
  have "go_slice (n @ c) nonceSize (len (n @ c)) = Ok c" "go_slice (n @ c) 0 nonceSize = Ok n"
    using assms(2) unfolding go_slice_tail
    by (simp_all add: go_slice_def nonceSize_def len_def)
  then show ?thesis using assms(1) by (simp add: Decrypt_def getAEAD_Ok)
qed

text \<open>
  C11. Encryption between the two ends of a session: whatever one end encrypts, the other end,
  whose decryption key is the first one's encryption key, decrypts to the same bytes; both
  calls return.  Hypotheses: the key has 32 bytes, the cipher opens what it sealed, and the
  random source fills the nonce.
\<close>

theorem Decrypt_Encrypt:
  assumes "aead_ok S" "rand_ok S" "length (encryptionKey e) = 32" "decryptionKey peer = encryptionKey e"
  shows "\<exists>cipherText w'. Encrypt S e plainText w = (Ok cipherText, w') \<and>
    Decrypt S peer cipherText = Ok plainText"
proof -
  obtain h where h: "gcm_of S (encryptionKey e) = Ok h" using assms by (auto simp: aead_ok_def)
  obtain n w' where n: "rand_ReadFull S nonceSize w = (Ok n, w')" "len n = nonceSize"
    using assms(2) unfolding rand_ok_def by (metis nonceSize_def zero_le_numeral)
  then have "length n = 12" by (simp add: nonceSize_def len_def)
  then obtain c where c: "aead_Seal S h n plainText = Ok c" "aead_Open S h n c = Ok plainText"
    using assms(1) unfolding aead_ok_def by blast
  show ?thesis using Encrypt_format [OF h n c(1)] Decrypt_format [of S peer h n c] h n(2) c(2) assms(4)
    by simp
qed

text \<open>
  \<^verbatim>\<open>Decrypt\<close> trusts its input to hold a nonce: every ciphertext of fewer than 12
  bytes panics instead of returning an error.
\<close>

theorem Decrypt_short_panics:
  assumes "gcm_of S (decryptionKey e) = Ok h" "len cipherText < nonceSize"
  shows "Decrypt S e cipherText = Panic"
  using assms by (simp add: Decrypt_def go_slice_def getAEAD_Ok)

section \<open>Witnesses\<close>

definition demo_encrypter :: Encrypter where
  "demo_encrypter = \<lparr>kmsKeyID = ''key'', cipherTextKey = [1], encryptionKey = replicate 32 3,
     decryptionKey = replicate 32 3\<rparr>"

theorem Build_splits_data_key_witness:
  "\<exists>e. Build demo ''key'' ''s'' ''t'' demo_start = (Ok e, demo_start) \<and> length (encryptionKey e) = 32"
proof -
  have k: "kms_GenerateDataKey demo ''key'' KMSKeySizeInBytes
      [(''aws:ssm:SessionId'', ''s''), (''aws:ssm:TargetId'', ''t'')] demo_start =
    (Ok ([1], replicate 64 3), demo_start)"
    by (simp add: demo_def KMSKeySizeInBytes_def)
  show ?thesis using Build_splits_data_key [OF k] by auto
qed

theorem Decrypt_Encrypt_witness:
  "\<exists>c w. Encrypt demo demo_encrypter [104, 105] demo_start = (Ok c, w) \<and>
     Decrypt demo demo_encrypter c = Ok [104, 105]"
  by (rule Decrypt_Encrypt [OF demo_aead_ok demo_rand_ok]) (simp_all add: demo_encrypter_def)

theorem Decrypt_short_panics_witness:
  "Decrypt demo demo_encrypter [1, 2, 3] = Panic"
  by (rule Decrypt_short_panics [of demo demo_encrypter 0])
    (simp_all add: demo_encrypter_def demo_def gcm_of_def len_def nonceSize_def)

end
