(* ===== verification/Websocket.thy ===== *)
theory Websocket
  imports Encryption
begin

text \<open>
  \<^verbatim>\<open>src/communicator/websocketchannel.go\<close> and \<^verbatim>\<open>src/websocketutil/websocketutil.go\<close>:
  the web socket channel, its connection and its open flag.  The locale
  \<open>websocket_channel\<close> is what the data channel relies on (the Go interface
  \<^verbatim>\<open>IWebSocketChannel\<close>); it is interpreted on the code below.
\<close>

definition TextMessage :: int where "TextMessage = 1"
definition BinaryMessage :: int where "BinaryMessage = 2"
definition PingMessage :: int where "PingMessage = 9"

record WebSocketChannel =
  channelURL :: string
  isOpen :: bool
  connection :: "handle option"
  channelToken :: string

text \<open>The channel together with the state of everything outside the program.\<close>

record 'w net =
  ws :: WebSocketChannel
  world :: 'w

definition on_world :: "('w \<Rightarrow> 'a \<times> 'w) \<Rightarrow> 'w net \<Rightarrow> 'a \<times> 'w net" where
  "on_world f n = (let r = f (world n) in (fst r, n\<lparr>world := snd r\<rparr>))"

section \<open>\<^verbatim>\<open>websocketutil\<close>\<close>

definition OpenConnection :: "('w, 'p) sys \<Rightarrow> string \<Rightarrow> 'w \<Rightarrow> handle res \<times> 'w" where
  "OpenConnection S url w = swrap ''dialing websocket'' (dialer_Dial S url w)"

definition CloseConnection :: "('w, 'p) sys \<Rightarrow> handle option \<Rightarrow> 'w \<Rightarrow> unit res \<times> 'w" where
  "CloseConnection S conn w =
     (case conn of
        None \<Rightarrow> (Err ErrWebsocketNil, w)
      | Some h \<Rightarrow> swrap ''closing websocket'' (conn_Close S h w))"

section \<open>The channel\<close>

definition NewWebSocketChannel :: "string \<Rightarrow> string \<Rightarrow> WebSocketChannel" where
  "NewWebSocketChannel url token =
     \<lparr>channelURL = url, isOpen = False, connection = None, channelToken = token\<rparr>"

definition GetChannelToken :: "'w net \<Rightarrow> string" where
  "GetChannelToken n = channelToken (ws n)"

definition SetChannelToken :: "string \<Rightarrow> 'w net \<Rightarrow> 'w net" where
  "SetChannelToken token n = n\<lparr>ws := (ws n)\<lparr>channelToken := token\<rparr>\<rparr>"

definition GetStreamURL :: "'w net \<Rightarrow> string" where
  "GetStreamURL n = channelURL (ws n)"

text \<open>A method call on a nil \<^verbatim>\<open>*websocket.Conn\<close> panics.\<close>

definition ws_SendMessage :: "('w, 'p) sys \<Rightarrow> bytes \<Rightarrow> int \<Rightarrow> 'w net \<Rightarrow> unit res \<times> 'w net" where
  "ws_SendMessage S input inputType n =
     (if \<not> isOpen (ws n) then (Err ErrConnectionClosed, n)
      else if len input < 1 then (Err ErrEmptyInput, n)
      else case connection (ws n) of
        None \<Rightarrow> (Panic, n)
      | Some h \<Rightarrow> swrap ''writing websocket message''
          (on_world (conn_WriteMessage S h inputType input) n))"

definition ws_Close :: "('w, 'p) sys \<Rightarrow> 'w net \<Rightarrow> unit res \<times> 'w net" where
  "ws_Close S n =
     (if isOpen (ws n) then
        (let n = n\<lparr>ws := (ws n)\<lparr>isOpen := False\<rparr>\<rparr> in
         swrap ''closing websocket connection''
           (on_world (CloseConnection S (connection (ws n))) n))
      else (Ok (), n))"

text \<open>\<^verbatim>\<open>Open\<close>; the goroutine that it starts is \<open>startPings\<close>.\<close>

definition ws_Open :: "('w, 'p) sys \<Rightarrow> 'w net \<Rightarrow> unit res \<times> 'w net" where
  "ws_Open S n =
     sbind (swrap ''opening websocket connection''
       (on_world (OpenConnection S (channelURL (ws n))) n)) (\<lambda>h n.
     (Ok (), n\<lparr>ws := (ws n)\<lparr>connection := Some h, isOpen := True\<rparr>\<rparr>))"

text \<open>An unexpected message type is reported with the error of the read, which is nil there:
  \<^verbatim>\<open>ErrMessageType\<close> stands for that error without a cause.\<close>

function ReadMessage_loop :: "('w, 'p) sys \<Rightarrow> int \<Rightarrow> 'w net \<Rightarrow> bytes res \<times> 'w net" where
  "ReadMessage_loop S retryCount n =
     (if \<not> isOpen (ws n) then (Err ErrConnectionClosed, n)
      else case connection (ws n) of
        None \<Rightarrow> (Panic, n)
      | Some h \<Rightarrow>
          (case on_world (conn_ReadMessage S h) n of
             (Err e, n) \<Rightarrow>
               (if retryCount + 1 \<ge> RetryAttempt
                then (Err (Wrap ''reached retry limit for receiving messages'' e), n)
                else ReadMessage_loop S (retryCount + 1) n)
           | (Ok (messageType, rawMessage), n) \<Rightarrow>
               if messageType \<noteq> TextMessage \<and> messageType \<noteq> BinaryMessage
               then (Err (Wrap ''invalid message type'' ErrMessageType), n)
               else (Ok rawMessage, n)
           | (Panic, n) \<Rightarrow> (Panic, n)
           | (Blocked, n) \<Rightarrow> (Blocked, n)))"
  by pat_completeness auto
termination
  by (relation "measure (\<lambda>(S, retryCount, n). nat (RetryAttempt - retryCount))") auto

declare ReadMessage_loop.simps [simp del]

definition ws_ReadMessage :: "('w, 'p) sys \<Rightarrow> 'w net \<Rightarrow> bytes res \<times> 'w net" where
  "ws_ReadMessage S n = ReadMessage_loop S 0 n"

definition ping :: "('w, 'p) sys \<Rightarrow> 'w net \<Rightarrow> unit res \<times> 'w net" where
  "ping S n =
     (case connection (ws n) of
        None \<Rightarrow> (Panic, n)
      | Some h \<Rightarrow> swrap ''sending ping message''
          (on_world (conn_WriteMessage S h PingMessage (str_bytes ''keepalive'')) n))"

text \<open>One round of the loop of \<^verbatim>\<open>startPings\<close>, \<open>None\<close> when the loop returns; an error of
  the ping is only logged.\<close>

definition startPings_round :: "('w, 'p) sys \<Rightarrow> duration \<Rightarrow> 'w net \<Rightarrow> (unit res \<times> 'w net) option" where
  "startPings_round S pingInterval n =
     (if \<not> isOpen (ws n) then None
      else Some (case ping S n of
          (Panic, n) \<Rightarrow> (Panic, n)
        | (Blocked, n) \<Rightarrow> (Blocked, n)
        | (_, n) \<Rightarrow> (Ok (), n\<lparr>world := time_Sleep S pingInterval (world n)\<rparr>)))"

section \<open>Contract\<close>

text \<open>What the data channel relies on: sending needs an open channel and leaves the flag
  and the token, \<open>close\<close> always leaves the channel closed, is a no-op on a closed channel,
  and only a successful \<open>open\<close> opens it.\<close>

locale websocket_channel =
  fixes opened :: "'n \<Rightarrow> bool"
    and token :: "'n \<Rightarrow> string"
    and send :: "bytes \<Rightarrow> int \<Rightarrow> 'n \<Rightarrow> unit res \<times> 'n"
    and close :: "'n \<Rightarrow> unit res \<times> 'n"
    and dial :: "'n \<Rightarrow> unit res \<times> 'n"
    and read :: "'n \<Rightarrow> bytes res \<times> 'n"
  assumes send_closed: "\<not> opened n \<Longrightarrow> send b t n = (Err ErrConnectionClosed, n)"
    and send_keeps: "opened (snd (send b t n)) = opened n" "token (snd (send b t n)) = token n"
    and close_closes: "\<not> opened (snd (close n))" "token (snd (close n)) = token n"
    and close_closed: "\<not> opened n \<Longrightarrow> close n = (Ok (), n)"
    and dial_opens: "fst (dial n) = Ok () \<Longrightarrow> opened (snd (dial n))"
    and dial_fails: "fst (dial n) \<noteq> Ok () \<Longrightarrow> opened (snd (dial n)) = opened n"
    and dial_token: "token (snd (dial n)) = token n"
    and read_closed: "\<not> opened n \<Longrightarrow> read n = (Err ErrConnectionClosed, n)"
    and read_keeps: "opened (snd (read n)) = opened n" "token (snd (read n)) = token n"
begin

text \<open>Closing is idempotent, and a closed channel neither sends nor reads.\<close>

lemma close_twice: "close (snd (close n)) = (Ok (), snd (close n))"
  using close_closes(1) close_closed by blast

lemma after_close:
  "send b t (snd (close n)) = (Err ErrConnectionClosed, snd (close n))"
  "read (snd (close n)) = (Err ErrConnectionClosed, snd (close n))"
  using close_closes(1) send_closed read_closed by blast+

text \<open>Closing and dialling again leaves the channel open exactly if the dialling succeeded.\<close>

lemma reopen: "opened (snd (dial (snd (close n)))) \<longleftrightarrow> fst (dial (snd (close n))) = Ok ()"
  using dial_opens dial_fails close_closes(1) by blast

end

section \<open>The code provides the contract\<close>

lemma on_world_simps [simp]:
  "ws (snd (on_world f n)) = ws n" "fst (on_world f n) = fst (f (world n))"
  "world (snd (on_world f n)) = snd (f (world n))"
  by (simp_all add: on_world_def Let_def)

lemma ReadMessage_loop_ws [simp]: "ws (snd (ReadMessage_loop S k n)) = ws n"
proof (induction S k n rule: ReadMessage_loop.induct)
  case (1 S k n)
  show ?case
  proof (cases "isOpen (ws n)")
    case True
    note t = this
    show ?thesis
    proof (cases "connection (ws n)")
      case (Some h)
      have w: "ws (snd (on_world (conn_ReadMessage S h) n)) = ws n" by simp
      show ?thesis
        using 1 [of h] t Some w
        by (subst ReadMessage_loop.simps)
          (cases "on_world (conn_ReadMessage S h) n"; cases "fst (on_world (conn_ReadMessage S h) n)"; auto)
    qed (subst ReadMessage_loop.simps, simp add: t)
  qed (subst ReadMessage_loop.simps, simp)
qed

interpretation wsc: websocket_channel "\<lambda>n. isOpen (ws n)" GetChannelToken "ws_SendMessage S" "ws_Close S"
  "ws_Open S" "ws_ReadMessage S"
  for S :: "('w, 'p) sys"
proof unfold_locales
  show "\<not> isOpen (ws n) \<Longrightarrow> ws_ReadMessage S n = (Err ErrConnectionClosed, n)" for n
    by (simp add: ws_ReadMessage_def ReadMessage_loop.simps [of S 0 n])
qed (auto simp: ws_SendMessage_def ws_Close_def ws_Open_def ws_ReadMessage_def GetChannelToken_def
      sbind_def Let_def split: option.splits res.splits)

section \<open>Properties\<close>

text \<open>
  C19. Closing the web socket channel is final and idempotent: whatever the connection reports,
  the channel is closed afterwards, a second \<^verbatim>\<open>Close\<close> does nothing and succeeds, and
  every send and every read fails with \<^verbatim>\<open>ErrConnectionClosed\<close>, which counts as
  \<^verbatim>\<open>io.EOF\<close>, without touching the connection.
\<close>

theorem ws_Close_final:
  "\<not> isOpen (ws (snd (ws_Close S n))) \<and>
   ws_Close S (snd (ws_Close S n)) = (Ok (), snd (ws_Close S n)) \<and>
   ws_SendMessage S b t (snd (ws_Close S n)) = (Err ErrConnectionClosed, snd (ws_Close S n)) \<and>
   ws_ReadMessage S (snd (ws_Close S n)) = (Err ErrConnectionClosed, snd (ws_Close S n)) \<and>
   errors_Is ErrConnectionClosed EOF"
  using wsc.close_closes(1) wsc.close_twice wsc.after_close by auto

text \<open>The world after \<open>i\<close> reads from a connection, and the outcome of the next read.\<close>

definition world_after :: "('w, 'p) sys \<Rightarrow> handle \<Rightarrow> nat \<Rightarrow> 'w \<Rightarrow> 'w" where
  "world_after S h i = ((\<lambda>w. snd (conn_ReadMessage S h w)) ^^ i)"

definition read_at :: "('w, 'p) sys \<Rightarrow> handle \<Rightarrow> nat \<Rightarrow> 'w \<Rightarrow> (int \<times> bytes) res" where
  "read_at S h i w = fst (conn_ReadMessage S h (world_after S h i w))"

lemma read_at_0 [simp]: "read_at S h 0 w = fst (conn_ReadMessage S h w)"
  by (simp add: read_at_def world_after_def)

lemma read_at_Suc: "read_at S h (Suc i) w = read_at S h i (snd (conn_ReadMessage S h w))"
  by (simp add: read_at_def world_after_def funpow_Suc_right del: funpow.simps)

lemma world_after_Suc: "world_after S h (Suc i) w = world_after S h i (snd (conn_ReadMessage S h w))"
  by (simp add: world_after_def funpow_Suc_right del: funpow.simps)

lemma ReadMessage_loop_step:
  assumes "isOpen (ws n)" "connection (ws n) = Some h"
  shows "ReadMessage_loop S k n =
    (case fst (conn_ReadMessage S h (world n)) of
       Err e \<Rightarrow> if k + 1 \<ge> RetryAttempt
         then (Err (Wrap ''reached retry limit for receiving messages'' e),
               n\<lparr>world := world_after S h 1 (world n)\<rparr>)
         else ReadMessage_loop S (k + 1) (n\<lparr>world := world_after S h 1 (world n)\<rparr>)
     | Ok (t, b) \<Rightarrow> (if t \<noteq> TextMessage \<and> t \<noteq> BinaryMessage
         then Err (Wrap ''invalid message type'' ErrMessageType) else Ok b,
         n\<lparr>world := world_after S h 1 (world n)\<rparr>)
     | Panic \<Rightarrow> (Panic, n\<lparr>world := world_after S h 1 (world n)\<rparr>)
     | Blocked \<Rightarrow> (Blocked, n\<lparr>world := world_after S h 1 (world n)\<rparr>))"
  using assms
  by (subst ReadMessage_loop.simps) (simp add: on_world_def Let_def world_after_def split: res.splits)

lemma ReadMessage_loop_errors:
  assumes "isOpen (ws n)" "connection (ws n) = Some h" "\<forall>i<j. \<exists>e. read_at S h i (world n) = Err e"
    and "k + int j < RetryAttempt"
  shows "ReadMessage_loop S k n =
    ReadMessage_loop S (k + int j) (n\<lparr>world := world_after S h j (world n)\<rparr>)"
  using assms
proof (induction j arbitrary: k n)
  case 0
  then show ?case by (simp add: world_after_def)
next
  case (Suc j)
  let ?n = "n\<lparr>world := world_after S h 1 (world n)\<rparr>"
  from Suc.prems(3) obtain e where "read_at S h 0 (world n) = Err e" by blast
  then have "ReadMessage_loop S k n = ReadMessage_loop S (k + 1) ?n"
    using Suc.prems by (subst ReadMessage_loop_step) auto
  moreover have "\<forall>i<j. \<exists>e. read_at S h i (world ?n) = Err e"
    using Suc.prems(3) by (force simp: read_at_Suc [symmetric] world_after_def)
  ultimately show ?case
    using Suc.IH [of ?n "k + 1"] Suc.prems
    by (simp add: world_after_Suc [of S h 0] world_after_Suc [of S h j] world_after_def [of S h 0]
        algebra_simps)
qed

text \<open>
  \<^verbatim>\<open>ReadMessage\<close> on an open channel reads at most five times.  If the first \<open>j\<close>
  reads fail and the next one yields a text or binary message, with \<open>j\<close> below the limit, that
  message is returned and exactly \<open>j + 1\<close> reads were made; if all five fail, the error of the
  last one is returned, wrapped, after exactly five reads.
\<close>

theorem ReadMessage_retries:
  assumes "isOpen (ws n)" "connection (ws n) = Some h" "\<forall>i<j. \<exists>e. read_at S h i (world n) = Err e"
  shows "(int j < RetryAttempt \<and> read_at S h j (world n) = Ok (t, b) \<and> t \<in> {TextMessage, BinaryMessage} \<longrightarrow>
      ws_ReadMessage S n = (Ok b, n\<lparr>world := world_after S h (Suc j) (world n)\<rparr>)) \<and>
    (int j = RetryAttempt - 1 \<and> read_at S h j (world n) = Err e \<longrightarrow>
      ws_ReadMessage S n = (Err (Wrap ''reached retry limit for receiving messages'' e),
        n\<lparr>world := world_after S h (Suc j) (world n)\<rparr>))"
proof (cases "int j < RetryAttempt")
  case True
  let ?n = "n\<lparr>world := world_after S h j (world n)\<rparr>"
  have "ws_ReadMessage S n = ReadMessage_loop S (int j) ?n"
    using ReadMessage_loop_errors [OF assms, of 0] True by (simp add: ws_ReadMessage_def)
  moreover have "world_after S h 1 (world_after S h j (world n)) = world_after S h (Suc j) (world n)"
    by (simp add: world_after_def)
  ultimately show ?thesis
    using ReadMessage_loop_step [of ?n h S "int j"] assms(1,2) by (auto simp: read_at_def)
qed simp

definition demo_net :: "demo_world net" where
  "demo_net = \<lparr>ws = \<lparr>channelURL = ''wss'', isOpen = True, connection = Some 1, channelToken = ''t''\<rparr>,
     world = demo_start\<lparr>dw_inbox := [(2, [1, 2])]\<rparr>\<rparr>"

theorem ReadMessage_retries_witness:
  "\<exists>w. ws_ReadMessage demo demo_net = (Ok [1, 2], demo_net\<lparr>world := w\<rparr>)"
proof -
  have n: "isOpen (ws demo_net)" "connection (ws demo_net) = Some 1"
    "\<forall>i<0. \<exists>e. read_at demo 1 i (world demo_net) = Err e" by (simp_all add: demo_net_def)
  show ?thesis
    using ReadMessage_retries [OF n, of 2 "[1, 2]"]
    by (auto simp: demo_net_def demo_def RetryAttempt_def BinaryMessage_def)
qed

end
