(* ===== verification/DataChannel.thy ===== *)
theory DataChannel
  imports Websocket Versions
begin

text \<open>
  \<^verbatim>\<open>src/datachannel/datachannel.go\<close>: the data channel between the client and the agent,
  every method of it.  The record \<open>DataChannel\<close> has the fields of the Go struct; the field
  \<open>net\<close> is its web socket channel together with the state of the outside.  Handlers that
  the code registers (\<^verbatim>\<open>OutputStreamDataMessageHandler\<close>, \<^verbatim>\<open>StopHandler\<close>,
  \<^verbatim>\<open>IncomingMessageHandler\<close>) are functions stored in the state; the channel's own first
  message handler is a constructor, since it changes the channel.  Logging is left out.

  A Go channel of capacity \<open>k\<close> is the list of its elements, and a send to a full one is
  \<open>Blocked\<close>; a method that never returns is \<open>Blocked\<close> too.
\<close>

datatype 'w handler =
    FirstMessageHandler
  | HandlerFunc "ClientMessage \<Rightarrow> 'w net \<Rightarrow> bool res \<times> 'w net"

record ('w, 'p) DataChannel =
  net :: "'w net"
  role :: string
  clientID :: string
  sessionID :: string
  targetID :: string
  expectedSequenceNumber :: int64
  streamDataSequenceNumber :: int64
  outgoingMessageBuffer :: "StreamingMessage ListMessageBuffer"
  incomingMessageBuffer :: "(int64, StreamingMessage) MapMessageBuffer"
  roundTripTime :: rat
  roundTripTimeVariation :: rat
  retransmissionTimeout :: duration
  encryption :: "Encrypter option"
  encryptionEnabled :: bool
  sessionType :: string
  isSessionTypeSet :: "bool list"
  sessionProperties :: "'p option"
  isStreamMessageResendTimeout :: "bool list"
  outputStreamHandlers :: "'w handler list"
  isSessionSpecificHandlerSet :: bool
  agentVersion :: string
  displayMessages :: "ClientMessage list"
  incomingMessageHandler :: "bytes \<Rightarrow> 'w net \<Rightarrow> unit res \<times> 'w net"
  stopHandler :: "'w net \<Rightarrow> unit res \<times> 'w net"

definition on_net :: "('w net \<Rightarrow> 'a \<times> 'w net) \<Rightarrow> ('w, 'p) DataChannel \<Rightarrow> 'a \<times> ('w, 'p) DataChannel" where
  "on_net f c = (let r = f (net c) in (fst r, c\<lparr>net := snd r\<rparr>))"

definition on_w :: "('w \<Rightarrow> 'a \<times> 'w) \<Rightarrow> ('w, 'p) DataChannel \<Rightarrow> 'a \<times> ('w, 'p) DataChannel" where
  "on_w f c = on_net (on_world f) c"

text \<open>\<^verbatim>\<open>ch <- x\<close> on a channel of capacity \<open>k\<close>.\<close>

definition chan_send :: "nat \<Rightarrow> 'a \<Rightarrow> 'a list \<Rightarrow> 'a list res" where
  "chan_send k x ch = (if length ch < k then Ok (ch @ [x]) else Blocked)"

text \<open>The outcome of a call whose error is only logged.\<close>

definition logged :: "unit res \<times> 's \<Rightarrow> unit res \<times> 's" where
  "logged r = (case fst r of Err e \<Rightarrow> (Ok (), snd r) | _ \<Rightarrow> r)"

section \<open>Creation, registration, accessors\<close>

definition RegisterIncomingMessageHandler ::
    "(bytes \<Rightarrow> 'w net \<Rightarrow> unit res \<times> 'w net) \<Rightarrow> ('w, 'p) DataChannel \<Rightarrow> ('w, 'p) DataChannel" where
  "RegisterIncomingMessageHandler handler c = c\<lparr>incomingMessageHandler := handler\<rparr>"

definition RegisterStopHandler ::
    "('w net \<Rightarrow> unit res \<times> 'w net) \<Rightarrow> ('w, 'p) DataChannel \<Rightarrow> ('w, 'p) DataChannel" where
  "RegisterStopHandler handler c = c\<lparr>stopHandler := handler\<rparr>"

definition NewDataChannel :: "'w net \<Rightarrow> string \<Rightarrow> string \<Rightarrow> string \<Rightarrow> ('w, 'p) DataChannel" where
  "NewDataChannel wsChannel client session target =
     RegisterStopHandler (\<lambda>n. (Ok (), n)) (RegisterIncomingMessageHandler (\<lambda>b n. (Ok (), n))
     \<lparr>net = wsChannel, role = RolePublishSubscribe, clientID = client, sessionID = session,
      targetID = target, expectedSequenceNumber = 0, streamDataSequenceNumber = 0,
      outgoingMessageBuffer = NewListMessageBuffer OutgoingMessageBufferCapacity,
      incomingMessageBuffer = NewMapMessageBuffer IncomingMessageBufferCapacity,
      roundTripTime = of_int DefaultRoundTripTime,
      roundTripTimeVariation = of_int DefaultRoundTripTimeVariation,
      retransmissionTimeout = DefaultTransmissionTimeout,
      encryption = None, encryptionEnabled = False, sessionType = [], isSessionTypeSet = [],
      sessionProperties = None, isStreamMessageResendTimeout = [], outputStreamHandlers = [],
      isSessionSpecificHandlerSet = False, agentVersion = [], displayMessages = [],
      incomingMessageHandler = (\<lambda>b n. (Panic, n)), stopHandler = (\<lambda>n. (Panic, n))\<rparr>)"

definition RegisterOutputStreamHandler ::
    "'w handler \<Rightarrow> bool \<Rightarrow> ('w, 'p) DataChannel \<Rightarrow> ('w, 'p) DataChannel" where
  "RegisterOutputStreamHandler handler isSessionSpecificHandler c =
     c\<lparr>isSessionSpecificHandlerSet := isSessionSpecificHandler,
       outputStreamHandlers := outputStreamHandlers c @ [handler]\<rparr>"

definition SetAgentVersion :: "string \<Rightarrow> ('w, 'p) DataChannel \<Rightarrow> ('w, 'p) DataChannel" where
  "SetAgentVersion v c = c\<lparr>agentVersion := v\<rparr>"

section \<open>Sending\<close>

definition SendMessage :: "('w, 'p) sys \<Rightarrow> bytes \<Rightarrow> int \<Rightarrow> ('w, 'p) DataChannel \<Rightarrow>
    unit res \<times> ('w, 'p) DataChannel" where
  "SendMessage S input inputType c =
     swrap ''sending message through data channel'' (on_net (ws_SendMessage S input inputType) c)"

definition Close :: "('w, 'p) sys \<Rightarrow> ('w, 'p) DataChannel \<Rightarrow> unit res \<times> ('w, 'p) DataChannel" where
  "Close S c = swrap ''closing data channel'' (on_net (ws_Close S) c)"

definition input_message :: "uuid \<Rightarrow> int64 \<Rightarrow> uint32 \<Rightarrow> bytes \<Rightarrow> int64 \<Rightarrow> ClientMessage" where
  "input_message messageUUID nowMilli payloadType inputData sequenceNumber =
     \<lparr>HeaderLength = 0, MessageType = InputStreamMessage, SchemaVersion = 1,
      CreatedDate = word_of_int nowMilli, SequenceNumber = sequenceNumber, Flags = 0,
      MessageID = messageUUID, PayloadDigest = [], PayloadType = payloadType, PayloadLength = 0,
      Payload = inputData\<rparr>"

text \<open>A method call on the nil \<^verbatim>\<open>encryption\<close> interface panics.\<close>

definition encrypt_with :: "('w, 'p) sys \<Rightarrow> bytes \<Rightarrow> ('w, 'p) DataChannel \<Rightarrow>
    bytes res \<times> ('w, 'p) DataChannel" where
  "encrypt_with S b c =
     (case encryption c of None \<Rightarrow> (Panic, c) | Some e \<Rightarrow> on_w (Encrypt S e b) c)"

definition decrypt_with :: "('w, 'p) sys \<Rightarrow> bytes \<Rightarrow> ('w, 'p) DataChannel \<Rightarrow> bytes res" where
  "decrypt_with S b c = (case encryption c of None \<Rightarrow> Panic | Some e \<Rightarrow> Decrypt S e b)"

definition SendInputDataMessage :: "('w, 'p) sys \<Rightarrow> uint32 \<Rightarrow> bytes \<Rightarrow> ('w, 'p) DataChannel \<Rightarrow>
    unit res \<times> ('w, 'p) DataChannel" where
  "SendInputDataMessage S payloadType inputData c =
     sbind (on_w (uuid_New S) c) (\<lambda>messageUUID c.
     let inputData = (if inputData = [10] then [13] else inputData) in
     sbind (if encryptionEnabled c \<and> payloadType = Output
            then swrap ''encrypting input data'' (encrypt_with S inputData c)
            else (Ok inputData, c)) (\<lambda>inputData c.
     let sequenceNumber = streamDataSequenceNumber c;
         (nowMilli, c) = on_w (time_UnixMilli S) c;
         clientMessage = input_message messageUUID nowMilli payloadType inputData sequenceNumber in
     sbind (wrap_err ''serializing client message''
       (SerializeClientMessage (uuidp S) clientMessage), c) (\<lambda>msg c.
     sbind (swrap ''sending message'' (SendMessage S msg BinaryMessage c)) (\<lambda>_ c.
     let (now, c) = on_w (time_Now S) c;
         streamingMessage = \<lparr>sm_Content = msg, sm_SequenceNumber = sequenceNumber,
                             sm_LastSentTime = now, sm_ResendAttempt = 0\<rparr>;
         c = c\<lparr>streamDataSequenceNumber := to_i64 (streamDataSequenceNumber c + 1)\<rparr> in
     sbind (ForcePushBack (outgoingMessageBuffer c) streamingMessage, c) (\<lambda>b c.
     (Ok (), c\<lparr>outgoingMessageBuffer := b\<rparr>))))))"

definition SendFlag :: "('w, 'p) sys \<Rightarrow> uint32 \<Rightarrow> ('w, 'p) DataChannel \<Rightarrow>
    unit res \<times> ('w, 'p) DataChannel" where
  "SendFlag S flagType c = SendInputDataMessage S Flag (be_bytes 4 (unat flagType)) c"

text \<open>\<^verbatim>\<open>SerializeClientMessageWithAcknowledgeContent\<close> draws its id and the time after
  the content is marshalled.\<close>

definition serialize_acknowledge :: "('w, 'p) sys \<Rightarrow> AcknowledgeContent \<Rightarrow> ('w, 'p) DataChannel \<Rightarrow>
    bytes res \<times> ('w, 'p) DataChannel" where
  "serialize_acknowledge S content c =
     (case marshal_AcknowledgeContent (json S) content of
        Ok _ \<Rightarrow>
          sbind (on_w (uuid_New S) c) (\<lambda>messageID c.
          let (nowMilli, c) = on_w (time_UnixMilli S) c in
          (SerializeClientMessageWithAcknowledgeContent (uuidp S) (json S) messageID nowMilli content, c))
      | _ \<Rightarrow>
          (SerializeClientMessageWithAcknowledgeContent (uuidp S) (json S) uuid_Nil 0 content, c))"

definition sendAcknowledgeMessage :: "('w, 'p) sys \<Rightarrow> ClientMessage \<Rightarrow> ('w, 'p) DataChannel \<Rightarrow>
    unit res \<times> ('w, 'p) DataChannel" where
  "sendAcknowledgeMessage S m c =
     (let content = \<lparr>ack_MessageType = MessageType m, ack_MessageID = uuid_String S (MessageID m),
                     ack_SequenceNumber = SequenceNumber m, ack_IsSequentialMessage = True\<rparr> in
      sbind (swrap ''serializing acknowledge message'' (serialize_acknowledge S content c)) (\<lambda>msg c.
      swrap ''sending acknowledge message'' (SendMessage S msg BinaryMessage c)))"

section \<open>Acknowledgements and the retransmission timeout\<close>

text \<open>\<^verbatim>\<open>float64\<close> arithmetic: every operation rounds its exact result by
  \<open>float_round\<close>.  The constants are exact.\<close>

definition calculateRetransmissionTimeout :: "('w, 'p) sys \<Rightarrow> StreamingMessage \<Rightarrow> ('w, 'p) DataChannel \<Rightarrow>
    ('w, 'p) DataChannel" where
  "calculateRetransmissionTimeout S streamingMessage c =
     (let (now, c) = on_w (time_Now S) c;
          fl = float_round S;
          newRoundTripTime = fl (of_int (GetRoundTripTime streamingMessage now));
          variation = fl (fl ((1 - RTTVConstant) * roundTripTimeVariation c) +
            fl (RTTVConstant * \<bar>fl (roundTripTime c - newRoundTripTime)\<bar>));
          rtt = fl (fl ((1 - RTTConstant) * roundTripTime c) + fl (RTTConstant * newRoundTripTime));
          timeout = float_to_int64 S (fl (rtt + max (of_int ClockGranularity) (fl (4 * variation)))) in
      c\<lparr>roundTripTimeVariation := variation, roundTripTime := rtt,
        retransmissionTimeout :=
          (if timeout > MaxTransmissionTimeout then MaxTransmissionTimeout else timeout)\<rparr>)"

definition processAcknowledgedMessage :: "('w, 'p) sys \<Rightarrow> AcknowledgeContent \<Rightarrow> ('w, 'p) DataChannel \<Rightarrow>
    ('w, 'p) DataChannel" where
  "processAcknowledgedMessage S content c =
     (let (removedMessage, b) =
        RemoveIf (outgoingMessageBuffer c) (\<lambda>msg. sm_SequenceNumber msg = ack_SequenceNumber content);
          c = c\<lparr>outgoingMessageBuffer := b\<rparr> in
      case removedMessage of
        Some m \<Rightarrow> calculateRetransmissionTimeout S m c
      | None \<Rightarrow> c)"

definition handleAcknowledgeMessage :: "('w, 'p) sys \<Rightarrow> ClientMessage \<Rightarrow> ('w, 'p) DataChannel \<Rightarrow>
    unit res \<times> ('w, 'p) DataChannel" where
  "handleAcknowledgeMessage S m c =
     sbind (wrap_err ''deserializing data stream acknowledge content''
       (DeserializeDataStreamAcknowledgeContent (json S) m), c) (\<lambda>content c.
     (Ok (), processAcknowledgedMessage S content c))"

definition handleChannelClosedMessage :: "('w, 'p) sys \<Rightarrow> ClientMessage \<Rightarrow> ('w, 'p) DataChannel \<Rightarrow>
    unit res \<times> ('w, 'p) DataChannel" where
  "handleChannelClosedMessage S m c =
     sbind (wrap_err ''deserializing channel closed message''
       (DeserializeChannelClosedMessage (json S) m), c) (\<lambda>closed c.
     swrap ''calling stop handler'' (on_net (stopHandler c) c))"

section \<open>Output handlers\<close>

text \<open>\<^verbatim>\<open>deregisterOutputStreamHandler(c.firstMessageHandler)\<close>: handlers are compared by
  their code, so only the first message handler itself matches.\<close>

fun is_first_handler :: "'w handler \<Rightarrow> bool" where
  "is_first_handler FirstMessageHandler = True"
| "is_first_handler (HandlerFunc f) = False"

definition deregister_firstMessageHandler :: "('w, 'p) DataChannel \<Rightarrow> ('w, 'p) DataChannel" where
  "deregister_firstMessageHandler c =
     c\<lparr>outputStreamHandlers := snd (remove_first is_first_handler (outputStreamHandlers c))\<rparr>"

definition firstMessageHandler :: "ClientMessage \<Rightarrow> ('w, 'p) DataChannel \<Rightarrow>
    bool res \<times> ('w, 'p) DataChannel" where
  "firstMessageHandler m c =
     (let c = deregister_firstMessageHandler c in
      if sessionType c = [] \<and> PayloadType m = Output then
        (let c = c\<lparr>sessionType := ShellPluginName\<rparr> in
         sbind (chan_send 1 True (isSessionTypeSet c), c) (\<lambda>ch c.
         let c = c\<lparr>isSessionTypeSet := ch\<rparr> in
         sbind (chan_send 1 m (displayMessages c), c) (\<lambda>ch c.
         (Ok True, c\<lparr>displayMessages := ch\<rparr>))))
      else (Ok True, c))"

fun call_handler :: "'w handler \<Rightarrow> ClientMessage \<Rightarrow> ('w, 'p) DataChannel \<Rightarrow>
    bool res \<times> ('w, 'p) DataChannel" where
  "call_handler FirstMessageHandler m c = firstMessageHandler m c"
| "call_handler (HandlerFunc f) m c = on_net (f m) c"

text \<open>The \<^verbatim>\<open>range\<close> loop fixes the slice it started with: its length, and its backing
  array \<open>arr\<close>, which deregistration overwrites in place.  At any time the registered
  handlers are a prefix of that array.\<close>

definition sync_array :: "'w handler list \<Rightarrow> ('w, 'p) DataChannel \<Rightarrow> 'w handler list" where
  "sync_array arr c =
     take (length arr) (outputStreamHandlers c @ drop (length (outputStreamHandlers c)) arr)"

lemma length_sync_array [simp]: "length (sync_array arr c) = length arr"
  by (simp add: sync_array_def)

function handlers_loop :: "'w handler list \<Rightarrow> nat \<Rightarrow> bool \<Rightarrow> ClientMessage \<Rightarrow> ('w, 'p) DataChannel \<Rightarrow>
    bool res \<times> ('w, 'p) DataChannel" where
  "handlers_loop arr i isHandlerReady m c =
     (if i < length arr then
        sbind (call_handler (arr ! i) m c) (\<lambda>ready c.
        if \<not> ready then (Ok False, c)
        else handlers_loop (sync_array arr c) (Suc i) True m c)
      else (Ok isHandlerReady, c))"
  by pat_completeness auto
termination
  by (relation "measure (\<lambda>(arr, i, r, m, c). length arr - i)") auto

declare handlers_loop.simps [simp del]

definition processOutputMessageWithHandlers :: "ClientMessage \<Rightarrow> ('w, 'p) DataChannel \<Rightarrow>
    bool res \<times> ('w, 'p) DataChannel" where
  "processOutputMessageWithHandlers m c =
     (if sessionType c \<noteq> [] \<and> \<not> isSessionSpecificHandlerSet c then (Ok False, c)
      else handlers_loop (outputStreamHandlers c) 0 False m c)"

section \<open>Handshake\<close>

definition ProcessKMSEncryptionHandshakeAction :: "('w, 'p) sys \<Rightarrow> bytes \<Rightarrow> ('w, 'p) DataChannel \<Rightarrow>
    unit res \<times> ('w, 'p) DataChannel" where
  "ProcessKMSEncryptionHandshakeAction S actionParams c =
     sbind (wrap_err ''failed to unmarshal KMS encryption request''
       (unmarshal_KMSEncryptionRequest (json S) actionParams), c) (\<lambda>req c.
     sbind (swrap ''creating encryptor''
       (on_w (Build S (KMSKeyID req) (sessionID c) (targetID c)) c)) (\<lambda>encryptor c.
     (Ok (), c\<lparr>encryption := Some encryptor\<rparr>)))"

definition ProcessSessionTypeHandshakeAction :: "('w, 'p) sys \<Rightarrow> bytes \<Rightarrow> ('w, 'p) DataChannel \<Rightarrow>
    unit res \<times> ('w, 'p) DataChannel" where
  "ProcessSessionTypeHandshakeAction S actionParams c =
     sbind (wrap_err ''failed to unmarshal session type request''
       (unmarshal_SessionTypeRequest (json S) actionParams), c) (\<lambda>req c.
     if str_SessionType req \<in> {ShellPluginName, InteractiveCommandsPluginName, NonInteractiveCommandsPluginName}
     then (Ok (), c\<lparr>sessionType := ShellPluginName, sessionProperties := Some (str_Properties req)\<rparr>)
     else if str_SessionType req = PortPluginName
     then (Ok (), c\<lparr>sessionType := str_SessionType req, sessionProperties := Some (str_Properties req)\<rparr>)
     else (Err ErrUnknownSessionType, c))"

text \<open>One requested action: its entry in the response, and its error for the error list.  A
  panic or a block of the action ends the whole call.\<close>

definition failed_action :: "string \<Rightarrow> go_error \<Rightarrow> ProcessedClientAction" where
  "failed_action actionType e =
     \<lparr>pca_ActionType = actionType, pca_ActionStatus = Failed, pca_ActionResult = NoResult,
      pca_Error = Some (Wrap (''processing action '' @ actionType) e)\<rparr>"

definition process_action :: "('w, 'p) sys \<Rightarrow> RequestedClientAction \<Rightarrow> ('w, 'p) DataChannel \<Rightarrow>
    (ProcessedClientAction \<times> go_error list) res \<times> ('w, 'p) DataChannel" where
  "process_action S action c =
     (if ActionType action = KMSEncryption then
        (case ProcessKMSEncryptionHandshakeAction S (ActionParameters action) c of
           (Err e, c) \<Rightarrow> (Ok (failed_action KMSEncryption e, [e]), c)
         | (Ok _, c) \<Rightarrow>
             (case encryption c of
                None \<Rightarrow> (Panic, c)
              | Some enc \<Rightarrow>
                  (Ok (\<lparr>pca_ActionType = ActionType action, pca_ActionStatus = Success,
                        pca_ActionResult = KMSResult \<lparr>KMSCipherTextKey = GetEncryptedDataKey enc,
                                                      KMSCipherTextHash = []\<rparr>,
                        pca_Error = None\<rparr>, []), c\<lparr>encryptionEnabled := True\<rparr>))
         | (Panic, c) \<Rightarrow> (Panic, c)
         | (Blocked, c) \<Rightarrow> (Blocked, c))
      else if ActionType action = SessionType then
        (case ProcessSessionTypeHandshakeAction S (ActionParameters action) c of
           (Err e, c) \<Rightarrow> (Ok (failed_action SessionType e, [e]), c)
         | (Ok _, c) \<Rightarrow>
             (Ok (\<lparr>pca_ActionType = ActionType action, pca_ActionStatus = Success,
                   pca_ActionResult = NoResult, pca_Error = None\<rparr>, []), c)
         | (Panic, c) \<Rightarrow> (Panic, c)
         | (Blocked, c) \<Rightarrow> (Blocked, c))
      else
        (Ok (\<lparr>pca_ActionType = ActionType action, pca_ActionStatus = 0,
              pca_ActionResult = StatusResult Unsupported, pca_Error = Some ErrUnsupportedAction\<rparr>,
             [ErrUnsupportedAction]), c))"

fun process_actions :: "('w, 'p) sys \<Rightarrow> RequestedClientAction list \<Rightarrow> ('w, 'p) DataChannel \<Rightarrow>
    (ProcessedClientAction list \<times> go_error list) res \<times> ('w, 'p) DataChannel" where
  "process_actions S [] c = (Ok ([], []), c)"
| "process_actions S (a # as) c =
     sbind (process_action S a c) (\<lambda>(p, es) c.
     sbind (process_actions S as c) (\<lambda>(ps, es') c.
     (Ok (p # ps, es @ es'), c)))"

definition sendHandshakeResponse :: "('w, 'p) sys \<Rightarrow> HandshakeResponsePayload \<Rightarrow> ('w, 'p) DataChannel \<Rightarrow>
    unit res \<times> ('w, 'p) DataChannel" where
  "sendHandshakeResponse S response c =
     sbind (wrap_err ''serializing HandshakeResponse message''
       (marshal_HandshakeResponsePayload (json S) response), c) (\<lambda>resultBytes c.
     SendInputDataMessage S HandshakeResponsePayloadType resultBytes c)"

definition handleHandshakeRequest :: "('w, 'p) sys \<Rightarrow> ClientMessage \<Rightarrow> ('w, 'p) DataChannel \<Rightarrow>
    unit res \<times> ('w, 'p) DataChannel" where
  "handleHandshakeRequest S m c =
     sbind (wrap_err ''deserializing handshake request''
       (DeserializeHandshakeRequest (json S) m), c) (\<lambda>req c.
     let c = c\<lparr>agentVersion := AgentVersion req\<rparr> in
     sbind (process_actions S (RequestedClientActions req) c) (\<lambda>(ps, es) c.
     sendHandshakeResponse S
       \<lparr>hrp_ClientVersion = Version, hrp_ProcessedClientActions = ps, hrp_Errors = es\<rparr> c))"

definition handleHandshakeComplete :: "('w, 'p) sys \<Rightarrow> ClientMessage \<Rightarrow> ('w, 'p) DataChannel \<Rightarrow>
    unit res \<times> ('w, 'p) DataChannel" where
  "handleHandshakeComplete S m c =
     sbind (wrap_err ''handling handshake complete''
       (DeserializeHandshakeComplete (json S) m), c) (\<lambda>done c.
     sbind (chan_send 1 (sessionType c \<noteq> []) (isSessionTypeSet c), c) (\<lambda>ch c.
     (Ok (), c\<lparr>isSessionTypeSet := ch\<rparr>)))"

definition sendEncryptionChallengeResponse :: "('w, 'p) sys \<Rightarrow> EncryptionChallengeResponse \<Rightarrow>
    ('w, 'p) DataChannel \<Rightarrow> unit res \<times> ('w, 'p) DataChannel" where
  "sendEncryptionChallengeResponse S response c =
     sbind (wrap_err ''could not serialize EncChallengeResponse message''
       (marshal_EncryptionChallengeResponse (json S) response), c) (\<lambda>resultBytes c.
     SendInputDataMessage S EncChallengeResponse resultBytes c)"

definition handleEncryptionChallengeRequest :: "('w, 'p) sys \<Rightarrow> ClientMessage \<Rightarrow> ('w, 'p) DataChannel \<Rightarrow>
    unit res \<times> ('w, 'p) DataChannel" where
  "handleEncryptionChallengeRequest S m c =
     sbind (wrap_err ''could not deserialize rawMessage''
       (unmarshal_EncryptionChallengeRequest (json S) (Payload m)), c) (\<lambda>req c.
     sbind (wrap_err ''decrypting challenge'' (decrypt_with S (creq_Challenge req) c), c) (\<lambda>challenge c.
     sbind (swrap ''encrypting challenge'' (encrypt_with S challenge c)) (\<lambda>challenge c.
     sendEncryptionChallengeResponse S \<lparr>cresp_Challenge = challenge\<rparr> c)))"

section \<open>Output messages\<close>

definition handleHandshakeRequestOutputMessage :: "('w, 'p) sys \<Rightarrow> ClientMessage \<Rightarrow> ('w, 'p) DataChannel \<Rightarrow>
    unit res \<times> ('w, 'p) DataChannel" where
  "handleHandshakeRequestOutputMessage S m c =
     sbind (sendAcknowledgeMessage S m c) (\<lambda>_ c.
     swrap ''handling handshake request output message'' (handleHandshakeRequest S m c))"

definition handleHandshakeCompleteOutputMessage :: "('w, 'p) sys \<Rightarrow> ClientMessage \<Rightarrow> ('w, 'p) DataChannel \<Rightarrow>
    unit res \<times> ('w, 'p) DataChannel" where
  "handleHandshakeCompleteOutputMessage S m c =
     sbind (sendAcknowledgeMessage S m c) (\<lambda>_ c.
     swrap ''handling handshake complete output message'' (handleHandshakeComplete S m c))"

definition handleEncryptionChallengeRequestOutputMessage :: "('w, 'p) sys \<Rightarrow> ClientMessage \<Rightarrow>
    ('w, 'p) DataChannel \<Rightarrow> unit res \<times> ('w, 'p) DataChannel" where
  "handleEncryptionChallengeRequestOutputMessage S m c =
     sbind (sendAcknowledgeMessage S m c) (\<lambda>_ c.
     swrap ''handling encryption challenge request output message''
       (handleEncryptionChallengeRequest S m c))"

definition decrypts :: "ClientMessage \<Rightarrow> ('w, 'p) DataChannel \<Rightarrow> bool" where
  "decrypts m c \<longleftrightarrow> encryptionEnabled c \<and>
     (PayloadType m = Output \<or> PayloadType m = StdErr \<or> PayloadType m = ExitCode)"

definition handleDefaultOutputMessage :: "('w, 'p) sys \<Rightarrow> ClientMessage \<Rightarrow> ('w, 'p) DataChannel \<Rightarrow>
    unit res \<times> ('w, 'p) DataChannel" where
  "handleDefaultOutputMessage S m c =
     sbind (if decrypts m c
            then rbind (wrap_err ''decrypting incoming data payload'' (decrypt_with S (Payload m) c))
              (\<lambda>p. Ok (m\<lparr>Payload := p\<rparr>))
            else Ok m, c) (\<lambda>m c.
     sbind (swrap ''handling default output message'' (processOutputMessageWithHandlers m c))
       (\<lambda>isHandlerReady c.
     if \<not> isHandlerReady then (Ok (), c)
     else sendAcknowledgeMessage S m c))"

definition handleUnexpectedSequenceMessage :: "('w, 'p) sys \<Rightarrow> ClientMessage \<Rightarrow> bytes \<Rightarrow>
    ('w, 'p) DataChannel \<Rightarrow> unit res \<times> ('w, 'p) DataChannel" where
  "handleUnexpectedSequenceMessage S m rawMessage c =
     (if SequenceNumber m > expectedSequenceNumber c \<and> \<not> IsFull (incomingMessageBuffer c) then
        sbind (sendAcknowledgeMessage S m c) (\<lambda>_ c.
        let (now, c) = on_w (time_Now S) c;
            streamingMessage = \<lparr>sm_Content = rawMessage, sm_SequenceNumber = SequenceNumber m,
                                sm_LastSentTime = now, sm_ResendAttempt = 0\<rparr> in
        (Ok (), c\<lparr>incomingMessageBuffer := snd (SetUnlessFull (incomingMessageBuffer c)
           (sm_SequenceNumber streamingMessage) streamingMessage)\<rparr>))
      else (Ok (), c))"

text \<open>The message of the caller is only the receiver that deserialization overwrites.\<close>

definition processBufferedMessage :: "('w, 'p) sys \<Rightarrow> StreamingMessage \<Rightarrow> ('w, 'p) DataChannel \<Rightarrow>
    unit res \<times> ('w, 'p) DataChannel" where
  "processBufferedMessage S buffered c =
     sbind (wrap_err ''deserializing raw message''
       (DeserializeClientMessage (uuidp S) (sm_Content buffered)), c) (\<lambda>m c.
     sbind (if decrypts m c
            then rbind (wrap_err ''decrypting buffered message data payload'' (decrypt_with S (Payload m) c))
              (\<lambda>p. Ok (m\<lparr>Payload := p\<rparr>))
            else Ok m, c) (\<lambda>m c.
     sbind (swrap ''processing output message with handlers'' (processOutputMessageWithHandlers m c))
       (\<lambda>_ c.
     let c = c\<lparr>expectedSequenceNumber := to_i64 (expectedSequenceNumber c + 1)\<rparr> in
     (Ok (), c\<lparr>incomingMessageBuffer :=
        snd (Remove (incomingMessageBuffer c) (sm_SequenceNumber buffered))\<rparr>))))"

text \<open>A loop over the buffer that ends when the next expected message is missing; \<open>None\<close>
  if it does not end.\<close>

definition next_buffered :: "('w, 'p) DataChannel \<Rightarrow> StreamingMessage option" where
  "next_buffered c =
     (case Get (incomingMessageBuffer c) (expectedSequenceNumber c) of
        None \<Rightarrow> None
      | Some b \<Rightarrow> if sm_Content b = [] then None else Some b)"

partial_function (option) ProcessItems_loop :: "('w, 'p) sys \<Rightarrow> ('w, 'p) DataChannel \<Rightarrow>
    (unit res \<times> ('w, 'p) DataChannel) option" where
  "ProcessItems_loop S c =
     (if next_buffered c = None then Some (Ok (), c)
      else let r = processBufferedMessage S (the (next_buffered c)) c in
        if fst r = Ok () then ProcessItems_loop S (snd r)
        else Some (swrap ''processing incoming message buffer items'' r))"

definition ProcessIncomingMessageBufferItems :: "('w, 'p) sys \<Rightarrow> ('w, 'p) DataChannel \<Rightarrow>
    unit res \<times> ('w, 'p) DataChannel" where
  "ProcessIncomingMessageBufferItems S c =
     (case ProcessItems_loop S c of Some r \<Rightarrow> r | None \<Rightarrow> (Blocked, c))"

definition handleOutputMessage :: "('w, 'p) sys \<Rightarrow> ClientMessage \<Rightarrow> bytes \<Rightarrow> ('w, 'p) DataChannel \<Rightarrow>
    unit res \<times> ('w, 'p) DataChannel" where
  "handleOutputMessage S m rawMessage c =
     (if SequenceNumber m \<noteq> expectedSequenceNumber c
      then handleUnexpectedSequenceMessage S m rawMessage c
      else
        sbind (if PayloadType m = HandshakeRequestPayloadType
               then handleHandshakeRequestOutputMessage S m c
               else if PayloadType m = HandshakeCompletePayloadType
               then handleHandshakeCompleteOutputMessage S m c
               else if PayloadType m = EncChallengeRequest
               then handleEncryptionChallengeRequestOutputMessage S m c
               else handleDefaultOutputMessage S m c) (\<lambda>_ c.
        ProcessIncomingMessageBufferItems S
          (c\<lparr>expectedSequenceNumber := to_i64 (expectedSequenceNumber c + 1)\<rparr>)))"

definition outputMessageHandler :: "('w, 'p) sys \<Rightarrow> bytes \<Rightarrow> ('w, 'p) DataChannel \<Rightarrow>
    unit res \<times> ('w, 'p) DataChannel" where
  "outputMessageHandler S rawMessage c =
     sbind (wrap_err ''could not deserialize rawMessage''
       (DeserializeClientMessage (uuidp S) rawMessage), c) (\<lambda>m c.
     sbind (wrap_err ''validating output message'' (Validate m), c) (\<lambda>_ c.
     if MessageType m = OutputStreamMessage then handleOutputMessage S m rawMessage c
     else if MessageType m = AcknowledgeMessage then handleAcknowledgeMessage S m c
     else if MessageType m = ChannelClosedMessage then handleChannelClosedMessage S m c
     else (Ok (), c)))"

section \<open>Connecting\<close>

definition finalizeDataChannelHandshake :: "('w, 'p) sys \<Rightarrow> string \<Rightarrow> ('w, 'p) DataChannel \<Rightarrow>
    unit res \<times> ('w, 'p) DataChannel" where
  "finalizeDataChannelHandshake S tokenValue c =
     sbind (on_w (uuid_New S) c) (\<lambda>uid c.
     let input = \<lparr>odc_MessageSchemaVersion = MessageSchemaVersion, odc_RequestID = uuid_String S uid,
                  odc_TokenValue = tokenValue, odc_ClientID = clientID c, odc_ClientVersion = Version\<rparr> in
     sbind (wrap_err ''serializing open data channel input''
       (marshal_OpenDataChannelInput (json S) input), c) (\<lambda>inputBytes c.
     SendMessage S inputBytes TextMessage c))"

text \<open>The unexported \<^verbatim>\<open>open\<close>.\<close>

definition dc_open :: "('w, 'p) sys \<Rightarrow> ('w, 'p) DataChannel \<Rightarrow> unit res \<times> ('w, 'p) DataChannel" where
  "dc_open S c =
     sbind (swrap ''opening data channel'' (on_net (ws_Open S) c)) (\<lambda>_ c.
     swrap ''error sending token for handshake''
       (finalizeDataChannelHandshake S (GetChannelToken (net c)) c))"

definition reconnect :: "('w, 'p) sys \<Rightarrow> ('w, 'p) DataChannel \<Rightarrow> unit res \<times> ('w, 'p) DataChannel" where
  "reconnect S c =
     sbind (logged (Close S c)) (\<lambda>_ c. swrap ''reconnecting data channel'' (dc_open S c))"

definition dc_sleep :: "('w, 'p) sys \<Rightarrow> duration \<Rightarrow> ('w, 'p) DataChannel \<Rightarrow> ('w, 'p) DataChannel" where
  "dc_sleep S d c = snd (on_w (\<lambda>w. ((), time_Sleep S d w)) c)"

text \<open>The retrier that both \<^verbatim>\<open>Open\<close> and \<^verbatim>\<open>listen\<close> build; a retry that does not
  return is \<open>Blocked\<close>.\<close>

definition channel_retrier :: "('w, 'p) sys \<Rightarrow> ('w, 'p) DataChannel \<Rightarrow>
    RepeatableExponentialRetryer \<times> ('w, 'p) DataChannel" where
  "channel_retrier S c =
     (let (r, c) = on_w (rand_Intn S DataChannelRetryInitialDelayMillis) c in
      (open_retrier (r + DataChannelRetryInitialDelayMillis), c))"

definition call_retrier :: "('w, 'p) sys \<Rightarrow> RepeatableExponentialRetryer \<Rightarrow>
    (('w, 'p) DataChannel \<Rightarrow> unit res \<times> ('w, 'p) DataChannel) \<Rightarrow> ('w, 'p) DataChannel \<Rightarrow>
    unit res \<times> ('w, 'p) DataChannel" where
  "call_retrier S retrier fn c =
     (case Call (float_round S) (dc_sleep S) retrier fn c of Some r \<Rightarrow> r | None \<Rightarrow> (Blocked, c))"

text \<open>\<^verbatim>\<open>Open\<close> until it starts its two goroutines; what follows is
  \<open>establishSessionType\<close>.\<close>

definition Open_connect :: "('w, 'p) sys \<Rightarrow> ('w, 'p) DataChannel \<Rightarrow> unit res \<times> ('w, 'p) DataChannel" where
  "Open_connect S c =
     (let c = RegisterOutputStreamHandler FirstMessageHandler False c;
          (openRetrier, c) = channel_retrier S c in
      case dc_open S c of
        (Err e, c) \<Rightarrow> swrap ''retrying open data channel'' (call_retrier S openRetrier (reconnect S) c)
      | r \<Rightarrow> r)"

text \<open>The \<^verbatim>\<open>select\<close> takes either channel when both are ready; \<open>preferTimeout\<close> is its
  choice.\<close>

definition establishSessionType :: "('w net \<Rightarrow> unit res \<times> 'w net) \<Rightarrow> bool \<Rightarrow> ('w, 'p) DataChannel \<Rightarrow>
    string res \<times> ('w, 'p) DataChannel" where
  "establishSessionType timeoutHandler preferTimeout c =
     (case (isStreamMessageResendTimeout c, isSessionTypeSet c) of
        ([], []) \<Rightarrow> (Blocked, c)
      | (t # ts, ss) \<Rightarrow>
          if preferTimeout \<or> ss = [] then
            sbind (swrap ''calling timeout handler''
              (on_net timeoutHandler (c\<lparr>isStreamMessageResendTimeout := ts\<rparr>))) (\<lambda>_ c.
            (Err ErrUnknownSessionType, c))
          else (if hd ss then Ok (sessionType c) else Err ErrUnknownSessionType,
                c\<lparr>isSessionTypeSet := tl ss\<rparr>)
      | ([], s # ss) \<Rightarrow>
          (if s then Ok (sessionType c) else Err ErrUnknownSessionType, c\<lparr>isSessionTypeSet := ss\<rparr>))"

section \<open>The listening goroutine\<close>

definition refresh_and_reconnect :: "('w, 'p) sys \<Rightarrow> ('w net \<Rightarrow> string res \<times> 'w net) \<Rightarrow>
    ('w, 'p) DataChannel \<Rightarrow> unit res \<times> ('w, 'p) DataChannel" where
  "refresh_and_reconnect S refreshTokenHandler c =
     sbind (swrap ''getting reconnection token'' (on_net refreshTokenHandler c)) (\<lambda>token c.
     if token = [] then (Err ErrTimedOut, c)
     else swrap ''reconnecting data channel'' (reconnect S (c\<lparr>net := SetChannelToken token (net c)\<rparr>)))"

text \<open>What the loop of \<^verbatim>\<open>listen\<close> does with a message.  The result is \<open>None\<close> if the loop
  goes on, else the outcome with which \<^verbatim>\<open>listen\<close> ends.\<close>

definition listen_message :: "('w, 'p) sys \<Rightarrow> bytes \<Rightarrow> ('w, 'p) DataChannel \<Rightarrow>
    unit res option \<times> ('w, 'p) DataChannel" where
  "listen_message S rawMessage c =
     (case on_net (incomingMessageHandler c rawMessage) c of
        (Ok _, c) \<Rightarrow>
          (case outputMessageHandler S rawMessage c of
             (Ok _, c) \<Rightarrow> (None, c)
           | (Err e, c) \<Rightarrow> map_prod Some id (sbind (logged (Close S c)) (\<lambda>_ c. (Err e, c)))
           | (r, c) \<Rightarrow> (Some r, c))
      | (r, c) \<Rightarrow> (Some r, c))"

text \<open>One round of the loop.  After a successful reconnection the round goes on with the
  message of the failed read, which is nil.\<close>

definition listen_round :: "('w, 'p) sys \<Rightarrow> ('w net \<Rightarrow> string res \<times> 'w net) \<Rightarrow>
    RepeatableExponentialRetryer \<Rightarrow> ('w, 'p) DataChannel \<Rightarrow> unit res option \<times> ('w, 'p) DataChannel" where
  "listen_round S refreshTokenHandler errorRetrier c =
     (case on_net (ws_ReadMessage S) c of
        (Ok rawMessage, c) \<Rightarrow> listen_message S rawMessage c
      | (Err err, c) \<Rightarrow>
          if errors_Is err EOF then (Some (Err err), c)
          else
            (case call_retrier S errorRetrier (refresh_and_reconnect S refreshTokenHandler) c of
               (Err e, c) \<Rightarrow> map_prod Some id (sbind (logged (Close S c)) (\<lambda>_ c.
                 (Err (Wrap ''reconnecting websocket channel'' e), c)))
             | (Ok _, c) \<Rightarrow> listen_message S [] c
             | (r, c) \<Rightarrow> (Some r, c))
      | (Panic, c) \<Rightarrow> (Some Panic, c)
      | (Blocked, c) \<Rightarrow> (Some Blocked, c))"

partial_function (option) listen_loop :: "('w, 'p) sys \<Rightarrow> ('w net \<Rightarrow> string res \<times> 'w net) \<Rightarrow>
    RepeatableExponentialRetryer \<Rightarrow> ('w, 'p) DataChannel \<Rightarrow> (unit res \<times> ('w, 'p) DataChannel) option" where
  "listen_loop S refreshTokenHandler errorRetrier c =
     (let r = listen_round S refreshTokenHandler errorRetrier c in
      if fst r = None then listen_loop S refreshTokenHandler errorRetrier (snd r)
      else Some (the (fst r), snd r))"

definition listen :: "('w, 'p) sys \<Rightarrow> ('w net \<Rightarrow> string res \<times> 'w net) \<Rightarrow> ('w, 'p) DataChannel \<Rightarrow>
    (unit res \<times> ('w, 'p) DataChannel) option" where
  "listen S refreshTokenHandler c =
     (let (errorRetrier, c) = channel_retrier S c in listen_loop S refreshTokenHandler errorRetrier c)"

section \<open>The resending goroutine\<close>

text \<open>One round of \<^verbatim>\<open>resendStreamDataMessageScheduler\<close>; \<open>None\<close> if the loop goes on.
  The message is a copy of the front of the buffer: its new attempt count and its new time
  are written to the copy, which nothing reads again.\<close>

definition resend_round :: "('w, 'p) sys \<Rightarrow> ('w, 'p) DataChannel \<Rightarrow>
    unit res option \<times> ('w, 'p) DataChannel" where
  "resend_round S c =
     (let c = dc_sleep S ResendSleepInterval c in
      case Front (outgoingMessageBuffer c) of
        None \<Rightarrow> (None, c)
      | Some streamMessage \<Rightarrow>
          (let (now, c) = on_w (time_Now S) c in
           if time_Sub now (sm_LastSentTime streamMessage) > retransmissionTimeout c then
             if sm_ResendAttempt streamMessage \<ge> ResendMaxAttempt then (Some (Err ErrTimedOut), c)
             else
               (let streamMessage = streamMessage\<lparr>sm_ResendAttempt := sm_ResendAttempt streamMessage + 1\<rparr> in
                case logged (SendMessage S (sm_Content streamMessage) BinaryMessage c) of
                  (Ok _, c) \<Rightarrow>
                    (let (now, c) = on_w (time_Now S) c;
                         streamMessage = streamMessage\<lparr>sm_LastSentTime := now\<rparr> in (None, c))
                | (r, c) \<Rightarrow> (Some r, c))
           else (None, c)))"

text \<open>The goroutine that \<^verbatim>\<open>Open\<close> starts: an error of the scheduler is sent on the channel
  of time-outs.\<close>

definition report_resend_error :: "unit res \<Rightarrow> ('w, 'p) DataChannel \<Rightarrow> unit res \<times> ('w, 'p) DataChannel" where
  "report_resend_error r c =
     (case r of
        Err e \<Rightarrow> sbind (chan_send 1 True (isStreamMessageResendTimeout c), c) (\<lambda>ch c.
          (Ok (), c\<lparr>isStreamMessageResendTimeout := ch\<rparr>))
      | _ \<Rightarrow> (r, c))"

section \<open>Opening\<close>

text \<open>While \<^verbatim>\<open>Open\<close> waits for the session type, the two goroutines that it started and
  one of its caller take turns.  The goroutine of \<^verbatim>\<open>listen\<close> first builds its retrier; the
  others are \<open>None\<close> until they end with an outcome.\<close>

datatype listener = ListenStart | Listening RepeatableExponentialRetryer | ListenEnded "unit res"

record open_run =
  g_listener :: listener
  g_resender :: "unit res option"
  g_caller :: "unit res option"

definition open_start :: open_run where
  "open_start = \<lparr>g_listener = ListenStart, g_resender = None, g_caller = None\<rparr>"

definition listener_turn :: "('w, 'p) sys \<Rightarrow> ('w net \<Rightarrow> string res \<times> 'w net) \<Rightarrow> listener \<Rightarrow>
    ('w, 'p) DataChannel \<Rightarrow> listener \<times> ('w, 'p) DataChannel" where
  "listener_turn S refreshTokenHandler l c =
     (case l of
        ListenStart \<Rightarrow> (let (errorRetrier, c) = channel_retrier S c in (Listening errorRetrier, c))
      | Listening errorRetrier \<Rightarrow>
          (case listen_round S refreshTokenHandler errorRetrier c of
             (None, c) \<Rightarrow> (l, c)
           | (Some r, c) \<Rightarrow> (ListenEnded r, c))
      | ListenEnded r \<Rightarrow> (l, c))"

definition resender_turn :: "('w, 'p) sys \<Rightarrow> ('w, 'p) DataChannel \<Rightarrow> unit res option \<times> ('w, 'p) DataChannel" where
  "resender_turn S c =
     (case resend_round S c of
        (None, c) \<Rightarrow> (None, c)
      | (Some r, c) \<Rightarrow> map_prod Some id (report_resend_error r c))"

text \<open>\<open>CallerTurn\<close> says whether the context of the caller is done.\<close>

datatype open_event = ListenTurn | ResendTurn | CallerTurn bool

fun open_step :: "('w, 'p) sys \<Rightarrow> ('w net \<Rightarrow> string res \<times> 'w net) \<Rightarrow>
    (bool \<Rightarrow> ('w, 'p) DataChannel \<Rightarrow> unit res option \<times> ('w, 'p) DataChannel) \<Rightarrow> open_event \<Rightarrow>
    open_run \<times> ('w, 'p) DataChannel \<Rightarrow> open_run \<times> ('w, 'p) DataChannel" where
  "open_step S refresh caller ListenTurn (g, c) =
     (let (l, c) = listener_turn S refresh (g_listener g) c in (g\<lparr>g_listener := l\<rparr>, c))"
| "open_step S refresh caller ResendTurn (g, c) =
     (if g_resender g = None then let (r, c) = resender_turn S c in (g\<lparr>g_resender := r\<rparr>, c) else (g, c))"
| "open_step S refresh caller (CallerTurn ctxDone) (g, c) =
     (if g_caller g = None then let (r, c) = caller ctxDone c in (g\<lparr>g_caller := r\<rparr>, c) else (g, c))"

definition run_open :: "('w, 'p) sys \<Rightarrow> ('w net \<Rightarrow> string res \<times> 'w net) \<Rightarrow>
    (bool \<Rightarrow> ('w, 'p) DataChannel \<Rightarrow> unit res option \<times> ('w, 'p) DataChannel) \<Rightarrow> open_event list \<Rightarrow>
    open_run \<times> ('w, 'p) DataChannel \<Rightarrow> open_run \<times> ('w, 'p) DataChannel" where
  "run_open S refresh caller schedule st = foldl (\<lambda>st e. open_step S refresh caller e st) st schedule"

text \<open>A panic of a goroutine ends the program.\<close>

definition open_panicked :: "open_run \<Rightarrow> bool" where
  "open_panicked g \<longleftrightarrow> g_listener g = ListenEnded Panic \<or> g_resender g = Some Panic \<or> g_caller g = Some Panic"

text \<open>\<^verbatim>\<open>Open\<close>: connects, starts the two goroutines and waits for the session type while the
  goroutines take the turns of \<open>schedule\<close>.\<close>

definition dc_Open :: "('w, 'p) sys \<Rightarrow> ('w net \<Rightarrow> string res \<times> 'w net) \<Rightarrow> ('w net \<Rightarrow> unit res \<times> 'w net) \<Rightarrow>
    (bool \<Rightarrow> ('w, 'p) DataChannel \<Rightarrow> unit res option \<times> ('w, 'p) DataChannel) \<Rightarrow> open_event list \<Rightarrow> bool \<Rightarrow>
    ('w, 'p) DataChannel \<Rightarrow> string res \<times> ('w, 'p) DataChannel" where
  "dc_Open S refreshTokenHandler timeoutHandler caller schedule preferTimeout c =
     sbind (Open_connect S c) (\<lambda>_ c.
     let (g, c) = run_open S refreshTokenHandler caller schedule (open_start, c) in
     if open_panicked g then (Panic, c) else establishSessionType timeoutHandler preferTimeout c)"

end
