(* ===== verification/Channel_Invariant.thy ===== *)
theory Channel_Invariant
  imports DataChannel
begin

text \<open>
  The invariant of the data channel, preserved by every method with every outcome, and the
  runs of its goroutines as a step relation.  The proofs rest on frames: which part of the
  state an operation can change at all.
\<close>

named_theorems frame_intros \<open>operations that change only the outside, or only the handlers' part\<close>

section \<open>Frames\<close>

definition only_net :: "('w, 'p) DataChannel \<Rightarrow> ('w, 'p) DataChannel \<Rightarrow> bool" where
  "only_net c c' \<longleftrightarrow> (\<exists>x. c' = c\<lparr>net := x\<rparr>)"

lemma only_net_refl [simp, intro]: "only_net c c"
  unfolding only_net_def by (rule exI [of _ "net c"]) simp

lemma only_net_trans [trans]: "only_net a b \<Longrightarrow> only_net b c \<Longrightarrow> only_net a c"
  by (auto simp: only_net_def)

lemma only_net_upd [simp]: "only_net c (c\<lparr>net := x\<rparr>)"
  by (auto simp: only_net_def)

lemma only_net_sbind:
  assumes "only_net c (snd r)" and "\<And>x. fst r = Ok x \<Longrightarrow> only_net (snd r) (snd (f x (snd r)))"
  shows "only_net c (snd (sbind r f))"
  using assms by (cases "fst r") (auto simp: sbind_def intro: only_net_trans)

lemma only_net_on_net [simp, frame_intros]: "only_net c (snd (on_net f c))"
  by (simp add: on_net_def Let_def)

lemma only_net_on_w [simp, frame_intros]: "only_net c (snd (on_w f c))"
  by (simp add: on_w_def)

lemma only_net_SendMessage [simp, frame_intros]: "only_net c (snd (SendMessage S b t c))"
  by (simp add: SendMessage_def)

lemma only_net_Close [simp, frame_intros]: "only_net c (snd (Close S c))"
  by (simp add: Close_def)

lemma only_net_encrypt [simp, frame_intros]: "only_net c (snd (encrypt_with S b c))"
  by (simp add: encrypt_with_def split: option.split)

lemma snd_logged [simp]: "snd (logged r) = snd r"
  by (simp add: logged_def split: res.split)

lemma logged_no_Err [simp]: "fst (logged r) = Err e \<longleftrightarrow> False"
  by (simp add: logged_def split: res.split)

lemma only_net_serialize [simp, frame_intros]: "only_net c (snd (serialize_acknowledge S a c))"
  by (auto simp: serialize_acknowledge_def case_prod_beta split: res.split intro!: only_net_sbind)

lemma only_net_sendAcknowledge [simp, frame_intros]: "only_net c (snd (sendAcknowledgeMessage S m c))"
  unfolding sendAcknowledgeMessage_def Let_def by (rule only_net_sbind) simp_all

lemma only_net_finalize [simp, frame_intros]: "only_net c (snd (finalizeDataChannelHandshake S t c))"
  unfolding finalizeDataChannelHandshake_def Let_def by (intro only_net_sbind) simp_all

lemma only_net_open [simp, frame_intros]: "only_net c (snd (dc_open S c))"
  unfolding dc_open_def by (intro only_net_sbind) simp_all

lemma only_net_reconnect [simp, frame_intros]: "only_net c (snd (reconnect S c))"
  unfolding reconnect_def by (intro only_net_sbind) simp_all

lemma only_net_refresh [simp, frame_intros]: "only_net c (snd (refresh_and_reconnect S h c))"
proof -
  have "only_net d (snd (reconnect S (d\<lparr>net := x\<rparr>)))" for d :: "('a, 'b) DataChannel" and x
    using only_net_trans [OF only_net_upd only_net_reconnect] .
  then show ?thesis unfolding refresh_and_reconnect_def by (intro only_net_sbind) simp_all
qed

lemma only_net_sleep [simp, frame_intros]: "only_net c (dc_sleep S d c)"
  by (simp add: dc_sleep_def)

lemma only_net_call_retrier [simp]:
  assumes "\<And>c. only_net c (snd (fn c))"
  shows "only_net c (snd (call_retrier S r fn c))"
proof (cases "Call (float_round S) (dc_sleep S) r fn c")
  case (Some y)
  then have "only_net c (snd y)"
    unfolding Call_def
    by (rule Call_loop_preserves) (auto intro: only_net_trans assms only_net_sleep)
  with Some show ?thesis by (simp add: call_retrier_def)
qed (simp add: call_retrier_def)

section \<open>The invariant\<close>

text \<open>The outgoing side: at most \<open>n\<close> messages were sent; the buffer holds the newest of
  those that are not acknowledged, in the order of their sequence numbers.\<close>

definition out_inv :: "int \<Rightarrow> ('w, 'p) DataChannel \<Rightarrow> bool" where
  "out_inv n c \<longleftrightarrow>
     0 \<le> streamDataSequenceNumber c \<and> streamDataSequenceNumber c \<le> n \<and>
     lmb.ok (outgoingMessageBuffer c) \<and>
     lmb_capacity (outgoingMessageBuffer c) = OutgoingMessageBufferCapacity \<and>
     (\<forall>m\<in>set (lmb_messages (outgoingMessageBuffer c)).
        sm_SequenceNumber m < streamDataSequenceNumber c \<and> sm_ResendAttempt m = 0) \<and>
     sorted_wrt (<) (map sm_SequenceNumber (lmb_messages (outgoingMessageBuffer c)))"

text \<open>The incoming side: a buffered message is stored under its own sequence number.\<close>

definition in_inv :: "('w, 'p) DataChannel \<Rightarrow> bool" where
  "in_inv c \<longleftrightarrow>
     mmb_wf (incomingMessageBuffer c) \<and>
     mmb_capacity (incomingMessageBuffer c) = IncomingMessageBufferCapacity \<and>
     (\<forall>k v. Get (incomingMessageBuffer c) k = Some v \<longrightarrow> sm_SequenceNumber v = k \<and> sm_Content v \<noteq> [])"

definition misc_inv :: "('w, 'p) DataChannel \<Rightarrow> bool" where
  "misc_inv c \<longleftrightarrow>
     (encryptionEnabled c \<longrightarrow> encryption c \<noteq> None) \<and>
     retransmissionTimeout c \<le> MaxTransmissionTimeout \<and>
     sessionType c \<in> {[], ShellPluginName, PortPluginName} \<and>
     length (isSessionTypeSet c) \<le> 1 \<and> length (displayMessages c) \<le> 1 \<and>
     length (isStreamMessageResendTimeout c) \<le> 1"

definition dc_inv :: "int \<Rightarrow> ('w, 'p) DataChannel \<Rightarrow> bool" where
  "dc_inv n c \<longleftrightarrow> out_inv n c \<and> in_inv c \<and> misc_inv c"

lemma inv_net [simp]: "dc_inv n (c\<lparr>net := x\<rparr>) = dc_inv n c"
  by (simp add: dc_inv_def out_inv_def in_inv_def misc_inv_def)

lemma inv_only_net: "only_net c c' \<Longrightarrow> dc_inv n c \<Longrightarrow> dc_inv n c'"
  by (auto simp: only_net_def)

lemma inv_mono: "dc_inv n c \<Longrightarrow> n \<le> n' \<Longrightarrow> dc_inv n' c"
  by (auto simp: dc_inv_def out_inv_def)

lemmas inv_net_ops [simp] = inv_only_net [OF only_net_on_net] inv_only_net [OF only_net_on_w]
  inv_only_net [OF only_net_SendMessage] inv_only_net [OF only_net_Close]
  inv_only_net [OF only_net_encrypt] inv_only_net [OF only_net_sendAcknowledge]
  inv_only_net [OF only_net_reconnect] inv_only_net [OF only_net_open] inv_only_net [OF only_net_sleep]
  inv_only_net [OF only_net_refresh]

lemma inv_New: "dc_inv 0 (NewDataChannel nt cl se ta)"
proof -
  let ?c = "NewDataChannel nt cl se ta"
  have "out_inv 0 ?c"
    by (simp add: out_inv_def NewDataChannel_def RegisterStopHandler_def RegisterIncomingMessageHandler_def
        lmb_ok_New OutgoingMessageBufferCapacity_def) (simp add: NewListMessageBuffer_def)
  moreover have "in_inv ?c"
    by (simp add: in_inv_def NewDataChannel_def RegisterStopHandler_def RegisterIncomingMessageHandler_def
        mmb_wf_New IncomingMessageBufferCapacity_def) (simp add: NewMapMessageBuffer_def Get_def)
  moreover have "misc_inv ?c"
    by (simp add: misc_inv_def NewDataChannel_def RegisterStopHandler_def RegisterIncomingMessageHandler_def
        duration_consts)
  ultimately show ?thesis by (simp add: dc_inv_def)
qed

subsection \<open>Sending\<close>

lemma inv_send_step:
  assumes inv: "dc_inv n c" and n: "n + 1 < 2 ^ 63"
    and m: "sm_SequenceNumber m = streamDataSequenceNumber c" "sm_ResendAttempt m = 0"
    and b: "ForcePushBack (outgoingMessageBuffer c) m = Ok b"
  shows "dc_inv (n + 1) (c\<lparr>streamDataSequenceNumber := to_i64 (streamDataSequenceNumber c + 1),
      outgoingMessageBuffer := b\<rparr>)"
proof -
  let ?q = "outgoingMessageBuffer c"
  have o: "lmb.ok ?q" "\<forall>x\<in>set (lmb_messages ?q). sm_SequenceNumber x < sm_SequenceNumber m"
    "sorted_wrt (<) (map sm_SequenceNumber (lmb_messages ?q))"
    "\<forall>x\<in>set (lmb_messages ?q). sm_ResendAttempt x = 0"
    "0 \<le> streamDataSequenceNumber c" "streamDataSequenceNumber c \<le> n"
    "lmb_capacity ?q = OutgoingMessageBufferCapacity"
    using inv m by (auto simp: dc_inv_def out_inv_def)
  have w: "to_i64 (streamDataSequenceNumber c + 1) = streamDataSequenceNumber c + 1"
    using o(5,6) n by (intro to_i64_id) (simp add: is_i64_def)
  obtain q' where q': "ForcePushBack ?q m = Ok q'" "lmb.ok q'" "lmb_capacity q' = lmb_capacity ?q"
    "set (lmb_messages q') \<subseteq> insert m (set (lmb_messages ?q))"
    using lmb.push_ok [OF o(1), of m] by blast
  have s: "sorted_wrt (<) (map sm_SequenceNumber (lmb_messages b))"
    using lmb.push_sorted [of ?q sm_SequenceNumber m b] o(1-3) b by (simp add: lmb.ok_def)
  have "\<forall>x\<in>set (lmb_messages b). sm_SequenceNumber x < streamDataSequenceNumber c + 1 \<and> sm_ResendAttempt x = 0"
    using q' b o(2,4) m by fastforce
  then show ?thesis
    using inv q' b s w o by (simp add: dc_inv_def out_inv_def in_inv_def misc_inv_def)
qed

lemma inv_stream_only:
  assumes "dc_inv n c" "n + 1 < 2 ^ 63"
  shows "dc_inv (n + 1) (c\<lparr>streamDataSequenceNumber := to_i64 (streamDataSequenceNumber c + 1)\<rparr>)"
proof -
  have "to_i64 (streamDataSequenceNumber c + 1) = streamDataSequenceNumber c + 1"
    using assms by (intro to_i64_id) (auto simp: is_i64_def dc_inv_def out_inv_def)
  then show ?thesis using assms(1) by (fastforce simp: dc_inv_def out_inv_def in_inv_def misc_inv_def)
qed

lemma only_net_seq: "only_net c c' \<Longrightarrow> streamDataSequenceNumber c' = streamDataSequenceNumber c"
  by (auto simp: only_net_def)

lemma only_net_out: "only_net c c' \<Longrightarrow> outgoingMessageBuffer c' = outgoingMessageBuffer c"
  by (auto simp: only_net_def)

text \<open>The last part of \<open>SendInputDataMessage\<close>, after the message went out.\<close>

definition record_sent :: "('w, 'p) sys \<Rightarrow> bytes \<Rightarrow> int64 \<Rightarrow> ('w, 'p) DataChannel \<Rightarrow>
    unit res \<times> ('w, 'p) DataChannel" where
  "record_sent S msg sequenceNumber c =
     (let (now, c) = on_w (time_Now S) c;
          streamingMessage = \<lparr>sm_Content = msg, sm_SequenceNumber = sequenceNumber,
                              sm_LastSentTime = now, sm_ResendAttempt = 0\<rparr>;
          c = c\<lparr>streamDataSequenceNumber := to_i64 (streamDataSequenceNumber c + 1)\<rparr> in
      sbind (ForcePushBack (outgoingMessageBuffer c) streamingMessage, c) (\<lambda>b c.
      (Ok (), c\<lparr>outgoingMessageBuffer := b\<rparr>)))"

lemma inv_record_sent:
  assumes "dc_inv n c" "n + 1 < 2 ^ 63" "s = streamDataSequenceNumber c"
  shows "dc_inv (n + 1) (snd (record_sent S msg s c))"
proof -
  let ?c = "snd (on_w (time_Now S) c)"
  let ?m = "\<lparr>sm_Content = msg, sm_SequenceNumber = s, sm_LastSentTime = fst (on_w (time_Now S) c),
    sm_ResendAttempt = 0\<rparr>"
  have c: "dc_inv n ?c" "streamDataSequenceNumber ?c = s"
    using assms only_net_seq [OF only_net_on_w] by simp_all
  have ok: "lmb.ok (outgoingMessageBuffer ?c)" using c by (simp add: dc_inv_def out_inv_def)
  obtain b where "ForcePushBack (outgoingMessageBuffer ?c) ?m = Ok b" using lmb.push_ok [OF ok] by blast
  then show ?thesis
    using inv_send_step [OF c(1) assms(2), of ?m b] c(2)
    by (simp add: record_sent_def case_prod_beta Let_def)
qed

lemma SendInputDataMessage_record_sent:
  "SendInputDataMessage S payloadType inputData c =
     sbind (on_w (uuid_New S) c) (\<lambda>messageUUID c.
     let inputData = (if inputData = [10] then [13] else inputData) in
     sbind (if encryptionEnabled c \<and> payloadType = Output
            then swrap ''encrypting input data'' (encrypt_with S inputData c)
            else (Ok inputData, c)) (\<lambda>inputData c.
     let sequenceNumber = streamDataSequenceNumber c;
         (nowMilli, c) = on_w (time_UnixMilli S) c;
         clientMessage = input_message messageUUID nowMilli payloadType inputData sequenceNumber in
     sbind (wrap_err ''serializing client message''
       (SerializeClientMessage (uuidp S) clientMessage), c) (\<lambda>msg c.
     sbind (swrap ''sending message'' (SendMessage S msg BinaryMessage c)) (\<lambda>_ c.
     record_sent S msg sequenceNumber c))))"
  by (simp only: SendInputDataMessage_def record_sent_def)

lemma inv_SendInputDataMessage:
  assumes "dc_inv n c" "n + 1 < 2 ^ 63"
  shows "dc_inv (n + 1) (snd (SendInputDataMessage S pt d c))"
proof -
  have m: "dc_inv n d \<Longrightarrow> dc_inv (n + 1) d" for d :: "('a, 'b) DataChannel"
    using inv_mono [of n d "n + 1"] by simp
  have r: "dc_inv (n + 1) (snd (record_sent S msg (streamDataSequenceNumber d) e))"
    if "dc_inv n e" "only_net d e" for msg d e
    using inv_record_sent [OF that(1) assms(2)] only_net_seq [OF that(2)] by simp
  have s: "dc_inv (n + 1) (snd (sbind (swrap t (SendMessage S msg ty e))
      (\<lambda>_. record_sent S msg (streamDataSequenceNumber d))))"
    if "dc_inv n e" "only_net d e" for t msg ty d e
    by (rule sbind_snd) (use that m in \<open>auto intro!: r only_net_trans [OF _ only_net_SendMessage]\<close>)
  have z: "dc_inv (n + 1) (snd (sbind (wrap_err t r, e) (\<lambda>msg c. sbind (swrap u (SendMessage S msg ty c))
      (\<lambda>_. record_sent S msg (streamDataSequenceNumber d)))))"
    if "dc_inv n e" "only_net d e" for t r u ty d e
    using s [OF that] m [OF that(1)] by (cases r) simp_all
  have e: "dc_inv n (snd (if b then swrap t (encrypt_with S i d) else (Ok i, d)))"
    if "dc_inv n d" for b t i d using that by simp
  show ?thesis
    unfolding SendInputDataMessage_record_sent Let_def case_prod_beta
  proof (rule sbind_snd)
    show "dc_inv (n + 1) (snd (on_w (uuid_New S) c))" using assms(1) by (intro m) simp
    fix u d assume d: "d = snd (on_w (uuid_New S) c)"
    then have "dc_inv n d" using assms(1) by simp
    from e [OF this] show "dc_inv (n + 1) (snd (sbind
        (if encryptionEnabled d \<and> pt = Output then swrap ''encrypting input data''
           (encrypt_with S (if d' = [10] then [13] else d') d) else (Ok (if d' = [10] then [13] else d'), d))
        (\<lambda>i c. sbind (wrap_err ''serializing client message'' (SerializeClientMessage (uuidp S)
            (input_message u (fst (on_w (time_UnixMilli S) c)) pt i (streamDataSequenceNumber c))),
            snd (on_w (time_UnixMilli S) c))
          (\<lambda>msg ca. sbind (swrap ''sending message'' (SendMessage S msg BinaryMessage ca))
            (\<lambda>_. record_sent S msg (streamDataSequenceNumber c))))))" for d'
      by (intro sbind_snd [where P = "dc_inv (n + 1)"] m z) simp_all
  qed
qed

subsection \<open>Handlers\<close>

text \<open>The part of the state that output handlers leave alone.\<close>

definition handler_frame where
  "handler_frame c = (clientID c, sessionID c, targetID c, expectedSequenceNumber c,
     streamDataSequenceNumber c, outgoingMessageBuffer c, incomingMessageBuffer c, roundTripTime c,
     roundTripTimeVariation c, retransmissionTimeout c, encryption c, encryptionEnabled c,
     sessionProperties c, isStreamMessageResendTimeout c, isSessionSpecificHandlerSet c, agentVersion c,
     incomingMessageHandler c, stopHandler c)"

lemma handler_frame_net: "only_net c c' \<Longrightarrow> handler_frame c' = handler_frame c"
  by (auto simp: only_net_def handler_frame_def)

lemma handler_frame_fields:
  assumes "handler_frame c' = handler_frame c"
  shows "expectedSequenceNumber c' = expectedSequenceNumber c"
    "incomingMessageBuffer c' = incomingMessageBuffer c"
    "outgoingMessageBuffer c' = outgoingMessageBuffer c"
    "streamDataSequenceNumber c' = streamDataSequenceNumber c"
    "encryption c' = encryption c" "encryptionEnabled c' = encryptionEnabled c"
    "isSessionSpecificHandlerSet c' = isSessionSpecificHandlerSet c"
  using assms by (auto simp: handler_frame_def)

lemma first_cases:
  obtains (plain) "firstMessageHandler m c = (Ok True, deregister_firstMessageHandler c)"
  | (blocked) "firstMessageHandler m c =
      (Blocked, (deregister_firstMessageHandler c)\<lparr>sessionType := ShellPluginName\<rparr>)"
  | (blocked2) "isSessionTypeSet c = []" "firstMessageHandler m c =
      (Blocked, (deregister_firstMessageHandler c)\<lparr>sessionType := ShellPluginName, isSessionTypeSet := [True]\<rparr>)"
  | (shell) "isSessionTypeSet c = []" "displayMessages c = []" "firstMessageHandler m c = (Ok True,
      (deregister_firstMessageHandler c)\<lparr>sessionType := ShellPluginName, isSessionTypeSet := [True],
        displayMessages := [m]\<rparr>)"
proof (cases "sessionType c = [] \<and> PayloadType m = Output")
  case True
  let ?d = "deregister_firstMessageHandler c"
  have d: "sessionType ?d = []" "isSessionTypeSet ?d = isSessionTypeSet c" "displayMessages ?d = displayMessages c"
    using True by (simp_all add: deregister_firstMessageHandler_def)
  show thesis
  proof (cases "isSessionTypeSet c")
    case Nil
    note n = this
    show thesis
    proof (cases "displayMessages c")
      case Nil
      show thesis by (rule shell [OF n Nil]) (simp add: firstMessageHandler_def Let_def d True n Nil chan_send_def)
    next
      case (Cons x xs)
      show thesis by (rule blocked2 [OF n]) (simp add: firstMessageHandler_def Let_def d True n Cons chan_send_def)
    qed
  next
    case (Cons x xs)
    show thesis by (rule blocked) (simp add: firstMessageHandler_def Let_def d True Cons chan_send_def)
  qed
next
  case False
  then have "\<not> (sessionType (deregister_firstMessageHandler c) = [] \<and> PayloadType m = Output)"
    by (simp add: deregister_firstMessageHandler_def)
  then show thesis by (intro plain) (auto simp: firstMessageHandler_def Let_def)
qed

lemma handler_frame_first: "handler_frame (snd (firstMessageHandler m c)) = handler_frame c"
  by (cases rule: first_cases [of m c]) (simp_all add: handler_frame_def deregister_firstMessageHandler_def)

lemma inv_first:
  assumes "dc_inv n c"
  shows "dc_inv n (snd (firstMessageHandler m c))"
  by (cases rule: first_cases [of m c])
    (use assms in \<open>auto simp: dc_inv_def out_inv_def in_inv_def misc_inv_def
      deregister_firstMessageHandler_def\<close>)

lemma call_handler_inv: "dc_inv n c \<Longrightarrow> dc_inv n (snd (call_handler h m c))"
  by (cases h) (simp_all add: inv_first)

lemma call_handler_frame: "handler_frame (snd (call_handler h m c)) = handler_frame c"
  by (cases h) (simp_all add: handler_frame_first handler_frame_net)

lemma handlers_loop_preserves:
  assumes "\<And>h c. P c \<Longrightarrow> P (snd (call_handler h m c))"
  shows "P c \<Longrightarrow> P (snd (handlers_loop arr i r m c))"
  using assms
proof (induction arr i r m c rule: handlers_loop.induct)
  case (1 arr i r m c)
  show ?case
  proof (cases "i < length arr")
    case True
    have "P (snd (sbind (call_handler (arr ! i) m c) (\<lambda>ready c. if \<not> ready then (Ok False, c)
        else handlers_loop (sync_array arr c) (Suc i) True m c)))"
      by (rule sbind_snd) (use 1 True in auto)
    then show ?thesis using True by (subst handlers_loop.simps) simp
  next
    case False
    then show ?thesis using 1(2) by (subst handlers_loop.simps) simp
  qed
qed

lemma handlers_inv: "dc_inv n c \<Longrightarrow> dc_inv n (snd (processOutputMessageWithHandlers m c))"
  by (simp add: processOutputMessageWithHandlers_def handlers_loop_preserves call_handler_inv)

lemma handlers_frame: "handler_frame (snd (processOutputMessageWithHandlers m c)) = handler_frame c"
proof -
  have "handler_frame (snd (handlers_loop arr i r m c)) = handler_frame c" for arr i r
    by (rule handlers_loop_preserves) (simp_all add: call_handler_frame)
  then show ?thesis by (simp add: processOutputMessageWithHandlers_def)
qed

subsection \<open>Acknowledgements\<close>

lemma inv_timeout:
  "dc_inv n c \<Longrightarrow> dc_inv n (c\<lparr>roundTripTimeVariation := v, roundTripTime := r,
     retransmissionTimeout := (if t > MaxTransmissionTimeout then MaxTransmissionTimeout else t)\<rparr>)"
  by (simp add: dc_inv_def out_inv_def in_inv_def misc_inv_def)

lemma inv_calculate: "dc_inv n c \<Longrightarrow> dc_inv n (calculateRetransmissionTimeout S m c)"
  unfolding calculateRetransmissionTimeout_def case_prod_beta Let_def by (rule inv_timeout) simp

lemma inv_RemoveIf:
  assumes "dc_inv n c"
  shows "dc_inv n (c\<lparr>outgoingMessageBuffer := snd (RemoveIf (outgoingMessageBuffer c) P)\<rparr>)"
  using assms lmb.pull_ok [of "outgoingMessageBuffer c" P] lmb.pull_cap [of "outgoingMessageBuffer c" P]
    lmb.pull_sorted [of sm_SequenceNumber "outgoingMessageBuffer c" P]
    lmb.pull_subset [of "outgoingMessageBuffer c" P]
  by (auto simp: dc_inv_def out_inv_def in_inv_def misc_inv_def)

lemma inv_processAcknowledged: "dc_inv n c \<Longrightarrow> dc_inv n (processAcknowledgedMessage S a c)"
  by (simp add: processAcknowledgedMessage_def case_prod_beta Let_def inv_RemoveIf inv_calculate
      split: option.split)

lemma inv_handleAcknowledge: "dc_inv n c \<Longrightarrow> dc_inv n (snd (handleAcknowledgeMessage S m c))"
  unfolding handleAcknowledgeMessage_def by (rule sbind_snd) (simp_all add: inv_processAcknowledged)

lemma inv_handleChannelClosed: "dc_inv n c \<Longrightarrow> dc_inv n (snd (handleChannelClosedMessage S m c))"
  unfolding handleChannelClosedMessage_def by (rule sbind_snd) simp_all

subsection \<open>Handshake\<close>

lemma inv_updates:
  "dc_inv n (c\<lparr>expectedSequenceNumber := e\<rparr>) = dc_inv n c"
  "dc_inv n (c\<lparr>agentVersion := v\<rparr>) = dc_inv n c"
  "dc_inv n c \<Longrightarrow> dc_inv n (c\<lparr>encryption := Some x\<rparr>)"
  "dc_inv n c \<Longrightarrow> encryption c \<noteq> None \<Longrightarrow> dc_inv n (c\<lparr>encryptionEnabled := True\<rparr>)"
  "dc_inv n c \<Longrightarrow> t \<in> {ShellPluginName, PortPluginName} \<Longrightarrow>
     dc_inv n (c\<lparr>sessionType := t, sessionProperties := p\<rparr>)"
  by (auto simp: dc_inv_def out_inv_def in_inv_def misc_inv_def)

lemma inv_KMS: "dc_inv n c \<Longrightarrow> dc_inv n (snd (ProcessKMSEncryptionHandshakeAction S p c))"
  unfolding ProcessKMSEncryptionHandshakeAction_def
  by (intro sbind_snd [where P = "dc_inv n"]) (simp_all add: inv_updates)

lemma inv_SessionType: "dc_inv n c \<Longrightarrow> dc_inv n (snd (ProcessSessionTypeHandshakeAction S p c))"
  unfolding ProcessSessionTypeHandshakeAction_def by (rule sbind_snd) (simp_all add: inv_updates)

lemma inv_process_action:
  assumes "dc_inv n c"
  shows "dc_inv n (snd (process_action S a c))"
  using inv_KMS [OF assms, of S "ActionParameters a"] inv_SessionType [OF assms, of S "ActionParameters a"] assms
  by (auto simp: process_action_def inv_updates split: prod.split res.split option.split)

lemma inv_process_actions: "dc_inv n c \<Longrightarrow> dc_inv n (snd (process_actions S as c))"
proof (induction as arbitrary: c)
  case (Cons a as)
  show ?case unfolding process_actions.simps
    by (intro sbind_snd [where P = "dc_inv n"])
      (auto simp: inv_process_action Cons case_prod_beta intro!: sbind_snd [where P = "dc_inv n"] Cons.IH)
qed simp


lemma inv_step_mono: "dc_inv n c \<Longrightarrow> dc_inv (n + 1) c"
  using inv_mono [of n c "n + 1"] by simp

lemma inv_handleHandshakeRequest:
  assumes "dc_inv n c" "n + 1 < 2 ^ 63"
  shows "dc_inv (n + 1) (snd (handleHandshakeRequest S m c))"
proof -
  have send: "dc_inv (n + 1) (snd (sendHandshakeResponse S r d))" if "dc_inv n d" for r d
    unfolding sendHandshakeResponse_def using that assms(2)
    by (intro sbind_snd [where P = "dc_inv (n + 1)"])
      (simp_all add: inv_step_mono inv_SendInputDataMessage)
  have acts: "dc_inv n (snd (process_actions S as (d\<lparr>agentVersion := v\<rparr>)))" if "dc_inv n d" for as d v
    using that by (intro inv_process_actions) (simp add: inv_updates)
  show ?thesis unfolding handleHandshakeRequest_def Let_def case_prod_beta
    by (intro sbind_snd [where P = "dc_inv (n + 1)"])
      (use assms acts send in \<open>auto intro!: inv_step_mono sbind_snd [where P = "dc_inv (n + 1)"]\<close>)
qed

lemma inv_chan:
  assumes "dc_inv n c" "chan_send 1 x (isSessionTypeSet c) = Ok ch"
  shows "dc_inv n (c\<lparr>isSessionTypeSet := ch\<rparr>)"
  using assms by (auto simp: chan_send_def dc_inv_def out_inv_def in_inv_def misc_inv_def split: if_splits)

lemma inv_handleHandshakeComplete:
  "dc_inv n c \<Longrightarrow> dc_inv n (snd (handleHandshakeComplete S m c))"
  unfolding handleHandshakeComplete_def
  by (intro sbind_snd [where P = "dc_inv n"]) (auto intro: inv_chan)

lemma inv_handleChallenge:
  assumes "dc_inv n c" "n + 1 < 2 ^ 63"
  shows "dc_inv (n + 1) (snd (handleEncryptionChallengeRequest S m c))"
proof -
  have send: "dc_inv (n + 1) (snd (sendEncryptionChallengeResponse S r d))" if "dc_inv n d" for r d
    unfolding sendEncryptionChallengeResponse_def using that assms(2)
    by (intro sbind_snd [where P = "dc_inv (n + 1)"])
      (simp_all add: inv_step_mono inv_SendInputDataMessage)
  have enc: "dc_inv (n + 1) (snd (sbind (swrap t (encrypt_with S b d))
      (\<lambda>x. sendEncryptionChallengeResponse S \<lparr>cresp_Challenge = x\<rparr>)))" if "dc_inv n d" for t b d
    by (rule sbind_snd) (use that in \<open>auto intro: inv_step_mono send\<close>)
  show ?thesis unfolding handleEncryptionChallengeRequest_def
    by (intro sbind_snd [where P = "dc_inv (n + 1)"] enc)
      (use assms in \<open>auto intro: inv_step_mono\<close>)
qed

subsection \<open>Incoming messages\<close>

lemma inv_handleDefault: "dc_inv n c \<Longrightarrow> dc_inv n (snd (handleDefaultOutputMessage S m c))"
  unfolding handleDefaultOutputMessage_def
  by (intro sbind_snd [where P = "dc_inv n"]) (auto simp: handlers_inv)

lemma inv_buffer_put:
  assumes "dc_inv n c" "sm_SequenceNumber v = k" "sm_Content v \<noteq> []"
  shows "dc_inv n (c\<lparr>incomingMessageBuffer := snd (SetUnlessFull (incomingMessageBuffer c) k v)\<rparr>)"
proof -
  let ?b = "incomingMessageBuffer c"
  have i: "mmb_wf ?b" "\<forall>k v. Get ?b k = Some v \<longrightarrow> sm_SequenceNumber v = k \<and> sm_Content v \<noteq> []"
    using assms(1) by (auto simp: dc_inv_def in_inv_def)
  have "\<forall>j w. Get (snd (SetUnlessFull ?b k v)) j = Some w \<longrightarrow> sm_SequenceNumber w = j \<and> sm_Content w \<noteq> []"
    using assms(2,3) by (intro mmb.entries_put [OF i(2)]) simp
  with mmb.put_wf [OF i(1), of k v] assms show ?thesis
    by (simp add: dc_inv_def out_inv_def in_inv_def misc_inv_def)
qed

lemma inv_handleUnexpected:
  assumes "dc_inv n c" "raw \<noteq> []"
  shows "dc_inv n (snd (handleUnexpectedSequenceMessage S m raw c))"
  unfolding handleUnexpectedSequenceMessage_def Let_def case_prod_beta using assms
  by (auto intro!: sbind_snd [where P = "dc_inv n"] inv_buffer_put)


lemma inv_buffer_del:
  assumes "dc_inv n c"
  shows "dc_inv n (c\<lparr>incomingMessageBuffer := snd (Remove (incomingMessageBuffer c) k)\<rparr>)"
proof -
  let ?b = "incomingMessageBuffer c"
  have i: "mmb_wf ?b" "\<forall>k v. Get ?b k = Some v \<longrightarrow> sm_SequenceNumber v = k \<and> sm_Content v \<noteq> []"
    using assms(1) by (auto simp: dc_inv_def in_inv_def)
  from mmb.entries_del [OF i, of k] mmb.del_wf [OF i(1), of k] assms show ?thesis
    by (simp add: dc_inv_def out_inv_def in_inv_def misc_inv_def)
qed

lemma inv_processBuffered: "dc_inv n c \<Longrightarrow> dc_inv n (snd (processBufferedMessage S b c))"
  unfolding processBufferedMessage_def Let_def
  by (intro sbind_snd [where P = "dc_inv n"])
    (auto simp: handlers_inv inv_updates
      intro!: inv_buffer_del [where c = "c\<lparr>expectedSequenceNumber := e\<rparr>" for c e, simplified])

text \<open>A buffered message that is processed leaves the buffer, and the next one is expected.\<close>

lemma processBuffered_Ok:
  assumes "processBufferedMessage S b c = (Ok (), c')"
  shows "incomingMessageBuffer c' = snd (Remove (incomingMessageBuffer c) (sm_SequenceNumber b)) \<and>
    expectedSequenceNumber c' = to_i64 (expectedSequenceNumber c + 1)"
proof -
  from assms obtain m m' r where r: "fst (processOutputMessageWithHandlers m' c) = Ok r"
    and c': "c' = (snd (processOutputMessageWithHandlers m' c))\<lparr>
      expectedSequenceNumber := to_i64 (expectedSequenceNumber (snd (processOutputMessageWithHandlers m' c)) + 1),
      incomingMessageBuffer := snd (Remove (incomingMessageBuffer (snd (processOutputMessageWithHandlers m' c)))
        (sm_SequenceNumber b))\<rparr>"
    unfolding processBufferedMessage_def Let_def by (auto elim!: sbind_OkE)
  then show ?thesis using handler_frame_fields [OF handlers_frame [of m' c]] by simp
qed

text \<open>The loop over the buffer ends: every round takes one message out of it.\<close>

lemma next_buffered_Get:
  "next_buffered c = Some b \<Longrightarrow> Get (incomingMessageBuffer c) (expectedSequenceNumber c) = Some b"
  by (auto simp: next_buffered_def split: option.splits if_splits)

lemma processBuffered_shrinks:
  assumes "dc_inv n c" "next_buffered c = Some b" "processBufferedMessage S b c = (Ok (), c')"
  shows "len (mmb_messages (incomingMessageBuffer c')) = len (mmb_messages (incomingMessageBuffer c)) - 1"
proof -
  have g: "Get (incomingMessageBuffer c) (expectedSequenceNumber c) = Some b"
    by (rule next_buffered_Get [OF assms(2)])
  then have "sm_SequenceNumber b = expectedSequenceNumber c" "mmb_wf (incomingMessageBuffer c)"
    using assms(1) by (auto simp: dc_inv_def in_inv_def)
  then show ?thesis
    using processBuffered_Ok [OF assms(3)] g
      mmb.del_size [of "incomingMessageBuffer c" "expectedSequenceNumber c"] by simp
qed

lemma ProcessItems_terminates:
  assumes "dc_inv n c"
  shows "\<exists>r c'. ProcessItems_loop S c = Some (r, c') \<and> dc_inv n c'"
  using assms
proof (induction "nat (len (mmb_messages (incomingMessageBuffer c)))" arbitrary: c rule: less_induct)
  case less
  show ?case
  proof (cases "next_buffered c")
    case None
    then show ?thesis using less.prems by (subst ProcessItems_loop.simps) simp
  next
    case (Some b)
    let ?r = "processBufferedMessage S b c"
    have inv: "dc_inv n (snd ?r)" using less.prems by (rule inv_processBuffered)
    show ?thesis
    proof (cases "fst ?r = Ok ()")
      case True
      then have s: "len (mmb_messages (incomingMessageBuffer (snd ?r))) =
          len (mmb_messages (incomingMessageBuffer c)) - 1"
        using processBuffered_shrinks [OF less.prems Some, of S "snd ?r"] by (metis prod.collapse)
      have "0 \<le> len (mmb_messages (incomingMessageBuffer (snd ?r)))" by simp
      then have "nat (len (mmb_messages (incomingMessageBuffer (snd ?r)))) <
          nat (len (mmb_messages (incomingMessageBuffer c)))" using s by simp
      from less.hyps [OF this inv] True Some show ?thesis
        by (subst ProcessItems_loop.simps) (simp add: Let_def)
    next
      case False
      then show ?thesis using Some inv by (subst ProcessItems_loop.simps) (simp add: Let_def swrap_def)
    qed
  qed
qed

lemma inv_ProcessItems: "dc_inv n c \<Longrightarrow> dc_inv n (snd (ProcessIncomingMessageBufferItems S c))"
  using ProcessItems_terminates [of n c S] by (auto simp: ProcessIncomingMessageBufferItems_def)

lemma inv_handleOutputMessage:
  assumes "dc_inv n c" "n + 1 < 2 ^ 63" "raw \<noteq> []"
  shows "dc_inv (n + 1) (snd (handleOutputMessage S m raw c))"
proof -
  have ack: "dc_inv (n + 1) (snd (sbind (sendAcknowledgeMessage S m c) (\<lambda>_ d. swrap t (f d))))"
    if "\<And>d. dc_inv n d \<Longrightarrow> dc_inv (n + 1) (snd (f d))"
    for t and f :: "('a, 'b) DataChannel \<Rightarrow> unit res \<times> ('a, 'b) DataChannel"
    by (rule sbind_snd) (use assms(1) that in \<open>auto intro: inv_step_mono\<close>)
  have "dc_inv (n + 1) (snd (handleHandshakeRequestOutputMessage S m c))"
    "dc_inv (n + 1) (snd (handleHandshakeCompleteOutputMessage S m c))"
    "dc_inv (n + 1) (snd (handleEncryptionChallengeRequestOutputMessage S m c))"
    unfolding handleHandshakeRequestOutputMessage_def handleHandshakeCompleteOutputMessage_def
      handleEncryptionChallengeRequestOutputMessage_def
    by (rule ack, simp add: inv_handleHandshakeRequest inv_handleChallenge inv_step_mono
        inv_handleHandshakeComplete assms(2) [simplified])+
  moreover have "dc_inv (n + 1) (snd (handleDefaultOutputMessage S m c))"
    "dc_inv (n + 1) (snd (handleUnexpectedSequenceMessage S m raw c))"
    using assms by (simp_all add: inv_step_mono inv_handleDefault inv_handleUnexpected)
  ultimately show ?thesis unfolding handleOutputMessage_def
    by (auto intro!: sbind_snd [where P = "dc_inv (n + 1)"] inv_ProcessItems simp: inv_updates)
qed

lemma Deserialize_Nil: "\<exists>e. DeserializeClientMessage U [] = Err e"
  by (simp add: DeserializeClientMessage_def GetString_def wire_simps len_def)

lemma inv_outputMessageHandler:
  assumes "dc_inv n c" "n + 1 < 2 ^ 63"
  shows "dc_inv (n + 1) (snd (outputMessageHandler S raw c))"
proof (cases "raw = []")
  case True
  then show ?thesis
    using Deserialize_Nil [of "uuidp S"] assms by (auto simp: outputMessageHandler_def inv_step_mono)
next
  case False
  show ?thesis unfolding outputMessageHandler_def
    by (intro sbind_snd [where P = "dc_inv (n + 1)"])
      (use assms False in \<open>auto intro: inv_step_mono inv_handleOutputMessage inv_handleAcknowledge
        inv_handleChannelClosed\<close>)
qed

lemma inv_listen_message:
  assumes "dc_inv n c" "n + 1 < 2 ^ 63"
  shows "dc_inv (n + 1) (snd (listen_message S raw c))"
proof -
  let ?c = "snd (on_net (incomingMessageHandler c raw) c)"
  have c: "dc_inv n ?c" using assms by simp
  have o: "dc_inv (n + 1) (snd (outputMessageHandler S raw ?c))"
    using inv_outputMessageHandler [OF c assms(2)] .
  have cl: "dc_inv (n + 1) (snd (sbind (logged (Close S d)) (\<lambda>_ c. (Err e :: unit res, c))))"
    if "dc_inv (n + 1) d" for d e by (rule sbind_snd) (use that in auto)
  show ?thesis
    using c o by (auto simp: listen_message_def intro: inv_step_mono cl split: prod.split res.split)
qed

lemma inv_listen_round:
  assumes "dc_inv n c" "n + 1 < 2 ^ 63"
  shows "dc_inv (n + 1) (snd (listen_round S h r c))"
proof -
  let ?c = "snd (on_net (ws_ReadMessage S) c)"
  let ?d = "snd (call_retrier S r (refresh_and_reconnect S h) ?c)"
  have c: "dc_inv n ?c" using assms by simp
  then have d: "dc_inv n ?d" by (rule inv_only_net [rotated]) simp
  have cl: "dc_inv (n + 1) (snd (sbind (logged (Close S d)) (\<lambda>_ c. (Err e :: unit res, c))))"
    if "dc_inv n d" for d e by (rule sbind_snd) (use that in \<open>auto intro: inv_step_mono\<close>)
  show ?thesis
    using c d assms(2) by (auto simp: listen_round_def intro: inv_step_mono inv_listen_message cl
        split: prod.split res.split)
qed

lemma only_net_resend: "only_net c (snd (resend_round S c))"
proof -
  let ?w = "\<lambda>d. snd (on_w (time_Now S) d)"
  let ?c = "?w (dc_sleep S ResendSleepInterval c)"
  have c: "only_net c ?c" by (rule only_net_trans [OF only_net_sleep only_net_on_w])
  have s: "only_net c (snd (SendMessage S b t ?c))" for b t
    by (rule only_net_trans [OF c only_net_SendMessage])
  show ?thesis
    unfolding resend_round_def Let_def case_prod_beta
    by (auto simp: c s only_net_trans [OF s only_net_on_w] split: option.split res.split)
qed

section \<open>Runs\<close>

text \<open>
  The goroutines of an open channel take turns: rounds of \<open>listen\<close> as long as it did not
  return (the flag), rounds of the resender, sends of the plugin's goroutines, the waiting
  \<open>Open\<close>, registrations, the consumer of the display channel, and anything that
  changes only the outside (pings included).  The number counts the steps that may send a
  stream message.
\<close>

inductive reachable :: "('w, 'p) sys \<Rightarrow> bool \<Rightarrow> int \<Rightarrow> ('w, 'p) DataChannel \<Rightarrow> bool" for S where
  created: "reachable S True 0 (NewDataChannel nt cl se ta)"
| connect: "reachable S l n c \<Longrightarrow> reachable S l n (snd (Open_connect S c))"
| listening: "reachable S True n c \<Longrightarrow> listen_round S refresh retrier c = (r, c') \<Longrightarrow>
    reachable S (r = None) (n + 1) c'"
| sending: "reachable S l n c \<Longrightarrow> reachable S l (n + 1) (snd (SendInputDataMessage S payloadType inputData c))"
| resending: "reachable S l n c \<Longrightarrow> resend_round S c = (r, c') \<Longrightarrow> reachable S l n c'"
| resend_failed: "reachable S l n c \<Longrightarrow> reachable S l n (snd (report_resend_error r c))"
| establishing: "reachable S l n c \<Longrightarrow> reachable S l n (snd (establishSessionType timeout prefer c))"
| register_output: "reachable S l n c \<Longrightarrow> reachable S l n (RegisterOutputStreamHandler h specific c)"
| register_stop: "reachable S l n c \<Longrightarrow> reachable S l n (RegisterStopHandler stop c)"
| register_incoming: "reachable S l n c \<Longrightarrow> reachable S l n (RegisterIncomingMessageHandler inc c)"
| display: "reachable S l n c \<Longrightarrow> reachable S l n (c\<lparr>displayMessages := tl (displayMessages c)\<rparr>)"
| closing: "reachable S l n c \<Longrightarrow> reachable S l n (snd (Close S c))"
| outside: "reachable S l n c \<Longrightarrow> reachable S l n (c\<lparr>net := (net c)\<lparr>world := w\<rparr>\<rparr>)"

lemma inv_more_updates:
  "dc_inv n (c\<lparr>stopHandler := s\<rparr>) = dc_inv n c"
  "dc_inv n (c\<lparr>incomingMessageHandler := i\<rparr>) = dc_inv n c"
  "dc_inv n (c\<lparr>isSessionSpecificHandlerSet := b, outputStreamHandlers := hs\<rparr>) = dc_inv n c"
  "dc_inv n c \<Longrightarrow> dc_inv n (c\<lparr>displayMessages := tl (displayMessages c)\<rparr>)"
  "dc_inv n c \<Longrightarrow> length ts \<le> 1 \<Longrightarrow> dc_inv n (c\<lparr>isStreamMessageResendTimeout := ts\<rparr>)"
  "dc_inv n c \<Longrightarrow> length ss \<le> 1 \<Longrightarrow> dc_inv n (c\<lparr>isSessionTypeSet := ss\<rparr>)"
  by (auto simp: dc_inv_def out_inv_def in_inv_def misc_inv_def)

lemma inv_Open_connect:
  assumes "dc_inv n c"
  shows "dc_inv n (snd (Open_connect S c))"
proof -
  let ?c = "RegisterOutputStreamHandler FirstMessageHandler False c"
  let ?d = "snd (channel_retrier S ?c)"
  have "dc_inv n ?d"
    using assms
    by (simp add: channel_retrier_def case_prod_beta RegisterOutputStreamHandler_def inv_more_updates)
  then have d: "dc_inv n (snd (dc_open S ?d))" by simp
  then have "dc_inv n (snd (call_retrier S r (reconnect S) (snd (dc_open S ?d))))" for r
    by (rule inv_only_net [rotated]) simp
  with d show ?thesis
    by (auto simp: Open_connect_def Let_def case_prod_beta split: res.split)
qed

lemma inv_channels:
  assumes "dc_inv n c"
  shows "length (isStreamMessageResendTimeout c) \<le> 1" "length (isSessionTypeSet c) \<le> 1"
  using assms by (auto simp: dc_inv_def misc_inv_def)

lemma inv_report:
  assumes "dc_inv n c"
  shows "dc_inv n (snd (report_resend_error r c))"
  using assms inv_more_updates(5) [OF assms]
  by (auto simp: report_resend_error_def chan_send_def split: res.split)

lemma inv_establish:
  assumes "dc_inv n c"
  shows "dc_inv n (snd (establishSessionType th p c))"
proof -
  have t: "dc_inv n (snd (sbind (swrap m (on_net th (c\<lparr>isStreamMessageResendTimeout := ts\<rparr>)))
      (\<lambda>_ c. (Err e :: string res, c))))" if "length ts \<le> 1" for m ts e
    by (rule sbind_snd) (use inv_net_ops(1) [OF inv_more_updates(5) [OF assms that], of th] in simp_all)
  show ?thesis
    using inv_channels [OF assms] inv_more_updates(6) [OF assms] assms
    by (auto simp: establishSessionType_def t split: list.split)
qed

lemma reachable_inv:
  assumes "reachable S l n c" "n < 2 ^ 63"
  shows "dc_inv n c"
  using assms
proof (induction rule: reachable.induct)
  case (listening n c refresh retrier r c')
  then show ?case using inv_listen_round [of n c S refresh retrier] by simp
next
  case (sending l n c payloadType inputData)
  then show ?case by (simp add: inv_SendInputDataMessage)
next
  case (resending l n c r c')
  then show ?case using inv_only_net [OF only_net_resend, of n c S] by simp
qed (simp_all add: inv_New inv_Open_connect inv_report inv_establish inv_more_updates
    RegisterOutputStreamHandler_def RegisterStopHandler_def RegisterIncomingMessageHandler_def)

section \<open>Properties\<close>

text \<open>
  C4. In every reachable state (with fewer than \<open>2 ^ 63\<close> steps that send, and methods that run
  one at a time), the unacknowledged messages are at most 10000, have strictly increasing sequence numbers below the next one to
  be used, so that none is used twice, and a new message can always be pushed; the out-of-order
  messages are at most 10000, each stored under its own sequence number; encryption is enabled
  only with an encrypter in place; the retransmission timeout is at most its maximum; and the
  session type is unset or one of the two supported ones.
\<close>

theorem reachable_invariant:
  assumes "reachable S l n c" "n < 2 ^ 63"
  shows "len (lmb_messages (outgoingMessageBuffer c)) \<le> OutgoingMessageBufferCapacity \<and>
    sorted_wrt (<) (map sm_SequenceNumber (lmb_messages (outgoingMessageBuffer c))) \<and>
    (\<forall>m\<in>set (lmb_messages (outgoingMessageBuffer c)). sm_SequenceNumber m < streamDataSequenceNumber c) \<and>
    (\<forall>m. \<exists>b. ForcePushBack (outgoingMessageBuffer c) m = Ok b) \<and>
    len (mmb_messages (incomingMessageBuffer c)) \<le> IncomingMessageBufferCapacity \<and>
    (\<forall>k v. Get (incomingMessageBuffer c) k = Some v \<longrightarrow> sm_SequenceNumber v = k) \<and>
    (encryptionEnabled c \<longrightarrow> encryption c \<noteq> None) \<and>
    retransmissionTimeout c \<le> MaxTransmissionTimeout \<and>
    sessionType c \<in> {[], ShellPluginName, PortPluginName}"
proof -
  have i: "out_inv n c" "in_inv c" "misc_inv c" using reachable_inv [OF assms] by (simp_all add: dc_inv_def)
  have "\<exists>b. ForcePushBack (outgoingMessageBuffer c) m = Ok b" for m
    using i(1) lmb.push_ok [of "outgoingMessageBuffer c" m] by (auto simp: out_inv_def)
  with i show ?thesis
    by (auto simp: out_inv_def in_inv_def misc_inv_def lmb.ok_def mmb_wf_def)
qed


text \<open>
  C37. The resender never gives up: in no reachable state does a round of
  \<^verbatim>\<open>resendStreamDataMessageScheduler\<close> end with an error, so \<^verbatim>\<open>ErrTimedOut\<close> is never
  returned and the limit \<^verbatim>\<open>ResendMaxAttempt\<close> is never reached, however often the front
  message was resent; a round changes nothing but the outside.
\<close>

theorem resend_never_times_out:
  assumes "reachable S l n c" "n < 2 ^ 63"
  shows "fst (resend_round S c) \<noteq> Some (Err e) \<and> only_net c (snd (resend_round S c))"
proof -
  have a: "\<forall>m\<in>set (lmb_messages (outgoingMessageBuffer c)). sm_ResendAttempt m = 0"
    using reachable_inv [OF assms] by (simp add: dc_inv_def out_inv_def)
  have o: "outgoingMessageBuffer (dc_sleep S d c) = outgoingMessageBuffer c" for d
    by (rule only_net_out) simp
  have "sm_ResendAttempt m < ResendMaxAttempt" if "Front (outgoingMessageBuffer c) = Some m" for m
    using a that by (auto simp: Front_def ResendMaxAttempt_def split: list.splits)
  then show ?thesis
    using only_net_resend [of c S]
    by (auto simp: resend_round_def Let_def case_prod_beta o split: option.split res.split)
qed

section \<open>Witnesses\<close>

definition demo_channel :: "(demo_world, unit) DataChannel" where
  "demo_channel = NewDataChannel demo_net ''client'' ''session'' ''target''"

lemma demo_reachable:
  "reachable demo True 1 (snd (SendInputDataMessage demo Output [108, 115] demo_channel))"
  using reachable.sending [OF reachable.created [of demo demo_net "''client''" "''session''" "''target''"]]
  by (simp add: demo_channel_def)

theorem reachable_invariant_witness:
  "len (lmb_messages (outgoingMessageBuffer
     (snd (SendInputDataMessage demo Output [108, 115] demo_channel)))) \<le> OutgoingMessageBufferCapacity"
  using reachable_invariant [OF demo_reachable] by simp


theorem resend_never_times_out_witness:
  "fst (resend_round demo (snd (SendInputDataMessage demo Output [108, 115] demo_channel)))
     \<noteq> Some (Err ErrTimedOut)"
  using resend_never_times_out [OF demo_reachable] by simp

end
