(* ===== verification/Reorder.thy ===== *)
theory Reorder
  imports Prelude
begin

text \<open>
  What the receiving side of the data channel promises, without messages, buffers and
  acknowledgements: a machine over sequence numbers.  Its state is the number that is expected
  next and the set of later numbers that are kept; a number that arrives is released together
  with the kept ones that follow it, kept, or dropped.  The theorems about delivery rest on the
  facts shown here about this machine, and on the simulation of it by the code.
\<close>

type_synonym reorder = "nat \<times> nat set"

text \<open>The first number from \<open>e\<close> on that is not kept.\<close>

definition gap :: "nat \<Rightarrow> nat set \<Rightarrow> nat" where
  "gap e D = hd (filter (\<lambda>i. i \<notin> D) [e..<Suc (e + card D)])"

fun arrive :: "nat \<Rightarrow> nat \<Rightarrow> reorder \<Rightarrow> reorder" where
  "arrive cap i (e, D) =
     (if i = e then (gap (Suc e) D, D - {..<gap (Suc e) D})
      else if i > e \<and> card D \<noteq> cap then (e, insert i D)
      else (e, D))"

primrec arrive_all :: "nat \<Rightarrow> nat list \<Rightarrow> reorder \<Rightarrow> reorder" where
  "arrive_all cap [] s = s"
| "arrive_all cap (i # is) s = arrive_all cap is (arrive cap i s)"

lemma gap_eq:
  assumes "finite D" "e \<le> e'" "{e..<e'} \<subseteq> D" "e' \<notin> D"
  shows "gap e D = e'"
proof -
  have "e' - e \<le> card D" using card_mono [OF assms(1,3)] by simp
  then have "[e..<Suc (e + card D)] = [e..<e'] @ e' # [Suc e'..<Suc (e + card D)]"
    using assms(2) upt_add_eq_append [of e e' "Suc (e + card D) - e'"] by (simp add: upt_conv_Cons del: upt_Suc)
  moreover have "filter (\<lambda>i. i \<notin> D) [e..<e'] = []" using assms(3) by (auto simp: filter_empty_conv)
  ultimately show ?thesis using assms(4) by (simp add: gap_def)
qed

lemma gap_exists:
  assumes "finite D"
  shows "e \<le> gap e D" "{e..<gap e D} \<subseteq> D" "gap e D \<notin> D"
proof -
  have "\<exists>x. e \<le> x \<and> x \<notin> D" using assms by (meson finite_nat_set_iff_bounded_le not_less_eq_eq nat_le_linear)
  then have l: "e \<le> (LEAST x. e \<le> x \<and> x \<notin> D) \<and> (LEAST x. e \<le> x \<and> x \<notin> D) \<notin> D"
    by (rule LeastI_ex)
  have "{e..<(LEAST x. e \<le> x \<and> x \<notin> D)} \<subseteq> D" using not_less_Least by fastforce
  with l gap_eq [OF assms, of e "LEAST x. e \<le> x \<and> x \<notin> D"]
  show "e \<le> gap e D" "{e..<gap e D} \<subseteq> D" "gap e D \<notin> D" by auto
qed

text \<open>The numbers kept lie strictly between the expected one and a bound.\<close>

definition between :: "nat \<Rightarrow> reorder \<Rightarrow> bool" where
  "between N s \<longleftrightarrow> fst s \<le> N \<and> snd s \<subseteq> {fst s<..<N}"

lemma between_finite: "between N s \<Longrightarrow> finite (snd s)"
  unfolding between_def by (rule finite_subset [of _ "{fst s<..<N}"]) auto

lemma between_start: "e \<le> N \<Longrightarrow> between N (e, {})"
  by (simp add: between_def)

lemma arrive_between:
  assumes "between N s" "i < N"
  shows "between N (arrive cap i s)" "fst s \<le> fst (arrive cap i s)"
proof -
  obtain e D where s: "s = (e, D)" by force
  have D: "finite D" "D \<subseteq> {e<..<N}" "e \<le> N" using assms(1) between_finite [OF assms(1)] by (simp_all add: s between_def)
  let ?g = "gap (Suc e) D"
  note g = gap_exists [OF D(1), of "Suc e"]
  have "?g \<le> N" if "i = e"
  proof (cases "?g = Suc e")
    case False
    then have "?g - 1 \<in> {Suc e..<?g}" using g(1) by auto
    then have "?g - 1 \<in> {e<..<N}" using g(2) D(2) by blast
    then show ?thesis by auto
  qed (use that assms(2) in simp)
  moreover have "D - {..<?g} \<subseteq> {?g<..<N}" using D(2) g(3) by (auto simp: le_less)
  ultimately show "between N (arrive cap i s)" "fst s \<le> fst (arrive cap i s)"
    using D assms(2) g(1) by (auto simp: s between_def)
qed

text \<open>With room for all numbers below the bound nothing that arrived is dropped.\<close>

lemma arrive_keeps:
  assumes "between N s" "i < N" "N \<le> cap + fst s" "j \<in> insert i (snd s)"
  shows "j < fst (arrive cap i s) \<or> j \<in> snd (arrive cap i s)"
proof -
  obtain e D where s: "s = (e, D)" by force
  have D: "D \<subseteq> {e<..<N}" using assms(1) by (simp add: s between_def)
  have "card D \<le> N - Suc e" using card_mono [OF _ D] by simp
  then have "card D \<noteq> cap" if "i > e" using that assms(2,3) by (simp add: s)
  then show ?thesis
    using assms(4) gap_exists(1) [OF between_finite [OF assms(1)], of "Suc e"] by (auto simp: s)
qed

lemma arrive_all_between:
  "between N s \<Longrightarrow> \<forall>i \<in> set is. i < N \<Longrightarrow> between N (arrive_all cap is s) \<and> fst s \<le> fst (arrive_all cap is s)"
proof (induction "is" arbitrary: s)
  case (Cons i "is")
  from arrive_between [of N s i cap] Cons.prems Cons.IH [of "arrive cap i s"] show ?case by fastforce
qed simp

lemma arrive_all_keeps:
  assumes "between N s" "\<forall>i \<in> set is. i < N" "N \<le> cap + fst s" "j \<in> set is \<union> snd s"
  shows "j < fst (arrive_all cap is s) \<or> j \<in> snd (arrive_all cap is s)"
  using assms
proof (induction "is" arbitrary: s)
  case (Cons i "is")
  let ?s = "arrive cap i s"
  have s: "between N ?s" "fst s \<le> fst ?s" using arrive_between [of N s i cap] Cons.prems(1,2) by auto
  have later: "fst ?s \<le> fst (arrive_all cap is ?s)" using arrive_all_between [OF s(1)] Cons.prems(2) by simp
  have "j < fst ?s \<or> j \<in> set is \<union> snd ?s"
    using arrive_keeps [of N s i cap j] Cons.prems by auto
  then show ?case using Cons.IH [OF s(1)] Cons.prems(2,3) s(2) later by fastforce
qed simp

text \<open>
  All numbers below the bound, in any order, with repetitions: everything is released.
\<close>

lemma arrive_all_complete:
  assumes "e \<le> N" "{e..<N} \<subseteq> set is" "\<forall>i \<in> set is. i < N" "N \<le> cap + e"
  shows "arrive_all cap is (e, {}) = (N, {})"
proof -
  obtain e' D' where r: "arrive_all cap is (e, {}) = (e', D')" by force
  have b: "between N (e', D')" using arrive_all_between [OF between_start [OF assms(1)] assms(3), of cap] r by simp
  have k: "j < e' \<or> j \<in> D'" if "j \<in> {e..<N}" for j
    using arrive_all_keeps [OF between_start [OF assms(1)] assms(3), of cap j] assms(2,4) that r by auto
  have "e' = N"
  proof (rule ccontr)
    assume "e' \<noteq> N"
    moreover have "e \<le> e'" using arrive_all_between [OF between_start [OF assms(1)] assms(3), of cap] r by simp
    ultimately have "e' \<in> {e..<N}" "e' \<notin> D'" using b by (auto simp: between_def)
    with k show False by blast
  qed
  with b have "D' = {}" by (auto simp: between_def)
  with \<open>e' = N\<close> r show ?thesis by simp
qed

end
