(* ===== verification/Delivery.thy ===== *)
theory Delivery
  imports Channel_Invariant Reorder
begin

text \<open>
  What the sequence numbers are for: whatever order the network brings the agent's stream in,
  with duplicates, the session's handler gets each message once and in the order in which the
  agent sent them.  What the handler gives out is observed in the state of the outside.
\<close>

section \<open>Hypotheses on the outside\<close>

text \<open>Nothing of what the channel calls fails or touches the observation: ids are fresh ids,
  the time is after 1970, the acknowledgement has a JSON text, and the connection takes what
  is written.\<close>

definition smooth :: "('w, 'p) sys \<Rightarrow> handle \<Rightarrow> ('w \<Rightarrow> 'o) \<Rightarrow> bool" where
  "smooth S h obs \<longleftrightarrow> uuid_pkg_ok (uuidp S) \<and>
     (\<forall>w. \<exists>u w'. uuid_New S w = (Ok u, w') \<and> length u = 16 \<and> u \<noteq> uuid_Nil \<and> obs w' = obs w) \<and>
     (\<forall>w. 0 < fst (time_UnixMilli S w) \<and> is_i64 (fst (time_UnixMilli S w)) \<and>
          obs (snd (time_UnixMilli S w)) = obs w) \<and>
     (\<forall>w. obs (snd (time_Now S w)) = obs w) \<and>
     (\<forall>a. \<exists>p. marshal_AcknowledgeContent (json S) a = Ok p \<and> p \<noteq> [] \<and> len p \<le> MaxInt32) \<and>
     (\<forall>t b w. \<exists>w'. conn_WriteMessage S h t b w = (Ok (), w') \<and> obs w' = obs w)"

text \<open>The session's handler takes every message: \<open>obs\<close> observes what it has
  given out so far, \<open>emit\<close> is what it gives out for one message, and \<open>good\<close> and
  \<open>takes\<close> are the conditions on the world and on the message under which it takes it.\<close>

record ('w, 'x) sink =
  emit :: "ClientMessage \<Rightarrow> 'x list"
  obs :: "'w \<Rightarrow> 'x list"
  good :: "'w \<Rightarrow> bool"
  takes :: "ClientMessage \<Rightarrow> bool"

definition seen :: "('w, 'x) sink \<Rightarrow> 'w \<Rightarrow> 'x list \<times> bool" where
  "seen k w = (obs k w, good k w)"

definition emits :: "('w, 'x) sink \<Rightarrow> (nat \<Rightarrow> ClientMessage) \<Rightarrow> nat \<Rightarrow> nat \<Rightarrow> 'x list" where
  "emits k clear i j = concat (map (\<lambda>i. emit k (clear i)) [i..<j])"

lemma emits_Suc [simp]: "i \<le> j \<Longrightarrow> emits k clear i (Suc j) = emits k clear i j @ emit k (clear j)"
  by (simp add: emits_def)

lemma emits_same [simp]: "emits k clear i i = []"
  by (simp add: emits_def)

definition takes_all :: "(ClientMessage \<Rightarrow> 'w net \<Rightarrow> bool res \<times> 'w net) \<Rightarrow> ('w, 'x) sink \<Rightarrow> bool" where
  "takes_all f k \<longleftrightarrow>
     (\<forall>m n. good k (world n) \<and> takes k m \<longrightarrow>
       (\<exists>w. f m n = (Ok True, n\<lparr>world := w\<rparr>) \<and> obs k w = obs k (world n) @ emit k m \<and> good k w))"

text \<open>The channel is connected and has the session's handler, alone or behind the channel's own
  handler for the first message, which removes itself at the first call.\<close>

definition attached :: "handle \<Rightarrow> (ClientMessage \<Rightarrow> 'w net \<Rightarrow> bool res \<times> 'w net) \<Rightarrow> ('w, 'p) DataChannel \<Rightarrow> bool" where
  "attached h f c \<longleftrightarrow>
     isOpen (ws (net c)) \<and> connection (ws (net c)) = Some h \<and>
     isSessionSpecificHandlerSet c \<and>
     (outputStreamHandlers c = [HandlerFunc f] \<or>
      sessionType c \<noteq> [] \<and> outputStreamHandlers c = [FirstMessageHandler, HandlerFunc f])"

text \<open>The channel after a message was handed out.\<close>

abbreviation served :: "(ClientMessage \<Rightarrow> 'w net \<Rightarrow> bool res \<times> 'w net) \<Rightarrow> ('w, 'p) DataChannel \<Rightarrow> 'w \<Rightarrow>
    ('w, 'p) DataChannel" where
  "served f c w \<equiv> c\<lparr>net := (net c)\<lparr>world := w\<rparr>, outputStreamHandlers := [HandlerFunc f]\<rparr>"

text \<open>The agent's stream: message number \<open>i\<close> arrives as \<open>raw i\<close>, and \<open>clear i\<close> is the
  message with its payload in clear.\<close>

definition plain :: "('w, 'p) sys \<Rightarrow> ('w, 'p) DataChannel \<Rightarrow> ClientMessage \<Rightarrow> ClientMessage res" where
  "plain S c m =
     (if decrypts m c then rbind (decrypt_with S (Payload m) c) (\<lambda>p. Ok (m\<lparr>Payload := p\<rparr>)) else Ok m)"

definition agent_stream :: "('w, 'p) sys \<Rightarrow> ('w, 'p) DataChannel \<Rightarrow> (nat \<Rightarrow> bytes) \<Rightarrow> (nat \<Rightarrow> ClientMessage) \<Rightarrow> bool" where
  "agent_stream S c raw clear \<longleftrightarrow>
     (\<forall>i. int i < 2 ^ 63 \<longrightarrow> (\<exists>m. DeserializeClientMessage (uuidp S) (raw i) = Ok m \<and> Validate m = Ok () \<and>
        MessageType m = OutputStreamMessage \<and> SequenceNumber m = int i \<and>
        PayloadType m \<notin> {HandshakeRequestPayloadType, HandshakeCompletePayloadType, EncChallengeRequest} \<and>
        plain S c m = Ok (clear i)))"

section \<open>One message\<close>

abbreviation set_world :: "('w, 'p) DataChannel \<Rightarrow> 'w \<Rightarrow> ('w, 'p) DataChannel" where
  "set_world c w \<equiv> c\<lparr>net := (net c)\<lparr>world := w\<rparr>\<rparr>"

lemma on_w_eq: "on_w f c = (fst (f (world (net c))), set_world c (snd (f (world (net c)))))"
  by (simp add: on_w_def on_net_def on_world_def Let_def)

lemma sendAcknowledge_smooth:
  assumes s: "smooth S h ob" and o: "isOpen (ws (net c))" "connection (ws (net c)) = Some h"
  shows "\<exists>w. sendAcknowledgeMessage S m c = (Ok (), set_world c w) \<and> ob w = ob (world (net c))"
proof -
  let ?a = "\<lparr>ack_MessageType = MessageType m, ack_MessageID = uuid_String S (MessageID m),
    ack_SequenceNumber = SequenceNumber m, ack_IsSequentialMessage = True\<rparr>"
  from s obtain p where p: "marshal_AcknowledgeContent (json S) ?a = Ok p" "p \<noteq> []" "len p \<le> MaxInt32"
    unfolding smooth_def by blast
  from s obtain u w1 where u: "uuid_New S (world (net c)) = (Ok u, w1)" "length u = 16" "u \<noteq> uuid_Nil"
    "ob w1 = ob (world (net c))" unfolding smooth_def by blast
  define t w2 where "t = fst (time_UnixMilli S w1)" and "w2 = snd (time_UnixMilli S w1)"
  have t: "0 < t" "is_i64 t" "ob w2 = ob w1" using s by (simp_all add: smooth_def t_def w2_def)
  let ?m = "acknowledge_message u t p"
  have U: "uuid_pkg_ok (uuidp S)" using s by (simp add: smooth_def)
  have "SerializeClientMessageWithAcknowledgeContent (uuidp S) (json S) u t ?a = Ok (wire_message ?m)"
    by (rule acknowledge_serializes [OF U u(2,3) t(1,2) p])
  then have ser: "serialize_acknowledge S ?a c = (Ok (wire_message ?m), set_world c w2)"
    using u(1) p(1) by (simp add: serialize_acknowledge_def on_w_eq Let_def t_def w2_def)
  have ne: "\<not> len (wire_message ?m) < 1"
    using length_wire_message [OF acknowledge_message_ok(1,2) [OF u(2,3) t(1,2) p(2,3)]] by (simp add: len_def)
  from s obtain w3 where w3: "conn_WriteMessage S h BinaryMessage (wire_message ?m) w2 = (Ok (), w3)"
    "ob w3 = ob w2" unfolding smooth_def by blast
  have "sendAcknowledgeMessage S m c = (Ok (), set_world c w3)"
    using ser ne w3(1) o
    by (simp add: sendAcknowledgeMessage_def Let_def SendMessage_def on_net_def ws_SendMessage_def on_world_def)
  then show ?thesis using w3(2) t(3) u(4) by auto
qed

lemma served_swap: "c\<lparr>outputStreamHandlers := hs, net := n\<rparr> = c\<lparr>net := n, outputStreamHandlers := hs\<rparr>"
  by (cases c) simp

lemma handlers_take:
  assumes "attached h f c" "takes_all f k" "good k (world (net c))" "takes k m"
  shows "\<exists>w. processOutputMessageWithHandlers m c = (Ok True, served f c w) \<and>
    obs k w = obs k (world (net c)) @ emit k m \<and> good k w"
proof -
  from assms(2,3,4) obtain w where w: "f m (net c) = (Ok True, (net c)\<lparr>world := w\<rparr>)"
    "obs k w = obs k (world (net c)) @ emit k m \<and> good k w"
    unfolding takes_all_def by blast
  let ?hs = "outputStreamHandlers c"
  have last: "handlers_loop [h', HandlerFunc f] 1 True m d = (Ok True, served f d w)"
    if "net d = net c" "outputStreamHandlers d = [HandlerFunc f]" for h' d
    using w(1) that by (subst handlers_loop.simps, simp add: on_net_def, subst handlers_loop.simps, simp)
  have "handlers_loop ?hs 0 False m c = (Ok True, served f c w)"
  proof (cases "?hs = [HandlerFunc f]")
    case True
    with w(1) show ?thesis by (subst handlers_loop.simps, simp add: on_net_def, subst handlers_loop.simps, simp)
  next
    case False
    let ?d = "c\<lparr>outputStreamHandlers := [HandlerFunc f]\<rparr>"
    have hs: "?hs = [FirstMessageHandler, HandlerFunc f]" "sessionType c \<noteq> []"
      using False assms(1) by (auto simp: attached_def)
    then have "firstMessageHandler m c = (Ok True, ?d)"
      by (simp add: firstMessageHandler_def deregister_firstMessageHandler_def Let_def)
    with hs(1) have "handlers_loop ?hs 0 False m c = handlers_loop [HandlerFunc f, HandlerFunc f] 1 True m ?d"
      by (subst handlers_loop.simps) (simp add: sync_array_def)
    then show ?thesis using last [of ?d "HandlerFunc f"] by simp
  qed
  with assms(1) w(2) show ?thesis
    by (intro exI [of _ w]) (simp add: processOutputMessageWithHandlers_def attached_def)
qed

section \<open>The state between two messages\<close>

text \<open>The next message to hand out is \<open>e\<close>; since message \<open>st\<close> the handler was given all
  messages before \<open>e\<close>; the buffer holds exactly the messages \<open>D\<close>, under their numbers.\<close>

definition holds :: "(nat \<Rightarrow> bytes) \<Rightarrow> nat set \<Rightarrow> (int64, StreamingMessage) MapMessageBuffer \<Rightarrow> bool" where
  "holds raw D b \<longleftrightarrow> mmb_wf b \<and> mmb_capacity b = IncomingMessageBufferCapacity \<and> dom (Get b) = int ` D \<and>
     (\<forall>i v. Get b (int i) = Some v \<longrightarrow> sm_SequenceNumber v = int i \<and> sm_Content v = raw i)"

definition waiting :: "('w, 'p) sys \<Rightarrow> handle \<Rightarrow> (ClientMessage \<Rightarrow> 'w net \<Rightarrow> bool res \<times> 'w net) \<Rightarrow>
    (nat \<Rightarrow> bytes) \<Rightarrow> (nat \<Rightarrow> ClientMessage) \<Rightarrow> ('w, 'x) sink \<Rightarrow> 'x list \<Rightarrow>
    nat \<Rightarrow> nat \<Rightarrow> nat set \<Rightarrow> ('w, 'p) DataChannel \<Rightarrow> bool" where
  "waiting S h f raw clear k before st e D c \<longleftrightarrow>
     attached h f c \<and> agent_stream S c raw clear \<and>
     expectedSequenceNumber c = int e \<and> st \<le> e \<and> obs k (world (net c)) = before @ emits k clear st e \<and>
     good k (world (net c)) \<and> (\<forall>i. int i < 2 ^ 63 \<longrightarrow> takes k (clear i)) \<and>
     holds raw D (incomingMessageBuffer c)"

lemma agent_stream_frame:
  "encryption c' = encryption c \<Longrightarrow> encryptionEnabled c' = encryptionEnabled c \<Longrightarrow>
    agent_stream S c' raw clear = agent_stream S c raw clear"
  by (simp add: agent_stream_def plain_def decrypts_def decrypt_with_def)

lemma agent_stream_nonempty: "agent_stream S c raw clear \<Longrightarrow> int i < 2 ^ 63 \<Longrightarrow> raw i \<noteq> []"
  unfolding agent_stream_def by (metis Deserialize_Nil res.distinct(1))

lemma plain_wrapped:
  assumes "plain S c m = Ok m'"
  shows "(if decrypts m c then rbind (wrap_err s (decrypt_with S (Payload m) c)) (\<lambda>p. Ok (m\<lparr>Payload := p\<rparr>))
    else Ok m) = Ok m'"
  using assms by (cases "decrypt_with S (Payload m) c") (auto simp: plain_def split: if_splits)

lemma holds_remove:
  assumes "holds raw D b" "i \<in> D"
  shows "holds raw (D - {i}) (snd (Remove b (int i)))"
proof -
  have w: "mmb_wf b" using assms by (simp add: holds_def)
  have g: "Get (snd (Remove b (int i))) = (Get b)(int i := None)" using mmb.del_lookup [OF w] by simp
  have "dom ((Get b)(int i := None)) = int ` (D - {i})"
    using assms(1) by (auto simp: holds_def)
  moreover have "sm_SequenceNumber v = int j \<and> sm_Content v = raw j"
    if "((Get b)(int i := None)) (int j) = Some v" for j v
    using that assms(1) by (auto simp: holds_def split: if_splits)
  ultimately show ?thesis using mmb.del_wf [OF w] assms(1) by (simp add: holds_def g)
qed

lemma holds_put:
  assumes "holds raw D b" "\<not> IsFull b" "sm_SequenceNumber v = int i" "sm_Content v = raw i"
  shows "holds raw (insert i D) (snd (SetUnlessFull b (int i) v))"
proof -
  have w: "mmb_wf b" using assms by (simp add: holds_def)
  have g: "Get (snd (SetUnlessFull b (int i) v)) = (Get b)(int i \<mapsto> v)"
    using mmb.put_lookup [of b "int i" v] assms(2) by (simp add: IsFull_def)
  have "dom ((Get b)(int i \<mapsto> v)) = int ` insert i D"
    using assms(1) by (auto simp: holds_def)
  moreover have "sm_SequenceNumber u = int j \<and> sm_Content u = raw j"
    if "((Get b)(int i \<mapsto> v)) (int j) = Some u" for j u
    using that assms(1,3,4) by (auto simp: holds_def split: if_splits)
  ultimately show ?thesis using mmb.put_wf [OF w] assms(1) by (simp add: holds_def g)
qed

lemma holds_next:
  assumes "holds raw D (incomingMessageBuffer c)" "expectedSequenceNumber c = int e"
  shows "e \<in> D \<Longrightarrow> raw e \<noteq> [] \<Longrightarrow> \<exists>b. next_buffered c = Some b \<and> sm_SequenceNumber b = int e \<and> sm_Content b = raw e"
    "e \<notin> D \<Longrightarrow> next_buffered c = None"
proof -
  have d: "dom (Get (incomingMessageBuffer c)) = int ` D" using assms(1) by (simp add: holds_def)
  show "\<exists>b. next_buffered c = Some b \<and> sm_SequenceNumber b = int e \<and> sm_Content b = raw e" if "e \<in> D" "raw e \<noteq> []"
  proof -
    from that(1) d obtain b where b: "Get (incomingMessageBuffer c) (int e) = Some b" by blast
    with assms(1) have "sm_SequenceNumber b = int e" "sm_Content b = raw e" by (auto simp: holds_def)
    with b assms(2) that(2) show ?thesis by (simp add: next_buffered_def)
  qed
  show "next_buffered c = None" if "e \<notin> D"
  proof -
    have "int e \<notin> dom (Get (incomingMessageBuffer c))" using that d by auto
    then show ?thesis using assms(2) by (simp add: next_buffered_def domIff)
  qed
qed

text \<open>Handing out message \<open>e\<close>, whether it comes from the network or from the buffer.\<close>

lemma to_i64_nat: "int e + 1 < 2 ^ 63 \<Longrightarrow> to_i64 (int e + 1) = int (Suc e)"
  by (subst to_i64_id) (simp_all add: is_i64_def)

lemma waiting_given:
  assumes "waiting S h f raw clear k before st e D c" "obs k w = obs k (world (net c)) @ emit k (clear e)" "good k w"
    and "int e + 1 < 2 ^ 63" "holds raw D' b'"
  shows "waiting S h f raw clear k before st (Suc e) D'
    (served f c w\<lparr>expectedSequenceNumber := to_i64 (int e + 1), incomingMessageBuffer := b'\<rparr>)"
proof -
  let ?c = "served f c w\<lparr>expectedSequenceNumber := to_i64 (int e + 1), incomingMessageBuffer := b'\<rparr>"
  have "agent_stream S ?c raw clear = agent_stream S c raw clear" by (rule agent_stream_frame) simp_all
  then show ?thesis using assms to_i64_nat [OF assms(4)] by (simp add: waiting_def attached_def)
qed

lemma processBuffered_step:
  assumes w: "waiting S h f raw clear k before st e D c" and t: "takes_all f k"
    and e: "e \<in> D" "int e + 1 < 2 ^ 63" and b: "sm_SequenceNumber b = int e" "sm_Content b = raw e"
  shows "\<exists>c'. processBufferedMessage S b c = (Ok (), c') \<and>
    waiting S h f raw clear k before st (Suc e) (D - {e}) c'"
proof -
  have "int e < 2 ^ 63" using e(2) by simp
  with w obtain m where m: "DeserializeClientMessage (uuidp S) (raw e) = Ok m" "plain S c m = Ok (clear e)"
    unfolding waiting_def agent_stream_def by blast
  have "attached h f c" "good k (world (net c))" "takes k (clear e)"
    using w \<open>int e < 2 ^ 63\<close> by (simp_all add: waiting_def)
  from handlers_take [OF this(1) t this(2,3)] obtain v where v: "processOutputMessageWithHandlers (clear e) c = (Ok True, served f c v)"
    "obs k v = obs k (world (net c)) @ emit k (clear e)" "good k v" by blast
  have x: "expectedSequenceNumber c = int e" "holds raw D (incomingMessageBuffer c)"
    using w by (simp_all add: waiting_def)
  show ?thesis
    using waiting_given [OF w v(2,3) e(2) holds_remove [OF x(2) e(1)]] m v(1) b x(1)
    by (simp add: processBufferedMessage_def plain_wrapped)
qed

lemma ProcessItems_step:
  assumes "takes_all f k" "waiting S h f raw clear k before st e D c" "finite D"
    and "\<forall>i\<in>D. e \<le> i \<and> int i + 1 < 2 ^ 63"
  shows "\<exists>e' c'. ProcessItems_loop S c = Some (Ok (), c') \<and> e \<le> e' \<and> {e..<e'} \<subseteq> D \<and>
    waiting S h f raw clear k before st e' (D - {..<e'}) c' \<and> e' \<notin> D"
  using assms(2-)
proof (induction "card D" arbitrary: e D c rule: less_induct)
  case less
  have st: "agent_stream S c raw clear" using less.prems(1) by (simp add: waiting_def)
  have nx: "holds raw D (incomingMessageBuffer c)" "expectedSequenceNumber c = int e"
    using less.prems(1) by (simp_all add: waiting_def)
  show ?case
  proof (cases "e \<in> D")
    case False
    then have "D - {..<e} = D" using less.prems(3) by auto
    then show ?thesis using False less.prems(1) holds_next(2) [OF nx]
      by (intro exI [of _ e] exI [of _ c]) (simp add: ProcessItems_loop.simps [of S c])
  next
    case True
    have "int e < 2 ^ 63" using True less.prems(3) by fastforce
    from holds_next(1) [OF nx True agent_stream_nonempty [OF st this]] obtain b where
      b: "next_buffered c = Some b" "sm_SequenceNumber b = int e" "sm_Content b = raw e" by blast
    obtain c1 where c1: "processBufferedMessage S b c = (Ok (), c1)"
      "waiting S h f raw clear k before st (Suc e) (D - {e}) c1"
      using processBuffered_step [OF less.prems(1) assms(1) True _ b(2,3)] True less.prems(3) by blast
    have "card (D - {e}) < card D" using True less.prems(2) by (meson card_Diff1_less)
    moreover have "\<forall>i\<in>D - {e}. Suc e \<le> i \<and> int i + 1 < 2 ^ 63" using less.prems(3) by fastforce
    ultimately obtain e' c' where *: "ProcessItems_loop S c1 = Some (Ok (), c')" "Suc e \<le> e'"
      "{Suc e..<e'} \<subseteq> D - {e}" "waiting S h f raw clear k before st e' (D - {e} - {..<e'}) c'" "e' \<notin> D - {e}"
      using less.hyps [OF _ c1(2)] less.prems(2) by blast
    have "D - {e} - {..<e'} = D - {..<e'}" using *(2) by auto
    moreover have "{e..<e'} = insert e {Suc e..<e'}" using *(2) by auto
    then have "{e..<e'} \<subseteq> D" using *(3) True by auto
    ultimately show ?thesis using * b(1) c1(1)
      by (intro exI [of _ e'] exI [of _ c']) (simp add: ProcessItems_loop.simps [of S c] Let_def)
  qed
qed

section \<open>Receiving\<close>

lemma waiting_world:
  assumes "waiting S h f raw clear k before st e D c" "seen k w = seen k (world (net c))" "holds raw D' b'"
  shows "waiting S h f raw clear k before st e D' (set_world c w\<lparr>incomingMessageBuffer := b'\<rparr>)"
proof -
  let ?c = "set_world c w\<lparr>incomingMessageBuffer := b'\<rparr>"
  have "agent_stream S ?c raw clear = agent_stream S c raw clear" by (rule agent_stream_frame) simp_all
  then show ?thesis using assms by (simp add: waiting_def attached_def seen_def)
qed

text \<open>The expected message: it is handed out and acknowledged, and then what follows it in
  the buffer is handed out.\<close>

lemma receive_expected:
  assumes s: "smooth S h (seen k)" and t: "takes_all f k" and w: "waiting S h f raw clear k before st e D c"
    and D: "finite D" "\<forall>i\<in>D. e < i \<and> int i + 1 < 2 ^ 63" and e: "int e + 1 < 2 ^ 63"
  shows "\<exists>e' c'. outputMessageHandler S (raw e) c = (Ok (), c') \<and> e < e' \<and> {Suc e..<e'} \<subseteq> D \<and>
    waiting S h f raw clear k before st e' (D - {..<e'}) c' \<and> e' \<notin> D"
proof -
  have "int e < 2 ^ 63" using e by simp
  with w obtain m where m: "DeserializeClientMessage (uuidp S) (raw e) = Ok m" "Validate m = Ok ()"
    "MessageType m = OutputStreamMessage" "SequenceNumber m = int e" "plain S c m = Ok (clear e)"
    "PayloadType m \<notin> {HandshakeRequestPayloadType, HandshakeCompletePayloadType, EncChallengeRequest}"
    unfolding waiting_def agent_stream_def by blast
  have x: "expectedSequenceNumber c = int e" "attached h f c" "holds raw D (incomingMessageBuffer c)"
    "good k (world (net c))" "takes k (clear e)"
    using w \<open>int e < 2 ^ 63\<close> by (simp_all add: waiting_def)
  from handlers_take [OF x(2) t x(4,5)] obtain v where
    v: "processOutputMessageWithHandlers (clear e) c = (Ok True, served f c v)"
      "obs k v = obs k (world (net c)) @ emit k (clear e)" "good k v" by blast
  have "isOpen (ws (net (served f c v)))" "connection (ws (net (served f c v))) = Some h"
    using x(2) by (simp_all add: attached_def)
  from sendAcknowledge_smooth [OF s this, of "clear e"] obtain u where
    u: "sendAcknowledgeMessage S (clear e) (served f c v) = (Ok (), served f c u)" "seen k u = seen k v"
    by (auto simp: served_swap)
  from u(2) v(2,3) have ob: "obs k u = obs k (world (net c)) @ emit k (clear e)" "good k u" by (simp_all add: seen_def)
  let ?c = "served f c u\<lparr>expectedSequenceNumber := to_i64 (int e + 1)\<rparr>"
  have d: "handleDefaultOutputMessage S m c = (Ok (), served f c u)"
    using v(1) u(1) m(5) by (simp add: handleDefaultOutputMessage_def plain_wrapped)
  have "?c = served f c u\<lparr>expectedSequenceNumber := to_i64 (int e + 1),
      incomingMessageBuffer := incomingMessageBuffer c\<rparr>" by simp
  moreover have "waiting S h f raw clear k before st (Suc e) D \<dots>"
    by (rule waiting_given [OF w ob e x(3)])
  ultimately have w': "waiting S h f raw clear k before st (Suc e) D ?c" by (simp only:)
  have "\<forall>i\<in>D. Suc e \<le> i \<and> int i + 1 < 2 ^ 63" using D(2) by fastforce
  from ProcessItems_step [OF t w' D(1) this] obtain e' c' where
    p: "ProcessItems_loop S ?c = Some (Ok (), c')" "Suc e \<le> e'" "{Suc e..<e'} \<subseteq> D"
      "waiting S h f raw clear k before st e' (D - {..<e'}) c'" "e' \<notin> D" by blast
  have "outputMessageHandler S (raw e) c = (Ok (), c')"
    using m p(1) d x(1)
    by (simp add: outputMessageHandler_def handleOutputMessage_def ProcessIncomingMessageBufferItems_def)
  then show ?thesis using p(2-) by (intro exI [of _ e'] exI [of _ c']) auto
qed

text \<open>Any other message: a later one is kept in the buffer unless that is full, an earlier
  one is dropped.\<close>

lemma receive_other:
  assumes s: "smooth S h (seen k)" and w: "waiting S h f raw clear k before st e D c"
    and i: "i \<noteq> e" "int i < 2 ^ 63"
  shows "\<exists>c'. outputMessageHandler S (raw i) c = (Ok (), c') \<and> waiting S h f raw clear k before st e
    (if i > e \<and> \<not> IsFull (incomingMessageBuffer c) then insert i D else D) c'"
proof -
  from w i(2) obtain m where m: "DeserializeClientMessage (uuidp S) (raw i) = Ok m" "Validate m = Ok ()"
    "MessageType m = OutputStreamMessage" "SequenceNumber m = int i"
    unfolding waiting_def agent_stream_def by blast
  have x: "expectedSequenceNumber c = int e" "isOpen (ws (net c))" "connection (ws (net c)) = Some h"
    "holds raw D (incomingMessageBuffer c)"
    using w by (simp_all add: waiting_def attached_def)
  have h: "outputMessageHandler S (raw i) c = handleUnexpectedSequenceMessage S m (raw i) c"
    using m x(1) i(1) by (simp add: outputMessageHandler_def handleOutputMessage_def)
  show ?thesis
  proof (cases "i > e \<and> \<not> IsFull (incomingMessageBuffer c)")
    case True
    from sendAcknowledge_smooth [OF s x(2,3), of m] obtain u where
      u: "sendAcknowledgeMessage S m c = (Ok (), set_world c u)" "seen k u = seen k (world (net c))" by blast
    let ?u = "snd (time_Now S u)"
    let ?v = "\<lparr>sm_Content = raw i, sm_SequenceNumber = int i, sm_LastSentTime = fst (time_Now S u),
      sm_ResendAttempt = 0\<rparr>"
    have "holds raw (insert i D) (snd (SetUnlessFull (incomingMessageBuffer c) (int i) ?v))"
      using True by (intro holds_put [OF x(4)]) simp_all
    from waiting_world [OF w _ this, of ?u] s u(2)
    have "waiting S h f raw clear k before st e (insert i D) (set_world c ?u\<lparr>incomingMessageBuffer :=
        snd (SetUnlessFull (incomingMessageBuffer c) (int i) ?v)\<rparr>)" by (simp add: smooth_def)
    then show ?thesis
      using h True u(1) m(4) x(1)
      by (simp add: handleUnexpectedSequenceMessage_def on_w_eq Let_def)
  next
    case False
    then show ?thesis using h w m(4) x(1) by (auto simp: handleUnexpectedSequenceMessage_def)
  qed
qed

fun receive_all :: "('w, 'p) sys \<Rightarrow> bytes list \<Rightarrow> ('w, 'p) DataChannel \<Rightarrow> unit res \<times> ('w, 'p) DataChannel" where
  "receive_all S [] c = (Ok (), c)"
| "receive_all S (r # rs) c = sbind (outputMessageHandler S r c) (\<lambda>_ c. receive_all S rs c)"

lemma holds_full:
  assumes "holds raw D b"
  shows "IsFull b \<longleftrightarrow> int (card D) = IncomingMessageBufferCapacity" "finite D"
proof -
  have w: "mmb_wf b" "dom (Get b) = int ` D" "mmb_capacity b = IncomingMessageBufferCapacity"
    using assms by (simp_all add: holds_def)
  have c: "card (int ` D) = card D" by (rule card_image) simp
  show "IsFull b \<longleftrightarrow> int (card D) = IncomingMessageBufferCapacity"
    using mmb.size_card [OF w(1)] w(2,3) c by (simp add: IsFull_def)
  show "finite D" using mmb.size_card [OF w(1)] w(2) by (simp add: finite_image_iff)
qed

text \<open>The code does what the machine of \<open>Reorder\<close> does: \<open>waiting\<close> relates their states, and
  each arrival keeps them related.\<close>

abbreviation cap :: nat where "cap \<equiv> nat IncomingMessageBufferCapacity"

lemma receive_step:
  assumes s: "smooth S h (seen k)" and t: "takes_all f k" and N: "int N < 2 ^ 63" "between N (e, D)" "i < N"
    and w: "waiting S h f raw clear k before st e D c"
  shows "\<exists>e' D' c'. outputMessageHandler S (raw i) c = (Ok (), c') \<and> arrive cap i (e, D) = (e', D') \<and>
    waiting S h f raw clear k before st e' D' c'"
proof -
  have D: "finite D" "D \<subseteq> {e<..<N}" using between_finite [OF N(2)] N(2) by (simp_all add: between_def)
  have hd: "holds raw D (incomingMessageBuffer c)" using w by (simp add: waiting_def)
  show ?thesis
  proof (cases "i = e")
    case True
    have "\<forall>i\<in>D. e < i \<and> int i + 1 < 2 ^ 63" "int e + 1 < 2 ^ 63" using D(2) N True by auto
    from receive_expected [OF s t w D(1) this] obtain e' c' where
      r: "outputMessageHandler S (raw e) c = (Ok (), c')" "e < e'" "{Suc e..<e'} \<subseteq> D"
        "waiting S h f raw clear k before st e' (D - {..<e'}) c'" "e' \<notin> D" by blast
    have "gap (Suc e) D = e'" using r by (intro gap_eq [OF D(1)]) simp_all
    with r True show ?thesis by auto
  next
    case False
    have "IsFull (incomingMessageBuffer c) \<longleftrightarrow> card D = cap"
      using holds_full(1) [OF hd] by (auto simp: IncomingMessageBufferCapacity_def)
    with receive_other [OF s w False] N(1,3) False show ?thesis by fastforce
  qed
qed

lemma receive_all_sim:
  assumes s: "smooth S h (seen k)" and t: "takes_all f k" and N: "int N < 2 ^ 63" "between N (e, D)" "\<forall>i\<in>set is. i < N"
    and w: "waiting S h f raw clear k before st e D c"
  shows "\<exists>e' D' c'. receive_all S (map raw is) c = (Ok (), c') \<and> arrive_all cap is (e, D) = (e', D') \<and>
    waiting S h f raw clear k before st e' D' c'"
  using N(2-) w
proof (induction "is" arbitrary: e D c)
  case (Cons i "is")
  from receive_step [OF s t N(1) Cons.prems(1) _ Cons.prems(3), of i] Cons.prems(2) obtain e1 D1 c1 where
    1: "outputMessageHandler S (raw i) c = (Ok (), c1)" "arrive cap i (e, D) = (e1, D1)"
      "waiting S h f raw clear k before st e1 D1 c1" by auto
  have "between N (e1, D1)" using arrive_between(1) [OF Cons.prems(1), of i cap] Cons.prems(2) 1(2) by simp
  from Cons.IH [OF this _ 1(3)] Cons.prems(2) 1 show ?case by auto
qed auto

section \<open>Properties\<close>

lemma waiting_start:
  assumes "good k (world (net c))" "\<forall>i. int i < 2 ^ 63 \<longrightarrow> takes k (clear i)" "attached h f c" "agent_stream S c raw clear" "expectedSequenceNumber c = int st"
    and "incomingMessageBuffer c = NewMapMessageBuffer IncomingMessageBufferCapacity"
  shows "waiting S h f raw clear k (obs k (world (net c))) st st {} c"
proof -
  have "Get (NewMapMessageBuffer k :: (int64, StreamingMessage) MapMessageBuffer) = Map.empty" for k
    by (auto simp: Get_def NewMapMessageBuffer_def)
  then have "holds raw {} (incomingMessageBuffer c)"
    using mmb_wf_New [of IncomingMessageBufferCapacity] assms(6)
    by (simp add: holds_def IncomingMessageBufferCapacity_def) (simp add: NewMapMessageBuffer_def)
  then show ?thesis using assms by (simp add: waiting_def)
qed

text \<open>
  C2. In-order delivery.  Let the agent's messages arrive in any order, with losses and
  repetitions.  Then every arrival is processed without error, and the session's handler has
  been given exactly the messages from the one that was expected at the start up to the one
  that is expected at the end: each once, in the agent's order, none left out, each in clear
  when encryption is on.
\<close>

theorem in_order_delivery:
  assumes "smooth S h (seen k)" "takes_all f k" "good k (world (net c))"
    and "\<forall>i. int i < 2 ^ 63 \<longrightarrow> takes k (clear i)" "attached h f c" "agent_stream S c raw clear"
    and "expectedSequenceNumber c = int st"
    and "incomingMessageBuffer c = NewMapMessageBuffer IncomingMessageBufferCapacity"
    and "\<forall>i\<in>set arrivals. i < N" "st \<le> N" "int N < 2 ^ 63"
  shows "\<exists>e c'. receive_all S (map raw arrivals) c = (Ok (), c') \<and> st \<le> e \<and> e \<le> N \<and>
    expectedSequenceNumber c' = int e \<and>
    obs k (world (net c')) = obs k (world (net c)) @ emits k clear st e"
proof -
  from receive_all_sim [OF assms(1,2,11) between_start [OF assms(10)] assms(9) waiting_start [OF assms(3-8)]]
  obtain e D c' where r: "receive_all S (map raw arrivals) c = (Ok (), c')" "arrive_all cap arrivals (st, {}) = (e, D)"
    "waiting S h f raw clear k (obs k (world (net c))) st e D c'" by blast
  moreover have "st \<le> e" "e \<le> N"
    using arrive_all_between [OF between_start [OF assms(10)] assms(9), of cap] r(2) by (simp_all add: between_def)
  ultimately show ?thesis by (intro exI [of _ e] exI [of _ c']) (simp add: waiting_def)
qed

lemma deliver_all:
  assumes "smooth S h (seen k)" "takes_all f k" "good k (world (net c))"
    and "\<forall>i. int i < 2 ^ 63 \<longrightarrow> takes k (clear i)" "attached h f c" "agent_stream S c raw clear"
    and "expectedSequenceNumber c = int st"
    and "incomingMessageBuffer c = NewMapMessageBuffer IncomingMessageBufferCapacity"
    and "set arrivals = {st..<N}" "st \<le> N" "int N < 2 ^ 63"
    and "int N \<le> IncomingMessageBufferCapacity + int st"
  shows "\<exists>c'. receive_all S (map raw arrivals) c = (Ok (), c') \<and>
    expectedSequenceNumber c' = int N \<and>
    obs k (world (net c')) = obs k (world (net c)) @ emits k clear st N"
proof -
  have a: "\<forall>i\<in>set arrivals. i < N" using assms(9) by simp
  from receive_all_sim [OF assms(1,2,11) between_start [OF assms(10)] a waiting_start [OF assms(3-8)]]
  obtain e D c' where r: "receive_all S (map raw arrivals) c = (Ok (), c')" "arrive_all cap arrivals (st, {}) = (e, D)"
    "waiting S h f raw clear k (obs k (world (net c))) st e D c'" by blast
  have "arrive_all cap arrivals (st, {}) = (N, {})"
    using arrive_all_complete [OF assms(10) _ a, of cap] assms(9,12) by (auto simp: IncomingMessageBufferCapacity_def)
  with r show ?thesis by (intro exI [of _ c']) (simp add: waiting_def)
qed

text \<open>
  C1. Complete delivery.  If, in whatever order and with whatever repetitions, all the messages
  from the expected one up to \<open>N\<close> have arrived, and they are no more than the buffer of
  10000 holds, then the handler has been given all of them, in order.
\<close>

theorem complete_delivery:
  assumes "smooth S h (seen k)" "takes_all f k" "good k (world (net c))"
    and "\<forall>i. int i < 2 ^ 63 \<longrightarrow> takes k (clear i)" "attached h f c" "agent_stream S c raw clear"
    and "expectedSequenceNumber c = int st"
    and "incomingMessageBuffer c = NewMapMessageBuffer IncomingMessageBufferCapacity"
    and "set arrivals = {st..<N}" "st \<le> N" "int N < 2 ^ 63"
    and "int N \<le> IncomingMessageBufferCapacity + int st"
  shows "\<exists>c'. receive_all S (map raw arrivals) c = (Ok (), c') \<and>
    expectedSequenceNumber c' = int N \<and>
    obs k (world (net c')) = obs k (world (net c)) @ emits k clear st N"
  using assms by (rule deliver_all)

text \<open>
  C3. The receiver implements the reordering machine.  For every sequence of arrivals of the
  agent's messages, also one that overruns the buffer of 10000, the channel's expected number and
  the numbers it has buffered are those of the machine, and what the handler was given are the
  messages that the machine released.
\<close>

theorem receiver_refines_reorder:
  assumes "smooth S h (seen k)" "takes_all f k" "good k (world (net c))"
    and "\<forall>i. int i < 2 ^ 63 \<longrightarrow> takes k (clear i)" "attached h f c" "agent_stream S c raw clear"
    and "expectedSequenceNumber c = int st"
    and "incomingMessageBuffer c = NewMapMessageBuffer IncomingMessageBufferCapacity"
    and "\<forall>i\<in>set arrivals. i < N" "st \<le> N" "int N < 2 ^ 63"
    and "arrive_all (nat IncomingMessageBufferCapacity) arrivals (st, {}) = (e, D)"
  shows "\<exists>c'. receive_all S (map raw arrivals) c = (Ok (), c') \<and> expectedSequenceNumber c' = int e \<and>
    dom (Get (incomingMessageBuffer c')) = int ` D \<and>
    obs k (world (net c')) = obs k (world (net c)) @ emits k clear st e"
proof -
  from receive_all_sim [OF assms(1,2,11) between_start [OF assms(10)] assms(9) waiting_start [OF assms(3-8)]] assms(12)
  obtain c' where "receive_all S (map raw arrivals) c = (Ok (), c')"
    "waiting S h f raw clear k (obs k (world (net c))) st e D c'" by auto
  then show ?thesis by (intro exI [of _ c']) (simp add: waiting_def holds_def)
qed

section \<open>Witnesses\<close>

definition demo_handler :: "ClientMessage \<Rightarrow> demo_world net \<Rightarrow> bool res \<times> demo_world net" where
  "demo_handler m n = (Ok True, n\<lparr>world := (world n)\<lparr>dw_shown := dw_shown (world n) @ [m]\<rparr>\<rparr>)"

definition shell_channel :: "(demo_world, unit) DataChannel" where
  "shell_channel = RegisterOutputStreamHandler (HandlerFunc demo_handler) True
     (NewDataChannel demo_net ''client'' ''session'' ''target'')"

definition demo_out :: "nat \<Rightarrow> ClientMessage" where
  "demo_out i = example_msg\<lparr>MessageType := OutputStreamMessage, SequenceNumber := int i,
     Payload := [104, 105]\<rparr>"

definition demo_clear :: "nat \<Rightarrow> ClientMessage" where
  "demo_clear i = (demo_out i)\<lparr>HeaderLength := 116, PayloadDigest := sha256 [104, 105], PayloadLength := 2\<rparr>"

lemma demo_out_ok:
  "int i < 2 ^ 63 \<Longrightarrow> wf_msg (demo_out i)" "serializable (demo_out i)" "wire_string (MessageType (demo_out i))"
  by (simp_all add: demo_out_def example_msg_def wf_msg_def serializable_def is_i64_def len_def message_types
      payload_types wire_string_def graphic_def byte_of_char_def)

definition demo_sink :: "(demo_world, ClientMessage) sink" where
  "demo_sink = \<lparr>emit = (\<lambda>m. [m]), obs = dw_shown, good = (\<lambda>_. True),
     takes = (\<lambda>_. True)\<rparr>"

lemma demo_sink_simps [simp]: "emit demo_sink m = [m]" "obs demo_sink = dw_shown" "good demo_sink w"
  "\<forall>i. int i < 2 ^ 63 \<longrightarrow> takes demo_sink (clear i)" "takes demo_sink m"
  by (simp_all add: demo_sink_def)

lemma demo_smooth: "smooth demo 1 (seen demo_sink)"
  by (simp add: seen_def smooth_def demo_def uuid_plain_ok json_toy_def is_i64_def len_def
      flip: length_greater_0_conv)

lemma demo_takes_all: "takes_all demo_handler demo_sink"
  unfolding takes_all_def
proof (intro allI impI)
  fix m :: ClientMessage and n :: "demo_world net"
  show "\<exists>w. demo_handler m n = (Ok True, n\<lparr>world := w\<rparr>) \<and>
      obs demo_sink w = obs demo_sink (world n) @ emit demo_sink m \<and> good demo_sink w"
    by (rule exI [of _ "(world n)\<lparr>dw_shown := dw_shown (world n) @ [m]\<rparr>"]) (simp add: demo_handler_def)
qed

lemma shell_attached: "attached 1 demo_handler shell_channel"
  by (simp add: attached_def shell_channel_def RegisterOutputStreamHandler_def NewDataChannel_def demo_net_def
      RegisterStopHandler_def RegisterIncomingMessageHandler_def)

lemma shell_fields:
  "encryptionEnabled shell_channel = False" "expectedSequenceNumber shell_channel = 0"
  "incomingMessageBuffer shell_channel = NewMapMessageBuffer IncomingMessageBufferCapacity"
  "dw_shown (world (net shell_channel)) = []"
  by (simp_all add: shell_channel_def RegisterOutputStreamHandler_def NewDataChannel_def demo_net_def demo_start_def
      RegisterStopHandler_def RegisterIncomingMessageHandler_def)

lemma demo_stream: "agent_stream demo shell_channel (\<lambda>i. wire_message (demo_out i)) demo_clear"
proof -
  have "DeserializeClientMessage uuid_plain (wire_message (demo_out i)) = Ok (demo_clear i)"
    if "int i < 2 ^ 63" for i
    using Deserialize_wire [OF uuid_plain_ok demo_out_ok(1) [OF that] demo_out_ok(2,3)]
    by (simp add: demo_clear_def demo_out_def)
  moreover have "Validate (demo_clear i) = Ok ()" for i
    by (simp add: Validate_def demo_clear_def demo_out_def example_msg_def message_types)
  ultimately show ?thesis
    by (simp add: agent_stream_def plain_def decrypts_def shell_fields demo_def)
      (simp add: demo_clear_def demo_out_def example_msg_def payload_types)
qed

theorem in_order_delivery_witness:
  "\<exists>e c'. receive_all demo (map (\<lambda>i. wire_message (demo_out i)) [1, 0, 5]) shell_channel = (Ok (), c') \<and>
     dw_shown (world (net c')) = map demo_clear [0..<e]"
proof -
  have "expectedSequenceNumber shell_channel = int 0" "\<forall>i\<in>set [1, 0, 5]. i < (6 :: nat)"
    "(0 :: nat) \<le> 6" "int 6 < 2 ^ 63" by (simp_all add: shell_fields)
  from in_order_delivery [OF demo_smooth demo_takes_all demo_sink_simps(3,4) shell_attached demo_stream this(1) shell_fields(3) this(2-)]
  show ?thesis by (auto simp: shell_fields emits_def)
qed

theorem complete_delivery_witness:
  "\<exists>c'. receive_all demo (map (\<lambda>i. wire_message (demo_out i)) [2, 0, 2, 1]) shell_channel = (Ok (), c') \<and>
     dw_shown (world (net c')) = [demo_clear 0, demo_clear 1, demo_clear 2]"
proof -
  have "expectedSequenceNumber shell_channel = int 0" "set [2, 0, 2, 1] = {0..<(3 :: nat)}"
    "(0 :: nat) \<le> 3" "int 3 < 2 ^ 63" "int 3 \<le> IncomingMessageBufferCapacity + int 0"
    by (auto simp: shell_fields IncomingMessageBufferCapacity_def)
  from complete_delivery [OF demo_smooth demo_takes_all demo_sink_simps(3,4) shell_attached demo_stream this(1) shell_fields(3) this(2-)]
  show ?thesis by (auto simp: shell_fields emits_def upt_rec numeral_2_eq_2)
qed

theorem receiver_refines_reorder_witness:
  "\<exists>c'. receive_all demo (map (\<lambda>i. wire_message (demo_out i)) [1, 0, 5]) shell_channel = (Ok (), c') \<and>
     expectedSequenceNumber c' = 2 \<and> dom (Get (incomingMessageBuffer c')) = {5} \<and>
     dw_shown (world (net c')) = [demo_clear 0, demo_clear 1]"
proof -
  have n: "expectedSequenceNumber shell_channel = int 0" "\<forall>i\<in>set [1, 0, 5]. i < (6 :: nat)"
    "(0 :: nat) \<le> 6" "int 6 < 2 ^ 63" by (simp_all add: shell_fields)
  have g: "gap (Suc 0) {Suc 0} = 2" by (rule gap_eq) auto
  have a: "arrive_all (nat IncomingMessageBufferCapacity) [1, 0, 5] (0, {}) = (2, {5})"
    by (auto simp: IncomingMessageBufferCapacity_def g)
  from receiver_refines_reorder [OF demo_smooth demo_takes_all demo_sink_simps(3,4) shell_attached demo_stream n(1)
      shell_fields(3) n(2-) a]
  show ?thesis by (auto simp: shell_fields emits_def upt_rec numeral_2_eq_2)
qed

end
