(* ===== verification/Channel_Props.thy ===== *)
theory Channel_Props
  imports Delivery
begin

text \<open>
  The behaviour of single operations of the data channel: sending and acknowledging, the
  retransmission timeout, the handshake, the first message, and the places where a message or
  a connection is lost.
\<close>

section \<open>Sending\<close>

text \<open>What \<open>SendInputDataMessage\<close> puts into the message, before and after encryption.\<close>

definition typed :: "bytes \<Rightarrow> bytes" where
  "typed d = (if d = [10] then [13] else d)"

lemma SendInput_plain:
  assumes u: "uuid_New S (world (net c)) = (Ok u, w1)" and t: "time_UnixMilli S w1 = (t, w2)"
    and e: "\<not> (encryptionEnabled c \<and> pt = Output)"
  shows "SendInputDataMessage S pt d c =
    sbind (wrap_err ''serializing client message'' (SerializeClientMessage (uuidp S)
      (input_message u t pt (typed d) (streamDataSequenceNumber c))), set_world c w2) (\<lambda>msg c'.
    sbind (swrap ''sending message'' (SendMessage S msg BinaryMessage c'))
      (\<lambda>_. record_sent S msg (streamDataSequenceNumber c)))"
  using assms by (auto simp: SendInputDataMessage_record_sent on_w_eq Let_def typed_def)

lemma SendMessage_open:
  assumes "isOpen (ws (net c))" "connection (ws (net c)) = Some h" "b \<noteq> []"
    and "conn_WriteMessage S h t b (world (net c)) = (r, w)"
  shows "SendMessage S b t c =
    (wrap_err ''sending message through data channel'' (wrap_err ''writing websocket message'' r), set_world c w)"
proof -
  have "\<not> len b < 1" using assms(3) by (cases b) (simp_all add: len_def)
  then show ?thesis using assms by (simp add: SendMessage_def on_net_def ws_SendMessage_def on_world_def)
qed

lemma input_message_ok:
  assumes "length u = 16" "u \<noteq> uuid_Nil" "0 \<le> t" "is_i64 t" "d \<noteq> []" "len d \<le> MaxInt32" "is_i64 s"
    and "uint pt \<le> MaxInt32"
  shows "wf_msg (input_message u t pt d s)" "serializable (input_message u t pt d s)"
proof -
  have cd: "uint (word_of_int t :: uint64) = t"
    using assms(3,4) by (simp add: is_i64_def uint_word_of_int take_bit_int_eq_self)
  show "wf_msg (input_message u t pt d s)"
    using assms by (simp add: wf_msg_def input_message_def is_i64_def len_def)
  show "serializable (input_message u t pt d s)"
    using assms cd by (simp add: serializable_def input_message_def message_types is_i64_def)
qed

lemma record_sent_Ok:
  assumes "lmb.ok (outgoingMessageBuffer c)" "time_Now S (world (net c)) = (now, w)"
  shows "\<exists>b. ForcePushBack (outgoingMessageBuffer c) \<lparr>sm_Content = msg, sm_SequenceNumber = s,
      sm_LastSentTime = now, sm_ResendAttempt = 0\<rparr> = Ok b \<and>
    record_sent S msg s c = (Ok (), set_world c w\<lparr>
      streamDataSequenceNumber := to_i64 (streamDataSequenceNumber c + 1), outgoingMessageBuffer := b\<rparr>)"
  using lmb.push_ok [OF assms(1)] assms(2) by (fastforce simp: record_sent_def on_w_eq Let_def)

lemma SendInput_sends:
  assumes "uuid_pkg_ok (uuidp S)" "dc_inv n c" "n + 1 < 2 ^ 63"
    and "\<not> (encryptionEnabled c \<and> pt = Output)" "uint pt \<le> MaxInt32"
    and "d \<noteq> []" "len d \<le> MaxInt32"
    and "isOpen (ws (net c))" "connection (ws (net c)) = Some h"
    and "uuid_New S (world (net c)) = (Ok u, w1)" "length u = 16" "u \<noteq> uuid_Nil"
    and "time_UnixMilli S w1 = (t, w2)" "0 \<le> t" "is_i64 t"
    and "\<And>b. b = wire_message (input_message u t pt (if d = [10] then [13] else d) (streamDataSequenceNumber c)) \<Longrightarrow>
      conn_WriteMessage S h BinaryMessage b w2 = (Ok (), w3)"
    and "time_Now S w3 = (now, w4)"
  shows "\<exists>b. SendInputDataMessage S pt d c = (Ok (), set_world c w4\<lparr>
      streamDataSequenceNumber := streamDataSequenceNumber c + 1, outgoingMessageBuffer := b\<rparr>) \<and>
    lmb_messages b \<noteq> [] \<and> last (lmb_messages b) =
      \<lparr>sm_Content = wire_message (input_message u t pt (if d = [10] then [13] else d) (streamDataSequenceNumber c)),
       sm_SequenceNumber = streamDataSequenceNumber c, sm_LastSentTime = now, sm_ResendAttempt = 0\<rparr>"
proof -
  let ?s = "streamDataSequenceNumber c"
  let ?m = "input_message u t pt (typed d) ?s"
  have s: "is_i64 ?s" "to_i64 (?s + 1) = ?s + 1"
    using assms(2,3) by (auto simp: dc_inv_def out_inv_def is_i64_def intro!: to_i64_id)
  have d: "typed d \<noteq> []" "len (typed d) \<le> MaxInt32" using assms(6,7) by (simp_all add: typed_def len_def)
  note ok = input_message_ok [OF assms(11,12,14,15) d s(1) assms(5)]
  have ser: "SerializeClientMessage (uuidp S) ?m = Ok (wire_message ?m)"
    using SerializeClientMessage_layout [OF assms(1) ok] .
  have ne: "wire_message ?m \<noteq> []" using length_wire_message [OF ok] by auto
  have wr: "conn_WriteMessage S h BinaryMessage (wire_message ?m) w2 = (Ok (), w3)"
    using assms(16) by (simp add: typed_def)
  have snd1: "SendMessage S (wire_message ?m) BinaryMessage (set_world c w2) = (Ok (), set_world c w3)"
    using SendMessage_open [of "set_world c w2" h, OF _ _ ne] assms(8,9) wr by simp
  have "lmb.ok (outgoingMessageBuffer (set_world c w3))" using assms(2) by (simp add: dc_inv_def out_inv_def)
  from record_sent_Ok [OF this, of S now w4 "wire_message ?m" ?s] assms(17) obtain b where
    b: "ForcePushBack (outgoingMessageBuffer c) \<lparr>sm_Content = wire_message ?m, sm_SequenceNumber = ?s,
        sm_LastSentTime = now, sm_ResendAttempt = 0\<rparr> = Ok b"
      "record_sent S (wire_message ?m) ?s (set_world c w3) = (Ok (), set_world c w4\<lparr>
        streamDataSequenceNumber := to_i64 (?s + 1), outgoingMessageBuffer := b\<rparr>)" by auto
  have "lmb_messages b \<noteq> [] \<and> last (lmb_messages b) = \<lparr>sm_Content = wire_message ?m, sm_SequenceNumber = ?s,
        sm_LastSentTime = now, sm_ResendAttempt = 0\<rparr>"
    using lmb.push_ok [of "outgoingMessageBuffer c" "\<lparr>sm_Content = wire_message ?m, sm_SequenceNumber = ?s,
        sm_LastSentTime = now, sm_ResendAttempt = 0\<rparr>"] assms(2) b(1) by (auto simp: dc_inv_def out_inv_def)
  then show ?thesis
    using SendInput_plain [OF assms(10,13,4), of d] ser snd1 b(2) s(2)
    by (intro exI [of _ b]) (simp add: typed_def)
qed

text \<open>
  C10. Sending input on an open, unencrypted channel: what goes onto the wire is the documented
  encoding of an input message with the next sequence number and the data (a single line feed
  being replaced by a carriage return), the same bytes are remembered as the newest
  unacknowledged message, and the next number is one higher.
\<close>

theorem SendInputDataMessage_sends:
  assumes "uuid_pkg_ok (uuidp S)" "dc_inv n c" "n + 1 < 2 ^ 63"
    and "\<not> (encryptionEnabled c \<and> pt = Output)" "uint pt \<le> MaxInt32"
    and "d \<noteq> []" "len d \<le> MaxInt32"
    and "isOpen (ws (net c))" "connection (ws (net c)) = Some h"
    and "uuid_New S (world (net c)) = (Ok u, w1)" "length u = 16" "u \<noteq> uuid_Nil"
    and "time_UnixMilli S w1 = (t, w2)" "0 \<le> t" "is_i64 t"
    and "\<And>b. b = wire_message (input_message u t pt (if d = [10] then [13] else d) (streamDataSequenceNumber c)) \<Longrightarrow>
      conn_WriteMessage S h BinaryMessage b w2 = (Ok (), w3)"
    and "time_Now S w3 = (now, w4)"
  shows "\<exists>c'. SendInputDataMessage S pt d c = (Ok (), c') \<and> world (net c') = w4 \<and>
    streamDataSequenceNumber c' = streamDataSequenceNumber c + 1 \<and>
    lmb_messages (outgoingMessageBuffer c') \<noteq> [] \<and>
    last (lmb_messages (outgoingMessageBuffer c')) =
      \<lparr>sm_Content = wire_message (input_message u t pt (if d = [10] then [13] else d) (streamDataSequenceNumber c)),
       sm_SequenceNumber = streamDataSequenceNumber c, sm_LastSentTime = now, sm_ResendAttempt = 0\<rparr>"
proof -
  from SendInput_sends [OF assms(1-15) assms(16) assms(17)] show ?thesis by auto
qed

text \<open>An outcome that is a success or leaves everything but the outside as it was in \<open>c\<close>.\<close>

definition fails_clean :: "('w, 'p) DataChannel \<Rightarrow> unit res \<times> ('w, 'p) DataChannel \<Rightarrow> bool" where
  "fails_clean c p \<longleftrightarrow> fst p = Ok () \<or> only_net c (snd p)"

lemma fails_clean_sbind:
  assumes "only_net c (snd r)" "\<And>x. fst r = Ok x \<Longrightarrow> fails_clean c (f x (snd r))"
  shows "fails_clean c (sbind r f)"
  using assms by (cases "fst r") (auto simp: sbind_def fails_clean_def)

lemma record_sent_clean:
  assumes "dc_inv n c" "only_net c e"
  shows "fails_clean c (record_sent S msg s e)"
proof -
  have "lmb.ok (outgoingMessageBuffer e)"
    using assms only_net_out [OF assms(2)] by (simp add: dc_inv_def out_inv_def)
  from record_sent_Ok [OF this, of S "fst (time_Now S (world (net e)))" "snd (time_Now S (world (net e)))" msg s]
  show ?thesis by (auto simp: fails_clean_def)
qed

lemma send_clean:
  assumes "dc_inv n c" "only_net c e"
  shows "fails_clean c (sbind (wrap_err l r, e) (\<lambda>msg e. sbind (swrap k (SendMessage S msg ty e))
    (\<lambda>_. record_sent S msg s)))"
  using assms
  by (intro fails_clean_sbind record_sent_clean) (auto intro: only_net_trans [OF _ only_net_SendMessage])

text \<open>
  C13. A send that fails leaves no trace in the channel: whenever \<^verbatim>\<open>SendInputDataMessage\<close>
  does not succeed, for whatever reason, neither the next sequence number nor the buffer of
  unacknowledged messages has changed, so the number is used again.
\<close>

theorem SendInputDataMessage_fails:
  assumes "dc_inv n c" "SendInputDataMessage S pt d c = (r, c')" "r \<noteq> Ok ()"
  shows "streamDataSequenceNumber c' = streamDataSequenceNumber c \<and>
    outgoingMessageBuffer c' = outgoingMessageBuffer c"
proof -
  have "fails_clean c (SendInputDataMessage S pt d c)"
    unfolding SendInputDataMessage_record_sent Let_def case_prod_beta
    by (intro fails_clean_sbind send_clean [OF assms(1)])
      (auto intro: only_net_trans [OF _ only_net_on_w] only_net_trans [OF only_net_on_w only_net_encrypt])
  then have "only_net c c'" using assms(2,3) by (simp add: fails_clean_def)
  then show ?thesis using only_net_seq only_net_out by blast
qed

text \<open>
  The sequence number is read before the message is sent and advanced afterwards.  When two
  goroutines send at the same time and both read it before either advances it, both messages
  carry and are remembered under the same number, and the number that follows is never used.
\<close>

theorem concurrent_sends_share_number:
  assumes "dc_inv n c" "n + 2 < 2 ^ 63" "seq = streamDataSequenceNumber c"
    and "record_sent S msg1 seq c = (r1, c1)" "record_sent S msg2 seq c1 = (r2, c2)"
  shows "r1 = Ok () \<and> r2 = Ok () \<and> streamDataSequenceNumber c2 = seq + 2 \<and>
    (\<exists>ms t1 t2. lmb_messages (outgoingMessageBuffer c2) = ms @
      [\<lparr>sm_Content = msg1, sm_SequenceNumber = seq, sm_LastSentTime = t1, sm_ResendAttempt = 0\<rparr>,
       \<lparr>sm_Content = msg2, sm_SequenceNumber = seq, sm_LastSentTime = t2, sm_ResendAttempt = 0\<rparr>])"
proof -
  let ?m = "\<lambda>msg t. \<lparr>sm_Content = msg, sm_SequenceNumber = seq, sm_LastSentTime = t, sm_ResendAttempt = 0\<rparr>"
  let ?t = "\<lambda>c. time_Now S (world (net c))"
  have ok: "lmb.ok (outgoingMessageBuffer c)" "lmb_capacity (outgoingMessageBuffer c) = 10000"
    using assms(1) by (simp_all add: dc_inv_def out_inv_def OutgoingMessageBufferCapacity_def)
  obtain b1 where b1: "ForcePushBack (outgoingMessageBuffer c) (?m msg1 (fst (?t c))) = Ok b1"
    "record_sent S msg1 seq c = (Ok (), set_world c (snd (?t c))\<lparr>
      streamDataSequenceNumber := to_i64 (streamDataSequenceNumber c + 1), outgoingMessageBuffer := b1\<rparr>)"
    using record_sent_Ok [OF ok(1), of S "fst (?t c)" "snd (?t c)" msg1 seq] by auto
  have p1: "lmb.ok b1" "lmb_capacity b1 = 10000" "\<exists>xs. lmb_messages b1 = xs @ [?m msg1 (fst (?t c))]"
    using lmb.push_items [of "outgoingMessageBuffer c" "?m msg1 (fst (?t c))"]
      lmb.push_ok [OF ok(1), of "?m msg1 (fst (?t c))"] b1(1) ok by (auto simp: lmb.ok_def)
  have c1: "outgoingMessageBuffer c1 = b1" "streamDataSequenceNumber c1 = to_i64 (seq + 1)"
    using b1(2) assms(3,4) by auto
  obtain b2 where b2: "ForcePushBack b1 (?m msg2 (fst (?t c1))) = Ok b2"
    "record_sent S msg2 seq c1 = (Ok (), set_world c1 (snd (?t c1))\<lparr>
      streamDataSequenceNumber := to_i64 (streamDataSequenceNumber c1 + 1), outgoingMessageBuffer := b2\<rparr>)"
    using record_sent_Ok [of c1 S "fst (?t c1)" "snd (?t c1)" msg2 seq] p1(1) c1(1) by auto
  obtain xs where xs: "lmb_messages b1 = xs @ [?m msg1 (fst (?t c))]" using p1(3) by blast
  have "\<exists>ms. lmb_messages b2 = ms @ [?m msg1 (fst (?t c)), ?m msg2 (fst (?t c1))]"
  proof (cases "len (lmb_messages b1) = 10000")
    case True
    then have "xs \<noteq> []" using xs by (auto simp: len_def)
    then show ?thesis using lmb.push_items [of b1 "?m msg2 (fst (?t c1))"] p1(1,2) b2(1) xs True
      by (auto simp: lmb.ok_def)
  next
    case False
    then show ?thesis using lmb.push_items [of b1 "?m msg2 (fst (?t c1))"] p1(1,2) b2(1) xs
      by (auto simp: lmb.ok_def)
  qed
  moreover have "is_i64 (seq + 1)" "is_i64 (seq + 2)"
    using assms(1-3) by (auto simp: dc_inv_def out_inv_def is_i64_def)
  then have "to_i64 (seq + 1) = seq + 1" "to_i64 (seq + 1 + 1) = seq + 2"
    by (simp_all add: to_i64_id add.commute [of 2 seq])
  ultimately show ?thesis using assms(4,5) b1(2) b2(2) c1(2) by auto
qed

section \<open>Acknowledgements\<close>

lemma calculate_keeps:
  "outgoingMessageBuffer (calculateRetransmissionTimeout S m c) = outgoingMessageBuffer c"
  "streamDataSequenceNumber (calculateRetransmissionTimeout S m c) = streamDataSequenceNumber c"
  by (simp_all add: calculateRetransmissionTimeout_def case_prod_beta Let_def on_w_eq)

lemma remove_first_filter:
  "distinct (map key xs) \<Longrightarrow> snd (remove_first (\<lambda>x. key x = k) xs) = filter (\<lambda>x. key x \<noteq> k) xs"
proof (induction xs)
  case (Cons a xs)
  have "key a \<notin> key ` set xs" using Cons.prems by simp
  then have "\<forall>x\<in>set xs. key x \<noteq> key a" by (metis imageI)
  then have "filter (\<lambda>x. key x \<noteq> key a) xs = xs" by (intro filter_True) blast
  with Cons show ?case by auto
qed simp

text \<open>
  Acknowledging: in every reachable state, an acknowledgement removes the message with its
  sequence number from the unacknowledged ones and leaves all others in their order; one for
  an unknown number changes nothing at all.
\<close>

theorem acknowledged_message_removed:
  assumes "reachable S l n c" "n < 2 ^ 63"
  shows "lmb_messages (outgoingMessageBuffer (processAcknowledgedMessage S a c)) =
      filter (\<lambda>m. sm_SequenceNumber m \<noteq> ack_SequenceNumber a) (lmb_messages (outgoingMessageBuffer c)) \<and>
    (ack_SequenceNumber a \<notin> sm_SequenceNumber ` set (lmb_messages (outgoingMessageBuffer c)) \<longrightarrow>
      processAcknowledgedMessage S a c = c)"
proof -
  let ?b = "outgoingMessageBuffer c" and ?P = "\<lambda>m. sm_SequenceNumber m = ack_SequenceNumber a"
  have "distinct (map sm_SequenceNumber (lmb_messages ?b))"
    using reachable_inv [OF assms] by (simp add: dc_inv_def out_inv_def strict_sorted_iff)
  from remove_first_filter [OF this, of "ack_SequenceNumber a"]
  have "lmb_messages (snd (RemoveIf ?b ?P)) = filter (\<lambda>m. sm_SequenceNumber m \<noteq> ack_SequenceNumber a) (lmb_messages ?b)"
    by (simp add: RemoveIf_def Let_def)
  moreover have "fst (RemoveIf ?b ?P) = None \<and> snd (RemoveIf ?b ?P) = ?b"
    if "ack_SequenceNumber a \<notin> sm_SequenceNumber ` set (lmb_messages ?b)"
  proof -
    have "\<forall>m\<in>set (lmb_messages ?b). \<not> ?P m" using that by force
    from lmb.pull_none [OF this] lmb.pull_cap [of ?b ?P] show ?thesis
      by (cases ?b, cases "snd (RemoveIf ?b ?P)") simp
  qed
  ultimately show ?thesis
    by (simp add: processAcknowledgedMessage_def case_prod_beta Let_def calculate_keeps split: option.split)
qed

text \<open>\<^verbatim>\<open>float64\<close> rounding is monotone and exact on the granularity and on zero.\<close>

definition rounding_ok :: "('w, 'p) sys \<Rightarrow> bool" where
  "rounding_ok S \<longleftrightarrow> mono (float_round S) \<and> float_round S 0 = 0 \<and>
     float_round S (of_int ClockGranularity) = of_int ClockGranularity"

lemma rounding_nonneg: "rounding_ok S \<Longrightarrow> 0 \<le> x \<Longrightarrow> 0 \<le> float_round S x"
  unfolding rounding_ok_def by (metis monoD)

lemma trunc_rat_lower:
  assumes "of_int k \<le> x" "0 \<le> k"
  shows "k \<le> trunc_rat x"
proof -
  have "(0 :: rat) \<le> of_int k" using assms(2) by simp
  then have "0 \<le> x" using assms(1) by linarith
  then show ?thesis using assms(1) by (simp add: trunc_rat_def le_floor_iff)
qed

text \<open>
  C21. The retransmission timeout stays between the clock granularity (10 ms) and its maximum
  (1 s) after every measured round trip, and the smoothed round trip time never becomes
  negative, as long as it was not negative, the clock did not go backwards and the sum fits an
  \<^verbatim>\<open>int64\<close>.
\<close>

theorem retransmissionTimeout_bounds:
  assumes "rounding_ok S" "0 \<le> roundTripTime c" "time_Now S (world (net c)) = (now, w)"
    and "sm_LastSentTime m \<le> now"
    and "c' = calculateRetransmissionTimeout S m c"
    and "is_i64 (trunc_rat (float_round S (roundTripTime c' +
      max (of_int ClockGranularity) (float_round S (4 * roundTripTimeVariation c')))))"
  shows "ClockGranularity \<le> retransmissionTimeout c' \<and> retransmissionTimeout c' \<le> MaxTransmissionTimeout \<and>
    0 \<le> roundTripTime c'"
proof -
  let ?fl = "float_round S"
  have "0 \<le> GetRoundTripTime m now" using assms(4) by (simp add: GetRoundTripTime_def time_Sub_def)
  then have new: "0 \<le> ?fl (of_int (GetRoundTripTime m now))" using assms(1) by (simp add: rounding_nonneg)
  define rtt where "rtt = ?fl (?fl ((1 - RTTConstant) * roundTripTime c) +
    ?fl (RTTConstant * ?fl (of_int (GetRoundTripTime m now))))"
  have rtt: "0 \<le> rtt" unfolding rtt_def RTTConstant_def
    by (intro rounding_nonneg [OF assms(1)] add_nonneg_nonneg)
      (use assms(1,2) new in \<open>simp_all add: rounding_nonneg\<close>)
  define v where "v = roundTripTimeVariation c'"
  let ?x = "?fl (rtt + max (of_int ClockGranularity) (?fl (4 * v)))"
  have "of_int ClockGranularity \<le> rtt + max (of_int ClockGranularity) (?fl (4 * v))" using rtt by linarith
  then have "of_int ClockGranularity \<le> ?x" using assms(1) unfolding rounding_ok_def by (metis monoD)
  then have low: "ClockGranularity \<le> trunc_rat ?x"
    by (rule trunc_rat_lower) (simp add: duration_consts)
  have r: "roundTripTime c' = rtt"
    using assms(3,5) by (simp add: calculateRetransmissionTimeout_def on_w_eq Let_def rtt_def)
  have "retransmissionTimeout c' = (if float_to_int64 S ?x > MaxTransmissionTimeout
      then MaxTransmissionTimeout else float_to_int64 S ?x)"
    using assms(3,5) r by (simp add: calculateRetransmissionTimeout_def on_w_eq Let_def v_def)
  moreover have "float_to_int64 S ?x = trunc_rat ?x"
    using assms(6) r by (simp add: float_to_int64_def v_def)
  ultimately show ?thesis using low rtt r by (simp add: duration_consts)
qed

section \<open>The handshake\<close>

lemma process_action_Ok:
  assumes "process_action S a c = (Ok (p, es), c')"
  shows "pca_ActionType p = ActionType a \<and>
    (ActionType a \<in> {KMSEncryption, SessionType} \<longrightarrow>
      (pca_ActionStatus p = Success \<and> pca_Error p = None \<and> es = [] \<or>
       pca_ActionStatus p = Failed \<and> pca_Error p \<noteq> None \<and> length es = 1)) \<and>
    (ActionType a \<notin> {KMSEncryption, SessionType} \<longrightarrow>
      pca_ActionStatus p = 0 \<and> pca_ActionResult p = StatusResult Unsupported \<and> es = [ErrUnsupportedAction] \<and> c' = c)"
  using assms
  by (auto simp: process_action_def failed_action_def split: if_splits prod.splits res.splits option.splits)


text \<open>
  Session types: the request is accepted exactly for the shell, the two command types and
  the port type; the first three start a shell session; an unknown type is an error and leaves
  the channel unchanged.
\<close>

theorem ProcessSessionType_accepts:
  assumes "unmarshal_SessionTypeRequest (json S) params = Ok req"
  shows "ProcessSessionTypeHandshakeAction S params c =
    (if str_SessionType req = PortPluginName
     then (Ok (), c\<lparr>sessionType := PortPluginName, sessionProperties := Some (str_Properties req)\<rparr>)
     else if str_SessionType req \<in> {''Standard_Stream'', ''InteractiveCommands'', ''NonInteractiveCommands''}
     then (Ok (), c\<lparr>sessionType := ''Standard_Stream'', sessionProperties := Some (str_Properties req)\<rparr>)
     else (Err ErrUnknownSessionType, c))"
  using assms by (simp add: ProcessSessionTypeHandshakeAction_def plugin_names)

text \<open>
  An encryption challenge that arrives before any encrypter is set up makes the client
  panic on the nil interface, once the acknowledgement is out.
\<close>

theorem challenge_without_encryption_panics:
  assumes "encryption c = None" "unmarshal_EncryptionChallengeRequest (json S) (Payload m) = Ok req"
    and "sendAcknowledgeMessage S m c = (Ok (), c')"
  shows "handleEncryptionChallengeRequestOutputMessage S m c = (Panic, c')"
proof -
  have "encryption c' = None" using only_net_sendAcknowledge [of c S m] assms(1,3) by (auto simp: only_net_def)
  then show ?thesis using assms(2,3)
    by (simp add: handleEncryptionChallengeRequestOutputMessage_def handleEncryptionChallengeRequest_def
        decrypt_with_def)
qed

text \<open>
  An agent that performs no handshake: the first output message, received while the session
  type is unset and nothing waits in the channels, makes it a shell session, is put on display,
  deregisters the first message handler and lets \<^verbatim>\<open>Open\<close> return the shell type.
\<close>

theorem first_output_starts_shell:
  assumes "sessionType c = []" "isSessionTypeSet c = []" "displayMessages c = []"
    and "isStreamMessageResendTimeout c = []"
    and "outputStreamHandlers c = [FirstMessageHandler]" "PayloadType m = Output"
  shows "\<exists>c'. processOutputMessageWithHandlers m c = (Ok True, c') \<and> outputStreamHandlers c' = [] \<and>
    displayMessages c' = [m] \<and> fst (establishSessionType th prefer c') = Ok ShellPluginName"
proof -
  let ?c = "c\<lparr>outputStreamHandlers := [], sessionType := ShellPluginName, isSessionTypeSet := [True],
    displayMessages := [m]\<rparr>"
  have f: "firstMessageHandler m c = (Ok True, ?c)"
    using assms by (simp add: firstMessageHandler_def deregister_firstMessageHandler_def chan_send_def Let_def)
  have "processOutputMessageWithHandlers m c = (Ok True, ?c)"
    using assms f
    by (simp add: processOutputMessageWithHandlers_def handlers_loop.simps [of "[FirstMessageHandler]"]
        handlers_loop.simps [of "sync_array _ _"])
  moreover have "fst (establishSessionType th prefer ?c) = Ok ShellPluginName"
    using assms by (simp add: establishSessionType_def)
  ultimately show ?thesis by auto
qed

section \<open>Losses\<close>

text \<open>
  C38. A message that arrives in order while the session type is known but the session's handler
  is not registered yet is lost: it is given to no handler and not acknowledged (the state
  changes only in the next expected number), and yet it counts as received.
\<close>

theorem message_lost_before_handler:
  assumes "sessionType c \<noteq> []" "\<not> isSessionSpecificHandlerSet c" "\<not> encryptionEnabled c"
    and "SequenceNumber m = expectedSequenceNumber c"
    and "PayloadType m \<notin> {HandshakeRequestPayloadType, HandshakeCompletePayloadType, EncChallengeRequest}"
    and "Get (incomingMessageBuffer c) (to_i64 (expectedSequenceNumber c + 1)) = None"
  shows "handleOutputMessage S m raw c =
    (Ok (), c\<lparr>expectedSequenceNumber := to_i64 (expectedSequenceNumber c + 1)\<rparr>)"
proof -
  let ?c = "c\<lparr>expectedSequenceNumber := to_i64 (expectedSequenceNumber c + 1)\<rparr>"
  have "next_buffered ?c = None" using assms(6) by (simp add: next_buffered_def)
  then have "ProcessIncomingMessageBufferItems S ?c = (Ok (), ?c)"
    by (simp add: ProcessIncomingMessageBufferItems_def ProcessItems_loop.simps [of S ?c])
  moreover have "handleDefaultOutputMessage S m c = (Ok (), c)"
    using assms by (simp add: handleDefaultOutputMessage_def decrypts_def processOutputMessageWithHandlers_def)
  ultimately show ?thesis using assms(4,5) by (simp add: handleOutputMessage_def)
qed

text \<open>
  C39. Reconnecting does not save a session: when a read fails with an error other than the end
  of the stream and the connection is re-established, the same round of \<^verbatim>\<open>listen\<close> goes on
  with the nil message of the failed read, fails to deserialize it, closes the new connection
  and ends.
\<close>

theorem listen_ends_after_reconnect:
  assumes "on_net (ws_ReadMessage S) c = (Err err, c1)" "\<not> errors_Is err EOF"
    and "call_retrier S retrier (refresh_and_reconnect S refresh) c1 = (Ok (), c2)"
    and "on_net (incomingMessageHandler c2 []) c2 = (Ok (), c3)"
  shows "\<exists>r. fst (listen_round S refresh retrier c) = Some r \<and> r \<noteq> Ok () \<and>
    \<not> isOpen (ws (net (snd (listen_round S refresh retrier c))))"
proof -
  obtain e where e: "outputMessageHandler S [] c3 = (Err e, c3)"
    using Deserialize_Nil [of "uuidp S"] by (auto simp: outputMessageHandler_def)
  have l: "listen_round S refresh retrier c =
      map_prod Some id (sbind (logged (Close S c3)) (\<lambda>_ c. (Err e, c)))"
    using assms e by (simp add: listen_round_def listen_message_def)
  have "\<not> isOpen (ws (net (snd (Close S c3))))"
    using wsc.close_closes(1) [of S "net c3"] by (simp add: Close_def on_net_def Let_def)
  then have "\<not> isOpen (ws (net (snd (sbind (logged (Close S c3)) (\<lambda>_ c. (Err e :: unit res, c))))))"
    by (intro sbind_snd [where P = "\<lambda>c. \<not> isOpen (ws (net c))"]) simp_all
  moreover have "fst (sbind r (\<lambda>_ c. (Err e, c))) \<noteq> Ok ()" for r :: "unit res \<times> ('a, 'b) DataChannel"
    by (cases "fst r") (simp_all add: sbind_def)
  ultimately show ?thesis using l by (simp add: map_prod_def split_beta)
qed

section \<open>Witnesses\<close>

lemma demo_channel_inv: "dc_inv 0 demo_channel"
  by (simp add: demo_channel_def inv_New)

lemma demo_channel_fields:
  "net demo_channel = demo_net" "encryptionEnabled demo_channel = False" "encryption demo_channel = None"
  "streamDataSequenceNumber demo_channel = 0" "expectedSequenceNumber demo_channel = 0"
  "sessionType demo_channel = []" "isSessionTypeSet demo_channel = []" "displayMessages demo_channel = []"
  "isStreamMessageResendTimeout demo_channel = []" "outputStreamHandlers demo_channel = []"
  "isSessionSpecificHandlerSet demo_channel = False" "roundTripTime demo_channel = of_int DefaultRoundTripTime"
  "roundTripTimeVariation demo_channel = 0"
  "Get (incomingMessageBuffer demo_channel) k = None"
  by (simp_all add: demo_channel_def NewDataChannel_def RegisterStopHandler_def
      RegisterIncomingMessageHandler_def NewMapMessageBuffer_def Get_def DefaultRoundTripTimeVariation_def)

lemma demo_net_fields:
  "isOpen (ws demo_net)" "connection (ws demo_net) = Some 1" "dw_time (world demo_net) = 1"
  by (simp_all add: demo_net_def demo_start_def)

theorem SendInputDataMessage_sends_witness:
  "\<exists>c'. SendInputDataMessage demo Output [108, 115] demo_channel = (Ok (), c') \<and> streamDataSequenceNumber c' = 1"
proof -
  let ?u = "[1, 2, 3, 4, 5, 6, 7, 8, 9, 10, 11, 12, 13, 14, 15, 16] :: uuid" and ?w = "world demo_net"
  let ?b = "wire_message (input_message ?u 1503434274948 Output [108, 115] 0)"
  let ?w3 = "?w\<lparr>dw_sent := dw_sent ?w @ [(BinaryMessage, ?b)]\<rparr>"
  show ?thesis
    using SendInputDataMessage_sends [of demo 0 demo_channel Output "[108, 115]" 1 ?u ?w 1503434274948 ?w ?w3
        "dw_time ?w3" "?w3\<lparr>dw_time := dw_time ?w3 + Millisecond\<rparr>"]
    by (auto simp: demo_channel_inv demo_channel_fields demo_net_fields payload_types len_def is_i64_def
        demo_simps uuid_plain_ok)
qed

theorem SendInputDataMessage_fails_witness:
  "streamDataSequenceNumber (snd (SendInputDataMessage (demo\<lparr>uuid_New := \<lambda>w. (Err (External 9), w)\<rparr>)
     Output [108] demo_channel)) = 0"
proof -
  let ?S = "demo\<lparr>uuid_New := \<lambda>w. (Err (External 9), w)\<rparr>"
  have "SendInputDataMessage ?S Output [108] demo_channel = (Err (External 9), demo_channel)"
    by (simp add: SendInputDataMessage_def on_w_eq)
  from SendInputDataMessage_fails [OF demo_channel_inv this] this show ?thesis
    by (simp add: demo_channel_fields)
qed

theorem concurrent_sends_share_number_witness:
  "streamDataSequenceNumber (snd (record_sent demo [2] 0 (snd (record_sent demo [1] 0 demo_channel)))) = 2"
  using concurrent_sends_share_number [OF demo_channel_inv, of 0 demo "[1]"
      "fst (record_sent demo [1] 0 demo_channel)" "snd (record_sent demo [1] 0 demo_channel)" "[2]"
      "fst (record_sent demo [2] 0 (snd (record_sent demo [1] 0 demo_channel)))"
      "snd (record_sent demo [2] 0 (snd (record_sent demo [1] 0 demo_channel)))"]
  by (simp add: demo_channel_fields)

theorem acknowledged_message_removed_witness:
  "7 \<notin> sm_SequenceNumber ` set (lmb_messages (outgoingMessageBuffer (processAcknowledgedMessage demo example_ack
     (snd (SendInputDataMessage demo Output [108, 115] demo_channel)))))"
  using acknowledged_message_removed [OF demo_reachable, of example_ack] by (auto simp: example_ack_def)

lemma is_i64_trunc: "0 \<le> x \<Longrightarrow> x < 2 ^ 62 \<Longrightarrow> is_i64 (trunc_rat x)"
  by (simp add: is_i64_def trunc_rat_def floor_less_iff le_floor_iff)

definition demo_sent :: StreamingMessage where
  "demo_sent = \<lparr>sm_Content = [1], sm_SequenceNumber = 0, sm_LastSentTime = 0, sm_ResendAttempt = 0\<rparr>"

theorem retransmissionTimeout_bounds_witness:
  "ClockGranularity \<le> retransmissionTimeout (calculateRetransmissionTimeout demo demo_sent demo_channel)"
proof -
  have r: "rounding_ok demo" by (simp add: rounding_ok_def demo_def mono_def)
  have t: "time_Now demo (world (net demo_channel)) = (1, (world demo_net)\<lparr>dw_time := 1 + Millisecond\<rparr>)"
    by (simp add: demo_def demo_channel_fields demo_net_fields)
  let ?c = "calculateRetransmissionTimeout demo demo_sent demo_channel"
  have "roundTripTime ?c = 87500000 + 1 / 8" "roundTripTimeVariation ?c = 99999999 / 4"
    using t by (simp_all add: calculateRetransmissionTimeout_def on_w_eq Let_def demo_channel_fields
        GetRoundTripTime_def demo_sent_def time_Sub_def duration_consts RTTConstant_def RTTVConstant_def)
      (simp_all add: demo_def)
  then have "is_i64 (trunc_rat (float_round demo (roundTripTime ?c +
      max (of_int ClockGranularity) (float_round demo (4 * roundTripTimeVariation ?c)))))"
    by (intro is_i64_trunc) (simp_all add: demo_def duration_consts)
  then show ?thesis
    using retransmissionTimeout_bounds [OF r _ t, of demo_sent ?c]
    by (simp add: demo_channel_fields demo_sent_def duration_consts)
qed

definition demo_action :: RequestedClientAction where
  "demo_action = \<lparr>ActionType = ''Teleport'', ActionParameters = []\<rparr>"


definition demo_types :: "(demo_world, unit) sys" where
  "demo_types = demo\<lparr>json := json_toy\<lparr>unmarshal_SessionTypeRequest :=
     \<lambda>b. Ok \<lparr>str_SessionType = bytes_str b, str_Properties = ()\<rparr>\<rparr>\<rparr>"

theorem ProcessSessionType_accepts_witness:
  "sessionType (snd (ProcessSessionTypeHandshakeAction demo_types (str_bytes ''InteractiveCommands'') demo_channel))
     = ''Standard_Stream''"
proof -
  have "unmarshal_SessionTypeRequest (json demo_types) (str_bytes ''InteractiveCommands'') =
      Ok \<lparr>str_SessionType = ''InteractiveCommands'', str_Properties = ()\<rparr>"
    by (simp add: demo_types_def)
  from ProcessSessionType_accepts [OF this, of demo_channel] show ?thesis by (simp add: PortPluginName_def)
qed

theorem challenge_without_encryption_panics_witness:
  "\<exists>c'. handleEncryptionChallengeRequestOutputMessage demo (demo_clear 0) demo_channel = (Panic, c')"
proof -
  have "isOpen (ws (net demo_channel))" "connection (ws (net demo_channel)) = Some 1"
    by (simp_all add: demo_channel_fields demo_net_fields)
  from sendAcknowledge_smooth [OF demo_smooth this, of "demo_clear 0"] obtain w where
    a: "sendAcknowledgeMessage demo (demo_clear 0) demo_channel = (Ok (), set_world demo_channel w)" by blast
  have "unmarshal_EncryptionChallengeRequest (json demo) (Payload (demo_clear 0)) =
      Ok \<lparr>creq_Challenge = Payload (demo_clear 0)\<rparr>" by (simp add: demo_simps json_toy_def)
  from challenge_without_encryption_panics [OF demo_channel_fields(3) this a] show ?thesis by blast
qed

theorem first_output_starts_shell_witness:
  "fst (processOutputMessageWithHandlers (demo_out 0)
     (RegisterOutputStreamHandler FirstMessageHandler False demo_channel)) = Ok True"
  using first_output_starts_shell [of "RegisterOutputStreamHandler FirstMessageHandler False demo_channel" "demo_out 0"
      "\<lambda>n. (Ok (), n)" True]
  by (auto simp: RegisterOutputStreamHandler_def demo_channel_fields demo_out_def example_msg_def)

theorem message_lost_before_handler_witness:
  "handleOutputMessage demo (demo_out 0) [] (demo_channel\<lparr>sessionType := ShellPluginName\<rparr>) =
     (Ok (), demo_channel\<lparr>sessionType := ShellPluginName, expectedSequenceNumber := 1\<rparr>)"
  using message_lost_before_handler [of "demo_channel\<lparr>sessionType := ShellPluginName\<rparr>" "demo_out 0" demo "[]"]
  by (simp add: demo_channel_fields demo_out_def example_msg_def payload_types plugin_names to_i64_def)

definition control_frame_channel :: "(demo_world, unit) DataChannel" where
  "control_frame_channel = set_world demo_channel (demo_start\<lparr>dw_inbox := [(9, [])]\<rparr>)"

theorem listen_ends_after_reconnect_witness:
  "\<exists>r. fst (listen_round demo (\<lambda>n. (Ok ''token'', n)) (open_retrier 100) control_frame_channel) = Some r \<and> r \<noteq> Ok ()"
proof -
  let ?refresh = "\<lambda>n :: demo_world net. (Ok ''token'', n)"
  let ?c1 = "set_world demo_channel demo_start"
  have ws: "isOpen (ws (net control_frame_channel))" "connection (ws (net control_frame_channel)) = Some 1"
    by (simp_all add: control_frame_channel_def demo_channel_fields demo_net_fields)
  have 1: "on_net (ws_ReadMessage demo) control_frame_channel = (Err (Wrap ''invalid message type'' ErrMessageType), ?c1)"
    using ReadMessage_loop_step [OF ws, of demo 0]
    by (simp add: on_net_def ws_ReadMessage_def control_frame_channel_def TextMessage_def BinaryMessage_def
        world_after_def demo_def demo_start_def)
  have 2: "\<not> errors_Is (Wrap ''invalid message type'' ErrMessageType) EOF" by simp
  have "\<exists>c2. refresh_and_reconnect demo ?refresh ?c1 = (Ok (), c2) \<and> incomingMessageHandler c2 = incomingMessageHandler demo_channel"
    by (simp add: refresh_and_reconnect_def reconnect_def on_net_def SetChannelToken_def Close_def ws_Close_def
        logged_def demo_channel_fields demo_net_fields on_world_def CloseConnection_def demo_simps dc_open_def
        ws_Open_def OpenConnection_def finalizeDataChannelHandshake_def on_w_eq json_toy_def SendMessage_def
        ws_SendMessage_def Let_def len_def)
  then obtain c2 where c2: "refresh_and_reconnect demo ?refresh ?c1 = (Ok (), c2)"
    "incomingMessageHandler c2 = incomingMessageHandler demo_channel" by blast
  have 3: "call_retrier demo (open_retrier 100) (refresh_and_reconnect demo ?refresh) ?c1 = (Ok (), c2)"
    using c2(1) by (simp add: call_retrier_def Call_def Call_loop.simps)
  have 4: "on_net (incomingMessageHandler c2 []) c2 = (Ok (), c2)"
    by (simp add: c2(2) on_net_def demo_channel_def NewDataChannel_def RegisterStopHandler_def
        RegisterIncomingMessageHandler_def)
  show ?thesis using listen_ends_after_reconnect [OF 1 2 3 4] by blast
qed

end
