(* ===== verification/Objects.thy ===== *)
theory Objects
  imports DataChannel
begin

text \<open>
  The objects of a running session and what they call outside of the program.  The record
  \<open>proc\<close> is the world of a data channel that serves a session: the plug-in object (a shell
  session or a port session, with the fields of the Go structs) and everything else,
  \<open>outside\<close>.  The handlers that a plug-in registers with the data channel act on it.  The
  record \<open>host\<close> has one function for each call of the operating system, of the AWS clients
  and of the third-party packages; \<open>lift_sys\<close> is the system of the data channel seen from
  there.
\<close>

section \<open>Paths\<close>

text \<open>\<^verbatim>\<open>filepath.Clean\<close> and \<^verbatim>\<open>filepath.Join\<close> of two elements.\<close>

fun clean_parts :: "bool \<Rightarrow> string list \<Rightarrow> string list \<Rightarrow> string list" where
  "clean_parts rooted acc [] = rev acc"
| "clean_parts rooted acc (p # ps) =
     (if p = [] \<or> p = ''.'' then clean_parts rooted acc ps
      else if p = ''..'' then
        (if acc \<noteq> [] \<and> hd acc \<noteq> ''..'' then clean_parts rooted (tl acc) ps
         else if rooted then clean_parts rooted acc ps
         else clean_parts rooted (p # acc) ps)
      else clean_parts rooted (p # acc) ps)"

definition filepath_Clean :: "string \<Rightarrow> string" where
  "filepath_Clean path =
     (let rooted = (path \<noteq> [] \<and> hd path = CHR ''/'');
          body = join_with ''/'' (clean_parts rooted [] (split_on (CHR ''/'') path)) in
      if rooted then CHR ''/'' # body else if body = [] then ''.'' else body)"

definition filepath_Join :: "string \<Rightarrow> string \<Rightarrow> string" where
  "filepath_Join dir name =
     (let elems = filter (\<lambda>e. e \<noteq> []) [dir, name] in
      if elems = [] then [] else filepath_Clean (join_with ''/'' elems))"

section \<open>The objects of the plug-ins\<close>

text \<open>\<^verbatim>\<open>shutdown\<close> of a shell session is a \<^verbatim>\<open>context.CancelFunc\<close>: nil until
  \<^verbatim>\<open>SetSessionHandlers\<close> sets it, and calling it marks the context done.  A context also
  becomes done when a goroutine of its group returns an error or when its parent ends.\<close>

record ShellSession =
  shell_SizeData :: SizeData
  originalSttyState :: string
  shutdown_set :: bool
  ctx_done :: bool

record PortParameters =
  PortNumber :: string
  LocalPortNumber :: string
  LocalUnixSocket :: string
  LocalConnectionType :: string
  pp_Type :: string

text \<open>A \<^verbatim>\<open>sync.Mutex\<close> is a flag: locking a locked mutex blocks.\<close>

record BasicPortForwarding =
  bpf_stream :: "handle option"
  bpf_listener :: "handle option"
  bpf_sessionID :: string
  bpf_portParameters :: PortParameters
  mu :: bool

record MuxClient =
  muxc_conn :: "handle option"
  muxc_session :: handle

record MgsConn =
  mgs_listener :: handle
  mgs_conn :: handle

record MuxPortForwarding =
  mpf_sessionID :: string
  socketFile :: string
  mpf_portParameters :: PortParameters
  muxClient :: "MuxClient option"
  mgsConn :: "MgsConn option"

record StandardStreamForwarding =
  inputStream :: "handle option"
  outputStream :: "handle option"
  ssf_portParameters :: PortParameters

datatype IPortSession =
    Basic BasicPortForwarding
  | Mux MuxPortForwarding
  | Standard StandardStreamForwarding

record PortSession =
  ps_portParameters :: PortParameters
  portSessionType :: "IPortSession option"

section \<open>The process and the outside\<close>

record 'o proc =
  shell :: ShellSession
  port :: PortSession
  outside :: 'o

record ('o, 'p) host =
  base :: "('o, 'p) sys"
  ssm_TerminateSession :: "string \<Rightarrow> 'o \<Rightarrow> unit res \<times> 'o"
  ssm_ResumeSession :: "string \<Rightarrow> 'o \<Rightarrow> string option res \<times> 'o"
  marshal_SizeData :: "SizeData \<Rightarrow> bytes res"
  marshal_Properties :: "'p option \<Rightarrow> bytes res"
  unmarshal_PortParameters :: "bytes \<Rightarrow> PortParameters res"
  stdout_Print :: "bytes \<Rightarrow> 'o \<Rightarrow> unit res \<times> 'o"
  term_GetSize :: "'o \<Rightarrow> (int \<times> int) res \<times> 'o"
  exec_stty :: "string \<Rightarrow> 'o \<Rightarrow> (string \<times> unit res) \<times> 'o"
  bufio_Read :: "int \<Rightarrow> 'o \<Rightarrow> bytes res \<times> 'o"
  os_Stdin :: handle
  os_Stdout :: handle
  os_TempDir :: string
  os_Remove :: "string \<Rightarrow> 'o \<Rightarrow> unit res \<times> 'o"
  io_Read :: "handle \<Rightarrow> int \<Rightarrow> 'o \<Rightarrow> bytes res \<times> 'o"
  io_Write :: "handle \<Rightarrow> bytes \<Rightarrow> 'o \<Rightarrow> unit res \<times> 'o"
  io_Close :: "handle \<Rightarrow> 'o \<Rightarrow> unit res \<times> 'o"
  io_Copy :: "handle \<Rightarrow> handle \<Rightarrow> 'o \<Rightarrow> unit res \<times> 'o"
  net_Listen :: "string \<Rightarrow> string \<Rightarrow> 'o \<Rightarrow> handle res \<times> 'o"
  net_Dial :: "string \<Rightarrow> string \<Rightarrow> 'o \<Rightarrow> handle res \<times> 'o"
  listener_Accept :: "handle \<Rightarrow> 'o \<Rightarrow> handle res \<times> 'o"
  listener_Addr :: "handle \<Rightarrow> string \<times> string"
  listener_TCPPort :: "handle \<Rightarrow> int option"
  smux_Client :: "handle \<Rightarrow> bool \<Rightarrow> 'o \<Rightarrow> handle res \<times> 'o"
  smux_OpenStream :: "handle \<Rightarrow> 'o \<Rightarrow> handle res \<times> 'o"
  smux_Close :: "handle \<Rightarrow> 'o \<Rightarrow> unit res \<times> 'o"

text \<open>A call that acts on a part of the state: \<open>get\<close> reads the part, \<open>put\<close> replaces it.\<close>

definition over :: "('v \<Rightarrow> 'w) \<Rightarrow> ('w \<Rightarrow> 'v \<Rightarrow> 'v) \<Rightarrow> ('w \<Rightarrow> 'a \<times> 'w) \<Rightarrow> 'v \<Rightarrow> 'a \<times> 'v" where
  "over get put f v = (let r = f (get v) in (fst r, put (snd r) v))"

definition sys_over :: "('v \<Rightarrow> 'w) \<Rightarrow> ('w \<Rightarrow> 'v \<Rightarrow> 'v) \<Rightarrow> ('w, 'p) sys \<Rightarrow> ('v, 'p) sys" where
  "sys_over get put S =
    \<lparr>uuidp = uuidp S, json = json S, uuid_New = over get put (uuid_New S), uuid_String = uuid_String S,
     time_Now = over get put (time_Now S), time_UnixMilli = over get put (time_UnixMilli S),
     time_Sleep = (\<lambda>d v. put (time_Sleep S d (get v)) v),
     rand_Intn = (\<lambda>n. over get put (rand_Intn S n)), rand_ReadFull = (\<lambda>n. over get put (rand_ReadFull S n)),
     aes_NewCipher = aes_NewCipher S, cipher_NewGCM = cipher_NewGCM S,
     aead_Seal = aead_Seal S, aead_Open = aead_Open S,
     kms_GenerateDataKey = (\<lambda>k n c. over get put (kms_GenerateDataKey S k n c)),
     dialer_Dial = (\<lambda>u. over get put (dialer_Dial S u)),
     conn_WriteMessage = (\<lambda>h t b. over get put (conn_WriteMessage S h t b)),
     conn_ReadMessage = (\<lambda>h. over get put (conn_ReadMessage S h)),
     conn_Close = (\<lambda>h. over get put (conn_Close S h)),
     float_round = float_round S, float_to_int64_outside = float_to_int64_outside S\<rparr>"

definition set_outside :: "'o \<Rightarrow> 'o proc \<Rightarrow> 'o proc" where
  "set_outside q p = p\<lparr>outside := q\<rparr>"

definition via :: "('o \<Rightarrow> 'a \<times> 'o) \<Rightarrow> 'o proc \<Rightarrow> 'a \<times> 'o proc" where
  "via f p = over outside set_outside f p"

definition lift_sys :: "('o, 'p) sys \<Rightarrow> ('o proc, 'p) sys" where
  "lift_sys S = sys_over outside set_outside S"

lemma via_def': "via f p = (let r = f (outside p) in (fst r, p\<lparr>outside := snd r\<rparr>))"
  by (simp add: via_def over_def set_outside_def)

abbreviation ss :: "('o, 'p) host \<Rightarrow> ('o proc, 'p) sys" where
  "ss H \<equiv> lift_sys (base H)"

named_theorems proc_simps \<open>calls to the outside leave the objects of the process alone\<close>

lemma via_simps [simp, proc_simps]:
  "fst (via f p) = fst (f (outside p))" "outside (snd (via f p)) = snd (f (outside p))"
  "shell (snd (via f p)) = shell p" "port (snd (via f p)) = port p"
  by (simp_all add: via_def' Let_def)

lemma via_eq: "f (outside p) = (r, q) \<Longrightarrow> via f p = (r, p\<lparr>outside := q\<rparr>)"
  by (simp add: via_def')

lemma lift_sys_simps [simp]:
  "uuidp (lift_sys S) = uuidp S" "json (lift_sys S) = json S" "uuid_New (lift_sys S) = via (uuid_New S)"
  "uuid_String (lift_sys S) = uuid_String S" "time_Now (lift_sys S) = via (time_Now S)"
  "time_UnixMilli (lift_sys S) = via (time_UnixMilli S)"
  "time_Sleep (lift_sys S) d p = p\<lparr>outside := time_Sleep S d (outside p)\<rparr>"
  "conn_WriteMessage (lift_sys S) h t b = via (conn_WriteMessage S h t b)"
  "conn_Close (lift_sys S) h = via (conn_Close S h)"
  "conn_ReadMessage (lift_sys S) h = via (conn_ReadMessage S h)"
  "rand_Intn (lift_sys S) k = via (rand_Intn S k)" "dialer_Dial (lift_sys S) u = via (dialer_Dial S u)"
  "rand_ReadFull (lift_sys S) i = via (rand_ReadFull S i)"
  "kms_GenerateDataKey (lift_sys S) q n c = via (kms_GenerateDataKey S q n c)"
  "aes_NewCipher (lift_sys S) = aes_NewCipher S" "cipher_NewGCM (lift_sys S) = cipher_NewGCM S"
  "aead_Seal (lift_sys S) = aead_Seal S" "aead_Open (lift_sys S) = aead_Open S"
  "float_round (lift_sys S) = float_round S"
  by (simp_all add: lift_sys_def sys_over_def via_def fun_eq_iff set_outside_def)

text \<open>A call to the outside, made from a method that has the channel or from a handler that
  has the web socket channel and the world.\<close>

definition on_out :: "('o \<Rightarrow> 'a \<times> 'o) \<Rightarrow> ('o proc, 'p) DataChannel \<Rightarrow> 'a \<times> ('o proc, 'p) DataChannel" where
  "on_out f = on_w (via f)"

definition net_out :: "('o \<Rightarrow> 'a \<times> 'o) \<Rightarrow> 'o proc net \<Rightarrow> 'a \<times> 'o proc net" where
  "net_out f = on_world (via f)"

lemma on_out_net: "on_out f = on_net (net_out f)"
  by (simp add: on_out_def net_out_def on_w_def fun_eq_iff)

abbreviation proc_of :: "('o proc, 'p) DataChannel \<Rightarrow> 'o proc" where
  "proc_of c \<equiv> world (net c)"

definition set_shell :: "ShellSession \<Rightarrow> 'o proc net \<Rightarrow> 'o proc net" where
  "set_shell s n = n\<lparr>world := (world n)\<lparr>shell := s\<rparr>\<rparr>"

definition set_port :: "PortSession \<Rightarrow> 'o proc net \<Rightarrow> 'o proc net" where
  "set_port s n = n\<lparr>world := (world n)\<lparr>port := s\<rparr>\<rparr>"

lemma set_simps [simp]:
  "ws (set_shell s n) = ws n" "shell (world (set_shell s n)) = s" "port (world (set_shell s n)) = port (world n)"
  "outside (world (set_shell s n)) = outside (world n)"
  "ws (set_port t n) = ws n" "port (world (set_port t n)) = t" "shell (world (set_port t n)) = shell (world n)"
  "outside (world (set_port t n)) = outside (world n)"
  by (simp_all add: set_shell_def set_port_def)

end
