(* ===== verification/Channel_Frame.thy ===== *)
theory Channel_Frame
  imports Channel_Invariant
begin

text \<open>
  The data channel calls the outside and the handlers that are registered with it, and touches
  the world in no other way: a property \<open>I\<close> of the world that those calls keep is kept by
  every operation of the channel.  The locale \<open>kept_world\<close> states what is needed of the
  calls; it is interpreted on the objects of the session plug-ins, which is how their proofs
  know that the channel leaves the objects to their handlers.
\<close>

definition net_keeps :: "('w \<Rightarrow> bool) \<Rightarrow> ('w net \<Rightarrow> 'a \<times> 'w net) \<Rightarrow> bool" where
  "net_keeps I f \<longleftrightarrow> (\<forall>n. I (world n) \<longrightarrow> I (world (snd (f n))))"

fun handler_keeps :: "('w \<Rightarrow> bool) \<Rightarrow> 'w handler \<Rightarrow> bool" where
  "handler_keeps I FirstMessageHandler = True"
| "handler_keeps I (HandlerFunc f) = (\<forall>m. net_keeps I (f m))"

text \<open>The property holds, the registered output handlers are among those allowed by \<open>P\<close>, and the other
  handlers keep the property.  Usually every handler that keeps it is allowed: \<open>world_inv\<close>.\<close>

definition kept_inv :: "('w \<Rightarrow> bool) \<Rightarrow> ('w handler \<Rightarrow> bool) \<Rightarrow> ('w, 'p) DataChannel \<Rightarrow> bool" where
  "kept_inv I P c \<longleftrightarrow> I (world (net c)) \<and> list_all P (outputStreamHandlers c) \<and>
     net_keeps I (stopHandler c) \<and> (\<forall>b. net_keeps I (incomingMessageHandler c b))"

abbreviation world_inv :: "('w \<Rightarrow> bool) \<Rightarrow> ('w, 'p) DataChannel \<Rightarrow> bool" where
  "world_inv I \<equiv> kept_inv I (handler_keeps I)"

lemma world_inv_upd [simp]:
  "kept_inv I P (c\<lparr>expectedSequenceNumber := i\<rparr>) = kept_inv I P c"
  "kept_inv I P (c\<lparr>streamDataSequenceNumber := i\<rparr>) = kept_inv I P c"
  "kept_inv I P (c\<lparr>outgoingMessageBuffer := b\<rparr>) = kept_inv I P c"
  "kept_inv I P (c\<lparr>incomingMessageBuffer := b'\<rparr>) = kept_inv I P c"
  "kept_inv I P (c\<lparr>roundTripTime := q\<rparr>) = kept_inv I P c"
  "kept_inv I P (c\<lparr>roundTripTimeVariation := q\<rparr>) = kept_inv I P c"
  "kept_inv I P (c\<lparr>retransmissionTimeout := i\<rparr>) = kept_inv I P c"
  "kept_inv I P (c\<lparr>encryption := e\<rparr>) = kept_inv I P c"
  "kept_inv I P (c\<lparr>encryptionEnabled := e'\<rparr>) = kept_inv I P c"
  "kept_inv I P (c\<lparr>sessionType := t\<rparr>) = kept_inv I P c"
  "kept_inv I P (c\<lparr>isSessionTypeSet := l\<rparr>) = kept_inv I P c"
  "kept_inv I P (c\<lparr>isStreamMessageResendTimeout := l\<rparr>) = kept_inv I P c"
  "kept_inv I P (c\<lparr>sessionProperties := p\<rparr>) = kept_inv I P c"
  "kept_inv I P (c\<lparr>agentVersion := t\<rparr>) = kept_inv I P c"
  "kept_inv I P (c\<lparr>displayMessages := ms\<rparr>) = kept_inv I P c"
  by (simp_all add: kept_inv_def)

lemma world_inv_net: "kept_inv I P (c\<lparr>net := n\<rparr>) \<longleftrightarrow> kept_inv I P c" if "I (world (net c)) = I (world n)"
  using that by (simp add: kept_inv_def)

lemma world_inv_on_net: "net_keeps I f \<Longrightarrow> kept_inv I P c \<Longrightarrow> kept_inv I P (snd (on_net f c))"
  by (simp add: kept_inv_def on_net_def net_keeps_def Let_def)

lemma world_inv_handlers:
  "kept_inv I P c \<Longrightarrow> net_keeps I (stopHandler c)" "kept_inv I P c \<Longrightarrow> net_keeps I (incomingMessageHandler c b)"
  by (simp_all add: kept_inv_def)

lemma world_inv_remove_first:
  "list_all P hs \<Longrightarrow> list_all P (snd (remove_first R hs))"
  by (induction R hs rule: remove_first.induct) (auto split: prod.splits)

lemma world_inv_first: "kept_inv I P c \<Longrightarrow> kept_inv I P (snd (firstMessageHandler m c))"
  by (auto simp: firstMessageHandler_def deregister_firstMessageHandler_def Let_def chan_send_def kept_inv_def
      world_inv_remove_first)

section \<open>Properties kept by the outside\<close>

locale kept_world =
  fixes S :: "('w, 'p) sys" and I :: "'w \<Rightarrow> bool" and P :: "'w handler \<Rightarrow> bool"
  assumes kept_uuid: "I w \<Longrightarrow> I (snd (uuid_New S w))"
    and kept_Now: "I w \<Longrightarrow> I (snd (time_Now S w))"
    and kept_UnixMilli: "I w \<Longrightarrow> I (snd (time_UnixMilli S w))"
    and kept_Sleep: "I w \<Longrightarrow> I (time_Sleep S d w)"
    and kept_Read: "I w \<Longrightarrow> I (snd (rand_ReadFull S k w))"
    and kept_kms: "I w \<Longrightarrow> I (snd (kms_GenerateDataKey S key k ctx w))"
    and kept_Write: "I w \<Longrightarrow> I (snd (conn_WriteMessage S h t b w))"
    and kept_ReadMessage: "I w \<Longrightarrow> I (snd (conn_ReadMessage S h w))"
    and kept_Close: "I w \<Longrightarrow> I (snd (conn_Close S h w))"
    and kept_Dial: "I w \<Longrightarrow> I (snd (dialer_Dial S u w))"
    and kept_Intn: "I w \<Longrightarrow> I (snd (rand_Intn S k w))"
    and kept_handlers: "P (HandlerFunc f) \<Longrightarrow> net_keeps I (f m)"
begin

lemma world_inv_call_handler:
  "P h \<Longrightarrow> kept_inv I P c \<Longrightarrow> kept_inv I P (snd (call_handler h m c))"
  by (cases h) (simp_all add: world_inv_first world_inv_on_net kept_handlers)

lemma handler_keeps_sync:
  "list_all P arr \<Longrightarrow> kept_inv I P c \<Longrightarrow> list_all P (sync_array arr c)"
  by (auto simp: sync_array_def kept_inv_def list_all_iff dest: in_set_takeD in_set_dropD)

lemma world_inv_handlers_loop:
  "list_all P arr \<Longrightarrow> kept_inv I P c \<Longrightarrow> kept_inv I P (snd (handlers_loop arr i r m c))"
proof (induction arr i r m c rule: handlers_loop.induct)
  case (1 arr i r m c)
  show ?case
  proof (cases "i < length arr")
    case True
    have "P (arr ! i)" using "1.prems"(1) True by (simp add: list_all_length)
    then have k: "kept_inv I P (snd (call_handler (arr ! i) m c))" by (rule world_inv_call_handler [OF _ "1.prems"(2)])
    have "kept_inv I P (snd (sbind (call_handler (arr ! i) m c) (\<lambda>ready c.
        if \<not> ready then (Ok False, c) else handlers_loop (sync_array arr c) (Suc i) True m c)))"
    proof (rule sbind_snd)
      fix x d assume d: "fst (call_handler (arr ! i) m c) = Ok x" "d = snd (call_handler (arr ! i) m c)" "kept_inv I P d"
      show "kept_inv I P (snd (if \<not> x then (Ok False, d) else handlers_loop (sync_array arr d) (Suc i) True m d))"
        using "1.IH" [OF True, of x d] handler_keeps_sync [OF "1.prems"(1) d(3)] d(3) by simp
    qed (rule k)
    then show ?thesis using True by (subst handlers_loop.simps) simp
  qed (use "1.prems" in \<open>subst handlers_loop.simps, simp\<close>)
qed

lemma world_inv_processOutput:
  "kept_inv I P c \<Longrightarrow> kept_inv I P (snd (processOutputMessageWithHandlers m c))"
  by (auto simp: processOutputMessageWithHandlers_def kept_inv_def intro!: world_inv_handlers_loop [unfolded kept_inv_def])

lemma on_w_kept:
  "(\<And>w. I w \<Longrightarrow> I (snd (f w))) \<Longrightarrow> kept_inv I P c \<Longrightarrow> kept_inv I P (snd (on_w f c))"
  by (simp add: kept_inv_def on_w_def on_net_def on_world_def Let_def)

lemma ws_SendMessage_kept: "net_keeps I (ws_SendMessage S b t)"
  by (simp add: net_keeps_def ws_SendMessage_def on_world_def Let_def kept_Write split: option.splits)

lemma ws_Close_kept: "net_keeps I (ws_Close S)"
  by (simp add: net_keeps_def ws_Close_def on_world_def Let_def CloseConnection_def kept_Close split: option.splits)

lemma SendMessage_kept: "kept_inv I P c \<Longrightarrow> kept_inv I P (snd (SendMessage S b t c))"
  by (simp add: SendMessage_def world_inv_on_net ws_SendMessage_kept)

lemma Close_kept: "kept_inv I P c \<Longrightarrow> kept_inv I P (snd (Close S c))"
  by (simp add: Close_def world_inv_on_net ws_Close_kept)

lemma Encrypt_kept: "I w \<Longrightarrow> I (snd (Encrypt S e b w))"
  unfolding Encrypt_def Let_def by (intro sbind_snd [where P = I]) (simp_all add: kept_Read)

lemma encrypt_with_kept: "kept_inv I P c \<Longrightarrow> kept_inv I P (snd (encrypt_with S b c))"
  by (simp add: encrypt_with_def on_w_kept Encrypt_kept split: option.splits)

lemma record_sent_kept: "kept_inv I P c \<Longrightarrow> kept_inv I P (snd (record_sent S msg s c))"
  using on_w_kept [OF kept_Now, where c = c]
  by (simp add: record_sent_def case_prod_beta Let_def sbind_def split: res.splits)

lemma SendInput_kept: "kept_inv I P c \<Longrightarrow> kept_inv I P (snd (SendInputDataMessage S pt d c))"
  unfolding SendInputDataMessage_record_sent Let_def case_prod_beta
  by (intro sbind_snd [where P = "kept_inv I P"])
    (auto simp: on_w_kept kept_uuid kept_UnixMilli SendMessage_kept record_sent_kept encrypt_with_kept)

lemma serialize_acknowledge_kept: "kept_inv I P c \<Longrightarrow> kept_inv I P (snd (serialize_acknowledge S a c))"
  by (auto simp: serialize_acknowledge_def case_prod_beta Let_def on_w_kept kept_uuid kept_UnixMilli
      split: res.splits intro!: sbind_snd [where P = "kept_inv I P"])

lemma sendAcknowledge_kept: "kept_inv I P c \<Longrightarrow> kept_inv I P (snd (sendAcknowledgeMessage S m c))"
  unfolding sendAcknowledgeMessage_def Let_def
  by (intro sbind_snd [where P = "kept_inv I P"]) (auto simp: serialize_acknowledge_kept SendMessage_kept)

lemma calculate_kept: "kept_inv I P c \<Longrightarrow> kept_inv I P (calculateRetransmissionTimeout S m c)"
  by (simp add: calculateRetransmissionTimeout_def case_prod_beta Let_def on_w_kept kept_Now)

lemma handleAcknowledge_kept: "kept_inv I P c \<Longrightarrow> kept_inv I P (snd (handleAcknowledgeMessage S m c))"
  unfolding handleAcknowledgeMessage_def
  by (intro sbind_snd [where P = "kept_inv I P"])
    (auto simp: processAcknowledgedMessage_def case_prod_beta Let_def calculate_kept split: option.splits)

lemma handleChannelClosed_kept: "kept_inv I P c \<Longrightarrow> kept_inv I P (snd (handleChannelClosedMessage S m c))"
  unfolding handleChannelClosedMessage_def
  by (intro sbind_snd [where P = "kept_inv I P"]) (auto simp: world_inv_on_net world_inv_handlers)

lemma Build_kept: "I w \<Longrightarrow> I (snd (Build S k sid tid w))"
  unfolding Build_def NewEncrypter_def generateEncryptionKey_def KMSGenerateDataKey_def Let_def
  by (simp, intro sbind_snd [where P = I]) (auto simp: kept_kms)

lemma KMS_kept: "kept_inv I P c \<Longrightarrow> kept_inv I P (snd (ProcessKMSEncryptionHandshakeAction S p c))"
  unfolding ProcessKMSEncryptionHandshakeAction_def
  by (intro sbind_snd [where P = "kept_inv I P"]) (auto simp: on_w_kept Build_kept)

lemma SessionType_kept: "kept_inv I P c \<Longrightarrow> kept_inv I P (snd (ProcessSessionTypeHandshakeAction S p c))"
  unfolding ProcessSessionTypeHandshakeAction_def
  by (intro sbind_snd [where P = "kept_inv I P"]) auto

lemma process_action_kept: "kept_inv I P c \<Longrightarrow> kept_inv I P (snd (process_action S a c))"
proof -
  assume i: "kept_inv I P c"
  obtain r d where k: "ProcessKMSEncryptionHandshakeAction S (ActionParameters a) c = (r, d)" by force
  obtain r' d' where s: "ProcessSessionTypeHandshakeAction S (ActionParameters a) c = (r', d')" by force
  have "kept_inv I P d" "kept_inv I P d'" using KMS_kept [OF i] SessionType_kept [OF i] k s by (metis snd_conv)+
  with i show ?thesis
    by (cases r; cases r'; cases "encryption d") (simp_all add: process_action_def k s)
qed

lemma process_actions_kept: "kept_inv I P c \<Longrightarrow> kept_inv I P (snd (process_actions S as c))"
proof (induction as arbitrary: c)
  case (Cons a as)
  show ?case unfolding process_actions.simps case_prod_beta
    by (intro sbind_snd [where P = "kept_inv I P"]) (simp_all add: process_action_kept Cons)
qed simp

lemma handleHandshakeRequest_kept: "kept_inv I P c \<Longrightarrow> kept_inv I P (snd (handleHandshakeRequest S m c))"
  unfolding handleHandshakeRequest_def Let_def sendHandshakeResponse_def
  by (intro sbind_snd [where P = "kept_inv I P"])
    (auto simp: process_actions_kept SendInput_kept intro!: sbind_snd [where P = "kept_inv I P"])

lemma handleHandshakeComplete_kept: "kept_inv I P c \<Longrightarrow> kept_inv I P (snd (handleHandshakeComplete S m c))"
  unfolding handleHandshakeComplete_def by (intro sbind_snd [where P = "kept_inv I P"]) auto

lemma handleChallenge_kept: "kept_inv I P c \<Longrightarrow> kept_inv I P (snd (handleEncryptionChallengeRequest S m c))"
  unfolding handleEncryptionChallengeRequest_def sendEncryptionChallengeResponse_def
  by (intro sbind_snd [where P = "kept_inv I P"]) (auto simp: encrypt_with_kept SendInput_kept)

lemma handleDefault_kept: "kept_inv I P c \<Longrightarrow> kept_inv I P (snd (handleDefaultOutputMessage S m c))"
  unfolding handleDefaultOutputMessage_def
  by (intro sbind_snd [where P = "kept_inv I P"]) (auto simp: world_inv_processOutput sendAcknowledge_kept)

lemma handleUnexpected_kept: "kept_inv I P c \<Longrightarrow> kept_inv I P (snd (handleUnexpectedSequenceMessage S m raw c))"
  by (auto simp: handleUnexpectedSequenceMessage_def case_prod_beta Let_def sendAcknowledge_kept on_w_kept kept_Now
      intro!: sbind_snd [where P = "kept_inv I P"])

lemma processBuffered_kept: "kept_inv I P c \<Longrightarrow> kept_inv I P (snd (processBufferedMessage S b c))"
  unfolding processBufferedMessage_def Let_def
  by (intro sbind_snd [where P = "kept_inv I P"]) (auto simp: world_inv_processOutput)

lemma ProcessItems_loop_kept:
  assumes "ProcessItems_loop S c = Some r" "kept_inv I P c"
  shows "kept_inv I P (snd r)"
proof -
  have "S' = S \<longrightarrow> kept_inv I P c \<longrightarrow> kept_inv I P (snd r)" if "ProcessItems_loop S' c = Some r" for S'
    using that
  proof (rule ProcessItems_loop.raw_induct [rotated])
    fix loop S' c r
    assume "\<And>S' c r. loop S' c = Some r \<Longrightarrow> S' = S \<longrightarrow> kept_inv I P c \<longrightarrow> kept_inv I P (snd r)"
      and "(if next_buffered c = None then Some (Ok (), c)
        else let r = processBufferedMessage S' (the (next_buffered c)) c in
          if fst r = Ok () then loop S' (snd r)
          else Some (swrap ''processing incoming message buffer items'' r)) = Some r"
    then show "S' = S \<longrightarrow> kept_inv I P c \<longrightarrow> kept_inv I P (snd r)"
      using processBuffered_kept [of c "the (next_buffered c)"] by (auto simp: Let_def split: if_splits)
  qed
  with assms show ?thesis by simp
qed

lemma outputMessageHandler_kept: "kept_inv I P c \<Longrightarrow> kept_inv I P (snd (outputMessageHandler S raw c))"
proof -
  have items: "kept_inv I P d \<Longrightarrow> kept_inv I P (snd (ProcessIncomingMessageBufferItems S d))" for d
    using ProcessItems_loop_kept [of d] by (auto simp: ProcessIncomingMessageBufferItems_def split: option.splits)
  have out: "kept_inv I P d \<Longrightarrow> kept_inv I P (snd (handleOutputMessage S m raw d))" for m d
    by (auto simp: handleOutputMessage_def handleUnexpected_kept handleDefault_kept items
        handleHandshakeRequestOutputMessage_def handleHandshakeCompleteOutputMessage_def
        handleEncryptionChallengeRequestOutputMessage_def handleHandshakeRequest_kept handleHandshakeComplete_kept
        handleChallenge_kept sendAcknowledge_kept intro!: sbind_snd [where P = "kept_inv I P"])
  assume "kept_inv I P c"
  then show ?thesis
    unfolding outputMessageHandler_def
    by (intro sbind_snd [where P = "kept_inv I P"]) (auto simp: out handleAcknowledge_kept handleChannelClosed_kept)
qed

text \<open>What a listening goroutine does with a message.\<close>

lemma listen_message_kept: "kept_inv I P c \<Longrightarrow> kept_inv I P (snd (listen_message S raw c))"
proof -
  assume i: "kept_inv I P c"
  let ?r = "on_net (incomingMessageHandler c raw) c"
  have r: "kept_inv I P (snd ?r)" using i by (simp add: world_inv_on_net world_inv_handlers)
  have o: "kept_inv I P (snd (outputMessageHandler S raw (snd ?r)))" by (rule outputMessageHandler_kept [OF r])
  have cl: "kept_inv I P (snd (sbind (logged (Close S d)) (\<lambda>_ d. (Err e, d))))" if "kept_inv I P d" for e d
    using Close_kept [OF that] by (intro sbind_snd [where P = "kept_inv I P"]) simp_all
  show ?thesis
    using r o cl unfolding listen_message_def
    by (cases ?r; cases "fst ?r"; cases "outputMessageHandler S raw (snd ?r)";
        cases "fst (outputMessageHandler S raw (snd ?r))") (auto simp: map_prod_def case_prod_beta)
qed

lemma sleep_kept: "kept_inv I P c \<Longrightarrow> kept_inv I P (dc_sleep S d c)"
  by (simp add: dc_sleep_def on_w_kept kept_Sleep)

text \<open>Connecting, and the goroutines that run while \<^verbatim>\<open>Open\<close> waits.\<close>

lemma ws_Open_kept: "net_keeps I (ws_Open S)"
  unfolding net_keeps_def ws_Open_def
  by (intro allI impI sbind_snd [where P = "\<lambda>n. I (world n)"]) (simp_all add: OpenConnection_def kept_Dial)

lemma ReadMessage_loop_kept: "I (world n) \<Longrightarrow> I (world (snd (ReadMessage_loop S k n)))"
proof (induction "nat (RetryAttempt - k)" arbitrary: k n rule: less_induct)
  case (less k n)
  show ?case
  proof (cases "isOpen (ws n)")
    case True
    note t = this
    show ?thesis
    proof (cases "connection (ws n)")
      case (Some h)
      have "I (world (snd (on_world (conn_ReadMessage S h) n)))" using less.prems by (simp add: kept_ReadMessage)
      then show ?thesis
        using less.hyps [of "k + 1"] t Some
        by (subst ReadMessage_loop.simps)
          (cases "on_world (conn_ReadMessage S h) n"; cases "fst (on_world (conn_ReadMessage S h) n)"; auto)
    qed (use less.prems t in \<open>subst ReadMessage_loop.simps, simp\<close>)
  qed (use less.prems in \<open>subst ReadMessage_loop.simps, simp\<close>)
qed

lemma finalize_kept: "kept_inv I P c \<Longrightarrow> kept_inv I P (snd (finalizeDataChannelHandshake S t c))"
  unfolding finalizeDataChannelHandshake_def Let_def
  by (intro sbind_snd [where P = "kept_inv I P"]) (simp_all add: on_w_kept kept_uuid SendMessage_kept)

lemma dc_open_kept: "kept_inv I P c \<Longrightarrow> kept_inv I P (snd (dc_open S c))"
  unfolding dc_open_def
  by (intro sbind_snd [where P = "kept_inv I P"]) (simp_all add: world_inv_on_net ws_Open_kept finalize_kept)

lemma reconnect_kept: "kept_inv I P c \<Longrightarrow> kept_inv I P (snd (reconnect S c))"
  unfolding reconnect_def
  by (intro sbind_snd [where P = "kept_inv I P"]) (simp_all add: Close_kept dc_open_kept)

lemma channel_retrier_kept: "kept_inv I P c \<Longrightarrow> kept_inv I P (snd (channel_retrier S c))"
  by (simp add: channel_retrier_def case_prod_beta on_w_kept kept_Intn)

lemma call_retrier_kept:
  assumes "kept_inv I P c" "\<And>c. kept_inv I P c \<Longrightarrow> kept_inv I P (snd (fn c))"
  shows "kept_inv I P (snd (call_retrier S r fn c))"
proof (cases "Call (float_round S) (dc_sleep S) r fn c")
  case (Some y)
  then have "kept_inv I P (snd y)"
    unfolding Call_def by (rule Call_loop_preserves) (auto intro: assms sleep_kept)
  with Some show ?thesis by (simp add: call_retrier_def)
qed (simp add: call_retrier_def assms(1))

lemma Open_connect_kept:
  assumes "kept_inv I P c" "P FirstMessageHandler"
  shows "kept_inv I P (snd (Open_connect S c))"
proof -
  let ?c = "RegisterOutputStreamHandler FirstMessageHandler False c"
  let ?d = "dc_open S (snd (channel_retrier S ?c))"
  have "kept_inv I P ?c" using assms by (simp add: RegisterOutputStreamHandler_def kept_inv_def)
  then have d: "kept_inv I P (snd ?d)" by (simp add: dc_open_kept channel_retrier_kept)
  then have "kept_inv I P (snd (call_retrier S r (reconnect S) (snd ?d)))" for r
    by (rule call_retrier_kept) (rule reconnect_kept)
  with d show ?thesis by (auto simp: Open_connect_def Let_def case_prod_beta split: res.split)
qed

lemma refresh_kept:
  assumes "net_keeps I refresh" "kept_inv I P c"
  shows "kept_inv I P (snd (refresh_and_reconnect S refresh c))"
proof -
  have "kept_inv I P (d\<lparr>net := SetChannelToken t (net d)\<rparr>)" if "kept_inv I P d" for t d
    using that by (simp add: kept_inv_def SetChannelToken_def)
  then show ?thesis
    unfolding refresh_and_reconnect_def
    by (intro sbind_snd [where P = "kept_inv I P"]) (use assms world_inv_on_net in \<open>auto intro!: reconnect_kept\<close>)
qed

lemma listen_round_kept:
  assumes "net_keeps I refresh" "kept_inv I P c"
  shows "kept_inv I P (snd (listen_round S refresh r c))"
proof -
  have "net_keeps I (ws_ReadMessage S)" by (simp add: net_keeps_def ws_ReadMessage_def ReadMessage_loop_kept)
  from world_inv_on_net [OF this assms(2)] have d: "kept_inv I P (snd (on_net (ws_ReadMessage S) c))" .
  let ?e = "call_retrier S r (refresh_and_reconnect S refresh) (snd (on_net (ws_ReadMessage S) c))"
  have e: "kept_inv I P (snd ?e)" using d by (rule call_retrier_kept) (rule refresh_kept [OF assms(1)])
  have cl: "kept_inv I P (snd (sbind (logged (Close S d)) (\<lambda>_ d. (Err e, d))))" if "kept_inv I P d" for e d
    using Close_kept [OF that] by (intro sbind_snd [where P = "kept_inv I P"]) simp_all
  from d e listen_message_kept [OF d] listen_message_kept [OF e] cl [OF e] show ?thesis
    by (cases "on_net (ws_ReadMessage S) c"; cases ?e) (auto simp: listen_round_def split: res.split)
qed

lemma resender_turn_kept: "kept_inv I P c \<Longrightarrow> kept_inv I P (snd (resender_turn S c))"
proof -
  assume "kept_inv I P c"
  then have "kept_inv I P (dc_sleep S ResendSleepInterval c)" by (rule sleep_kept)
  note d = this on_w_kept [OF kept_Now this]
  let ?s = "\<lambda>m. logged (SendMessage S m BinaryMessage (snd (on_w (time_Now S) (dc_sleep S ResendSleepInterval c))))"
  have e: "kept_inv I P (snd (?s m))" for m using SendMessage_kept [OF d(2)] by simp
  have "kept_inv I P (snd (resend_round S c))"
    using d e on_w_kept [OF kept_Now e]
    by (auto simp: resend_round_def Let_def case_prod_beta split: option.split res.split)
  then show ?thesis
    by (auto simp: resender_turn_def case_prod_beta report_resend_error_def chan_send_def
        split: option.split res.split)
qed

lemma run_open_kept:
  assumes "net_keeps I refresh" "\<And>b c. kept_inv I P c \<Longrightarrow> kept_inv I P (snd (caller b c))"
  shows "kept_inv I P (snd st) \<Longrightarrow> kept_inv I P (snd (run_open S refresh caller schedule st))"
proof (induction schedule arbitrary: st)
  case (Cons e es)
  obtain g c where st: "st = (g, c)" by force
  with Cons.prems have c: "kept_inv I P c" by simp
  have "kept_inv I P (snd (listener_turn S refresh l c))" for l
    using c listen_round_kept [OF assms(1) c] channel_retrier_kept [OF c]
    by (auto simp: listener_turn_def case_prod_beta split: listener.split option.split)
  then have "kept_inv I P (snd (open_step S refresh caller e st))"
    using c assms(2) [OF c] resender_turn_kept [OF c] by (cases e) (simp_all add: st case_prod_beta)
  from Cons.IH [OF this] show ?case by (simp add: run_open_def)
qed (simp add: run_open_def)

lemma dc_Open_kept:
  assumes "net_keeps I refresh" "net_keeps I timeout" "\<And>b c. kept_inv I P c \<Longrightarrow> kept_inv I P (snd (caller b c))"
    and "P FirstMessageHandler" "kept_inv I P c"
  shows "kept_inv I P (snd (dc_Open S refresh timeout caller schedule prefer c))"
proof -
  have est: "kept_inv I P (snd (establishSessionType timeout prefer d))" if "kept_inv I P d" for d
    using that assms(2)
    by (auto simp: establishSessionType_def split: list.split
        intro!: sbind_snd [where P = "kept_inv I P"] world_inv_on_net)
  have "kept_inv I P (snd (run_open S refresh caller schedule (open_start, d)))" if "kept_inv I P d" for d
    by (rule run_open_kept [OF assms(1)]) (simp_all add: assms(3) that)
  then show ?thesis
    unfolding dc_Open_def
    by (intro sbind_snd [where P = "kept_inv I P"])
      (simp_all add: Open_connect_kept [OF assms(5,4)] case_prod_beta est)
qed

end

end
