(* ===== verification/Session.thy ===== *)
theory Session
  imports Objects Channel_Props Channel_Frame
begin

text \<open>
  \<^verbatim>\<open>src/session/session.go\<close> and \<^verbatim>\<open>src/session/sessionutil\<close>: the session, a thin
  layer over the data channel that names the errors and calls the SSM client.  The state of a
  session is its data channel; the record \<open>Session\<close> has what does not change.  The locale
  \<open>session_support\<close> is what the plug-ins rely on (the Go interface
  \<^verbatim>\<open>ISessionSupport\<close>): no operation of the session touches the plug-in's own object.
\<close>

section \<open>\<^verbatim>\<open>sessionutil\<close>\<close>

datatype signal = SIGINT | SIGQUIT | SIGTSTP | OtherSignal nat

fun SignalsByteMap :: "signal \<Rightarrow> byte option" where
  "SignalsByteMap SIGINT = Some 3"
| "SignalsByteMap SIGQUIT = Some 0x1c"
| "SignalsByteMap SIGTSTP = Some 26"
| "SignalsByteMap (OtherSignal n) = None"

definition ControlSignals :: "signal list" where
  "ControlSignals = [SIGINT, SIGTSTP, SIGQUIT]"

text \<open>\<^verbatim>\<open>DisplayMode.DisplayMessage\<close>; an error of the write is only logged.\<close>

definition DisplayMessage :: "('o, 'p) host \<Rightarrow> ClientMessage \<Rightarrow> 'o proc net \<Rightarrow> unit res \<times> 'o proc net" where
  "DisplayMessage H m n = logged (net_out (stdout_Print H (Payload m)) n)"

definition NewListener :: "('o, 'p) host \<Rightarrow> string \<Rightarrow> 'o \<Rightarrow> handle res \<times> 'o" where
  "NewListener H address w = swrap ''creating unix socket listener'' (net_Listen H ''unix'' address w)"

section \<open>The session\<close>

record Session =
  sess_sessionID :: string

definition NewSession :: "string \<Rightarrow> Session" where
  "NewSession sid = \<lparr>sess_sessionID = sid\<rparr>"

text \<open>\<^verbatim>\<open>TerminateSession\<close> and \<^verbatim>\<open>getResumeSessionParams\<close> are also the handlers
  that \<^verbatim>\<open>OpenDataChannel\<close> gives to the data channel.\<close>

definition sess_TerminateSession :: "('o, 'p) host \<Rightarrow> Session \<Rightarrow> 'o proc net \<Rightarrow> unit res \<times> 'o proc net" where
  "sess_TerminateSession H s n =
     swrap ''terminating session'' (net_out (ssm_TerminateSession H (sess_sessionID s)) n)"

definition getResumeSessionParams :: "('o, 'p) host \<Rightarrow> Session \<Rightarrow> 'o proc net \<Rightarrow> string res \<times> 'o proc net" where
  "getResumeSessionParams H s n =
     sbind (swrap ''resuming session'' (net_out (ssm_ResumeSession H (sess_sessionID s)) n)) (\<lambda>token n.
     (Ok (case token of None \<Rightarrow> [] | Some t \<Rightarrow> t), n))"

text \<open>\<^verbatim>\<open>OpenDataChannel\<close>.  Its goroutine shows the one message that the data channel
  may put on its channel of display messages, unless the context ends first:
  \<open>display_round\<close>, a turn of which is nothing while there is no message.\<close>

definition display_round :: "('o, 'p) host \<Rightarrow> bool \<Rightarrow> ('o proc, 'p) DataChannel \<Rightarrow>
    unit res option \<times> ('o proc, 'p) DataChannel" where
  "display_round H ctxDone c =
     (if ctxDone then (Some (Ok ()), c)
      else case displayMessages c of
        [] \<Rightarrow> (None, c)
      | m # ms \<Rightarrow> map_prod Some id (on_net (DisplayMessage H m) (c\<lparr>displayMessages := ms\<rparr>)))"

definition OpenDataChannel :: "('o, 'p) host \<Rightarrow> Session \<Rightarrow> open_event list \<Rightarrow> bool \<Rightarrow> ('o proc, 'p) DataChannel \<Rightarrow>
    string res \<times> ('o proc, 'p) DataChannel" where
  "OpenDataChannel H s schedule preferTimeout c =
     swrap ''opening data channel''
       (dc_Open (ss H) (getResumeSessionParams H s) (sess_TerminateSession H s) (display_round H)
         schedule preferTimeout c)"

definition sess_GetAgentVersion :: "('o proc, 'p) DataChannel \<Rightarrow> string" where
  "sess_GetAgentVersion c = agentVersion c"

definition sess_GetTargetID :: "('o proc, 'p) DataChannel \<Rightarrow> string" where
  "sess_GetTargetID c = targetID c"

definition sess_SendFlag :: "('o, 'p) host \<Rightarrow> uint32 \<Rightarrow> ('o proc, 'p) DataChannel \<Rightarrow>
    unit res \<times> ('o proc, 'p) DataChannel" where
  "sess_SendFlag H flagType c = swrap ''sending flag'' (SendFlag (ss H) flagType c)"

definition sess_SendInputDataMessage :: "('o, 'p) host \<Rightarrow> uint32 \<Rightarrow> bytes \<Rightarrow> ('o proc, 'p) DataChannel \<Rightarrow>
    unit res \<times> ('o proc, 'p) DataChannel" where
  "sess_SendInputDataMessage H payloadType inputData c =
     swrap ''sending input data message'' (SendInputDataMessage (ss H) payloadType inputData c)"

text \<open>\<^verbatim>\<open>Close\<close>, for a caller that has the web socket channel and for one that has the
  data channel.\<close>

definition net_Close :: "('o, 'p) host \<Rightarrow> 'o proc net \<Rightarrow> unit res \<times> 'o proc net" where
  "net_Close H n = swrap ''closing data channel'' (swrap ''closing data channel'' (ws_Close (ss H) n))"

definition sess_Close :: "('o, 'p) host \<Rightarrow> ('o proc, 'p) DataChannel \<Rightarrow>
    unit res \<times> ('o proc, 'p) DataChannel" where
  "sess_Close H c = swrap ''closing data channel'' (Close (ss H) c)"

lemma sess_Close_net: "sess_Close H = on_net (net_Close H)"
  by (simp add: sess_Close_def Close_def net_Close_def on_net_def fun_eq_iff Let_def)

definition sess_DisplayMessage :: "('o, 'p) host \<Rightarrow> ClientMessage \<Rightarrow> 'o proc net \<Rightarrow> unit res \<times> 'o proc net" where
  [simp]: "sess_DisplayMessage H m n = DisplayMessage H m n"

text \<open>The handlers that a plug-in registers with its session are those of the data channel.\<close>

definition sess_RegisterOutputStreamHandler :: "'o proc handler \<Rightarrow> bool \<Rightarrow> ('o proc, 'p) DataChannel \<Rightarrow>
    ('o proc, 'p) DataChannel" where
  [simp]: "sess_RegisterOutputStreamHandler h sessionSpecific c = RegisterOutputStreamHandler h sessionSpecific c"

definition sess_RegisterIncomingMessageHandler :: "(bytes \<Rightarrow> 'o proc net \<Rightarrow> unit res \<times> 'o proc net) \<Rightarrow>
    ('o proc, 'p) DataChannel \<Rightarrow> ('o proc, 'p) DataChannel" where
  [simp]: "sess_RegisterIncomingMessageHandler h c = RegisterIncomingMessageHandler h c"

definition sess_RegisterStopHandler :: "('o proc net \<Rightarrow> unit res \<times> 'o proc net) \<Rightarrow> ('o proc, 'p) DataChannel \<Rightarrow>
    ('o proc, 'p) DataChannel" where
  [simp]: "sess_RegisterStopHandler h c = RegisterStopHandler h c"

definition GetSessionID :: "Session \<Rightarrow> string" where
  "GetSessionID s = sess_sessionID s"

definition GetSessionProperties :: "('o proc, 'p) DataChannel \<Rightarrow> 'p option" where
  "GetSessionProperties c = sessionProperties c"

section \<open>Loops of goroutines\<close>

text \<open>One turn of a loop: the result is \<open>None\<close> if the loop goes on, else the outcome with
  which the goroutine ends.  \<open>run_turns\<close> is the whole loop, \<open>None\<close> if it does not end.\<close>

type_synonym 's turn = "unit res option \<times> 's"

definition goes_on :: "('s \<Rightarrow> 's) \<Rightarrow> unit res \<times> 's \<Rightarrow> 's turn" where
  "goes_on f r = (case fst r of Ok _ \<Rightarrow> (None, f (snd r)) | _ \<Rightarrow> (Some (fst r), snd r))"

partial_function (option) run_turns :: "('s \<Rightarrow> 's turn) \<Rightarrow> 's \<Rightarrow> (unit res \<times> 's) option" where
  "run_turns f s =
     (if fst (f s) = None then run_turns f (snd (f s)) else Some (the (fst (f s)), snd (f s)))"

text \<open>Two goroutines of an \<^verbatim>\<open>errgroup\<close> without a context: both run, and the first error
  is the group's.  Here the first argument finishes first.\<close>

definition both :: "('s \<Rightarrow> unit res \<times> 's) \<Rightarrow> ('s \<Rightarrow> unit res \<times> 's) \<Rightarrow> 's \<Rightarrow> unit res \<times> 's" where
  "both f g s =
     (let (r1, s1) = f s; (r2, s2) = g s1 in
      (if r1 = Panic \<or> r2 = Panic then Panic
       else if r1 = Blocked \<or> r2 = Blocked then Blocked
       else rbind r1 (\<lambda>_. r2), s2))"

text \<open>Errors that are collected for \<^verbatim>\<open>errors.Join\<close>: a call whose error joins the list.\<close>

definition collect :: "string \<Rightarrow> ('s \<Rightarrow> unit res \<times> 's) \<Rightarrow> go_error list \<Rightarrow> 's \<Rightarrow> go_error list res \<times> 's" where
  "collect context f errs s =
     (case f s of
        (Ok _, s) \<Rightarrow> (Ok errs, s)
      | (Err e, s) \<Rightarrow> (Ok (errs @ [Wrap context e]), s)
      | (Panic, s) \<Rightarrow> (Panic, s)
      | (Blocked, s) \<Rightarrow> (Blocked, s))"

definition joined :: "string \<Rightarrow> go_error list \<Rightarrow> unit res" where
  "joined context errs = (if errs = [] then Ok () else Err (Wrap context (Joined errs)))"

section \<open>Contract\<close>

text \<open>The objects of the plug-ins, as the session sees them.\<close>

definition net_objects :: "'o proc net \<Rightarrow> ShellSession \<times> PortSession" where
  "net_objects n = (shell (world n), port (world n))"

definition objects :: "('o proc, 'p) DataChannel \<Rightarrow> ShellSession \<times> PortSession" where
  "objects c = net_objects (net c)"

lemma objects_upd [simp]:
  "objects (c\<lparr>net := x\<rparr>) = net_objects x"
  "objects (c\<lparr>streamDataSequenceNumber := i\<rparr>) = objects c"
  "objects (c\<lparr>outgoingMessageBuffer := b\<rparr>) = objects c"
  "objects (c\<lparr>displayMessages := ms\<rparr>) = objects c"
  by (simp_all add: objects_def)

lemma net_objects_out [simp]: "net_objects (snd (net_out f n)) = net_objects n"
  by (simp add: net_objects_def net_out_def on_world_def Let_def)

lemma objects_on_net: "(\<And>n. net_objects (snd (f n)) = net_objects n) \<Longrightarrow> objects (snd (on_net f c)) = objects c"
  by (simp add: on_net_def objects_def Let_def)

lemma objects_on_out [simp]: "objects (snd (on_out f c)) = objects c"
  by (simp add: on_out_net objects_on_net)

lemma objects_on_w [simp]: "objects (snd (on_w (via f) c)) = objects c"
  using objects_on_out [of f c] by (simp add: on_out_def)

lemma net_objects_world [simp]: "net_objects (snd (on_world (via f) n)) = net_objects n"
  using net_objects_out [of f n] by (simp add: net_out_def)

lemma net_objects_ws [simp]: "net_objects (n\<lparr>ws := x\<rparr>) = net_objects n"
  by (simp add: net_objects_def)

lemma net_objects_ws_SendMessage [simp]: "net_objects (snd (ws_SendMessage (lift_sys S) b t n)) = net_objects n"
  by (simp add: ws_SendMessage_def split: option.splits)

lemma CloseConnection_via: "CloseConnection (lift_sys S) h = via (CloseConnection S h)"
  by (auto simp: CloseConnection_def via_def' Let_def fun_eq_iff split: option.splits)

lemma net_objects_ws_Close [simp]: "net_objects (snd (ws_Close (lift_sys S) n)) = net_objects n"
  by (simp add: ws_Close_def CloseConnection_via Let_def)

lemma objects_SendMessage [simp]: "objects (snd (SendMessage (lift_sys S) b t c)) = objects c"
  by (simp add: SendMessage_def objects_on_net)

lemma via_swrap: "swrap t (via f p) = via (\<lambda>w. swrap t (f w)) p"
  by (simp add: via_def' Let_def)

lemma via_sbind: "(\<And>x p. g x p = via (g' x) p) \<Longrightarrow> sbind (via f p) g = via (\<lambda>w. sbind (f w) g') p"
  by (cases "fst (f (outside p))") (simp_all add: sbind_def via_def' Let_def)

lemma sbind_via: "(\<And>x p. g x p = via (g' x) p) \<Longrightarrow> sbind (r, p) g = via (\<lambda>w. sbind (r, w) g') p"
  by (cases r) (simp_all add: via_def')

lemma Encrypt_via: "Encrypt (lift_sys S) e b = via (Encrypt S e b)"
  unfolding Encrypt_def fun_eq_iff Let_def getAEAD_def lift_sys_simps via_swrap
  by (intro allI sbind_via via_sbind) (simp add: via_def')

lemma objects_encrypt [simp]: "objects (snd (encrypt_with (lift_sys S) b c)) = objects c"
  by (simp add: encrypt_with_def Encrypt_via split: option.splits)

lemma objects_record_sent [simp]: "objects (snd (record_sent (lift_sys S) msg s c)) = objects c"
  by (simp add: record_sent_def case_prod_beta Let_def sbind_def split: res.splits)

lemma objects_SendInput [simp]: "objects (snd (SendInputDataMessage (lift_sys S) pt d c)) = objects c"
  unfolding SendInputDataMessage_record_sent Let_def case_prod_beta
  by (intro sbind_snd [where P = "\<lambda>x. objects x = objects c"]) (auto split: if_splits)

text \<open>What a plug-in relies on: sending and closing leave its object, \<open>obj\<close>, alone.  So
  does a whole sequence of sends.\<close>

locale session_support =
  fixes send_input :: "uint32 \<Rightarrow> bytes \<Rightarrow> 's \<Rightarrow> unit res \<times> 's"
    and send_flag :: "uint32 \<Rightarrow> 's \<Rightarrow> unit res \<times> 's"
    and close :: "'s \<Rightarrow> unit res \<times> 's"
    and obj :: "'s \<Rightarrow> 'x"
  assumes send_input_obj: "obj (snd (send_input pt d s)) = obj s"
    and send_flag_obj: "obj (snd (send_flag f s)) = obj s"
    and close_obj: "obj (snd (close s)) = obj s"
begin

fun send_all :: "uint32 \<Rightarrow> bytes list \<Rightarrow> 's \<Rightarrow> unit res \<times> 's" where
  "send_all pt [] s = (Ok (), s)"
| "send_all pt (d # ds) s = sbind (send_input pt d s) (\<lambda>_. send_all pt ds)"

lemma send_all_obj: "obj (snd (send_all pt ds s)) = obj s"
proof (induction ds arbitrary: s)
  case (Cons d ds)
  show ?case
    by (simp, rule sbind_snd [where P = "\<lambda>x. obj x = obj s"]) (simp_all add: send_input_obj Cons)
qed simp

lemma send_all_append: "send_all pt (as @ bs) s = sbind (send_all pt as s) (\<lambda>_. send_all pt bs)"
  by (induction as arbitrary: s) (auto simp: sbind_def split: res.splits)

end

interpretation sup: session_support "sess_SendInputDataMessage H" "sess_SendFlag H" "sess_Close H" objects
  for H
  by unfold_locales
    (simp_all add: sess_SendInputDataMessage_def sess_SendFlag_def SendFlag_def sess_Close_net net_Close_def
      objects_on_net)

text \<open>A property of the plug-ins' objects is kept by everything the data channel does, if the
  registered handlers keep it.\<close>

abbreviation about_objects :: "(ShellSession \<Rightarrow> PortSession \<Rightarrow> bool) \<Rightarrow> 'o proc \<Rightarrow> bool" where
  "about_objects Q \<equiv> (\<lambda>p. Q (shell p) (port p))"

interpretation kept: kept_world "lift_sys S" "about_objects Q" "handler_keeps (about_objects Q)" for S Q
  by unfold_locales simp_all

lemma about_objects_iff: "about_objects Q (proc_of c) \<longleftrightarrow> case_prod Q (objects c)"
  by (simp add: objects_def net_objects_def)

end
