(* ===== verification/Shell.thy ===== *)
theory Shell
  imports Session
begin

text \<open>
  \<^verbatim>\<open>src/session/shellsession/shellsession.go\<close> and \<^verbatim>\<open>ctxio.go\<close>: the shell session.
  Its three goroutines (terminal size, control signals, keyboard) are functions for one turn;
  \<open>run_shell\<close> runs them and the data channel's listening goroutine in the order of a given
  schedule, and \<^verbatim>\<open>SetSessionHandlers\<close> is the whole life of a session around it.  A turn is
  atomic.  The commands \<^verbatim>\<open>stty\<close>, the terminal and the keyboard are functions of the
  host.
\<close>

definition ResizeSleepInterval :: duration where "ResizeSleepInterval = 500 * Millisecond"
definition StdinBufferLimit :: int where "StdinBufferLimit = 1024"

section \<open>Handlers\<close>

definition shell_ProcessStreamMessagePayload :: "('o, 'p) host \<Rightarrow> ClientMessage \<Rightarrow> 'o proc net \<Rightarrow>
    bool res \<times> 'o proc net" where
  "shell_ProcessStreamMessagePayload H outputMessage n =
     sbind (sess_DisplayMessage H outputMessage n) (\<lambda>_ n. (Ok True, n))"

text \<open>\<^verbatim>\<open>Stop\<close>; the call of the nil \<^verbatim>\<open>shutdown\<close> panics.\<close>

definition shell_Stop :: "('o, 'p) host \<Rightarrow> 'o proc net \<Rightarrow> unit res \<times> 'o proc net" where
  "shell_Stop H n =
     sbind (swrap ''closing DataChannel'' (net_Close H n)) (\<lambda>_ n.
     if shutdown_set (shell (world n))
     then (Ok (), set_shell ((shell (world n))\<lparr>ctx_done := True\<rparr>) n)
     else (Panic, n))"

definition new_shell :: ShellSession where
  "new_shell = \<lparr>shell_SizeData = \<lparr>Cols = 0, Rows = 0\<rparr>, originalSttyState = [], shutdown_set = False,
     ctx_done = False\<rparr>"

definition NewShellSession :: "('o, 'p) host \<Rightarrow> ('o proc, 'p) DataChannel \<Rightarrow> ('o proc, 'p) DataChannel" where
  "NewShellSession H c =
     (let c = c\<lparr>net := set_shell new_shell (net c)\<rparr>;
          c = sess_RegisterOutputStreamHandler (HandlerFunc (shell_ProcessStreamMessagePayload H)) True c;
          c = sess_RegisterStopHandler (shell_Stop H) c in
      sess_RegisterIncomingMessageHandler (\<lambda>b n. (Ok (), n)) c)"

definition shell_Name :: string where "shell_Name = ShellPluginName"

definition upd_shell :: "(ShellSession \<Rightarrow> ShellSession) \<Rightarrow> ('o proc, 'p) DataChannel \<Rightarrow>
    ('o proc, 'p) DataChannel" where
  "upd_shell f c = c\<lparr>net := set_shell (f (shell (proc_of c))) (net c)\<rparr>"

section \<open>The terminal\<close>

text \<open>\<^verbatim>\<open>getState\<close> appends the output of \<^verbatim>\<open>stty -g\<close> to the buffer, also when the
  command fails.\<close>

definition getState :: "('o, 'p) host \<Rightarrow> ('o proc, 'p) DataChannel \<Rightarrow> unit res \<times> ('o proc, 'p) DataChannel" where
  "getState H c =
     (let ((output, r), c) = on_out (exec_stty H ''-g'') c;
          c = upd_shell (\<lambda>s. s\<lparr>originalSttyState := originalSttyState s @ output\<rparr>) c in
      (wrap_err ''getting terminal state'' r, c))"

definition setState :: "('o, 'p) host \<Rightarrow> string \<Rightarrow> ('o proc, 'p) DataChannel \<Rightarrow>
    unit res \<times> ('o proc, 'p) DataChannel" where
  "setState H state c =
     (let ((output, r), c) = on_out (exec_stty H state) c in
      (wrap_err ''setting terminal state'' r, c))"

definition disableEchoAndInputBuffering :: "('o, 'p) host \<Rightarrow> ('o proc, 'p) DataChannel \<Rightarrow>
    unit res \<times> ('o proc, 'p) DataChannel" where
  "disableEchoAndInputBuffering H c =
     sbind (swrap ''getting terminal state'' (getState H c)) (\<lambda>_ c.
     sbind (swrap ''setting cbreak mode'' (setState H ''cbreak'' c)) (\<lambda>_ c.
     swrap ''disabling echo'' (setState H ''-echo'' c)))"

definition enableEchoAndInputBuffering :: "('o, 'p) host \<Rightarrow> ('o proc, 'p) DataChannel \<Rightarrow>
    unit res \<times> ('o proc, 'p) DataChannel" where
  "enableEchoAndInputBuffering H c =
     sbind (swrap ''restoring original terminal state''
       (setState H (originalSttyState (shell (proc_of c))) c)) (\<lambda>_ c.
     swrap ''enabling echo'' (setState H ''echo'' c))"

definition getTerminalSize :: "('o, 'p) host \<Rightarrow> ('o proc, 'p) DataChannel \<Rightarrow>
    (uint32 \<times> uint32) res \<times> ('o proc, 'p) DataChannel" where
  "getTerminalSize H c =
     sbind (swrap ''getting terminal size'' (on_out (term_GetSize H) c)) (\<lambda>(width, height) c.
     sbind (wrap_err ''converting width to uint32'' (SafeUint32 (Predeclared K_int) width), c) (\<lambda>safeWidth c.
     sbind (wrap_err ''converting height to uint32'' (SafeUint32 (Predeclared K_int) height), c) (\<lambda>safeHeight c.
     if safeWidth = 0 \<or> safeHeight = 0 then (Err ErrZeroWidthOrHeight, c)
     else (Ok (safeWidth, safeHeight), c))))"

section \<open>Turns of the goroutines\<close>

definition shell_ctx_done :: "('o proc, 'p) DataChannel \<Rightarrow> bool" where
  "shell_ctx_done c = ctx_done (shell (proc_of c))"

definition defaultWidth :: uint32 where "defaultWidth = 300"
definition defaultHeight :: uint32 where "defaultHeight = 100"

definition resize_to :: "('o, 'p) host \<Rightarrow> uint32 \<Rightarrow> uint32 \<Rightarrow> ('o proc, 'p) DataChannel \<Rightarrow>
    unit res \<times> ('o proc, 'p) DataChannel" where
  "resize_to H width height c =
     (let old = shell_SizeData (shell (proc_of c)) in
      if Rows old \<noteq> height \<or> Cols old \<noteq> width then
        (let sizeData = \<lparr>Cols = width, Rows = height\<rparr>;
             c = upd_shell (\<lambda>s. s\<lparr>shell_SizeData := sizeData\<rparr>) c in
         sbind (wrap_err ''marshalling size data'' (marshal_SizeData H sizeData), c) (\<lambda>inputSizeData c.
         swrap ''sending size data'' (sess_SendInputDataMessage H Size inputSizeData c)))
      else (Ok (), c))"

definition handleTerminalResize_turn :: "('o, 'p) host \<Rightarrow> ('o proc, 'p) DataChannel \<Rightarrow>
    ('o proc, 'p) DataChannel turn" where
  "handleTerminalResize_turn H c =
     (if shell_ctx_done c then (Some (Ok ()), c)
      else goes_on (dc_sleep (ss H) ResizeSleepInterval)
        (case getTerminalSize H c of
           (Ok (width, height), c) \<Rightarrow> resize_to H width height c
         | (Err e, c) \<Rightarrow> resize_to H defaultWidth defaultHeight c
         | (Panic, c) \<Rightarrow> (Panic, c)
         | (Blocked, c) \<Rightarrow> (Blocked, c)))"

text \<open>\<^verbatim>\<open>HandleControlSignals\<close>: \<open>sig\<close> is the signal that the \<^verbatim>\<open>select\<close> takes, if
  it takes one.\<close>

definition HandleControlSignals_turn :: "('o, 'p) host \<Rightarrow> signal option \<Rightarrow> ('o proc, 'p) DataChannel \<Rightarrow>
    ('o proc, 'p) DataChannel turn" where
  "HandleControlSignals_turn H sig c =
     (case sig of
        None \<Rightarrow> (if shell_ctx_done c then Some (Ok ()) else None, c)
      | Some sig \<Rightarrow>
          goes_on (\<lambda>c. c)
            (case SignalsByteMap sig of
               Some b \<Rightarrow> swrap ''sending control signal'' (sess_SendInputDataMessage H Output [b] c)
             | None \<Rightarrow> (Ok (), c)))"

text \<open>\<^verbatim>\<open>ctxReader.Read\<close>: \<open>ready\<close> says whether its \<^verbatim>\<open>select\<close> takes the result of the
  read; otherwise it takes the end of the context, or waits.\<close>

definition ctx_Read :: "('o, 'p) host \<Rightarrow> bool \<Rightarrow> int \<Rightarrow> ('o proc, 'p) DataChannel \<Rightarrow>
    bytes res \<times> ('o proc, 'p) DataChannel" where
  "ctx_Read H ready limit c =
     (if ready then on_out (bufio_Read H limit) c
      else if shell_ctx_done c then (Err Canceled, c)
      else (Blocked, c))"

text \<open>The keyboard goroutine is at the top of its loop or in the read; \<open>keyboard_top\<close> is the
  first, \<open>keyboard_read\<close> the second step.  A read that waits changes nothing.\<close>

definition keyboard_top :: "('o proc, 'p) DataChannel \<Rightarrow> ('o proc, 'p) DataChannel turn" where
  "keyboard_top c = (if shell_ctx_done c then Some (Ok ()) else None, c)"

definition keyboard_read :: "('o, 'p) host \<Rightarrow> bool \<Rightarrow> ('o proc, 'p) DataChannel \<Rightarrow>
    ('o proc, 'p) DataChannel turn" where
  "keyboard_read H ready c =
     (case ctx_Read H ready StdinBufferLimit c of
        (Err e, c) \<Rightarrow>
          (Some (if errors_Is e Canceled then Ok () else Err (Wrap ''reading from stdin'' e)), c)
      | (Ok stdinBytes, c) \<Rightarrow>
          goes_on (dc_sleep (ss H) Millisecond)
            (swrap ''sending input data'' (sess_SendInputDataMessage H Output stdinBytes c))
      | (Panic, c) \<Rightarrow> (Some Panic, c)
      | (Blocked, c) \<Rightarrow> (None, c))"

section \<open>The life of a session\<close>

text \<open>A goroutine is running, waiting in a read, or has returned.\<close>

datatype goroutine = Running | InRead | Returned "unit res"

record shell_run =
  g_resize :: goroutine
  g_signals :: goroutine
  g_keyboard :: goroutine
  g_listen :: goroutine
  g_error :: "go_error option"

definition shell_start :: shell_run where
  "shell_start = \<lparr>g_resize = Running, g_signals = Running, g_keyboard = Running, g_listen = Running,
     g_error = None\<rparr>"

text \<open>The end of a goroutine of the \<^verbatim>\<open>errgroup\<close>: the first error is kept and cancels the
  context of the group.\<close>

definition group_return :: "unit res \<Rightarrow> shell_run \<times> ('o proc, 'p) DataChannel \<Rightarrow>
    shell_run \<times> ('o proc, 'p) DataChannel" where
  "group_return r st =
     (case (r, st) of
        (Err e, (g, c)) \<Rightarrow>
          ((if g_error g = None then g\<lparr>g_error := Some e\<rparr> else g), upd_shell (\<lambda>s. s\<lparr>ctx_done := True\<rparr>) c)
      | (_, st) \<Rightarrow> st)"

datatype shell_event =
    ResizeTurn | SignalTurn "signal option" | KeyboardTurn bool | Incoming bytes | ParentDone

fun shell_step :: "('o, 'p) host \<Rightarrow> shell_event \<Rightarrow> shell_run \<times> ('o proc, 'p) DataChannel \<Rightarrow>
    shell_run \<times> ('o proc, 'p) DataChannel" where
  "shell_step H ResizeTurn (g, c) =
     (if g_resize g = Running then
        (case handleTerminalResize_turn H c of
           (None, c) \<Rightarrow> (g, c)
         | (Some r, c) \<Rightarrow> group_return r (g\<lparr>g_resize := Returned r\<rparr>, c))
      else (g, c))"
| "shell_step H (SignalTurn sig) (g, c) =
     (if g_signals g = Running then
        (case HandleControlSignals_turn H sig c of
           (None, c) \<Rightarrow> (g, c)
         | (Some r, c) \<Rightarrow> group_return r (g\<lparr>g_signals := Returned r\<rparr>, c))
      else (g, c))"
| "shell_step H (KeyboardTurn ready) (g, c) =
     (case g_keyboard g of
        Running \<Rightarrow>
          (case keyboard_top c of
             (None, c) \<Rightarrow> (g\<lparr>g_keyboard := InRead\<rparr>, c)
           | (Some r, c) \<Rightarrow> group_return r (g\<lparr>g_keyboard := Returned r\<rparr>, c))
      | InRead \<Rightarrow>
          (case keyboard_read H ready c of
             (None, c) \<Rightarrow> ((if ready then g\<lparr>g_keyboard := Running\<rparr> else g), c)
           | (Some r, c) \<Rightarrow> group_return r (g\<lparr>g_keyboard := Returned r\<rparr>, c))
      | Returned r \<Rightarrow> (g, c))"
| "shell_step H (Incoming raw) (g, c) =
     (if g_listen g = Running then
        (case listen_message (ss H) raw c of
           (None, c) \<Rightarrow> (g, c)
         | (Some r, c) \<Rightarrow> (g\<lparr>g_listen := Returned r\<rparr>, c))
      else (g, c))"
| "shell_step H ParentDone (g, c) = (g, upd_shell (\<lambda>s. s\<lparr>ctx_done := True\<rparr>) c)"

definition run_shell :: "('o, 'p) host \<Rightarrow> shell_event list \<Rightarrow> shell_run \<times> ('o proc, 'p) DataChannel \<Rightarrow>
    shell_run \<times> ('o proc, 'p) DataChannel" where
  "run_shell H schedule st = foldl (\<lambda>st e. shell_step H e st) st schedule"

text \<open>\<^verbatim>\<open>eg.Wait\<close>: a panic of any goroutine ends the program; the call waits as long as a
  goroutine of the group has not returned.\<close>

definition is_returned :: "goroutine \<Rightarrow> bool" where
  "is_returned g = (case g of Returned r \<Rightarrow> r \<noteq> Blocked | _ \<Rightarrow> False)"

definition shell_wait :: "shell_run \<Rightarrow> unit res" where
  "shell_wait g =
     (if Returned Panic \<in> {g_resize g, g_signals g, g_keyboard g, g_listen g} then Panic
      else if is_returned (g_resize g) \<and> is_returned (g_signals g) \<and> is_returned (g_keyboard g)
      then (case g_error g of None \<Rightarrow> Ok () | Some e \<Rightarrow> Err e)
      else Blocked)"

text \<open>The deferred function: an error of its own is reported only if there is no other.\<close>

definition restore_terminal :: "('o, 'p) host \<Rightarrow> unit res \<Rightarrow> ('o proc, 'p) DataChannel \<Rightarrow>
    unit res \<times> ('o proc, 'p) DataChannel" where
  "restore_terminal H err c =
     (case enableEchoAndInputBuffering H c of
        (Err e, c) \<Rightarrow> (if err = Ok () then Err (Wrap ''enabling echo and input buffering'' e) else err, c)
      | (Ok _, c) \<Rightarrow> (err, c)
      | r \<Rightarrow> r)"

definition shell_SetSessionHandlers :: "('o, 'p) host \<Rightarrow> shell_event list \<Rightarrow> ('o proc, 'p) DataChannel \<Rightarrow>
    unit res \<times> ('o proc, 'p) DataChannel" where
  "shell_SetSessionHandlers H schedule c =
     (let c = upd_shell (\<lambda>s. s\<lparr>shutdown_set := True\<rparr>) c in
      sbind (swrap ''disabling echo and input buffering'' (disableEchoAndInputBuffering H c)) (\<lambda>_ c.
      let (g, c) = run_shell H schedule (shell_start, c) in
      case shell_wait g of
        Ok _ \<Rightarrow> restore_terminal H (Ok ()) c
      | Err e \<Rightarrow> restore_terminal H (Err (Wrap ''waiting for goroutine group'' e)) c
      | r \<Rightarrow> (r, c)))"

end
