(* ===== verification/Host_Demo.thy ===== *)
theory Host_Demo
  imports Session
begin

text \<open>
  A concrete host, for evaluation: standard output and files record what is written, the
  keyboard and every stream hand out the chunks of a list and then end, the terminal has two
  settings, and every other call succeeds.
\<close>

record demo_os =
  os_net :: demo_world
  os_out :: bytes
  os_tty :: "bool \<times> bool"
  os_keys :: "bytes list"
  os_files :: "(handle \<times> bytes) list"

definition demo_os_start :: demo_os where
  "demo_os_start = \<lparr>os_net = demo_start, os_out = [], os_tty = (True, False), os_keys = [], os_files = []\<rparr>"

text \<open>The settings of the terminal: echo and cbreak mode.\<close>

definition tty_enc :: "bool \<times> bool \<Rightarrow> string" where
  "tty_enc t = (if fst t then ''E'' else ''e'') @ (if snd t then ''C'' else ''c'')"

definition tty_dec :: "string \<Rightarrow> bool \<times> bool" where
  "tty_dec s = (s ! 0 = CHR ''E'', s ! 1 = CHR ''C'')"

lemma tty_dec_enc [simp]: "tty_dec (tty_enc t) = t"
  by (cases t) (simp add: tty_dec_def tty_enc_def)

definition demo_stty :: "string \<Rightarrow> demo_os \<Rightarrow> (string \<times> unit res) \<times> demo_os" where
  "demo_stty s w =
     (if s = ''-g'' then ((tty_enc (os_tty w), Ok ()), w)
      else ((''ok'', Ok ()), w\<lparr>os_tty :=
        (if s = ''cbreak'' then (fst (os_tty w), True)
         else if s = ''-echo'' then (False, snd (os_tty w))
         else if s = ''echo'' then (True, snd (os_tty w))
         else tty_dec s)\<rparr>))"

definition demo_next :: "demo_os \<Rightarrow> bytes res \<times> demo_os" where
  "demo_next w = (case os_keys w of [] \<Rightarrow> (Err EOF, w) | k # ks \<Rightarrow> (Ok k, w\<lparr>os_keys := ks\<rparr>))"

definition demo_host :: "(demo_os, unit) host" where
  "demo_host =
    \<lparr>base = sys_over os_net (\<lambda>d w. w\<lparr>os_net := d\<rparr>) demo,
     ssm_TerminateSession = (\<lambda>i w. (Ok (), w)),
     ssm_ResumeSession = (\<lambda>i w. (Ok (Some ''token''), w)),
     marshal_SizeData = (\<lambda>d. Ok (be_bytes 4 (unat (Cols d)) @ be_bytes 4 (unat (Rows d)))),
     marshal_Properties = (\<lambda>p. Ok [123, 125]),
     unmarshal_PortParameters = (\<lambda>b. Ok \<lparr>PortNumber = ''80'', LocalPortNumber = [], LocalUnixSocket = [],
       LocalConnectionType = [], pp_Type = ''LocalPortForwarding''\<rparr>),
     stdout_Print = (\<lambda>b w. (Ok (), w\<lparr>os_out := os_out w @ b\<rparr>)),
     term_GetSize = (\<lambda>w. (Ok (80, 24), w)),
     exec_stty = demo_stty,
     bufio_Read = (\<lambda>k. demo_next),
     os_Stdin = 0, os_Stdout = 1, os_TempDir = ''/tmp'',
     os_Remove = (\<lambda>f w. (Ok (), w)),
     io_Read = (\<lambda>h k. demo_next),
     io_Write = (\<lambda>h b w. (Ok (), w\<lparr>os_files := os_files w @ [(h, b)]\<rparr>)),
     io_Close = (\<lambda>h w. (Ok (), w)),
     io_Copy = (\<lambda>d s w. (Ok (), w)),
     net_Listen = (\<lambda>t a w. (Ok 3, w)),
     net_Dial = (\<lambda>t a w. (Ok 4, w)),
     listener_Accept = (\<lambda>h w. (Ok 7, w)),
     listener_Addr = (\<lambda>h. (''unix'', ''socket'')),
     listener_TCPPort = (\<lambda>h. Some 8080),
     smux_Client = (\<lambda>h k w. (Ok 5, w)),
     smux_OpenStream = (\<lambda>h w. (Ok 6, w)),
     smux_Close = (\<lambda>h w. (Ok (), w))\<rparr>"

lemma demo_host_simps [simp]:
  "base demo_host = sys_over os_net (\<lambda>d w. w\<lparr>os_net := d\<rparr>) demo"
  "marshal_Properties demo_host p = Ok [123, 125]"
  "stdout_Print demo_host b w = (Ok (), w\<lparr>os_out := os_out w @ b\<rparr>)"
  "term_GetSize demo_host w = (Ok (80, 24), w)"
  "exec_stty demo_host = demo_stty" "bufio_Read demo_host k = demo_next" "io_Read demo_host h k = demo_next"
  "io_Write demo_host h b w = (Ok (), w\<lparr>os_files := os_files w @ [(h, b)]\<rparr>)"
  "io_Close demo_host h w = (Ok (), w)"
  by (simp_all add: demo_host_def)

lemma sys_over_simps [simp]:
  "uuidp (sys_over g p S) = uuidp S" "json (sys_over g p S) = json S"
  "uuid_New (sys_over g p S) = over g p (uuid_New S)" "uuid_String (sys_over g p S) = uuid_String S"
  "time_Now (sys_over g p S) = over g p (time_Now S)" "time_UnixMilli (sys_over g p S) = over g p (time_UnixMilli S)"
  "time_Sleep (sys_over g p S) d v = p (time_Sleep S d (g v)) v"
  "conn_WriteMessage (sys_over g p S) h t b = over g p (conn_WriteMessage S h t b)"
  "conn_Close (sys_over g p S) h = over g p (conn_Close S h)"
  by (simp_all add: sys_over_def)

text \<open>A connected data channel on this host.\<close>

definition no_port :: PortSession where
  "no_port = \<lparr>ps_portParameters = \<lparr>PortNumber = [], LocalPortNumber = [], LocalUnixSocket = [],
     LocalConnectionType = [], pp_Type = []\<rparr>, portSessionType = None\<rparr>"

definition no_shell :: ShellSession where
  "no_shell = \<lparr>shell_SizeData = \<lparr>Cols = 0, Rows = 0\<rparr>, originalSttyState = [], shutdown_set = False,
     ctx_done = False\<rparr>"

definition demo_proc :: "demo_os proc" where
  "demo_proc = \<lparr>shell = no_shell, port = no_port, outside = demo_os_start\<rparr>"

definition host_channel :: "(demo_os proc, unit) DataChannel" where
  "host_channel = NewDataChannel \<lparr>ws = \<lparr>channelURL = ''wss://host'', isOpen = True, connection = Some 1,
       channelToken = ''token''\<rparr>, world = demo_proc\<rparr> ''client'' ''session'' ''target''"

lemma host_channel_fields [simp]:
  "net host_channel = \<lparr>ws = \<lparr>channelURL = ''wss://host'', isOpen = True, connection = Some 1,
       channelToken = ''token''\<rparr>, world = demo_proc\<rparr>"
  "outputStreamHandlers host_channel = []" "encryptionEnabled host_channel = False"
  "expectedSequenceNumber host_channel = 0" "encryption host_channel = None"
  "streamDataSequenceNumber host_channel = 0" "sessionProperties host_channel = None" "agentVersion host_channel = []"
  "incomingMessageBuffer host_channel = NewMapMessageBuffer IncomingMessageBufferCapacity"
  by (simp_all add: host_channel_def NewDataChannel_def RegisterStopHandler_def RegisterIncomingMessageHandler_def)

lemma host_channel_inv: "dc_inv 0 host_channel"
  unfolding host_channel_def by (rule inv_New)

end
