(* ===== verification/Shell_Props.thy ===== *)
theory Shell_Props
  imports Shell Host_Demo
begin

text \<open>
  The behaviour of a shell session: what the agent sends appears on standard output, completely
  and in order; a closed channel ends the session and leaves the terminal as it was; the size
  of the terminal is sent when it changes; and the windows in which the session crashes or
  leaves the terminal changed.
\<close>

section \<open>What the handlers and the turns leave alone\<close>

lemma net_out_kept [simp]: "net_keeps (about_objects Q) (net_out f)"
  by (simp add: net_keeps_def net_out_def on_world_def Let_def)

lemma DisplayMessage_kept: "net_keeps (about_objects Q) (DisplayMessage H m)"
  using net_out_kept [of Q "stdout_Print H (Payload m)"] by (simp add: net_keeps_def DisplayMessage_def)

lemma shell_handler_kept: "net_keeps (about_objects Q) (shell_ProcessStreamMessagePayload H m)"
  unfolding net_keeps_def shell_ProcessStreamMessagePayload_def
  using DisplayMessage_kept [of Q H m]
  by (auto simp: net_keeps_def intro!: sbind_snd [where P = "\<lambda>n. about_objects Q (world n)"])

text \<open>Properties of the shell object that survive the end of the context and a new size.\<close>

definition stable :: "(ShellSession \<Rightarrow> PortSession \<Rightarrow> bool) \<Rightarrow> bool" where
  "stable Q \<longleftrightarrow> (\<forall>s p z. Q s p \<longrightarrow> Q (s\<lparr>ctx_done := True\<rparr>) p \<and> Q (s\<lparr>shell_SizeData := z\<rparr>) p)"

lemma net_Close_kept: "net_keeps (about_objects Q) (net_Close H)"
  using kept.ws_Close_kept [of Q "base H"] by (simp add: net_keeps_def net_Close_def)

lemma shell_Stop_kept: "stable Q \<Longrightarrow> net_keeps (about_objects Q) (shell_Stop H)"
  unfolding net_keeps_def shell_Stop_def
  using net_Close_kept [of Q H]
  by (auto simp: net_keeps_def stable_def intro!: sbind_snd [where P = "\<lambda>n. about_objects Q (world n)"])

abbreviation shell_inv :: "(ShellSession \<Rightarrow> PortSession \<Rightarrow> bool) \<Rightarrow> ('o proc, 'p) DataChannel \<Rightarrow> bool" where
  "shell_inv Q \<equiv> world_inv (about_objects Q)"

lemma shell_inv_New:
  assumes "set (outputStreamHandlers c) \<subseteq> {FirstMessageHandler}" "stable Q" "Q new_shell (port (proc_of c))"
  shows "shell_inv Q (NewShellSession H c)"
proof -
  have "list_all (handler_keeps (about_objects Q)) (outputStreamHandlers c)"
    using assms(1) by (auto simp: list_all_iff)
  moreover have "net_keeps (about_objects Q) (\<lambda>n. (Ok (), n))" by (simp add: net_keeps_def)
  ultimately show ?thesis
    using assms(2,3)
    by (simp add: NewShellSession_def Let_def kept_inv_def RegisterOutputStreamHandler_def RegisterStopHandler_def
        RegisterIncomingMessageHandler_def shell_Stop_kept shell_handler_kept)
qed

lemma shell_inv_upd_shell:
  "shell_inv Q c \<Longrightarrow> (\<And>s p. Q s p \<Longrightarrow> Q (f s) p) \<Longrightarrow> shell_inv Q (upd_shell f c)"
  by (simp add: upd_shell_def kept_inv_def)

lemma shell_inv_done: "stable Q \<Longrightarrow> shell_inv Q c \<Longrightarrow> shell_inv Q (upd_shell (\<lambda>s. s\<lparr>ctx_done := True\<rparr>) c)"
  by (rule shell_inv_upd_shell) (auto simp: stable_def)

lemma shell_inv_out: "shell_inv Q c \<Longrightarrow> shell_inv Q (snd (on_out f c))"
  unfolding on_out_net by (rule world_inv_on_net) simp_all

lemma shell_inv_send: "shell_inv Q c \<Longrightarrow> shell_inv Q (snd (sess_SendInputDataMessage H pt d c))"
  by (simp add: sess_SendInputDataMessage_def kept.SendInput_kept)

lemma shell_inv_goes_on:
  "shell_inv Q (snd r) \<Longrightarrow> (\<And>c. shell_inv Q c \<Longrightarrow> shell_inv Q (f c)) \<Longrightarrow> shell_inv Q (snd (goes_on f r))"
  by (cases "fst r") (simp_all add: goes_on_def)

lemma shell_inv_resize_to:
  assumes "stable Q" "shell_inv Q c"
  shows "shell_inv Q (snd (resize_to H w h c))"
proof -
  have "shell_inv Q (upd_shell (\<lambda>s. s\<lparr>shell_SizeData := z\<rparr>) c)" for z
    using assms by (intro shell_inv_upd_shell) (auto simp: stable_def)
  then show ?thesis
    using assms(2) by (auto simp: resize_to_def Let_def shell_inv_send intro!: sbind_snd [where P = "shell_inv Q"])
qed

lemma shell_inv_getTerminalSize: "shell_inv Q c \<Longrightarrow> shell_inv Q (snd (getTerminalSize H c))"
  unfolding getTerminalSize_def case_prod_beta
  by (intro sbind_snd [where P = "shell_inv Q"]) (simp_all add: shell_inv_out)

lemma shell_inv_resize:
  assumes "stable Q" "shell_inv Q c"
  shows "shell_inv Q (snd (handleTerminalResize_turn H c))"
proof -
  obtain r d where g: "getTerminalSize H c = (r, d)" by force
  have d: "shell_inv Q d" using shell_inv_getTerminalSize [OF assms(2), of H] g by simp
  show ?thesis
    unfolding handleTerminalResize_turn_def g
    by (cases r) (auto simp: assms(2) d shell_inv_resize_to [OF assms(1) d] kept.sleep_kept intro!: shell_inv_goes_on)
qed

lemma shell_inv_signals: "shell_inv Q c \<Longrightarrow> shell_inv Q (snd (HandleControlSignals_turn H sig c))"
  by (auto simp: HandleControlSignals_turn_def shell_inv_send intro!: shell_inv_goes_on split: option.splits)

lemma shell_inv_keyboard:
  assumes "shell_inv Q c"
  shows "shell_inv Q (snd (keyboard_read H ready c))"
proof -
  obtain r d where g: "ctx_Read H ready StdinBufferLimit c = (r, d)" by force
  have d: "shell_inv Q d"
    using shell_inv_out [OF assms, of "bufio_Read H StdinBufferLimit"] assms g
    by (auto simp: ctx_Read_def split: if_splits)
  show ?thesis
    unfolding keyboard_read_def g
    by (cases r) (auto simp: d shell_inv_send kept.sleep_kept intro!: shell_inv_goes_on)
qed

lemma shell_inv_group_return: "stable Q \<Longrightarrow> shell_inv Q (snd st) \<Longrightarrow> shell_inv Q (snd (group_return r st))"
  by (cases st; cases r) (simp_all add: group_return_def shell_inv_done)

lemma shell_inv_step:
  assumes Q: "stable Q" and c: "shell_inv Q c"
  shows "shell_inv Q (snd (shell_step H e (g, c)))"
proof -
  have s: "shell_inv Q (snd (case t of (None, c) \<Rightarrow> (g1 c, c) | (Some r, c) \<Rightarrow> group_return r (g2 r c, c)))"
    if "shell_inv Q (snd t)" for t :: "('a proc, 'b) DataChannel turn" and g1 g2
    using that by (cases t; cases "fst t") (auto intro!: shell_inv_group_return [OF Q])
  show ?thesis
  proof (cases e)
    case (KeyboardTurn ready)
    have "shell_inv Q (snd (keyboard_top c))" using c by (simp add: keyboard_top_def)
    then show ?thesis
      using s [of "keyboard_top c"] s [OF shell_inv_keyboard [OF c]] c
      by (simp add: KeyboardTurn split: goroutine.split)
  next
    case (Incoming raw)
    then show ?thesis
      using kept.listen_message_kept [OF c, of "base H" raw] c
      by (cases "listen_message (ss H) raw c"; cases "fst (listen_message (ss H) raw c)") simp_all
  qed (use s [OF shell_inv_resize [OF Q c]] s [OF shell_inv_signals [OF c]] c shell_inv_done [OF Q c] in simp_all)
qed

lemma shell_inv_run: "stable Q \<Longrightarrow> shell_inv Q (snd st) \<Longrightarrow> shell_inv Q (snd (run_shell H schedule st))"
proof (induction schedule arbitrary: st)
  case (Cons e es)
  then show ?case using shell_inv_step [OF Cons.prems(1), of "snd st" H e "fst st"] by (simp add: run_shell_def)
qed (simp add: run_shell_def)

section \<open>Output\<close>

text \<open>Standard output takes what is written: \<open>out\<close> observes all of it.\<close>

definition print_ok :: "('o, 'p) host \<Rightarrow> ('o \<Rightarrow> bytes) \<Rightarrow> bool" where
  "print_ok H out \<longleftrightarrow> (\<forall>b w. \<exists>w'. stdout_Print H b w = (Ok (), w') \<and> out w' = out w @ b)"

definition shell_sink :: "('o \<Rightarrow> bytes) \<Rightarrow> ('o proc, byte) sink" where
  "shell_sink out = \<lparr>emit = Payload, obs = (\<lambda>p. out (outside p)), good = (\<lambda>_. True),
     takes = (\<lambda>_. True)\<rparr>"

lemma smooth_lift:
  assumes "smooth S h out"
  shows "smooth (lift_sys S) h (\<lambda>p. f (out (outside p)) (shell p) (port p))"
proof -
  have "\<exists>u w'. via (uuid_New S) p = (Ok u, w') \<and> length u = 16 \<and> u \<noteq> uuid_Nil \<and>
      out (outside w') = out (outside p) \<and> shell w' = shell p \<and> port w' = port p" for p
  proof -
    from assms obtain u w' where u: "uuid_New S (outside p) = (Ok u, w')" "length u = 16" "u \<noteq> uuid_Nil"
      "out w' = out (outside p)" unfolding smooth_def by blast
    from via_eq [of "uuid_New S", OF u(1)] u(2-) show ?thesis by simp
  qed
  moreover have "\<exists>w'. via (conn_WriteMessage S h t b) p = (Ok (), w') \<and> out (outside w') = out (outside p) \<and>
      shell w' = shell p \<and> port w' = port p" for t b p
  proof -
    from assms obtain w' where u: "conn_WriteMessage S h t b (outside p) = (Ok (), w')"
      "out w' = out (outside p)" unfolding smooth_def by blast
    from via_eq [of "conn_WriteMessage S h t b", OF u(1)] u(2-) show ?thesis by simp
  qed
  ultimately show ?thesis using assms unfolding smooth_def by (simp add: smooth_def) metis
qed

lemma shell_takes_all:
  assumes "print_ok H out"
  shows "takes_all (shell_ProcessStreamMessagePayload H) (shell_sink out)"
  unfolding takes_all_def
proof (intro allI impI)
  fix m :: ClientMessage and n :: "'a proc net"
  from assms obtain w' where w: "stdout_Print H (Payload m) (outside (world n)) = (Ok (), w')"
    "out w' = out (outside (world n)) @ Payload m" unfolding print_ok_def by blast
  have "shell_ProcessStreamMessagePayload H m n = (Ok True, n\<lparr>world := (world n)\<lparr>outside := w'\<rparr>\<rparr>)"
    using via_eq [of "stdout_Print H (Payload m)", OF w(1)]
    by (simp add: shell_ProcessStreamMessagePayload_def DisplayMessage_def net_out_def on_world_def logged_def)
  then show "\<exists>w. shell_ProcessStreamMessagePayload H m n = (Ok True, n\<lparr>world := w\<rparr>) \<and>
      obs (shell_sink out) w = obs (shell_sink out) (world n) @ emit (shell_sink out) m \<and> good (shell_sink out) w"
    using w(2) by (auto simp: shell_sink_def)
qed

lemma NewShellSession_fields:
  "ws (net (NewShellSession H c)) = ws (net c)" "outside (proc_of (NewShellSession H c)) = outside (proc_of c)"
  "outputStreamHandlers (NewShellSession H c) =
     outputStreamHandlers c @ [HandlerFunc (shell_ProcessStreamMessagePayload H)]"
  "isSessionSpecificHandlerSet (NewShellSession H c)" "sessionType (NewShellSession H c) = sessionType c"
  "encryption (NewShellSession H c) = encryption c" "encryptionEnabled (NewShellSession H c) = encryptionEnabled c"
  "expectedSequenceNumber (NewShellSession H c) = expectedSequenceNumber c"
  "incomingMessageBuffer (NewShellSession H c) = incomingMessageBuffer c"
  "stopHandler (NewShellSession H c) = shell_Stop H" "shell (proc_of (NewShellSession H c)) = new_shell"
  by (simp_all add: NewShellSession_def Let_def RegisterOutputStreamHandler_def RegisterStopHandler_def
      RegisterIncomingMessageHandler_def)

text \<open>
  C23. A shell session shows what the agent sends.  After \<^verbatim>\<open>NewShellSession\<close> on a
  connected channel (whose own first-message handler may still be registered), let all messages
  of the agent's stream from the expected one up to \<open>N\<close> arrive, in any order and with
  repetitions.  Then standard output has grown by precisely the payloads of these messages, in
  clear and in the agent's order, and nothing else.
\<close>

theorem shell_output_in_order:
  assumes "smooth (base H) h out" "print_ok H out"
    and "isOpen (ws (net c))" "connection (ws (net c)) = Some h"
    and "outputStreamHandlers c = [] \<or> sessionType c \<noteq> [] \<and> outputStreamHandlers c = [FirstMessageHandler]"
    and "agent_stream (ss H) c raw clear" "expectedSequenceNumber c = int st"
    and "incomingMessageBuffer c = NewMapMessageBuffer IncomingMessageBufferCapacity"
    and "set arrivals = {st..<N}" "st \<le> N" "int N < 2 ^ 63"
    and "int N \<le> IncomingMessageBufferCapacity + int st"
  shows "\<exists>c'. receive_all (ss H) (map raw arrivals) (NewShellSession H c) = (Ok (), c') \<and>
    out (outside (proc_of c')) = out (outside (proc_of c)) @ concat (map (\<lambda>i. Payload (clear i)) [st..<N])"
proof -
  let ?c = "NewShellSession H c" and ?k = "shell_sink out" and ?f = "shell_ProcessStreamMessagePayload H"
  have "seen ?k = (\<lambda>p. (out (outside p), True))" by (simp add: seen_def shell_sink_def fun_eq_iff)
  then have sm: "smooth (ss H) h (seen ?k)" using smooth_lift [OF assms(1), of "\<lambda>x s p. (x, True)"] by simp
  have at: "attached h ?f ?c" using assms(3-5) by (auto simp: attached_def NewShellSession_fields)
  have ag: "agent_stream (ss H) ?c raw clear"
    using assms(6) agent_stream_frame [of ?c c "ss H" raw clear] by (simp add: NewShellSession_fields)
  have k: "good ?k (world (net ?c))" "\<forall>i. int i < 2 ^ 63 \<longrightarrow> takes ?k (clear i)"
    by (simp_all add: shell_sink_def)
  have ex: "expectedSequenceNumber ?c = int st"
    "incomingMessageBuffer ?c = NewMapMessageBuffer IncomingMessageBufferCapacity"
    using assms(7,8) by (simp_all add: NewShellSession_fields)
  from deliver_all [OF sm shell_takes_all [OF assms(2)] k at ag ex assms(9-12)]
  obtain c' where "receive_all (ss H) (map raw arrivals) ?c = (Ok (), c')"
    "obs ?k (world (net c')) = obs ?k (world (net ?c)) @ emits ?k clear st N" by blast
  then show ?thesis by (auto simp: shell_sink_def emits_def NewShellSession_fields)
qed

section \<open>The terminal\<close>

text \<open>What \<^verbatim>\<open>stty\<close> does: \<open>tty\<close> observes the settings of the terminal, \<open>enc\<close> is the
  text of settings that \<^verbatim>\<open>stty -g\<close> prints and \<^verbatim>\<open>stty\<close> accepts, and three functions
  are the effects of the other commands.\<close>

definition stty_sets :: "('o, 'p) host \<Rightarrow> ('o \<Rightarrow> 't) \<Rightarrow> string \<Rightarrow> ('t \<Rightarrow> 't) \<Rightarrow> bool" where
  "stty_sets H tty s f \<longleftrightarrow> (\<forall>w. \<exists>out w'. exec_stty H s w = ((out, Ok ()), w') \<and> tty w' = f (tty w))"

definition stty_ok :: "('o, 'p) host \<Rightarrow> ('o \<Rightarrow> 't) \<Rightarrow> ('t \<Rightarrow> string) \<Rightarrow> ('t \<Rightarrow> 't) \<Rightarrow> ('t \<Rightarrow> 't) \<Rightarrow> ('t \<Rightarrow> 't) \<Rightarrow> bool" where
  "stty_ok H tty enc cbreak noecho echo \<longleftrightarrow>
     (\<forall>w. \<exists>w'. exec_stty H ''-g'' w = ((enc (tty w), Ok ()), w') \<and> tty w' = tty w) \<and>
     (\<forall>t. stty_sets H tty (enc t) (\<lambda>_. t)) \<and> stty_sets H tty ''cbreak'' cbreak \<and>
     stty_sets H tty ''-echo'' noecho \<and> stty_sets H tty ''echo'' echo"

text \<open>The handlers of a shell session, as \<^verbatim>\<open>NewShellSession\<close> registers them.\<close>

definition shell_wired :: "('o, 'p) host \<Rightarrow> ('o proc, 'p) DataChannel \<Rightarrow> bool" where
  "shell_wired H c \<longleftrightarrow> stopHandler c = shell_Stop H \<and> incomingMessageHandler c = (\<lambda>b n. (Ok (), n)) \<and>
     set (outputStreamHandlers c) \<subseteq> {FirstMessageHandler, HandlerFunc (shell_ProcessStreamMessagePayload H)}"

lemma shell_wired_New:
  "set (outputStreamHandlers c) \<subseteq> {FirstMessageHandler} \<Longrightarrow> shell_wired H (NewShellSession H c)"
  by (auto simp: shell_wired_def NewShellSession_fields)
    (simp add: NewShellSession_def Let_def RegisterIncomingMessageHandler_def)

lemma shell_wired_net [simp]: "shell_wired H (c\<lparr>net := n\<rparr>) = shell_wired H c"
  by (simp add: shell_wired_def)

lemma shell_wired_inv:
  assumes "shell_wired H c" "stable Q" "about_objects Q (proc_of c)"
  shows "shell_inv Q c"
proof -
  have "list_all (handler_keeps (about_objects Q)) (outputStreamHandlers c)"
    unfolding list_all_iff
  proof
    fix x assume "x \<in> set (outputStreamHandlers c)"
    with assms(1) have "x = FirstMessageHandler \<or> x = HandlerFunc (shell_ProcessStreamMessagePayload H)"
      by (auto simp: shell_wired_def)
    then show "handler_keeps (about_objects Q) x" using shell_handler_kept by auto
  qed
  then show ?thesis
    using assms shell_Stop_kept [OF assms(2), of H] by (simp add: kept_inv_def shell_wired_def net_keeps_def)
qed

abbreviation put_outside :: "'o \<Rightarrow> ('o proc, 'p) DataChannel \<Rightarrow> ('o proc, 'p) DataChannel" where
  "put_outside w c \<equiv> c\<lparr>net := (net c)\<lparr>world := (proc_of c)\<lparr>outside := w\<rparr>\<rparr>\<rparr>"

lemma on_out_eq: "f (outside (proc_of c)) = (r, w) \<Longrightarrow> on_out f c = (r, put_outside w c)"
  using via_eq [of f "proc_of c" r w] by (simp add: on_out_def on_w_eq)

lemma setState_sets:
  assumes "stty_sets H tty s f"
  obtains w where "setState H s c = (Ok (), put_outside w c)" "tty w = f (tty (outside (proc_of c)))"
proof -
  from assms obtain out w where w: "exec_stty H s (outside (proc_of c)) = ((out, Ok ()), w)"
    "tty w = f (tty (outside (proc_of c)))" unfolding stty_sets_def by blast
  show ?thesis using that [of w] w(2) on_out_eq [of "exec_stty H s", OF w(1)] by (simp add: setState_def)
qed

lemma getState_prints:
  assumes "exec_stty H ''-g'' (outside (proc_of c)) = ((out, Ok ()), w)"
  shows "getState H c = (Ok (), upd_shell (\<lambda>s. s\<lparr>originalSttyState := originalSttyState s @ out\<rparr>) (put_outside w c))"
  using on_out_eq [of "exec_stty H ''-g''", OF assms] by (simp add: getState_def)

lemma upd_shell_simps [simp]:
  "shell (proc_of (upd_shell f c)) = f (shell (proc_of c))" "outside (proc_of (upd_shell f c)) = outside (proc_of c)"
  "shell_wired H (upd_shell f c) = shell_wired H c" "ws (net (upd_shell f c)) = ws (net c)"
  "port (proc_of (upd_shell f c)) = port (proc_of c)"
  by (simp_all add: upd_shell_def)

lemma disable_ok:
  assumes "stty_ok H tty enc cbreak noecho echo" "originalSttyState (shell (proc_of c)) = []"
  shows "\<exists>c'. disableEchoAndInputBuffering H c = (Ok (), c') \<and>
    originalSttyState (shell (proc_of c')) = enc (tty (outside (proc_of c))) \<and>
    tty (outside (proc_of c')) = noecho (cbreak (tty (outside (proc_of c)))) \<and> shell_wired H c' = shell_wired H c"
proof -
  have st: "stty_sets H tty ''cbreak'' cbreak" "stty_sets H tty ''-echo'' noecho"
    using assms(1) by (simp_all add: stty_ok_def)
  from assms(1) obtain w where w: "exec_stty H ''-g'' (outside (proc_of c)) = ((enc (tty (outside (proc_of c))), Ok ()), w)"
    "tty w = tty (outside (proc_of c))" unfolding stty_ok_def by blast
  let ?c1 = "upd_shell (\<lambda>s. s\<lparr>originalSttyState := originalSttyState s @ enc (tty (outside (proc_of c)))\<rparr>) (put_outside w c)"
  obtain w1 where w1: "setState H ''cbreak'' ?c1 = (Ok (), put_outside w1 ?c1)" "tty w1 = cbreak (tty (outside (proc_of ?c1)))"
    using setState_sets [OF st(1)] by blast
  obtain w2 where w2: "setState H ''-echo'' (put_outside w1 ?c1) = (Ok (), put_outside w2 (put_outside w1 ?c1))"
    "tty w2 = noecho (tty (outside (proc_of (put_outside w1 ?c1))))"
    using setState_sets [OF st(2)] by blast
  have "disableEchoAndInputBuffering H c = (Ok (), put_outside w2 (put_outside w1 ?c1))"
    using getState_prints [OF w(1)] w1(1) w2(1) by (simp only: disableEchoAndInputBuffering_def swrap_res wrap_err_res sbind_res)
  then show ?thesis using w w1(2) w2(2) assms(2) by simp
qed

lemma enable_ok:
  assumes "stty_ok H tty enc cbreak noecho echo" "originalSttyState (shell (proc_of c)) = enc t"
  shows "\<exists>c'. enableEchoAndInputBuffering H c = (Ok (), c') \<and> tty (outside (proc_of c')) = echo t"
proof -
  have st: "stty_sets H tty (enc t) (\<lambda>_. t)" "stty_sets H tty ''echo'' echo"
    using assms(1) by (simp_all add: stty_ok_def)
  obtain w1 where w1: "setState H (enc t) c = (Ok (), put_outside w1 c)" "tty w1 = t"
    using setState_sets [OF st(1)] by blast
  obtain w2 where w2: "setState H ''echo'' (put_outside w1 c) = (Ok (), put_outside w2 (put_outside w1 c))"
    "tty w2 = echo (tty (outside (proc_of (put_outside w1 c))))"
    using setState_sets [OF st(2)] by blast
  show ?thesis using w1 w2 assms(2) by (simp add: enableEchoAndInputBuffering_def)
qed

text \<open>
  The terminal is restored.  Whatever the goroutines of a shell session do and receive, in
  any order: when \<^verbatim>\<open>SetSessionHandlers\<close> returns, with or without an error, the terminal has
  the settings it had before the session, with echo on, and an error is the first error of a
  goroutine.
\<close>

theorem terminal_restored:
  assumes "stty_ok H tty enc cbreak noecho echo" "set (outputStreamHandlers c) \<subseteq> {FirstMessageHandler}"
    and "shell_SetSessionHandlers H schedule (NewShellSession H c) = (r, c')" "settled r"
  shows "tty (outside (proc_of c')) = echo (tty (outside (proc_of c))) \<and>
    (r = Ok () \<or> (\<exists>e. r = Err (Wrap ''waiting for goroutine group'' e)))"
proof -
  let ?t = "tty (outside (proc_of c))"
  let ?c = "upd_shell (\<lambda>s. s\<lparr>shutdown_set := True\<rparr>) (NewShellSession H c)"
  let ?Q = "\<lambda>s (p :: PortSession). originalSttyState s = enc ?t"
  have "originalSttyState (shell (proc_of ?c)) = []" by (simp add: NewShellSession_fields new_shell_def)
  from disable_ok [OF assms(1) this] obtain d where d: "disableEchoAndInputBuffering H ?c = (Ok (), d)"
    "originalSttyState (shell (proc_of d)) = enc ?t" "shell_wired H d"
    using shell_wired_New [OF assms(2)] by (auto simp: NewShellSession_fields)
  obtain g e where run: "run_shell H schedule (shell_start, d) = (g, e)" by force
  have "stable ?Q" by (simp add: stable_def)
  from shell_inv_run [OF this, of "(shell_start, d)" H schedule] shell_wired_inv [OF d(3) this] d(2)
  have "originalSttyState (shell (proc_of e)) = enc ?t" by (simp add: run kept_inv_def)
  from enable_ok [OF assms(1) this] obtain e' where e': "enableEchoAndInputBuffering H e = (Ok (), e')"
    "tty (outside (proc_of e')) = echo ?t" by blast
  have "shell_SetSessionHandlers H schedule (NewShellSession H c) = (case shell_wait g of Ok _ \<Rightarrow> (Ok (), e')
      | Err x \<Rightarrow> (Err (Wrap ''waiting for goroutine group'' x), e') | x \<Rightarrow> (x, e))"
    using d(1) run e'(1)
    by (cases "shell_wait g") (simp_all add: shell_SetSessionHandlers_def restore_terminal_def)
  with e'(2) assms(3,4) show ?thesis by (cases "shell_wait g") auto
qed

text \<open>
  If the second of the three \<^verbatim>\<open>stty\<close> commands at the start succeeds and the third
  fails, \<^verbatim>\<open>SetSessionHandlers\<close> returns an error and the terminal stays in cbreak mode:
  the deferred call that restores it is registered only afterwards.
\<close>

theorem terminal_left_in_cbreak:
  assumes "\<And>w. \<exists>out w'. exec_stty H ''-g'' w = ((out, Ok ()), w') \<and> tty w' = tty w"
    and "stty_sets H tty ''cbreak'' cbreak"
    and "\<And>w. \<exists>out e w'. exec_stty H ''-echo'' w = ((out, Err e), w') \<and> tty w' = tty w"
  shows "\<exists>e c'. shell_SetSessionHandlers H schedule (NewShellSession H c) = (Err e, c') \<and>
    tty (outside (proc_of c')) = cbreak (tty (outside (proc_of c)))"
proof -
  let ?c = "upd_shell (\<lambda>s. s\<lparr>shutdown_set := True\<rparr>) (NewShellSession H c)"
  from assms(1) [of "outside (proc_of c)"]
  obtain out w where w: "exec_stty H ''-g'' (outside (proc_of ?c)) = ((out, Ok ()), w)"
    "tty w = tty (outside (proc_of c))" by (auto simp: NewShellSession_fields)
  let ?c1 = "upd_shell (\<lambda>s. s\<lparr>originalSttyState := originalSttyState s @ out\<rparr>) (put_outside w ?c)"
  obtain w1 where w1: "setState H ''cbreak'' ?c1 = (Ok (), put_outside w1 ?c1)" "tty w1 = cbreak (tty (outside (proc_of ?c1)))"
    using setState_sets [OF assms(2)] by blast
  from assms(3) obtain out2 e w2 where w2: "exec_stty H ''-echo'' w1 = ((out2, Err e), w2)" "tty w2 = tty w1" by blast
  let ?c2 = "put_outside w1 ?c1"
  have "exec_stty H ''-echo'' (outside (proc_of ?c2)) = ((out2, Err e), w2)" using w2(1) by simp
  from on_out_eq [of "exec_stty H ''-echo''", OF this]
  have "setState H ''-echo'' ?c2 = (Err (Wrap ''setting terminal state'' e), put_outside w2 ?c2)"
    by (simp add: setState_def)
  with getState_prints [OF w(1)] w1(1)
  have "disableEchoAndInputBuffering H ?c =
      (Err (Wrap ''disabling echo'' (Wrap ''setting terminal state'' e)), put_outside w2 ?c2)"
    by (simp only: disableEchoAndInputBuffering_def swrap_res wrap_err_res sbind_res)
  then show ?thesis using w(2) w1(2) w2(2) by (simp add: shell_SetSessionHandlers_def)
qed

section \<open>The end of a session\<close>

text \<open>With a finished context every goroutine ends at its next turn, without a call to the
  outside.\<close>

definition quiet :: "shell_event set" where
  "quiet = {ResizeTurn, SignalTurn None, KeyboardTurn False}"

definition stuck :: "goroutine \<Rightarrow> bool" where
  "stuck g \<longleftrightarrow> g = Returned Panic \<or> g = Returned Blocked"

definition healthy :: "shell_run \<Rightarrow> bool" where
  "healthy g \<longleftrightarrow> g_error g = None \<and> \<not> stuck (g_resize g) \<and> \<not> stuck (g_signals g) \<and>
     \<not> stuck (g_keyboard g) \<and> g_listen g \<noteq> Returned Panic \<and>
     g_resize g \<noteq> InRead \<and> g_signals g \<noteq> InRead"

lemma quiet_step:
  assumes "shell_ctx_done c" "healthy g" "e \<in> quiet"
  shows "\<exists>g'. shell_step H e (g, c) = (g', c) \<and> healthy g' \<and>
    (e = ResizeTurn \<or> is_returned (g_resize g) \<longrightarrow> is_returned (g_resize g')) \<and>
    (e = SignalTurn None \<or> is_returned (g_signals g) \<longrightarrow> is_returned (g_signals g')) \<and>
    (e = KeyboardTurn False \<or> is_returned (g_keyboard g) \<longrightarrow> is_returned (g_keyboard g'))"
  using assms
  by (cases "g_resize g"; cases "g_signals g"; cases "g_keyboard g")
    (auto simp: quiet_def handleTerminalResize_turn_def HandleControlSignals_turn_def keyboard_top_def
      keyboard_read_def ctx_Read_def group_return_def healthy_def stuck_def is_returned_def)

lemma quiet_run:
  assumes "shell_ctx_done c" "healthy g" "set es \<subseteq> quiet"
  shows "\<exists>g'. run_shell H es (g, c) = (g', c) \<and> healthy g' \<and>
    (ResizeTurn \<in> set es \<or> is_returned (g_resize g) \<longrightarrow> is_returned (g_resize g')) \<and>
    (SignalTurn None \<in> set es \<or> is_returned (g_signals g) \<longrightarrow> is_returned (g_signals g')) \<and>
    (KeyboardTurn False \<in> set es \<or> is_returned (g_keyboard g) \<longrightarrow> is_returned (g_keyboard g'))"
  using assms(2,3)
proof (induction es arbitrary: g)
  case (Cons e es)
  have "e \<in> quiet" "set es \<subseteq> quiet" using Cons.prems(2) by auto
  from quiet_step [OF assms(1) Cons.prems(1) this(1), of H] obtain g1 where
    1: "shell_step H e (g, c) = (g1, c)" "healthy g1"
      "e = ResizeTurn \<or> is_returned (g_resize g) \<longrightarrow> is_returned (g_resize g1)"
      "e = SignalTurn None \<or> is_returned (g_signals g) \<longrightarrow> is_returned (g_signals g1)"
      "e = KeyboardTurn False \<or> is_returned (g_keyboard g) \<longrightarrow> is_returned (g_keyboard g1)" by blast
  from Cons.IH [OF 1(2) \<open>set es \<subseteq> quiet\<close>] obtain g' where "run_shell H es (g1, c) = (g', c)" "healthy g'"
      "ResizeTurn \<in> set es \<or> is_returned (g_resize g1) \<longrightarrow> is_returned (g_resize g')"
      "SignalTurn None \<in> set es \<or> is_returned (g_signals g1) \<longrightarrow> is_returned (g_signals g')"
      "KeyboardTurn False \<in> set es \<or> is_returned (g_keyboard g1) \<longrightarrow> is_returned (g_keyboard g')" by blast
  with 1 show ?case by (auto simp: run_shell_def)
qed (simp add: run_shell_def)

lemma healthy_wait:
  "healthy g \<Longrightarrow> is_returned (g_resize g) \<Longrightarrow> is_returned (g_signals g) \<Longrightarrow> is_returned (g_keyboard g) \<Longrightarrow>
    shell_wait g = Ok ()"
  by (auto simp: healthy_def stuck_def shell_wait_def)

text \<open>A message that says that the agent closed the channel, and a connection that can be
  closed.\<close>

definition closing :: "('o, 'p) host \<Rightarrow> bytes \<Rightarrow> bool" where
  "closing H raw \<longleftrightarrow> (\<exists>m x. DeserializeClientMessage (uuidp (base H)) raw = Ok m \<and> Validate m = Ok () \<and>
     MessageType m = ChannelClosedMessage \<and> unmarshal_ChannelClosed (json (base H)) (Payload m) = Ok x)"

definition closable :: "('o, 'p) host \<Rightarrow> 'o proc net \<Rightarrow> bool" where
  "closable H n \<longleftrightarrow> isOpen (ws n) \<longrightarrow>
     (\<exists>h w. connection (ws n) = Some h \<and> conn_Close (base H) h (outside (world n)) = (Ok (), w))"

lemma net_Close_ok:
  assumes "closable H n"
  shows "\<exists>n'. net_Close H n = (Ok (), n') \<and> \<not> isOpen (ws n') \<and> net_objects n' = net_objects n"
proof (cases "isOpen (ws n)")
  case True
  with assms obtain h w where h: "connection (ws n) = Some h" "conn_Close (base H) h (outside (world n)) = (Ok (), w)"
    by (auto simp: closable_def)
  from via_eq [of "conn_Close (base H) h", OF h(2)] True h(1) show ?thesis
    by (simp add: net_Close_def ws_Close_def Let_def CloseConnection_def on_world_def net_objects_def)
qed (simp add: net_Close_def ws_Close_def)

lemma shell_Stop_ok:
  assumes "closable H n"
  shows "\<exists>n'. shell_Stop H n = (if shutdown_set (shell (world n)) then (Ok (), n') else (Panic, n')) \<and>
    \<not> isOpen (ws n') \<and> (shutdown_set (shell (world n)) \<longrightarrow> ctx_done (shell (world n')))"
  using net_Close_ok [OF assms] by (cases "shutdown_set (shell (world n))") (auto simp: shell_Stop_def net_objects_def)

lemma outputMessageHandler_closing:
  assumes "closing H raw"
  shows "outputMessageHandler (ss H) raw c = swrap ''calling stop handler'' (on_net (stopHandler c) c)"
proof -
  from assms obtain m x where "DeserializeClientMessage (uuidp (base H)) raw = Ok m" "Validate m = Ok ()"
    "MessageType m = ChannelClosedMessage" "unmarshal_ChannelClosed (json (base H)) (Payload m) = Ok x"
    unfolding closing_def by blast
  then show ?thesis
    by (simp add: outputMessageHandler_def handleChannelClosedMessage_def DeserializeChannelClosedMessage_def message_types)
qed

text \<open>
  C25. When the agent closes the channel, the shell session ends: after the message is processed
  the connection is closed, and as soon as each of the three goroutines has had one more turn,
  in any order, \<^verbatim>\<open>eg.Wait\<close> returns without an error, nothing having been sent.
\<close>

theorem channel_closed_ends_session:
  assumes "closing H raw" "shell_wired H c" "shutdown_set (shell (proc_of c))" "closable H (net c)"
    and "healthy g" "g_listen g = Running"
    and "set turns = {ResizeTurn, SignalTurn None, KeyboardTurn False}"
  shows "\<exists>g' c'. run_shell H (Incoming raw # turns) (g, c) = (g', c') \<and> shell_wait g' = Ok () \<and>
    \<not> isOpen (ws (net c')) \<and> streamDataSequenceNumber c' = streamDataSequenceNumber c"
proof -
  from shell_Stop_ok [OF assms(4)] assms(3) obtain n where n: "shell_Stop H (net c) = (Ok (), n)"
    "\<not> isOpen (ws n)" "ctx_done (shell (world n))" by auto
  let ?c = "c\<lparr>net := n\<rparr>"
  have w: "stopHandler c = shell_Stop H" "incomingMessageHandler c = (\<lambda>b n. (Ok (), n))"
    using assms(2) by (simp_all add: shell_wired_def)
  have same: "on_net (\<lambda>n. (Ok (), n)) c = (Ok (), c)" by (simp add: on_net_def)
  have "listen_message (ss H) raw c = (None, ?c)"
    using outputMessageHandler_closing [OF assms(1), of c] n(1)
    by (simp add: listen_message_def w same) (simp add: on_net_def)
  then have 1: "shell_step H (Incoming raw) (g, c) = (g, ?c)" using assms(6) by simp
  have "shell_ctx_done ?c" "set turns \<subseteq> quiet" using n(3) assms(7) by (simp_all add: shell_ctx_done_def quiet_def)
  from quiet_run [OF this(1) assms(5) this(2), of H] obtain g' where "run_shell H turns (g, ?c) = (g', ?c)" "healthy g'"
    "is_returned (g_resize g')" "is_returned (g_signals g')" "is_returned (g_keyboard g')"
    using assms(7) by auto
  with 1 healthy_wait n(2) show ?thesis by (simp add: run_shell_def)
qed

text \<open>
  \<^verbatim>\<open>NewShellSession\<close> registers \<^verbatim>\<open>Stop\<close> before \<^verbatim>\<open>SetSessionHandlers\<close> has
  set \<^verbatim>\<open>shutdown\<close>: if the agent closes the channel in between, the listening goroutine
  calls a nil function and the program panics.
\<close>

theorem early_close_panics:
  assumes "closing H raw" "closable H (net c)"
  shows "fst (outputMessageHandler (ss H) raw (NewShellSession H c)) = Panic"
proof -
  let ?c = "NewShellSession H c"
  have "closable H (net ?c)" using assms(2) by (simp add: closable_def NewShellSession_fields)
  from shell_Stop_ok [OF this] have "fst (shell_Stop H (net ?c)) = Panic"
    by (auto simp: NewShellSession_fields new_shell_def)
  then show ?thesis
    using outputMessageHandler_closing [OF assms(1), of ?c] by (simp add: NewShellSession_fields on_net_def Let_def)
qed

section \<open>Witnesses\<close>

lemma demo_host_smooth: "smooth (base demo_host) 1 os_out"
  by (simp add: smooth_def over_def Let_def demo_simps uuid_plain_ok json_toy_def is_i64_def len_def
      flip: length_greater_0_conv)

lemma demo_print_ok: "print_ok demo_host os_out"
  by (simp add: print_ok_def)

lemma host_stream: "agent_stream (ss demo_host) host_channel (\<lambda>i. wire_message (demo_out i)) demo_clear"
  using demo_stream by (simp add: agent_stream_def plain_def decrypts_def shell_fields demo_simps)

theorem shell_output_in_order_witness:
  "\<exists>c'. receive_all (ss demo_host) (map (\<lambda>i. wire_message (demo_out i)) [1, 0, 1])
       (NewShellSession demo_host host_channel) = (Ok (), c') \<and>
     os_out (outside (proc_of c')) = [104, 105, 104, 105]"
proof -
  have "isOpen (ws (net host_channel))" "connection (ws (net host_channel)) = Some 1"
    "outputStreamHandlers host_channel = [] \<or>
      sessionType host_channel \<noteq> [] \<and> outputStreamHandlers host_channel = [FirstMessageHandler]"
    "expectedSequenceNumber host_channel = int 0" "set [1, 0, 1] = {0..<(2 :: nat)}"
    "(0 :: nat) \<le> 2" "int 2 < 2 ^ 63" "int 2 \<le> IncomingMessageBufferCapacity + int 0"
    by (auto simp: IncomingMessageBufferCapacity_def)
  from shell_output_in_order [OF demo_host_smooth demo_print_ok this(1-3) host_stream this(4) host_channel_fields(9)
      this(5-)]
  show ?thesis
    by (auto simp: demo_proc_def demo_os_start_def upt_rec numeral_2_eq_2 demo_clear_def demo_out_def)
qed

lemma demo_stty_ok:
  "stty_ok demo_host os_tty tty_enc (\<lambda>t. (fst t, True)) (\<lambda>t. (False, snd t)) (\<lambda>t. (True, snd t))"
proof -
  have "tty_enc t \<noteq> ''-g''" "tty_enc t \<noteq> ''cbreak''" "tty_enc t \<noteq> ''-echo''" "tty_enc t \<noteq> ''echo''" for t
    by (simp_all add: tty_enc_def)
  then show ?thesis by (simp add: stty_ok_def stty_sets_def demo_stty_def)
qed

definition short_schedule :: "shell_event list" where
  "short_schedule = [ParentDone, SignalTurn None, ResizeTurn, KeyboardTurn False]"

lemma demo_shell_returns:
  "\<exists>c'. shell_SetSessionHandlers demo_host short_schedule (NewShellSession demo_host c) = (Ok (), c')"
proof -
  let ?c = "NewShellSession demo_host c"
  obtain d where d: "disableEchoAndInputBuffering demo_host (upd_shell (\<lambda>s. s\<lparr>shutdown_set := True\<rparr>) ?c) = (Ok (), d)"
    using disable_ok [OF demo_stty_ok] by (force simp: NewShellSession_fields new_shell_def)
  have "shell_wait (fst (run_shell demo_host short_schedule (shell_start, d))) = Ok ()"
    by (simp add: run_shell_def short_schedule_def shell_start_def HandleControlSignals_turn_def shell_ctx_done_def
        handleTerminalResize_turn_def keyboard_top_def group_return_def shell_wait_def is_returned_def)
  moreover obtain g e where "run_shell demo_host short_schedule (shell_start, d) = (g, e)" by force
  moreover obtain x e' where "enableEchoAndInputBuffering demo_host e = (Ok x, e')"
    by (force simp: enableEchoAndInputBuffering_def setState_def case_prod_beta demo_stty_def on_out_def on_w_eq via_def' Let_def)
  ultimately show ?thesis
    using d by (simp add: shell_SetSessionHandlers_def restore_terminal_def)
qed

theorem terminal_restored_witness:
  "\<exists>c'. shell_SetSessionHandlers demo_host short_schedule (NewShellSession demo_host host_channel) = (Ok (), c') \<and>
     os_tty (outside (proc_of c')) = (True, False)"
proof -
  have "set (outputStreamHandlers host_channel) \<subseteq> {FirstMessageHandler}" by simp
  from demo_shell_returns [of host_channel] terminal_restored [OF demo_stty_ok this]
  show ?thesis by (force simp: demo_proc_def demo_os_start_def)
qed

text \<open>A terminal that does not know \<^verbatim>\<open>-echo\<close>.\<close>

definition poor_host :: "(demo_os, unit) host" where
  "poor_host = demo_host\<lparr>exec_stty := (\<lambda>s w. if s = ''-echo'' then (([], Err (External 1)), w) else demo_stty s w)\<rparr>"

theorem terminal_left_in_cbreak_witness:
  "\<exists>e c'. shell_SetSessionHandlers poor_host [] (NewShellSession poor_host host_channel) = (Err e, c') \<and>
     os_tty (outside (proc_of c')) = (True, True)"
proof -
  have g: "\<And>w. \<exists>out w'. exec_stty poor_host ''-g'' w = ((out, Ok ()), w') \<and> os_tty w' = os_tty w"
    and c: "stty_sets poor_host os_tty ''cbreak'' (\<lambda>t. (fst t, True))"
    and e: "\<And>w. \<exists>out e w'. exec_stty poor_host ''-echo'' w = ((out, Err e), w') \<and> os_tty w' = os_tty w"
    by (simp_all add: poor_host_def demo_stty_def stty_sets_def)
  from terminal_left_in_cbreak [OF g c e, of "[]" host_channel] show ?thesis
    by (auto simp: demo_proc_def demo_os_start_def)
qed

text \<open>A host whose JSON package knows the message that closes the channel.\<close>

definition closing_host :: "(demo_os, unit) host" where
  "closing_host = demo_host\<lparr>base := (base demo_host)\<lparr>json := json_toy\<lparr>unmarshal_ChannelClosed := (\<lambda>b. Ok
     \<lparr>cc_MessageID = [], cc_CreatedDate = [], cc_DestinationID = [], cc_SessionID = [], cc_MessageType = [],
      cc_SchemaVersion = 1, cc_Output = []\<rparr>)\<rparr>\<rparr>\<rparr>"

lemma closing_host_simps:
  "uuidp (base closing_host) = uuid_plain"
  "\<exists>x. unmarshal_ChannelClosed (json (base closing_host)) b = Ok x"
  "conn_Close (base closing_host) h w = (Ok (), w)"
  by (simp_all add: closing_host_def demo_simps over_def)

definition demo_close :: ClientMessage where
  "demo_close = example_msg\<lparr>MessageType := ChannelClosedMessage\<rparr>"

lemma demo_closing: "closing closing_host (wire_message demo_close)"
proof -
  have ok: "wf_msg demo_close" "serializable demo_close" "wire_string (MessageType demo_close)"
    by (simp_all add: demo_close_def example_msg_def wf_msg_def serializable_def is_i64_def len_def message_types
        payload_types wire_string_def graphic_def byte_of_char_def)
  have "DeserializeClientMessage uuid_plain (wire_message demo_close) = Ok (demo_close\<lparr>HeaderLength := 116,
      PayloadDigest := sha256 (Payload demo_close), PayloadLength := of_nat (length (Payload demo_close))\<rparr>)"
    using Deserialize_wire [OF uuid_plain_ok ok] by simp
  moreover have "Validate (demo_close\<lparr>HeaderLength := 116,
      PayloadDigest := sha256 (Payload demo_close), PayloadLength := of_nat (length (Payload demo_close))\<rparr>) = Ok ()"
    by (simp add: Validate_def demo_close_def example_msg_def message_types)
  ultimately show ?thesis
    using closing_host_simps(2) [of "Payload demo_close"]
    by (simp add: closing_def closing_host_simps) (simp add: demo_close_def)
qed

lemma demo_closable: "closable closing_host (net host_channel)"
  by (simp add: closable_def closing_host_simps)

theorem early_close_panics_witness:
  "fst (outputMessageHandler (ss closing_host) (wire_message demo_close)
     (NewShellSession closing_host host_channel)) = Panic"
  by (rule early_close_panics [OF demo_closing demo_closable])

theorem channel_closed_ends_session_witness:
  "\<exists>g' c'. run_shell closing_host [Incoming (wire_message demo_close), KeyboardTurn False, ResizeTurn, SignalTurn None]
       (shell_start, upd_shell (\<lambda>s. s\<lparr>shutdown_set := True\<rparr>) (NewShellSession closing_host host_channel)) = (g', c') \<and>
     shell_wait g' = Ok () \<and> \<not> isOpen (ws (net c'))"
proof -
  let ?c = "upd_shell (\<lambda>s. s\<lparr>shutdown_set := True\<rparr>) (NewShellSession closing_host host_channel)"
  have w: "shell_wired closing_host ?c" using shell_wired_New [of host_channel closing_host] by simp
  have s: "shutdown_set (shell (proc_of ?c))" by simp
  have k: "closable closing_host (net ?c)"
    using demo_closable by (simp add: closable_def NewShellSession_fields)
  have g: "healthy shell_start" "g_listen shell_start = Running"
    by (simp_all add: shell_start_def healthy_def stuck_def)
  have t: "set [KeyboardTurn False, ResizeTurn, SignalTurn None] = {ResizeTurn, SignalTurn None, KeyboardTurn False}" by auto
  show ?thesis using channel_closed_ends_session [OF demo_closing w s k g t] by auto
qed

end
