(* ===== verification/Mux.thy ===== *)
theory Mux
  imports Session
begin

text \<open>
  \<^verbatim>\<open>src/session/portsession/muxportforwarding.go\<close>: port forwarding over a multiplexed
  connection.  An operation acts on the Go struct and on the outside; those that use the
  session act on the data channel.  The package \<^verbatim>\<open>xtaci/smux\<close> is a part of the host.
\<close>

type_synonym 'o mux_state = "MuxPortForwarding \<times> 'o"

text \<open>A call to the outside from a method of an object.\<close>

definition calling :: "('o \<Rightarrow> 'a \<times> 'o) \<Rightarrow> 'x \<times> 'o \<Rightarrow> 'a \<times> ('x \<times> 'o)" where
  "calling f st = (let r = f (snd st) in (fst r, (fst st, snd r)))"

definition NewMuxPortForwarding :: "string \<Rightarrow> PortParameters \<Rightarrow> MuxPortForwarding" where
  "NewMuxPortForwarding sid portParameters =
     \<lparr>mpf_sessionID = sid, socketFile = [], mpf_portParameters = portParameters, muxClient = None, mgsConn = None\<rparr>"

section \<open>The socket file\<close>

text \<open>\<^verbatim>\<open>hash/fnv\<close>, \<^verbatim>\<open>New32a\<close>.\<close>

definition fnv32a_step :: "uint32 \<Rightarrow> byte \<Rightarrow> uint32" where
  "fnv32a_step hash b = (hash XOR ucast b) * 16777619"

definition fnv32a :: "bytes \<Rightarrow> uint32" where
  "fnv32a bs = foldl fnv32a_step 2166136261 bs"

definition getUnixSocketPath :: "string \<Rightarrow> string \<Rightarrow> string \<Rightarrow> string" where
  "getUnixSocketPath sid dir suffix =
     filepath_Join dir (dec_nat (unat (fnv32a (str_bytes sid))) @ ''_'' @ suffix)"

definition cleanUp :: "('o, 'p) host \<Rightarrow> 'o mux_state \<Rightarrow> unit res \<times> 'o mux_state" where
  "cleanUp H st =
     (case calling (os_Remove H (socketFile (fst st))) st of
        (Err e, st) \<Rightarrow> (if errors_Is e ErrNotExist then Ok () else Err (Wrap ''removing socket file'' e), st)
      | r \<Rightarrow> r)"

section \<open>Closing\<close>

definition MgsConn_close :: "('o, 'p) host \<Rightarrow> MgsConn \<Rightarrow> 'o mux_state \<Rightarrow> unit res \<times> 'o mux_state" where
  "MgsConn_close H m st =
     sbind (collect ''closing listener'' (calling (io_Close H (mgs_listener m))) [] st) (\<lambda>errs st.
     sbind (collect ''closing connection'' (calling (io_Close H (mgs_conn m))) errs st) (\<lambda>errs st.
     (joined ''closing MgsConn'' errs, st)))"

text \<open>A method call on a nil \<^verbatim>\<open>net.Conn\<close> panics.\<close>

definition close_conn :: "('o, 'p) host \<Rightarrow> handle option \<Rightarrow> 'x \<times> 'o \<Rightarrow> unit res \<times> ('x \<times> 'o)" where
  "close_conn H conn st = (case conn of None \<Rightarrow> (Panic, st) | Some h \<Rightarrow> calling (io_Close H h) st)"

definition MuxClient_close :: "('o, 'p) host \<Rightarrow> MuxClient \<Rightarrow> 'o mux_state \<Rightarrow> unit res \<times> 'o mux_state" where
  "MuxClient_close H m st =
     sbind (collect ''closing session'' (calling (smux_Close H (muxc_session m))) [] st) (\<lambda>errs st.
     sbind (collect ''closing connection'' (close_conn H (muxc_conn m)) errs st) (\<lambda>errs st.
     (joined ''closing MuxClient'' errs, st)))"

definition mux_Stop :: "('o, 'p) host \<Rightarrow> 'o mux_state \<Rightarrow> unit res \<times> 'o mux_state" where
  "mux_Stop H st =
     sbind (case mgsConn (fst st) of
              None \<Rightarrow> (Ok [], st)
            | Some m \<Rightarrow> collect ''closing MGS connection'' (MgsConn_close H m) [] st) (\<lambda>errs st.
     sbind (case muxClient (fst st) of
              None \<Rightarrow> (Ok errs, st)
            | Some m \<Rightarrow> collect ''closing mux client'' (MuxClient_close H m) errs st) (\<lambda>errs st.
     sbind (collect ''cleaning up'' (cleanUp H) errs st) (\<lambda>errs st.
     (joined ''stopping mux port forwarding'' errs, st))))"

section \<open>Initialization\<close>

text \<open>The two goroutines of \<^verbatim>\<open>initialize\<close>.  An error of the version test is logged, the
  test then counts as failed.\<close>

definition accept_mgs :: "('o, 'p) host \<Rightarrow> handle \<Rightarrow> 'o mux_state \<Rightarrow> unit res \<times> 'o mux_state" where
  "accept_mgs H listener st =
     sbind (swrap ''accepting connection'' (calling (listener_Accept H listener) st)) (\<lambda>conn (p, w).
     (Ok (), (p\<lparr>mgsConn := Some \<lparr>mgs_listener = listener, mgs_conn = conn\<rparr>\<rparr>, w)))"

definition dial_mux :: "('o, 'p) host \<Rightarrow> string \<Rightarrow> handle \<Rightarrow> 'o mux_state \<Rightarrow> unit res \<times> 'o mux_state" where
  "dial_mux H agentVer listener st =
     sbind (swrap ''dialing listener''
       (calling (net_Dial H (fst (listener_Addr H listener)) (snd (listener_Addr H listener))) st)) (\<lambda>muxConn st.
     let disableKeepalive = (case DoesAgentSupportDisableSmuxKeepAlive agentVer of Ok b \<Rightarrow> b | _ \<Rightarrow> False) in
     sbind (swrap ''creating smux client'' (calling (smux_Client H muxConn disableKeepalive) st))
       (\<lambda>muxSession (p, w).
     (Ok (), (p\<lparr>muxClient := Some \<lparr>muxc_conn = Some muxConn, muxc_session = muxSession\<rparr>\<rparr>, w))))"

definition mux_initialize :: "('o, 'p) host \<Rightarrow> bool \<Rightarrow> string \<Rightarrow> 'o mux_state \<Rightarrow> unit res \<times> 'o mux_state" where
  "mux_initialize H acceptFirst agentVer st =
     sbind (swrap ''creating new listener'' (calling (NewListener H (socketFile (fst st))) st)) (\<lambda>listener st.
     swrap ''initializing mux port forwarding''
       (if acceptFirst then both (accept_mgs H listener) (dial_mux H agentVer listener) st
        else both (dial_mux H agentVer listener) (accept_mgs H listener) st))"

definition mux_InitializeStreams :: "('o, 'p) host \<Rightarrow> bool \<Rightarrow> string \<Rightarrow> 'o mux_state \<Rightarrow>
    unit res \<times> 'o mux_state" where
  "mux_InitializeStreams H acceptFirst agentVer st =
     (let st = ((fst st)\<lparr>socketFile := getUnixSocketPath (mpf_sessionID (fst st)) (os_TempDir H)
        ''session_manager_plugin_mux.sock''\<rparr>, snd st) in
      case mux_initialize H acceptFirst agentVer st of
        (Err e, st) \<Rightarrow> sbind (logged (cleanUp H st)) (\<lambda>_ st. (Err (Wrap ''initializing streams'' e), st))
      | r \<Rightarrow> r)"

section \<open>Data from the agent\<close>

text \<open>\<^verbatim>\<open>p.muxClient.conn\<close> of a nil \<^verbatim>\<open>muxClient\<close> panics.\<close>

definition mux_IsStreamNotSet :: "'o mux_state \<Rightarrow> bool res \<times> 'o mux_state" where
  "mux_IsStreamNotSet st =
     (case muxClient (fst st) of None \<Rightarrow> Panic | Some m \<Rightarrow> Ok (muxc_conn m = None), st)"

text \<open>\<^verbatim>\<open>binary.Read\<close> of a big-endian \<^verbatim>\<open>uint32\<close>.\<close>

definition read_uint32 :: "bytes \<Rightarrow> uint32 res" where
  "read_uint32 b =
     (if b = [] then Err EOF
      else if length b < 4 then Err ErrUnexpectedEOF
      else Ok (of_nat (be_nat (take 4 b))))"

definition mux_WriteStream :: "('o, 'p) host \<Rightarrow> ClientMessage \<Rightarrow> 'o mux_state \<Rightarrow> unit res \<times> 'o mux_state" where
  "mux_WriteStream H outputMessage st =
     (if PayloadType outputMessage = Output then
        (case mgsConn (fst st) of
           None \<Rightarrow> (Panic, st)
         | Some m \<Rightarrow> swrap ''writing to MGS connection'' (calling (io_Write H (mgs_conn m) (Payload outputMessage)) st))
      else if PayloadType outputMessage = Flag then
        (rbind (wrap_err ''reading flag from buffer'' (read_uint32 (Payload outputMessage)))
          (\<lambda>flag. if flag = ConnectToPortError then Err ErrConnectionFailed else Ok ()), st)
      else (Ok (), st))"

section \<open>Clients\<close>

definition setupUnixListener :: "('o, 'p) host \<Rightarrow> 'o mux_state \<Rightarrow> handle res \<times> 'o mux_state" where
  "setupUnixListener H st =
     swrap ''listening on unix socket''
       (calling (net_Listen H (LocalConnectionType (mpf_portParameters (fst st)))
          (LocalUnixSocket (mpf_portParameters (fst st)))) st)"

definition setupTCPListener :: "('o, 'p) host \<Rightarrow> 'o mux_state \<Rightarrow> handle res \<times> 'o mux_state" where
  "setupTCPListener H st =
     (let localPortNumber =
        (if LocalPortNumber (mpf_portParameters (fst st)) = [] then ''0''
         else LocalPortNumber (mpf_portParameters (fst st))) in
      sbind (swrap ''listening on TCP port''
        (calling (net_Listen H ''tcp'' (''localhost:'' @ localPortNumber)) st)) (\<lambda>listener (p, w).
      case listener_TCPPort H listener of
        None \<Rightarrow> (Err ErrNotTCPListener, (p, w))
      | Some n \<Rightarrow>
          (Ok listener, (p\<lparr>mpf_portParameters := (mpf_portParameters p)\<lparr>LocalPortNumber := Itoa n\<rparr>\<rparr>, w))))"

text \<open>One direction of \<^verbatim>\<open>handleDataTransfer\<close>, and both.\<close>

definition transfer :: "('o, 'p) host \<Rightarrow> string \<Rightarrow> string \<Rightarrow> handle \<Rightarrow> handle \<Rightarrow> 'o \<Rightarrow> unit res \<times> 'o" where
  "transfer H copying closing dst src w =
     (let (r, w) = io_Copy H dst src w in
      sbind (case r of
               Err e \<Rightarrow> if errors_Is e EOF \<or> errors_Is e ErrClosedPipe then Ok () else Err (Wrap copying e)
             | r \<Rightarrow> r, w) (\<lambda>_ w.
      let (r, w) = io_Close H dst w in
      (case r of Err e \<Rightarrow> if errors_Is e EOF then Ok () else Err (Wrap closing e) | r \<Rightarrow> r, w)))"

definition handleDataTransfer :: "('o, 'p) host \<Rightarrow> bool \<Rightarrow> handle \<Rightarrow> handle \<Rightarrow> 'o \<Rightarrow> unit res \<times> 'o" where
  "handleDataTransfer H outFirst dst src w =
     (let out = transfer H ''copying from src to dst'' ''closing dst'' dst src;
          back = transfer H ''copying from dst to src'' ''closing src'' src dst in
      swrap ''waiting for goroutine group'' (if outFirst then both out back w else both back out w))"

definition mux_acceptConnection :: "('o, 'p) host \<Rightarrow> bool \<Rightarrow> handle \<Rightarrow> 'o mux_state \<Rightarrow> unit res \<times> 'o mux_state" where
  "mux_acceptConnection H outFirst conn st =
     (case muxClient (fst st) of
        None \<Rightarrow> (Panic, st)
      | Some m \<Rightarrow>
          sbind (swrap ''opening stream'' (calling (smux_OpenStream H (muxc_session m)) st)) (\<lambda>stream st.
          calling (handleDataTransfer H outFirst stream conn) st))"

text \<open>One turn of \<^verbatim>\<open>serve\<close>: the accepted connection is handed to a goroutine that runs
  \<open>mux_acceptConnection\<close>.\<close>

definition serve_turn :: "('o, 'p) host \<Rightarrow> handle \<Rightarrow> 'o mux_state \<Rightarrow> (handle res) \<times> 'o mux_state" where
  "serve_turn H listener st = swrap ''accepting connection'' (calling (listener_Accept H listener) st)"

text \<open>The beginning of \<^verbatim>\<open>handleClientConnections\<close>.\<close>

definition setup_listener :: "('o, 'p) host \<Rightarrow> 'o mux_state \<Rightarrow> handle res \<times> 'o mux_state" where
  "setup_listener H st =
     (if LocalConnectionType (mpf_portParameters (fst st)) = ''unix'' then setupUnixListener H st
      else setupTCPListener H st)"

section \<open>With the session\<close>

definition on_mux :: "('o mux_state \<Rightarrow> 'a res \<times> 'o mux_state) \<Rightarrow> 'o proc net \<Rightarrow> 'a res \<times> 'o proc net" where
  "on_mux f n =
     (case portSessionType (port (world n)) of
        Some (Mux p) \<Rightarrow>
          (let (r, (p, w)) = f (p, outside (world n)) in
           (r, n\<lparr>world := (world n)\<lparr>port := (port (world n))\<lparr>portSessionType := Some (Mux p)\<rparr>, outside := w\<rparr>\<rparr>))
      | _ \<Rightarrow> (Panic, n))"

definition mux_HandleControlSignals_turn :: "('o, 'p) host \<Rightarrow> bool \<Rightarrow> bool \<Rightarrow> ('o proc, 'p) DataChannel \<Rightarrow>
    ('o proc, 'p) DataChannel turn" where
  "mux_HandleControlSignals_turn H ctxDone signalled c =
     (if signalled then
        map_prod Some id
          (sbind (swrap ''sending TerminateSession flag'' (sess_SendFlag H TerminateSession c)) (\<lambda>_ c.
           swrap ''stopping session'' (on_net (on_mux (mux_Stop H)) c)))
      else if ctxDone then (Some (Ok ()), c)
      else (None, c))"

definition transferDataToServer_turn :: "('o, 'p) host \<Rightarrow> bool \<Rightarrow> ('o proc, 'p) DataChannel \<Rightarrow>
    ('o proc, 'p) DataChannel turn" where
  "transferDataToServer_turn H ctxDone c =
     (if ctxDone then (Some (Err (Wrap ''context cancelled'' Canceled)), c)
      else
        (case portSessionType (port (proc_of c)) of
           Some (Mux p) \<Rightarrow>
             (case mgsConn p of
                None \<Rightarrow> (Some Panic, c)
              | Some m \<Rightarrow>
                  (case on_out (io_Read H (mgs_conn m) StreamDataPayloadSize) c of
                     (Err e, c) \<Rightarrow>
                       (Some (Err (if errors_Is e EOF then Wrap ''connection closed'' e
                                   else Wrap ''reading from MGS connection'' e)), c)
                   | (Ok msg, c) \<Rightarrow>
                       goes_on (dc_sleep (ss H) Millisecond)
                         (swrap ''sending input data message'' (sess_SendInputDataMessage H Output msg c))
                   | (Panic, c) \<Rightarrow> (Some Panic, c)
                   | (Blocked, c) \<Rightarrow> (Some Blocked, c)))
         | _ \<Rightarrow> (Some Panic, c)))"

text \<open>\<^verbatim>\<open>ReadStream\<close> waits for two goroutines, \<^verbatim>\<open>transferDataToServer\<close> and
  \<^verbatim>\<open>handleClientConnections\<close>; the first error is the result unless it is the end of a
  stream.\<close>

definition mux_ReadStream_result :: "unit res \<Rightarrow> unit res" where
  "mux_ReadStream_result r =
     (case r of
        Err e \<Rightarrow> if errors_Is e EOF then Ok () else Err (Wrap ''waiting for goroutine group'' e)
      | r \<Rightarrow> r)"

end
