(* ===== verification/Jsonutil.thy ===== *)
theory Jsonutil
  imports Prelude
begin

text \<open>
  \<^verbatim>\<open>src/jsonutil/jsonutil.go\<close>.  \<^verbatim>\<open>encoding/json\<close> works by reflection on the type of
  its argument; its functions are parameters here, for the type at hand, as is reading a file.
\<close>

definition jsonFormat :: string where "jsonFormat = ''  ''"

definition Indent :: "(bytes \<Rightarrow> string \<Rightarrow> string \<Rightarrow> bytes res) \<Rightarrow> string \<Rightarrow> string res" where
  "Indent json_Indent jsonStr =
     rbind (wrap_err ''indenting JSON'' (json_Indent (str_bytes jsonStr) [] jsonFormat)) (\<lambda>dst. Ok (bytes_str dst))"

definition Remarshal :: "('a \<Rightarrow> bytes res) \<Rightarrow> (bytes \<Rightarrow> 'b res) \<Rightarrow> 'a \<Rightarrow> 'b res" where
  "Remarshal marshal unmarshal obj =
     rbind (wrap_err ''marshaling object'' (marshal obj)) (\<lambda>b. wrap_err ''unmarshaling object'' (unmarshal b))"

definition Marshal :: "('a \<Rightarrow> bytes res) \<Rightarrow> 'a \<Rightarrow> string res" where
  "Marshal marshal obj =
     rbind (wrap_err ''marshaling object'' (marshal obj)) (\<lambda>resultB. Ok (bytes_str resultB))"

definition UnmarshalFile :: "(string \<Rightarrow> 'o \<Rightarrow> bytes res \<times> 'o) \<Rightarrow> (bytes \<Rightarrow> 'b res) \<Rightarrow> string \<Rightarrow> 'o \<Rightarrow> 'b res \<times> 'o" where
  "UnmarshalFile os_ReadFile unmarshal filePath w =
     sbind (swrap (''reading file '' @ filePath) (os_ReadFile filePath w)) (\<lambda>content w.
     (wrap_err ''unmarshaling file content'' (unmarshal content), w))"

definition Unmarshal :: "(bytes \<Rightarrow> 'b res) \<Rightarrow> string \<Rightarrow> 'b res" where
  "Unmarshal unmarshal jsonContent = wrap_err ''unmarshaling JSON content'' (unmarshal (str_bytes jsonContent))"

definition MarshalIndent :: "('a \<Rightarrow> string \<Rightarrow> string \<Rightarrow> bytes res) \<Rightarrow> 'a \<Rightarrow> string res" where
  "MarshalIndent marshal_indent obj =
     rbind (wrap_err ''marshaling object with indent'' (marshal_indent obj [] jsonFormat)) (\<lambda>b. Ok (bytes_str b))"

text \<open>If the JSON package reads back what it wrote (for the type at hand), so do these
  functions: through a string, through bytes, and through a file that holds what was written; and
  what they add to an error of the package keeps its identity.\<close>

theorem json_roundtrip:
  assumes "marshal x = Ok b" "unmarshal b = Ok x" "os_ReadFile path w = (Ok b, w')"
    and "unmarshal bad = Err e"
  shows "rbind (Marshal marshal x) (Unmarshal unmarshal) = Ok x \<and> Remarshal marshal unmarshal x = Ok x \<and>
    UnmarshalFile os_ReadFile unmarshal path w = (Ok x, w') \<and>
    (\<exists>y. Unmarshal unmarshal (bytes_str bad) = Err y \<and> errors_Is y e)"
  using assms by (simp add: Marshal_def Unmarshal_def Remarshal_def UnmarshalFile_def)

end
