(* ===== verification/Ports.thy ===== *)
theory Ports
  imports Mux Jsonutil
begin

text \<open>
  \<^verbatim>\<open>src/session/portsession\<close>: forwarding of one connection at a time
  (\<^verbatim>\<open>basicportforwarding.go\<close>), of the standard streams
  (\<^verbatim>\<open>standardstreamforwarding.go\<close>), and the port session that chooses among the three
  (\<^verbatim>\<open>portsession.go\<close>).  Every
  method of the basic variant holds the mutex from its first to its last statement.
\<close>

definition LocalPortForwardingType :: string where "LocalPortForwardingType = ''LocalPortForwarding''"

section \<open>One connection at a time\<close>

type_synonym 'o basic_state = "BasicPortForwarding \<times> 'o"

definition NewBasicPortForwarding :: "string \<Rightarrow> PortParameters \<Rightarrow> BasicPortForwarding" where
  "NewBasicPortForwarding sid portParameters =
     \<lparr>bpf_stream = None, bpf_listener = None, bpf_sessionID = sid, bpf_portParameters = portParameters,
      mu = False\<rparr>"

text \<open>\<^verbatim>\<open>p.mu.Lock()\<close> with \<^verbatim>\<open>defer p.mu.Unlock()\<close>: a method that does not return keeps
  the mutex.\<close>

definition unlock :: "'a res \<times> 'o basic_state \<Rightarrow> 'a res \<times> 'o basic_state" where
  "unlock r =
     (case fst r of Blocked \<Rightarrow> r | _ \<Rightarrow> (fst r, ((fst (snd r))\<lparr>mu := False\<rparr>, snd (snd r))))"

definition with_lock :: "('o basic_state \<Rightarrow> 'a res \<times> 'o basic_state) \<Rightarrow> 'o basic_state \<Rightarrow>
    'a res \<times> 'o basic_state" where
  "with_lock f st =
     (if mu (fst st) then (Blocked, st) else unlock (f ((fst st)\<lparr>mu := True\<rparr>, snd st)))"

definition basic_IsStreamNotSet :: "'o basic_state \<Rightarrow> bool res \<times> 'o basic_state" where
  "basic_IsStreamNotSet = with_lock (\<lambda>st. (Ok (bpf_stream (fst st) = None), st))"

definition basic_Stop :: "('o, 'p) host \<Rightarrow> 'o basic_state \<Rightarrow> unit res \<times> 'o basic_state" where
  "basic_Stop H = with_lock (\<lambda>st.
     case bpf_stream (fst st) of
       None \<Rightarrow> (Ok (), st)
     | Some h \<Rightarrow> swrap ''closing stream'' (calling (io_Close H h) st))"

definition startLocalListener :: "('o, 'p) host \<Rightarrow> string \<Rightarrow> 'o basic_state \<Rightarrow> handle res \<times> 'o basic_state" where
  "startLocalListener H portNumber st =
     (let params = bpf_portParameters (fst st) in
      if LocalConnectionType params = ''unix'' then
        calling (net_Listen H (LocalConnectionType params) (LocalUnixSocket params)) st
      else
        sbind (calling (net_Listen H ''tcp'' (''localhost:'' @ portNumber)) st) (\<lambda>listener (p, w).
        case listener_TCPPort H listener of
          None \<Rightarrow> (Err ErrNotTCPListener, (p, w))
        | Some n \<Rightarrow>
            (Ok listener, (p\<lparr>bpf_portParameters := (bpf_portParameters p)\<lparr>LocalPortNumber := Itoa n\<rparr>\<rparr>, w))))"

definition startLocalConn :: "('o, 'p) host \<Rightarrow> 'o basic_state \<Rightarrow> unit res \<times> 'o basic_state" where
  "startLocalConn H st =
     (let localPortNumber =
        (if LocalPortNumber (bpf_portParameters (fst st)) = [] then ''0''
         else LocalPortNumber (bpf_portParameters (fst st))) in
      sbind (swrap ''starting local listener'' (startLocalListener H localPortNumber st)) (\<lambda>listener st.
      sbind (swrap ''accepting connection'' (calling (listener_Accept H listener) st)) (\<lambda>tcpConn (p, w).
      (Ok (), (p\<lparr>bpf_listener := Some listener, bpf_stream := Some tcpConn\<rparr>, w)))))"

definition basic_InitializeStreams :: "('o, 'p) host \<Rightarrow> 'o basic_state \<Rightarrow> unit res \<times> 'o basic_state" where
  "basic_InitializeStreams H = with_lock (startLocalConn H)"

definition basic_WriteStream :: "('o, 'p) host \<Rightarrow> ClientMessage \<Rightarrow> 'o basic_state \<Rightarrow>
    unit res \<times> 'o basic_state" where
  "basic_WriteStream H outputMessage = with_lock (\<lambda>st.
     case bpf_stream (fst st) of
       None \<Rightarrow> (Panic, st)
     | Some h \<Rightarrow> swrap ''writing to stream'' (calling (io_Write H h (Payload outputMessage)) st))"

definition basic_reconnect :: "('o, 'p) host \<Rightarrow> 'o basic_state \<Rightarrow> unit res \<times> 'o basic_state" where
  "basic_reconnect H st =
     sbind (swrap ''closing existing stream'' (close_conn H (bpf_stream (fst st)) st)) (\<lambda>_ st.
     sbind (swrap ''accepting connection''
       (case bpf_listener (fst st) of None \<Rightarrow> (Panic, st) | Some l \<Rightarrow> calling (listener_Accept H l) st))
       (\<lambda>conn (p, w). (Ok (), (p\<lparr>bpf_stream := Some conn\<rparr>, w))))"

definition on_basic :: "('o basic_state \<Rightarrow> 'a res \<times> 'o basic_state) \<Rightarrow> 'o proc net \<Rightarrow> 'a res \<times> 'o proc net" where
  "on_basic f n =
     (case portSessionType (port (world n)) of
        Some (Basic p) \<Rightarrow>
          (let (r, (p, w)) = f (p, outside (world n)) in
           (r, n\<lparr>world := (world n)\<lparr>port := (port (world n))\<lparr>portSessionType := Some (Basic p)\<rparr>, outside := w\<rparr>\<rparr>))
      | _ \<Rightarrow> (Panic, n))"

text \<open>\<^verbatim>\<open>ReadStream\<close>: \<open>basic_ReadStream_lock\<close> is its beginning, \<open>basic_ReadStream_turn\<close>
  one turn of its loop, which runs with the mutex held; the deferred unlock happens when the loop
  ends.\<close>

definition basic_ReadStream_lock :: "('o proc, 'p) DataChannel \<Rightarrow> unit res \<times> ('o proc, 'p) DataChannel" where
  "basic_ReadStream_lock c =
     on_net (on_basic (\<lambda>st. if mu (fst st) then (Blocked, st) else (Ok (), ((fst st)\<lparr>mu := True\<rparr>, snd st)))) c"

definition basic_unlock :: "('o proc, 'p) DataChannel turn \<Rightarrow> ('o proc, 'p) DataChannel turn" where
  "basic_unlock t =
     (case t of
        (None, c) \<Rightarrow> t
      | (Some Blocked, c) \<Rightarrow> t
      | (Some r, c) \<Rightarrow> (Some r, snd (on_net (on_basic (\<lambda>st. (Ok (), ((fst st)\<lparr>mu := False\<rparr>, snd st)))) c)))"

definition basic_read :: "('o, 'p) host \<Rightarrow> ('o proc, 'p) DataChannel \<Rightarrow> ('o proc, 'p) DataChannel turn" where
  "basic_read H c =
     (case portSessionType (port (proc_of c)) of
        Some (Basic p) \<Rightarrow>
          (case bpf_stream p of
             None \<Rightarrow> (Some Panic, c)
           | Some h \<Rightarrow>
               (case on_out (io_Read H h StreamDataPayloadSize) c of
                  (Err e, c) \<Rightarrow>
                    goes_on (\<lambda>c. c)
                      (sbind (swrap ''sending disconnect flag'' (sess_SendFlag H DisconnectToPort c)) (\<lambda>_ c.
                       swrap ''reconnecting'' (on_net (on_basic (basic_reconnect H)) c)))
                | (Ok msg, c) \<Rightarrow>
                    goes_on (dc_sleep (ss H) Millisecond)
                      (swrap ''sending input data message'' (sess_SendInputDataMessage H Output msg c))
                | (Panic, c) \<Rightarrow> (Some Panic, c)
                | (Blocked, c) \<Rightarrow> (Some Blocked, c)))
      | _ \<Rightarrow> (Some Panic, c))"

definition basic_ReadStream_turn :: "('o, 'p) host \<Rightarrow> ('o proc, 'p) DataChannel \<Rightarrow>
    ('o proc, 'p) DataChannel turn" where
  "basic_ReadStream_turn H c = basic_unlock (basic_read H c)"

definition basic_HandleControlSignals_turn :: "('o, 'p) host \<Rightarrow> Session \<Rightarrow> bool \<Rightarrow> bool \<Rightarrow>
    ('o proc, 'p) DataChannel \<Rightarrow> ('o proc, 'p) DataChannel turn" where
  "basic_HandleControlSignals_turn H s ctxDone signalled c =
     (if signalled then
        (let terminateSessionSupported =
           (case DoesAgentSupportTerminateSessionFlag (sess_GetAgentVersion c) of Ok b \<Rightarrow> b | _ \<Rightarrow> False) in
         goes_on (\<lambda>c. c)
           (if terminateSessionSupported then
              sbind (swrap ''sending terminate session flag'' (sess_SendFlag H TerminateSession c)) (\<lambda>_ c.
              swrap ''stopping session'' (on_net (on_basic (basic_Stop H)) c))
            else swrap ''terminating session'' (on_net (sess_TerminateSession H s) c)))
      else if ctxDone then (Some (Ok ()), c)
      else (None, c))"

section \<open>Standard streams\<close>

type_synonym 'o std_state = "StandardStreamForwarding \<times> 'o"

definition NewStandardStreamForwarding :: "PortParameters \<Rightarrow> StandardStreamForwarding" where
  "NewStandardStreamForwarding portParameters =
     \<lparr>inputStream = None, outputStream = None, ssf_portParameters = portParameters\<rparr>"

definition std_IsStreamNotSet :: "'o std_state \<Rightarrow> bool res \<times> 'o std_state" where
  "std_IsStreamNotSet st = (Ok (inputStream (fst st) = None \<or> outputStream (fst st) = None), st)"

text \<open>A method of a nil \<^verbatim>\<open>*os.File\<close> returns \<^verbatim>\<open>os.ErrInvalid\<close>.\<close>

definition on_file :: "handle option \<Rightarrow> (handle \<Rightarrow> 'o \<Rightarrow> 'a res \<times> 'o) \<Rightarrow> 'x \<times> 'o \<Rightarrow> 'a res \<times> ('x \<times> 'o)" where
  "on_file file f st = (case file of None \<Rightarrow> (Err ErrInvalidFile, st) | Some h \<Rightarrow> calling (f h) st)"

definition std_Stop :: "('o, 'p) host \<Rightarrow> 'o std_state \<Rightarrow> unit res \<times> 'o std_state" where
  "std_Stop H st =
     sbind (collect ''closing input stream'' (on_file (inputStream (fst st)) (io_Close H)) [] st) (\<lambda>errs st.
     sbind (collect ''closing output stream'' (on_file (outputStream (fst st)) (io_Close H)) errs st) (\<lambda>errs st.
     (joined ''stopping standard stream forwarding'' errs, st)))"

definition std_InitializeStreams :: "('o, 'p) host \<Rightarrow> 'o std_state \<Rightarrow> unit res \<times> 'o std_state" where
  "std_InitializeStreams H st =
     (Ok (), ((fst st)\<lparr>inputStream := Some (os_Stdin H), outputStream := Some (os_Stdout H)\<rparr>, snd st))"

definition std_WriteStream :: "('o, 'p) host \<Rightarrow> ClientMessage \<Rightarrow> 'o std_state \<Rightarrow> unit res \<times> 'o std_state" where
  "std_WriteStream H outputMessage st =
     swrap ''writing to output stream''
       (on_file (outputStream (fst st)) (\<lambda>h. io_Write H h (Payload outputMessage)) st)"

definition handleReadError :: "go_error \<Rightarrow> unit res" where
  "handleReadError err = (if errors_Is err EOF then Ok () else Err (Wrap ''reading input'' err))"

definition on_std :: "('o std_state \<Rightarrow> 'a res \<times> 'o std_state) \<Rightarrow> 'o proc net \<Rightarrow> 'a res \<times> 'o proc net" where
  "on_std f n =
     (case portSessionType (port (world n)) of
        Some (Standard p) \<Rightarrow>
          (let (r, (p, w)) = f (p, outside (world n)) in
           (r, n\<lparr>world := (world n)\<lparr>port := (port (world n))\<lparr>portSessionType := Some (Standard p)\<rparr>, outside := w\<rparr>\<rparr>))
      | _ \<Rightarrow> (Panic, n))"

definition std_ReadStream_turn :: "('o, 'p) host \<Rightarrow> ('o proc, 'p) DataChannel \<Rightarrow>
    ('o proc, 'p) DataChannel turn" where
  "std_ReadStream_turn H c =
     (case on_net (on_std (\<lambda>st. on_file (inputStream (fst st)) (\<lambda>h. io_Read H h StreamDataPayloadSize) st)) c of
        (Err e, c) \<Rightarrow> (Some (handleReadError e), c)
      | (Ok msg, c) \<Rightarrow>
          goes_on (dc_sleep (ss H) Millisecond)
            (swrap ''sending input data message'' (sess_SendInputDataMessage H Output msg c))
      | (Panic, c) \<Rightarrow> (Some Panic, c)
      | (Blocked, c) \<Rightarrow> (Some Blocked, c))"

definition std_ReadStream :: "('o, 'p) host \<Rightarrow> ('o proc, 'p) DataChannel \<Rightarrow>
    (unit res \<times> ('o proc, 'p) DataChannel) option" where
  "std_ReadStream H c = run_turns (std_ReadStream_turn H) c"

section \<open>The port session\<close>

text \<open>The methods of the interface \<^verbatim>\<open>IPortSession\<close> that handlers call; a method of the nil
  interface panics.\<close>

definition IsStreamNotSet :: "('o, 'p) host \<Rightarrow> 'o proc net \<Rightarrow> bool res \<times> 'o proc net" where
  "IsStreamNotSet H n =
     (case portSessionType (port (world n)) of
        Some (Basic _) \<Rightarrow> on_basic basic_IsStreamNotSet n
      | Some (Mux _) \<Rightarrow> on_mux mux_IsStreamNotSet n
      | Some (Standard _) \<Rightarrow> on_std std_IsStreamNotSet n
      | None \<Rightarrow> (Panic, n))"

definition WriteStream :: "('o, 'p) host \<Rightarrow> ClientMessage \<Rightarrow> 'o proc net \<Rightarrow> unit res \<times> 'o proc net" where
  "WriteStream H m n =
     (case portSessionType (port (world n)) of
        Some (Basic _) \<Rightarrow> on_basic (basic_WriteStream H m) n
      | Some (Mux _) \<Rightarrow> on_mux (mux_WriteStream H m) n
      | Some (Standard _) \<Rightarrow> on_std (std_WriteStream H m) n
      | None \<Rightarrow> (Panic, n))"

definition port_Stop :: "('o, 'p) host \<Rightarrow> 'o proc net \<Rightarrow> unit res \<times> 'o proc net" where
  "port_Stop H n =
     swrap ''stopping port session''
       (case portSessionType (port (world n)) of
          Some (Basic _) \<Rightarrow> on_basic (basic_Stop H) n
        | Some (Mux _) \<Rightarrow> on_mux (mux_Stop H) n
        | Some (Standard _) \<Rightarrow> on_std (std_Stop H) n
        | None \<Rightarrow> (Panic, n))"

definition port_ProcessStreamMessagePayload :: "('o, 'p) host \<Rightarrow> ClientMessage \<Rightarrow> 'o proc net \<Rightarrow>
    bool res \<times> 'o proc net" where
  "port_ProcessStreamMessagePayload H outputMessage n =
     sbind (IsStreamNotSet H n) (\<lambda>notSet n.
     if notSet then (Ok False, n)
     else sbind (swrap ''writing stream'' (WriteStream H outputMessage n)) (\<lambda>_ n. (Ok True, n)))"

text \<open>The handler of incoming messages only logs; but it reads the message.\<close>

definition port_incoming :: "('o, 'p) host \<Rightarrow> bytes \<Rightarrow> 'o proc net \<Rightarrow> unit res \<times> 'o proc net" where
  "port_incoming H input n =
     sbind (IsStreamNotSet H n) (\<lambda>notSet n.
     if \<not> notSet then (Ok (), n)
     else (case DeserializeClientMessage (uuidp (base H)) input of Panic \<Rightarrow> Panic | Blocked \<Rightarrow> Blocked | _ \<Rightarrow> Ok (), n))"

definition choose_port_type :: "string \<Rightarrow> string \<Rightarrow> PortParameters \<Rightarrow> IPortSession" where
  "choose_port_type sid agentVer portParameters =
     (if pp_Type portParameters = LocalPortForwardingType then
        (let muxSupported = (case DoesAgentSupportTCPMultiplexing agentVer of Ok b \<Rightarrow> b | _ \<Rightarrow> False) in
         if muxSupported then Mux (NewMuxPortForwarding sid portParameters)
         else Basic (NewBasicPortForwarding sid portParameters))
      else Standard (NewStandardStreamForwarding portParameters))"

definition NewPortSession :: "('o, 'p) host \<Rightarrow> Session \<Rightarrow> ('o proc, 'p) DataChannel \<Rightarrow>
    unit res \<times> ('o proc, 'p) DataChannel" where
  "NewPortSession H s c =
     sbind (wrap_err ''remarshalling session properties''
       (Remarshal (marshal_Properties H) (unmarshal_PortParameters H) (GetSessionProperties c)), c)
       (\<lambda>portParameters c.
     let c = c\<lparr>net := set_port \<lparr>ps_portParameters = portParameters, portSessionType =
           Some (choose_port_type (GetSessionID s) (sess_GetAgentVersion c) portParameters)\<rparr> (net c)\<rparr>;
         c = sess_RegisterOutputStreamHandler (HandlerFunc (port_ProcessStreamMessagePayload H)) True c;
         c = sess_RegisterStopHandler (port_Stop H) c in
     (Ok (), sess_RegisterIncomingMessageHandler (port_incoming H) c))"

definition port_Name :: string where "port_Name = PortPluginName"

definition InitializeStreams :: "('o, 'p) host \<Rightarrow> bool \<Rightarrow> string \<Rightarrow> 'o proc net \<Rightarrow> unit res \<times> 'o proc net" where
  "InitializeStreams H acceptFirst agentVer n =
     (case portSessionType (port (world n)) of
        Some (Basic _) \<Rightarrow> on_basic (basic_InitializeStreams H) n
      | Some (Mux _) \<Rightarrow> on_mux (mux_InitializeStreams H acceptFirst agentVer) n
      | Some (Standard _) \<Rightarrow> on_std (std_InitializeStreams H) n
      | None \<Rightarrow> (Panic, n))"

text \<open>The goroutine of \<^verbatim>\<open>SetSessionHandlers\<close> that waits for signals.\<close>

definition port_HandleControlSignals_turn :: "('o, 'p) host \<Rightarrow> Session \<Rightarrow> bool \<Rightarrow> bool \<Rightarrow> ('o proc, 'p) DataChannel \<Rightarrow>
    ('o proc, 'p) DataChannel turn" where
  "port_HandleControlSignals_turn H s ctxDone signalled c =
     map_prod (map_option (wrap_err ''handling control signals'')) id
       (case portSessionType (port (proc_of c)) of
          Some (Basic _) \<Rightarrow> basic_HandleControlSignals_turn H s ctxDone signalled c
        | Some (Mux _) \<Rightarrow> mux_HandleControlSignals_turn H ctxDone signalled c
        | Some (Standard _) \<Rightarrow> (Some (Ok ()), c)
        | None \<Rightarrow> (Some Panic, c))"

end
