(* ===== verification/Port_Props.thy ===== *)
theory Port_Props
  imports Ports Shell_Props
begin

text \<open>
  The behaviour of port sessions: what the agent sends reaches the local connection completely
  and in order, what the client writes is sent completely and in order, and two places where the
  session does not work: the basic variant, whose reader never releases the mutex, and the
  multiplexing variant before its streams are initialized.
\<close>

section \<open>The mutex of the basic variant\<close>

definition locked :: "PortSession \<Rightarrow> bool" where
  "locked p \<longleftrightarrow> (\<exists>b. portSessionType p = Some (Basic b) \<and> mu b)"

abbreviation port_locked :: "ShellSession \<Rightarrow> PortSession \<Rightarrow> bool" where
  "port_locked \<equiv> (\<lambda>s p. locked p)"

lemma on_basic_locked:
  assumes "locked (port (world n))"
  shows "fst (on_basic (with_lock f) n) = Blocked" "locked (port (world (snd (on_basic (with_lock f) n))))"
  using assms by (auto simp: locked_def on_basic_def with_lock_def)

lemma locked_IsStreamNotSet:
  assumes "locked (port (world n))"
  shows "fst (IsStreamNotSet H n) = Blocked" "locked (port (world (snd (IsStreamNotSet H n))))"
proof -
  have "IsStreamNotSet H n = on_basic basic_IsStreamNotSet n" using assms by (auto simp: IsStreamNotSet_def locked_def)
  then show "fst (IsStreamNotSet H n) = Blocked" "locked (port (world (snd (IsStreamNotSet H n))))"
    using on_basic_locked [OF assms] by (simp_all add: basic_IsStreamNotSet_def)
qed

lemma sbind_Blocked: "fst r = Blocked \<Longrightarrow> sbind r f = (Blocked, snd r)"
  by (simp add: sbind_def)

lemma locked_handlers:
  assumes "locked (port (world n))"
  shows "fst (port_ProcessStreamMessagePayload H m n) = Blocked" "fst (port_incoming H b n) = Blocked"
    "fst (port_Stop H n) = Blocked"
    "locked (port (world (snd (port_ProcessStreamMessagePayload H m n))))"
    "locked (port (world (snd (port_incoming H b n))))" "locked (port (world (snd (port_Stop H n))))"
proof -
  note i = locked_IsStreamNotSet [OF assms, of H]
  have "port_Stop H n = swrap ''stopping port session'' (on_basic (basic_Stop H) n)"
    using assms by (auto simp: port_Stop_def locked_def)
  then show "fst (port_Stop H n) = Blocked" "locked (port (world (snd (port_Stop H n))))"
    using on_basic_locked [OF assms] by (simp_all add: basic_Stop_def)
  show "fst (port_ProcessStreamMessagePayload H m n) = Blocked" "fst (port_incoming H b n) = Blocked"
    "locked (port (world (snd (port_ProcessStreamMessagePayload H m n))))"
    "locked (port (world (snd (port_incoming H b n))))"
    using i by (simp_all add: port_ProcessStreamMessagePayload_def port_incoming_def sbind_Blocked)
qed

definition port_wired :: "('o, 'p) host \<Rightarrow> ('o proc, 'p) DataChannel \<Rightarrow> bool" where
  "port_wired H c \<longleftrightarrow> stopHandler c = port_Stop H \<and> incomingMessageHandler c = port_incoming H \<and>
     set (outputStreamHandlers c) \<subseteq> {FirstMessageHandler, HandlerFunc (port_ProcessStreamMessagePayload H)}"

abbreviation lock_inv :: "('o proc, 'p) DataChannel \<Rightarrow> bool" where
  "lock_inv \<equiv> world_inv (about_objects port_locked)"

lemmas lock_kept = kept.SendInput_kept [where Q = port_locked] kept.sleep_kept [where Q = port_locked]
  kept.listen_message_kept [where Q = port_locked] kept.SendMessage_kept [where Q = port_locked]

lemmas lock_goes_on = shell_inv_goes_on [where Q = port_locked]

lemma lock_on_w: "lock_inv c \<Longrightarrow> lock_inv (snd (on_w (via f) c))"
  by (intro kept.on_w_kept [where Q = port_locked]) simp_all

lemma port_wired_locked:
  assumes "port_wired H c" "locked (port (proc_of c))"
  shows "lock_inv c"
proof -
  have "list_all (handler_keeps (about_objects port_locked)) (outputStreamHandlers c)"
    unfolding list_all_iff
  proof
    fix x assume "x \<in> set (outputStreamHandlers c)"
    with assms(1) have "x = FirstMessageHandler \<or> x = HandlerFunc (port_ProcessStreamMessagePayload H)"
      by (auto simp: port_wired_def)
    then show "handler_keeps (about_objects port_locked) x" by (auto simp: net_keeps_def locked_handlers)
  qed
  then show ?thesis using assms by (simp add: kept_inv_def port_wired_def net_keeps_def locked_handlers)
qed

lemma lock_reconnect: "net_keeps (about_objects port_locked) (on_basic (basic_reconnect H))"
proof -
  have "mu (fst (snd (basic_reconnect H st)))" if "mu (fst st)" for st
    unfolding basic_reconnect_def using that
    by (intro sbind_snd [where P = "\<lambda>st. mu (fst st)"])
      (auto simp: close_conn_def calling_def Let_def split: option.splits)
  then show ?thesis
    by (fastforce simp: net_keeps_def on_basic_def locked_def case_prod_beta Let_def split: option.splits IPortSession.splits)
qed

lemma lock_inv_read:
  assumes "lock_inv c" "basic_read H c = (x, c')"
  shows "lock_inv c'"
proof (cases "\<exists>p h. portSessionType (port (proc_of c)) = Some (Basic p) \<and> bpf_stream p = Some h")
  case True
  then obtain p h where p: "portSessionType (port (proc_of c)) = Some (Basic p)" "bpf_stream p = Some h" by blast
  obtain r d where r: "on_out (io_Read H h StreamDataPayloadSize) c = (r, d)" by force
  have d: "lock_inv d" using shell_inv_out [OF assms(1), of "io_Read H h StreamDataPayloadSize"] r by simp
  have f: "lock_inv (snd (sess_SendFlag H DisconnectToPort d))"
    by (simp add: sess_SendFlag_def SendFlag_def lock_kept d)
  have e: "lock_inv (snd (sbind (swrap ''sending disconnect flag'' (sess_SendFlag H DisconnectToPort d)) (\<lambda>_ c.
      swrap ''reconnecting'' (on_net (on_basic (basic_reconnect H)) c))))"
    by (intro sbind_snd [where P = lock_inv]) (simp_all add: f world_inv_on_net lock_reconnect)
  have s: "lock_inv (snd (sess_SendInputDataMessage H Output b d))" for b by (rule shell_inv_send [OF d])
  have "lock_inv (snd (basic_read H c))"
    unfolding basic_read_def p option.case IPortSession.case r
    by (cases r) (auto simp: d e s lock_kept intro!: shell_inv_goes_on)
  then show ?thesis using assms(2) by simp
next
  case False
  then have "snd (basic_read H c) = c" by (auto simp: basic_read_def split: option.splits IPortSession.splits)
  then show ?thesis using assms by simp
qed

lemma lock_inv_turn: "lock_inv c \<Longrightarrow> basic_ReadStream_turn H c = (None, c') \<Longrightarrow> lock_inv c'"
  using lock_inv_read [of c H]
  by (cases "basic_read H c") (auto simp: basic_ReadStream_turn_def basic_unlock_def split: option.splits res.splits)

lemma lock_inv_signals:
  assumes "lock_inv c"
  shows "lock_inv (snd (basic_HandleControlSignals_turn H s done sig c))"
proof -
  have stop: "net_keeps (about_objects port_locked) (on_basic (basic_Stop H))"
    using on_basic_locked by (auto simp: net_keeps_def basic_Stop_def)
  have tm: "net_keeps (about_objects port_locked) (sess_TerminateSession H s)"
    using net_out_kept [of port_locked "ssm_TerminateSession H (sess_sessionID s)"]
    by (simp add: sess_TerminateSession_def net_keeps_def)
  have f: "lock_inv (snd (sess_SendFlag H TerminateSession c))"
    by (simp add: sess_SendFlag_def SendFlag_def lock_kept assms)
  have e: "lock_inv (snd (sbind (swrap ''sending terminate session flag'' (sess_SendFlag H TerminateSession c)) (\<lambda>_ c.
      swrap ''stopping session'' (on_net (on_basic (basic_Stop H)) c))))"
    by (intro sbind_snd [where P = lock_inv]) (simp_all add: f world_inv_on_net stop)
  show ?thesis
    by (simp add: basic_HandleControlSignals_turn_def Let_def assms e world_inv_on_net tm lock_goes_on)
qed

lemma lock_inv_resend:
  assumes "lock_inv c"
  shows "lock_inv (snd (resend_round (ss H) c))"
proof -
  let ?c = "snd (on_w (via (time_Now (base H))) (dc_sleep (ss H) ResendSleepInterval c))"
  have d: "lock_inv (dc_sleep (ss H) ResendSleepInterval c)" by (rule lock_kept [OF assms])
  have s: "lock_inv (snd (SendMessage (ss H) b t ?c))" for b t
    by (intro lock_kept lock_on_w d)
  show ?thesis
    unfolding resend_round_def Let_def case_prod_beta lift_sys_simps
    by (auto simp: d s lock_on_w split: option.split res.split)
qed

text \<open>The states of a basic port session while its \<^verbatim>\<open>ReadStream\<close> runs, under any interleaving
  with the data channel's listening and resending goroutines and with control signals.\<close>

inductive reading :: "('o, 'p) host \<Rightarrow> Session \<Rightarrow> ('o proc, 'p) DataChannel \<Rightarrow> bool" for H s where
  start: "port_wired H c \<Longrightarrow> basic_ReadStream_lock c = (Ok (), c') \<Longrightarrow> reading H s c'"
| turn: "reading H s c \<Longrightarrow> basic_ReadStream_turn H c = (None, c') \<Longrightarrow> reading H s c'"
| message: "reading H s c \<Longrightarrow> reading H s (snd (listen_message (ss H) raw c))"
| resend: "reading H s c \<Longrightarrow> reading H s (snd (resend_round (ss H) c))"
| signal: "reading H s c \<Longrightarrow> reading H s (snd (basic_HandleControlSignals_turn H s done sig c))"

lemma lock_taken:
  assumes "port_wired H c" "basic_ReadStream_lock c = (Ok (), c')"
  shows "port_wired H c'" "locked (port (proc_of c'))"
  using assms
  by (auto simp: basic_ReadStream_lock_def on_net_def on_basic_def port_wired_def locked_def Let_def
      split: option.splits IPortSession.splits if_splits)

lemma reading_locked: "reading H s c \<Longrightarrow> lock_inv c"
proof (induction rule: reading.induct)
  case (start c c')
  from lock_taken [OF start] show ?case by (rule port_wired_locked)
qed (simp_all add: lock_inv_turn lock_kept lock_inv_resend lock_inv_signals)

text \<open>The registered handlers stay: only a listening goroutine that handles a message removes
  the first message handler, and it does not get that far.\<close>

definition handlers_of :: "('w, 'p) DataChannel \<Rightarrow> 'w handler list \<times> ('w net \<Rightarrow> unit res \<times> 'w net) \<times>
    (bytes \<Rightarrow> 'w net \<Rightarrow> unit res \<times> 'w net)" where
  "handlers_of c = (outputStreamHandlers c, stopHandler c, incomingMessageHandler c)"

lemma handlers_of_upd [simp]:
  "handlers_of (c\<lparr>net := x\<rparr>) = handlers_of c" "handlers_of (c\<lparr>streamDataSequenceNumber := i\<rparr>) = handlers_of c"
  "handlers_of (c\<lparr>outgoingMessageBuffer := b\<rparr>) = handlers_of c"
  by (simp_all add: handlers_of_def)

lemma handlers_of_only_net: "only_net c c' \<Longrightarrow> handlers_of c' = handlers_of c"
  by (auto simp: only_net_def)

lemmas handlers_of_net [simp] = handlers_of_only_net [OF only_net_on_net] handlers_of_only_net [OF only_net_on_w]
  handlers_of_only_net [OF only_net_SendMessage] handlers_of_only_net [OF only_net_encrypt]
  handlers_of_only_net [OF only_net_sleep] handlers_of_only_net [OF only_net_resend]

lemma handlers_of_SendInput [simp]: "handlers_of (snd (SendInputDataMessage S pt d c)) = handlers_of c"
proof -
  have "handlers_of (snd (record_sent S msg s c)) = handlers_of c" for msg s and c :: "('a, 'b) DataChannel"
    by (simp add: record_sent_def case_prod_beta Let_def sbind_def split: res.splits)
  then show ?thesis
    unfolding SendInputDataMessage_record_sent Let_def case_prod_beta
    by (intro sbind_snd [where P = "\<lambda>x. handlers_of x = handlers_of c"]) (auto split: if_splits)
qed

lemma handlers_of_session [simp]:
  "handlers_of (snd (sess_SendInputDataMessage H pt d c)) = handlers_of c"
  "handlers_of (snd (sess_SendFlag H f c)) = handlers_of c"
  "handlers_of (snd (on_out g c)) = handlers_of c"
  by (simp_all add: sess_SendInputDataMessage_def sess_SendFlag_def SendFlag_def on_out_net)

lemma handlers_of_goes_on:
  "handlers_of (snd r) = x \<Longrightarrow> (\<And>c. handlers_of (f c) = handlers_of c) \<Longrightarrow> handlers_of (snd (goes_on f r)) = x"
  by (cases "fst r") (simp_all add: goes_on_def)

lemma handlers_of_read: "handlers_of (snd (basic_read H c)) = handlers_of c"
proof (cases "\<exists>p h. portSessionType (port (proc_of c)) = Some (Basic p) \<and> bpf_stream p = Some h")
  case True
  then obtain p h where p: "portSessionType (port (proc_of c)) = Some (Basic p)" "bpf_stream p = Some h" by blast
  obtain r d where r: "on_out (io_Read H h StreamDataPayloadSize) c = (r, d)" by force
  have d: "handlers_of d = handlers_of c" using handlers_of_session(3) [of "io_Read H h StreamDataPayloadSize" c] r by simp
  show ?thesis
    unfolding basic_read_def p option.case IPortSession.case r
    by (cases r) (auto simp: d intro!: handlers_of_goes_on sbind_snd [where P = "\<lambda>x. handlers_of x = handlers_of c"])
qed (auto simp: basic_read_def split: option.splits IPortSession.splits)

lemma handlers_of_turn: "basic_ReadStream_turn H c = (None, c') \<Longrightarrow> handlers_of c' = handlers_of c"
  using handlers_of_read [of H c]
  by (cases "basic_read H c") (auto simp: basic_ReadStream_turn_def basic_unlock_def split: option.splits res.splits)

lemma handlers_of_signals: "handlers_of (snd (basic_HandleControlSignals_turn H s done sig c)) = handlers_of c"
  by (auto simp: basic_HandleControlSignals_turn_def Let_def
      intro!: handlers_of_goes_on sbind_snd [where P = "\<lambda>x. handlers_of x = handlers_of c"])

lemma port_wired_handlers: "handlers_of c' = handlers_of c \<Longrightarrow> port_wired H c' = port_wired H c"
  by (auto simp: port_wired_def handlers_of_def)

lemma locked_listen:
  assumes "port_wired H c" "locked (port (proc_of c))"
  shows "fst (listen_message (ss H) raw c) = Some Blocked" "handlers_of (snd (listen_message (ss H) raw c)) = handlers_of c"
proof -
  obtain r d where r: "on_net (incomingMessageHandler c raw) c = (r, d)" by force
  have "r = Blocked" "handlers_of d = handlers_of c"
    using assms(1) locked_handlers(2) [OF assms(2), of H raw] r by (auto simp: on_net_def port_wired_def Let_def)
  then show "fst (listen_message (ss H) raw c) = Some Blocked"
    "handlers_of (snd (listen_message (ss H) raw c)) = handlers_of c" by (simp_all add: listen_message_def r)
qed

lemma reading_wired: "reading H s c \<Longrightarrow> port_wired H c"
proof (induction rule: reading.induct)
  case (start c c')
  from lock_taken(1) [OF start] show ?case .
next
  case (message c raw)
  have "locked (port (proc_of c))" using reading_locked [OF message.hyps] by (simp add: kept_inv_def)
  from port_wired_handlers [OF locked_listen(2) [OF message.IH this, of raw]] message.IH show ?case by simp
qed (simp_all add: port_wired_handlers [OF handlers_of_turn] port_wired_handlers [OF handlers_of_signals]
    port_wired_handlers [OF handlers_of_net(6)])

text \<open>
  C40. The basic port session stops listening.  From the moment \<^verbatim>\<open>ReadStream\<close> has taken the
  mutex, however the goroutines interleave, as long as its loop goes on: the listening goroutine
  blocks at the first message that arrives, whatever it is, nothing of the agent's data is
  written to the client, and \<^verbatim>\<open>Stop\<close> blocks too.
\<close>

theorem basic_reader_blocks_everyone:
  assumes "reading H s c"
  shows "fst (listen_message (ss H) raw c) = Some Blocked \<and>
    fst (port_ProcessStreamMessagePayload H m (net c)) = Blocked \<and> fst (port_Stop H (net c)) = Blocked"
proof -
  have l: "locked (port (world (net c)))" using reading_locked [OF assms] by (simp add: kept_inv_def)
  from locked_listen(1) [OF reading_wired [OF assms] l] locked_handlers [OF l, of H] show ?thesis by simp
qed

section \<open>The multiplexing variant before its streams\<close>

lemma NewPortSession_ok:
  assumes "marshal_Properties H (sessionProperties c) = Ok b" "unmarshal_PortParameters H b = Ok params"
  shows "\<exists>c'. NewPortSession H s c = (Ok (), c') \<and>
    portSessionType (port (proc_of c')) = Some (choose_port_type (sess_sessionID s) (agentVersion c) params) \<and>
    stopHandler c' = port_Stop H \<and> incomingMessageHandler c' = port_incoming H \<and>
    outputStreamHandlers c' = outputStreamHandlers c @ [HandlerFunc (port_ProcessStreamMessagePayload H)] \<and>
    ws (net c') = ws (net c) \<and> outside (proc_of c') = outside (proc_of c)"
  using assms
  by (simp add: NewPortSession_def Remarshal_def GetSessionProperties_def GetSessionID_def sess_GetAgentVersion_def
      RegisterOutputStreamHandler_def RegisterStopHandler_def RegisterIncomingMessageHandler_def)

text \<open>
  A port session that multiplexes (the type is local port forwarding and the agent is new
  enough) registers its handlers before its streams exist, and they look into the client that is
  nil until then: any message that arrives between \<^verbatim>\<open>NewPortSession\<close> and the end of
  \<^verbatim>\<open>InitializeStreams\<close> panics.
\<close>

theorem mux_early_message_panics:
  assumes "marshal_Properties H (sessionProperties c) = Ok b" "unmarshal_PortParameters H b = Ok params"
    and "pp_Type params = LocalPortForwardingType" "DoesAgentSupportTCPMultiplexing (agentVersion c) = Ok True"
  shows "\<exists>c'. NewPortSession H s c = (Ok (), c') \<and> fst (listen_message (ss H) raw c') = Some Panic"
proof -
  from NewPortSession_ok [OF assms(1,2), of s] assms(3,4) obtain c' where
    c': "NewPortSession H s c = (Ok (), c')" "incomingMessageHandler c' = port_incoming H"
      "portSessionType (port (proc_of c')) = Some (Mux (NewMuxPortForwarding (sess_sessionID s) params))"
    by (auto simp: choose_port_type_def)
  have "fst (IsStreamNotSet H (net c')) = Panic"
    using c'(3) by (simp add: IsStreamNotSet_def on_mux_def mux_IsStreamNotSet_def NewMuxPortForwarding_def)
  then have "fst (on_net (incomingMessageHandler c' raw) c') = Panic"
    by (simp add: c'(2) on_net_def port_incoming_def sbind_def Let_def)
  then have "fst (listen_message (ss H) raw c') = Some Panic"
    by (cases "on_net (incomingMessageHandler c' raw) c'") (simp add: listen_message_def)
  with c'(1) show ?thesis by blast
qed

section \<open>Data from the agent\<close>

text \<open>A port session that is ready to write to the handle \<open>hd\<close>: the multiplexing variant to its
  connection with the client side of the multiplexer, the standard variant to its output.\<close>

fun ready_for :: "IPortSession \<Rightarrow> handle \<Rightarrow> bool" where
  "ready_for (Mux p) out =
     (\<exists>m g. muxClient p = Some m \<and> muxc_conn m \<noteq> None \<and> mgsConn p = Some g \<and> mgs_conn g = out)"
| "ready_for (Standard p) out = (inputStream p \<noteq> None \<and> outputStream p = Some out)"
| "ready_for (Basic p) out = False"

definition write_ok :: "('o, 'p) host \<Rightarrow> handle \<Rightarrow> ('o \<Rightarrow> bytes) \<Rightarrow> bool" where
  "write_ok H out obs_out \<longleftrightarrow> (\<forall>b w. \<exists>w'. io_Write H out b w = (Ok (), w') \<and> obs_out w' = obs_out w @ b)"

definition port_sink :: "IPortSession \<Rightarrow> ('o \<Rightarrow> bytes) \<Rightarrow> ('o proc, byte) sink" where
  "port_sink ps obs_out = \<lparr>emit = Payload, obs = (\<lambda>p. obs_out (outside p)),
     good = (\<lambda>p. portSessionType (port p) = Some ps), takes = (\<lambda>m. PayloadType m = Output)\<rparr>"

lemma same_port: "portSessionType p = x \<Longrightarrow> p\<lparr>portSessionType := x\<rparr> = p"
  by (cases p) simp

lemma port_takes_all:
  assumes "write_ok H out obs_out" "ready_for ps out"
  shows "takes_all (port_ProcessStreamMessagePayload H) (port_sink ps obs_out)"
  unfolding takes_all_def
proof (intro allI impI)
  fix m :: ClientMessage and n :: "'a proc net"
  assume "good (port_sink ps obs_out) (world n) \<and> takes (port_sink ps obs_out) m"
  then have p: "portSessionType (port (world n)) = Some ps" "PayloadType m = Output" by (simp_all add: port_sink_def)
  from assms(1) obtain w where w: "io_Write H out (Payload m) (outside (world n)) = (Ok (), w)"
    "obs_out w = obs_out (outside (world n)) @ Payload m" unfolding write_ok_def by blast
  have "port_ProcessStreamMessagePayload H m n = (Ok True, n\<lparr>world := (world n)\<lparr>outside := w\<rparr>\<rparr>)"
    using assms(2) p w(1)
    by (cases ps) (auto simp: port_ProcessStreamMessagePayload_def IsStreamNotSet_def WriteStream_def on_mux_def on_std_def
        mux_IsStreamNotSet_def mux_WriteStream_def std_IsStreamNotSet_def std_WriteStream_def calling_def on_file_def same_port)
  then show "\<exists>w. port_ProcessStreamMessagePayload H m n = (Ok True, n\<lparr>world := w\<rparr>) \<and>
      obs (port_sink ps obs_out) w = obs (port_sink ps obs_out) (world n) @ emit (port_sink ps obs_out) m \<and>
      good (port_sink ps obs_out) w"
    using w(2) p(1) by (auto simp: port_sink_def)
qed


section \<open>Data from the client\<close>

text \<open>Everything the session calls while it forwards input succeeds; \<open>inp\<close> observes the chunks
  that standard input still has, \<open>wire\<close> the messages that went onto the connection.\<close>

definition sending_ok :: "('o, 'p) sys \<Rightarrow> handle \<Rightarrow> ('o \<Rightarrow> bytes list) \<Rightarrow> ('o \<Rightarrow> bytes list) \<Rightarrow> bool" where
  "sending_ok S h inp wire \<longleftrightarrow> uuid_pkg_ok (uuidp S) \<and>
     (\<forall>w. \<exists>u w'. uuid_New S w = (Ok u, w') \<and> length u = 16 \<and> u \<noteq> uuid_Nil \<and> inp w' = inp w \<and> wire w' = wire w) \<and>
     (\<forall>w. \<exists>t w'. time_UnixMilli S w = (t, w') \<and> 0 \<le> t \<and> is_i64 t \<and> inp w' = inp w \<and> wire w' = wire w) \<and>
     (\<forall>w. \<exists>t w'. time_Now S w = (t, w') \<and> inp w' = inp w \<and> wire w' = wire w) \<and>
     (\<forall>d w. inp (time_Sleep S d w) = inp w \<and> wire (time_Sleep S d w) = wire w) \<and>
     (\<forall>b w. \<exists>w'. conn_WriteMessage S h BinaryMessage b w = (Ok (), w') \<and> inp w' = inp w \<and> wire w' = wire w @ [b])"

definition input_ok :: "('o, 'p) host \<Rightarrow> ('o \<Rightarrow> bytes list) \<Rightarrow> ('o \<Rightarrow> bytes list) \<Rightarrow> bool" where
  "input_ok H inp wire \<longleftrightarrow> (\<forall>w. \<exists>w'. wire w' = wire w \<and> inp w' = tl (inp w) \<and>
     io_Read H (os_Stdin H) StreamDataPayloadSize w =
       (case inp w of [] \<Rightarrow> Err EOF | b # bs \<Rightarrow> Ok b, w'))"

lemma send_one:
  assumes ok: "sending_ok (base H) h inp wire" and inv: "dc_inv n c" "n + 1 < 2 ^ 63"
    and c: "\<not> encryptionEnabled c" "isOpen (ws (net c))" "connection (ws (net c)) = Some h"
    and d: "d \<noteq> []" "len d \<le> MaxInt32"
  shows "\<exists>u t c'. sess_SendInputDataMessage H Output d c = (Ok (), c') \<and>
    wire (outside (proc_of c')) = wire (outside (proc_of c)) @
      [wire_message (input_message u t Output (typed d) (streamDataSequenceNumber c))] \<and>
    inp (outside (proc_of c')) = inp (outside (proc_of c)) \<and> dc_inv (n + 1) c' \<and>
    streamDataSequenceNumber c' = streamDataSequenceNumber c + 1 \<and> ws (net c') = ws (net c) \<and>
    encryptionEnabled c' = encryptionEnabled c \<and> port (proc_of c') = port (proc_of c)"
proof -
  let ?o = "outside (proc_of c)"
  from ok obtain u o1 where u: "uuid_New (base H) ?o = (Ok u, o1)" "length u = 16" "u \<noteq> uuid_Nil"
    "inp o1 = inp ?o" "wire o1 = wire ?o" unfolding sending_ok_def by blast
  from ok obtain t o2 where t: "time_UnixMilli (base H) o1 = (t, o2)" "0 \<le> t" "is_i64 t"
    "inp o2 = inp o1" "wire o2 = wire o1" unfolding sending_ok_def by blast
  let ?b = "wire_message (input_message u t Output (if d = [10] then [13] else d) (streamDataSequenceNumber c))"
  from ok obtain o3 where w: "conn_WriteMessage (base H) h BinaryMessage ?b o2 = (Ok (), o3)"
    "inp o3 = inp o2" "wire o3 = wire o2 @ [?b]" unfolding sending_ok_def by blast
  from ok obtain now o4 where n: "time_Now (base H) o3 = (now, o4)" "inp o4 = inp o3" "wire o4 = wire o3"
    unfolding sending_ok_def by blast
  let ?p = "\<lambda>x. (proc_of c)\<lparr>outside := x\<rparr>"
  have v: "uuid_New (ss H) (proc_of c) = (Ok u, ?p o1)" "time_UnixMilli (ss H) (?p o1) = (t, ?p o2)"
    "time_Now (ss H) (?p o3) = (now, ?p o4)" "conn_WriteMessage (ss H) h BinaryMessage ?b (?p o2) = (Ok (), ?p o3)"
    using u(1) t(1) n(1) w(1) by (simp_all add: via_def' Let_def)
  have U: "uuid_pkg_ok (uuidp (ss H))" using ok by (simp add: sending_ok_def)
  have o: "\<not> (encryptionEnabled c \<and> Output = Output)" "uint Output \<le> MaxInt32"
    using c(1) by (simp_all add: payload_types)
  from SendInput_sends [OF U inv o d c(2,3) v(1) u(2,3) v(2) t(2,3) _ v(3)] v(4) obtain b where
    s: "SendInputDataMessage (ss H) Output d c = (Ok (), set_world c (?p o4)\<lparr>
      streamDataSequenceNumber := streamDataSequenceNumber c + 1, outgoingMessageBuffer := b\<rparr>)" by blast
  let ?c = "set_world c (?p o4)\<lparr>streamDataSequenceNumber := streamDataSequenceNumber c + 1, outgoingMessageBuffer := b\<rparr>"
  have "sess_SendInputDataMessage H Output d c = (Ok (), ?c)" using s by (simp add: sess_SendInputDataMessage_def)
  moreover have "dc_inv (n + 1) ?c" using inv_SendInputDataMessage [OF inv, of "ss H" Output d] s by simp
  ultimately show ?thesis
    using u t w n by (intro exI [of _ u] exI [of _ t] exI [of _ ?c]) (simp add: typed_def)
qed

definition forwarding :: "('o, 'p) host \<Rightarrow> handle \<Rightarrow> int \<Rightarrow> ('o proc, 'p) DataChannel \<Rightarrow> bool" where
  "forwarding H h n c \<longleftrightarrow> dc_inv n c \<and> \<not> encryptionEnabled c \<and> isOpen (ws (net c)) \<and>
     connection (ws (net c)) = Some h \<and>
     (\<exists>p. portSessionType (port (proc_of c)) = Some (Standard p) \<and> inputStream p = Some (os_Stdin H))"

lemma std_read:
  assumes "input_ok H inp wire" "forwarding H h n c"
  shows "\<exists>w. wire w = wire (outside (proc_of c)) \<and> inp w = tl (inp (outside (proc_of c))) \<and>
    on_net (on_std (\<lambda>st. on_file (inputStream (fst st)) (\<lambda>h. io_Read H h StreamDataPayloadSize) st)) c =
      (case inp (outside (proc_of c)) of [] \<Rightarrow> Err EOF | b # bs \<Rightarrow> Ok b, put_outside w c) \<and>
    forwarding H h n (put_outside w c)"
proof -
  from assms(1) obtain w where w: "wire w = wire (outside (proc_of c))" "inp w = tl (inp (outside (proc_of c)))"
    "io_Read H (os_Stdin H) StreamDataPayloadSize (outside (proc_of c)) =
       (case inp (outside (proc_of c)) of [] \<Rightarrow> Err EOF | b # bs \<Rightarrow> Ok b, w)" unfolding input_ok_def by blast
  have "on_net (on_std (\<lambda>st. on_file (inputStream (fst st)) (\<lambda>h. io_Read H h StreamDataPayloadSize) st)) c =
      (case inp (outside (proc_of c)) of [] \<Rightarrow> Err EOF | b # bs \<Rightarrow> Ok b, put_outside w c)"
    using assms(2) w(3) by (auto simp: forwarding_def on_net_def on_std_def on_file_def calling_def same_port)
  with w(1,2) assms(2) show ?thesis by (auto simp: forwarding_def)
qed

lemma std_ReadStream_sends:
  assumes "sending_ok (base H) h inp wire" "input_ok H inp wire" "forwarding H h n c"
    and "\<forall>b \<in> set (inp (outside (proc_of c))). b \<noteq> [] \<and> len b \<le> MaxInt32"
    and "n + int (length (inp (outside (proc_of c)))) < 2 ^ 63"
  shows "\<exists>ms c'. std_ReadStream H c = Some (Ok (), c') \<and>
    wire (outside (proc_of c')) = wire (outside (proc_of c)) @ map wire_message ms \<and>
    map Payload ms = map typed (inp (outside (proc_of c))) \<and>
    map SequenceNumber ms = map (\<lambda>i. streamDataSequenceNumber c + int i) [0..<length ms] \<and>
    (\<forall>m \<in> set ms. MessageType m = InputStreamMessage \<and> PayloadType m = Output) \<and>
    inp (outside (proc_of c')) = []"
  using assms(3-)
proof (induction "inp (outside (proc_of c))" arbitrary: n c)
  case Nil
  from std_read [OF assms(2) Nil.prems(1)] Nil.hyps obtain w where
    "wire w = wire (outside (proc_of c))" "inp w = []"
    "on_net (on_std (\<lambda>st. on_file (inputStream (fst st)) (\<lambda>h. io_Read H h StreamDataPayloadSize) st)) c =
      (Err EOF, put_outside w c)" by (metis (no_types, lifting) list.case(1) list.sel(2))
  with Nil.hyps show ?case
    by (intro exI [of _ "[]"] exI [of _ "put_outside w c"])
      (simp add: std_ReadStream_def run_turns.simps [of _ c] std_ReadStream_turn_def handleReadError_def)
next
  case (Cons b bs)
  from std_read [OF assms(2) Cons.prems(1)] Cons.hyps(2) obtain w where w:
    "wire w = wire (outside (proc_of c))" "inp w = bs" "forwarding H h n (put_outside w c)"
    "on_net (on_std (\<lambda>st. on_file (inputStream (fst st)) (\<lambda>h. io_Read H h StreamDataPayloadSize) st)) c =
      (Ok b, put_outside w c)" by (metis (no_types, lifting) list.case(2) list.sel(3))
  let ?d = "put_outside w c"
  have b: "b \<noteq> []" "len b \<le> MaxInt32" using Cons.prems(2) Cons.hyps(2) by (metis list.set_intros(1))+
  have n: "n + 1 + int (length bs) < 2 ^ 63" using Cons.prems(3) by (simp flip: Cons.hyps(2))
  then have "n + 1 < 2 ^ 63" by simp
  moreover have "dc_inv n ?d" "\<not> encryptionEnabled ?d" "isOpen (ws (net ?d))" "connection (ws (net ?d)) = Some h"
    using w(3) by (simp_all add: forwarding_def)
  ultimately obtain u t e where e: "sess_SendInputDataMessage H Output b ?d = (Ok (), e)"
    "wire (outside (proc_of e)) = wire w @ [wire_message (input_message u t Output (typed b) (streamDataSequenceNumber c))]"
    "inp (outside (proc_of e)) = bs" "dc_inv (n + 1) e"
    "streamDataSequenceNumber e = streamDataSequenceNumber c + 1" "ws (net e) = ws (net c)"
    "\<not> encryptionEnabled e" "port (proc_of e) = port (proc_of c)"
    using send_one [OF assms(1), of n ?d b] b w(2) by auto
  let ?e = "dc_sleep (ss H) Millisecond e" and ?m = "input_message u t Output (typed b) (streamDataSequenceNumber c)"
  have f: "forwarding H h (n + 1) ?e"
    using e(4-) Cons.prems(1) inv_only_net [OF only_net_sleep e(4)]
    by (auto simp: forwarding_def dc_sleep_def on_w_eq)
  have io: "inp (outside (proc_of ?e)) = bs" "wire (outside (proc_of ?e)) = wire (outside (proc_of e))"
    "streamDataSequenceNumber ?e = streamDataSequenceNumber c + 1"
    using assms(1) e(3,5) by (simp_all add: dc_sleep_def on_w_eq sending_ok_def)
  have "std_ReadStream_turn H c = (None, ?e)"
    using w(4) e(1) by (simp add: std_ReadStream_turn_def goes_on_def)
  then have step: "std_ReadStream H c = std_ReadStream H ?e"
    by (simp add: std_ReadStream_def run_turns.simps [of _ c])
  have bs: "\<forall>b \<in> set (inp (outside (proc_of ?e))). b \<noteq> [] \<and> len b \<le> MaxInt32"
    using Cons.prems(2) by (simp add: io(1) flip: Cons.hyps(2))
  have "n + 1 + int (length (inp (outside (proc_of ?e)))) < 2 ^ 63" using n io(1) by simp
  from Cons.hyps(1) [OF io(1) [symmetric] f bs this] obtain ms c' where ms:
    "std_ReadStream H ?e = Some (Ok (), c')" "wire (outside (proc_of c')) = wire (outside (proc_of ?e)) @ map wire_message ms"
    "map Payload ms = map typed bs"
    "map SequenceNumber ms = map (\<lambda>i. streamDataSequenceNumber c + 1 + int i) [0..<length ms]"
    "\<forall>m \<in> set ms. MessageType m = InputStreamMessage \<and> PayloadType m = Output" "inp (outside (proc_of c')) = []"
    using io by auto
  have seq: "map SequenceNumber (?m # ms) = map (\<lambda>i. streamDataSequenceNumber c + int i) [0..<length (?m # ms)]"
    using ms(4) by (simp add: input_message_def upt_conv_Cons add.assoc comp_def del: upt_Suc flip: map_Suc_upt)
  show ?case
    using step ms e(2) io(2) w(1) seq
    by (intro exI [of _ "?m # ms"] exI [of _ c']) (auto simp: input_message_def simp flip: Cons.hyps(2))
qed

text \<open>
  C27. A standard port session forwards its whole input.  \<^verbatim>\<open>ReadStream\<close> returns without an
  error when the input ends; each chunk that was read has gone onto the connection as one input
  message, in order and with consecutive sequence numbers.  The payload of a message is the chunk,
  except that a chunk of a single line feed is sent as a carriage return, also here where the
  stream is not a terminal.
\<close>

theorem standard_stream_forwards_input:
  assumes "sending_ok (base H) h inp wire" "input_ok H inp wire" "forwarding H h n c"
    and "inp (outside (proc_of c)) = chunks" "\<forall>b \<in> set chunks. b \<noteq> [] \<and> len b \<le> MaxInt32"
    and "n + int (length chunks) < 2 ^ 63"
  shows "\<exists>ms c'. std_ReadStream H c = Some (Ok (), c') \<and>
    wire (outside (proc_of c')) = wire (outside (proc_of c)) @ map wire_message ms \<and>
    map Payload ms = map (\<lambda>b. if b = [10] then [13] else b) chunks \<and>
    map SequenceNumber ms = map (\<lambda>i. streamDataSequenceNumber c + int i) [0..<length chunks] \<and>
    (\<forall>m \<in> set ms. MessageType m = InputStreamMessage \<and> PayloadType m = Output)"
proof -
  from std_ReadStream_sends [OF assms(1-3)] assms(4-) obtain ms c' where
    ms: "std_ReadStream H c = Some (Ok (), c')" "wire (outside (proc_of c')) = wire (outside (proc_of c)) @ map wire_message ms"
      "map Payload ms = map typed chunks"
      "map SequenceNumber ms = map (\<lambda>i. streamDataSequenceNumber c + int i) [0..<length ms]"
      "\<forall>m \<in> set ms. MessageType m = InputStreamMessage \<and> PayloadType m = Output" by auto
  have "length ms = length chunks" using ms(3) map_eq_imp_length_eq by metis
  then show ?thesis using ms by (intro exI [of _ ms] exI [of _ c']) (simp add: typed_def [abs_def])
qed

section \<open>Witnesses\<close>

definition demo_params :: PortParameters where
  "demo_params = \<lparr>PortNumber = ''80'', LocalPortNumber = [], LocalUnixSocket = [], LocalConnectionType = [],
     pp_Type = ''LocalPortForwarding''\<rparr>"

text \<open>A connected channel with the handlers of a port session.\<close>

definition port_channel :: "IPortSession \<Rightarrow> (demo_os proc, unit) DataChannel" where
  "port_channel ps =
     (let c = host_channel\<lparr>net := set_port \<lparr>ps_portParameters = demo_params, portSessionType = Some ps\<rparr> (net host_channel)\<rparr>;
          c = RegisterOutputStreamHandler (HandlerFunc (port_ProcessStreamMessagePayload demo_host)) True c;
          c = RegisterStopHandler (port_Stop demo_host) c in
      RegisterIncomingMessageHandler (port_incoming demo_host) c)"

lemma port_channel_fields [simp]:
  "ws (net (port_channel ps)) = ws (net host_channel)" "outside (proc_of (port_channel ps)) = demo_os_start"
  "portSessionType (port (proc_of (port_channel ps))) = Some ps"
  "outputStreamHandlers (port_channel ps) = [HandlerFunc (port_ProcessStreamMessagePayload demo_host)]"
  "isSessionSpecificHandlerSet (port_channel ps)" "encryptionEnabled (port_channel ps) = False"
  "expectedSequenceNumber (port_channel ps) = 0" "streamDataSequenceNumber (port_channel ps) = 0"
  "incomingMessageBuffer (port_channel ps) = NewMapMessageBuffer IncomingMessageBufferCapacity"
  "encryption (port_channel ps) = None"
  by (simp_all add: port_channel_def Let_def RegisterOutputStreamHandler_def RegisterStopHandler_def
      RegisterIncomingMessageHandler_def demo_proc_def)

lemma port_channel_wired: "port_wired demo_host (port_channel ps)"
  by (simp add: port_wired_def)
    (simp add: port_channel_def Let_def RegisterOutputStreamHandler_def RegisterStopHandler_def
      RegisterIncomingMessageHandler_def)

definition demo_basic :: IPortSession where
  "demo_basic = Basic ((NewBasicPortForwarding ''session'' demo_params)\<lparr>bpf_stream := Some 7, bpf_listener := Some 3\<rparr>)"

theorem basic_reader_blocks_everyone_witness:
  "\<exists>c. basic_ReadStream_lock (port_channel demo_basic) = (Ok (), c) \<and>
     fst (listen_message (ss demo_host) [1, 2, 3] c) = Some Blocked \<and>
     fst (port_ProcessStreamMessagePayload demo_host example_msg (net c)) = Blocked"
proof -
  obtain c where c: "basic_ReadStream_lock (port_channel demo_basic) = (Ok (), c)"
    by (simp add: basic_ReadStream_lock_def on_net_def on_basic_def demo_basic_def NewBasicPortForwarding_def)
  from basic_reader_blocks_everyone [OF reading.start [OF port_channel_wired c, of "NewSession []"]] c
  show ?thesis by blast
qed

theorem mux_early_message_panics_witness:
  "\<exists>c'. NewPortSession demo_host (NewSession ''session'') (host_channel\<lparr>agentVersion := ''3.2.0.0''\<rparr>) = (Ok (), c') \<and>
     fst (listen_message (ss demo_host) [1, 2, 3] c') = Some Panic"
proof -
  let ?c = "host_channel\<lparr>agentVersion := ''3.2.0.0''\<rparr>"
  have m: "marshal_Properties demo_host (sessionProperties ?c) = Ok [123, 125]" by simp
  have u: "unmarshal_PortParameters demo_host [123, 125] = Ok demo_params" by (simp add: demo_host_def demo_params_def)
  have t: "pp_Type demo_params = LocalPortForwardingType" by (simp add: demo_params_def LocalPortForwardingType_def)
  have v: "DoesAgentSupportTCPMultiplexing (agentVersion ?c) = Ok True"
    by (simp add: DoesAgentSupportTCPMultiplexing_def greater_True_iff supported_simps)
  show ?thesis by (rule mux_early_message_panics [OF m u t v])
qed

definition demo_standard :: IPortSession where
  "demo_standard = Standard ((NewStandardStreamForwarding demo_params)\<lparr>inputStream := Some 0, outputStream := Some 1\<rparr>)"

text \<open>What was written to standard output, as one sequence of bytes.\<close>

definition os_written :: "demo_os \<Rightarrow> bytes" where
  "os_written w = concat (map snd (filter (\<lambda>f. fst f = 1) (os_files w)))"


definition typing_channel :: "(demo_os proc, unit) DataChannel" where
  "typing_channel = put_outside (demo_os_start\<lparr>os_keys := [[104, 105], [10]]\<rparr>) (port_channel demo_standard)"

theorem standard_stream_forwards_input_witness:
  "\<exists>ms c'. std_ReadStream demo_host typing_channel = Some (Ok (), c') \<and>
     map snd (dw_sent (os_net (outside (proc_of c')))) = map wire_message ms \<and>
     map Payload ms = [[104, 105], [13]] \<and> map SequenceNumber ms = [0, 1]"
proof -
  let ?wire = "\<lambda>w. map snd (dw_sent (os_net w))"
  have s: "sending_ok (base demo_host) 1 os_keys ?wire"
    by (simp add: sending_ok_def over_def Let_def demo_simps uuid_plain_ok is_i64_def) (simp add: demo_def)
  have i: "input_ok demo_host os_keys ?wire"
    by (simp add: input_ok_def demo_next_def split: list.split)
  have f: "forwarding demo_host 1 0 typing_channel"
  proof -
    have "dc_inv 0 (port_channel demo_standard)"
      using host_channel_inv
      by (simp add: port_channel_def Let_def RegisterOutputStreamHandler_def RegisterStopHandler_def
          RegisterIncomingMessageHandler_def inv_more_updates(1-3))
    then show ?thesis by (simp add: forwarding_def typing_channel_def demo_standard_def demo_host_def)
  qed
  have k: "os_keys (outside (proc_of typing_channel)) = [[104, 105], [10]]" by (simp add: typing_channel_def)
  have l: "\<forall>b \<in> set [[104, 105], [10 :: byte]]. b \<noteq> [] \<and> len b \<le> MaxInt32" by (simp add: len_def)
  have n: "0 + int (length [[104, 105], [10 :: byte]]) < 2 ^ 63" by simp
  have z: "?wire (outside (proc_of typing_channel)) = []" "streamDataSequenceNumber typing_channel = 0"
    by (simp_all add: typing_channel_def demo_os_start_def demo_start_def)
  from standard_stream_forwards_input [OF s i f k l n] obtain ms c' where
    "std_ReadStream demo_host typing_channel = Some (Ok (), c')" "?wire (outside (proc_of c')) = [] @ map wire_message ms"
    "map Payload ms = map (\<lambda>b. if b = [10] then [13] else b) [[104, 105], [10]]"
    "map SequenceNumber ms = map (\<lambda>i. 0 + int i) [0..<length [[104, 105], [10 :: byte]]]"
    unfolding z by blast
  then show ?thesis by (intro exI [of _ ms] exI [of _ c']) (simp add: upt_rec)
qed

end
