(* ===== verification/Window.thy ===== *)
theory Window
  imports Prelude "HOL-Library.Sublist"
begin

text \<open>
  What the sending side of the data channel promises, without messages and connections: a machine
  over sequence numbers.  Its state is the number that is given out next and the list of the
  numbers that wait for an acknowledgement, of which there are at most \<open>cap\<close>; a number that does
  not fit pushes out the oldest.  The reference for it is \<open>outstanding\<close>, which reads off a history
  which numbers were given out and not acknowledged afterwards.
\<close>

type_synonym window = "int \<times> int list"

datatype window_event = Submit | Acked int

fun window_step :: "int \<Rightarrow> window_event \<Rightarrow> window \<Rightarrow> window" where
  "window_step cap Submit (k, ws) = (k + 1, (if len ws = cap then tl ws else ws) @ [k])"
| "window_step cap (Acked i) (k, ws) = (k, filter (\<lambda>j. j \<noteq> i) ws)"

definition window_run :: "int \<Rightarrow> window_event list \<Rightarrow> window \<Rightarrow> window" where
  "window_run cap es s = foldl (\<lambda>s e. window_step cap e s) s es"

fun outstanding :: "int \<Rightarrow> window_event list \<Rightarrow> int list" where
  "outstanding k [] = []"
| "outstanding k (Submit # es) = (if Acked k \<in> set es then [] else [k]) @ outstanding (k + 1) es"
| "outstanding k (Acked i # es) = outstanding k es"

definition submits :: "window_event list \<Rightarrow> int" where
  "submits es = len (filter (\<lambda>e. e = Submit) es)"

text \<open>Whenever a number is given out, fewer than \<open>cap\<close> are outstanding.\<close>

definition always_room :: "int \<Rightarrow> int \<Rightarrow> window_event list \<Rightarrow> bool" where
  "always_room cap k es \<longleftrightarrow> (\<forall>i<length es. es ! i = Submit \<longrightarrow> len (outstanding k (take i es)) < cap)"

lemma window_run_simps [simp]:
  "window_run cap [] s = s" "window_run cap (e # es) s = window_run cap es (window_step cap e s)"
  "window_run cap (es @ fs) s = window_run cap fs (window_run cap es s)"
  by (simp_all add: window_run_def)

lemma submits_simps [simp]:
  "submits [] = 0" "submits (Submit # es) = submits es + 1" "submits (Acked i # es) = submits es"
  "submits (es @ fs) = submits es + submits fs"
  by (simp_all add: submits_def len_def)

lemma submits_nonneg [simp]: "0 \<le> submits es"
  by (simp add: submits_def)

text \<open>The history grows at its end.\<close>

lemma outstanding_range: "i \<in> set (outstanding k es) \<Longrightarrow> k \<le> i \<and> i < k + submits es"
  by (induction k es rule: outstanding.induct) (auto split: if_splits)

lemma outstanding_Submit: "outstanding k (es @ [Submit]) = outstanding k es @ [k + submits es]"
  by (induction k es rule: outstanding.induct) auto

lemma outstanding_Acked: "outstanding k (es @ [Acked i]) = filter (\<lambda>j. j \<noteq> i) (outstanding k es)"
  by (induction k es rule: outstanding.induct) auto

lemma always_room_append: "always_room cap k (es @ fs) \<Longrightarrow> always_room cap k es"
  by (auto simp: always_room_def nth_append) (metis take_append less_or_eq_imp_le append_Nil2 diff_is_0_eq take0 trans_less_add1)

lemma always_room_last: "always_room cap k (es @ [Submit]) \<Longrightarrow> len (outstanding k es) < cap"
  unfolding always_room_def by (drule spec [of _ "length es"]) simp

lemma outstanding_few: "len (outstanding k es) \<le> submits es"
  by (induction k es rule: outstanding.induct) (auto simp: len_def)

lemma always_room_few: "submits es \<le> cap \<Longrightarrow> always_room cap k es"
  unfolding always_room_def
proof (intro allI impI)
  fix i assume "submits es \<le> cap" and i: "i < length es" "es ! i = Submit"
  have "submits es = submits (take i es) + 1 + submits (drop (Suc i) es)"
    by (subst id_take_nth_drop [OF i(1)]) (simp add: i(2))
  with \<open>submits es \<le> cap\<close> outstanding_few [of k "take i es"] submits_nonneg [of "drop (Suc i) es"]
  show "len (outstanding k (take i es)) < cap" by linarith
qed

lemma suffix_filter: "suffix xs ys \<Longrightarrow> suffix (filter P xs) (filter P ys)"
  by (auto simp: suffix_def)

lemma suffix_tlI: "suffix xs ys \<Longrightarrow> suffix (tl xs) ys"
  by (rule suffix_order.trans [OF suffix_tl])

text \<open>The machine gives out consecutive numbers and keeps the newest of the outstanding ones, all
  of them as long as there is room.\<close>

lemma window_run_outstanding:
  assumes "window_run cap es (k, []) = (k', ws)"
  shows "k' = k + submits es \<and> suffix ws (outstanding k es) \<and> (always_room cap k es \<longrightarrow> ws = outstanding k es)"
  using assms
proof (induction es arbitrary: k' ws rule: rev_induct)
  case (snoc e es)
  obtain j vs where r: "window_run cap es (k, []) = (j, vs)" by force
  note IH = snoc.IH [OF r]
  show ?case
  proof (cases e)
    case Submit
    have "suffix ((if len vs = cap then tl vs else vs) @ [j]) (outstanding k es @ [j])"
      using IH suffix_tlI [of vs "outstanding k es"] by auto
    moreover have "len vs \<noteq> cap" if "always_room cap k (es @ [Submit])"
      using that IH always_room_last [OF that] always_room_append [OF that] by auto
    ultimately show ?thesis
      using snoc.prems r IH always_room_append [of cap k es "[Submit]"] by (auto simp: Submit outstanding_Submit)
  next
    case (Acked i)
    then show ?thesis
      using snoc.prems r IH suffix_filter always_room_append [of cap k es "[Acked i]"]
      by (auto simp: outstanding_Acked)
  qed
qed (auto simp: always_room_def)

end
