(* ===== verification/Sending.thy ===== *)
theory Sending
  imports Channel_Props Window
begin

text \<open>
  The sending side of the data channel refines the window of outstanding numbers of \<open>Window\<close>:
  whatever is sent, received and resent in any order, every step of the channel is a step of that
  machine or leaves it alone.  What the machine keeps is then known of the channel's buffer.
\<close>

section \<open>The sending half of the state\<close>

definition out_half :: "('w, 'p) DataChannel \<Rightarrow> int64 \<times> StreamingMessage ListMessageBuffer" where
  "out_half c = (streamDataSequenceNumber c, outgoingMessageBuffer c)"

definition window_of :: "('w, 'p) DataChannel \<Rightarrow> window" where
  "window_of c = (streamDataSequenceNumber c, map sm_SequenceNumber (lmb_messages (outgoingMessageBuffer c)))"

lemma out_half_upd [simp]:
  "out_half (c\<lparr>net := x\<rparr>) = out_half c" "out_half (c\<lparr>expectedSequenceNumber := i\<rparr>) = out_half c"
  "out_half (c\<lparr>incomingMessageBuffer := b\<rparr>) = out_half c" "out_half (c\<lparr>agentVersion := t\<rparr>) = out_half c"
  "out_half (c\<lparr>encryption := e\<rparr>) = out_half c" "out_half (c\<lparr>encryptionEnabled := e'\<rparr>) = out_half c"
  "out_half (c\<lparr>sessionType := t\<rparr>) = out_half c" "out_half (c\<lparr>sessionProperties := p\<rparr>) = out_half c"
  "out_half (c\<lparr>isSessionTypeSet := l\<rparr>) = out_half c"
  by (simp_all add: out_half_def)

lemma out_half_only_net: "only_net c c' \<Longrightarrow> out_half c' = out_half c"
  by (auto simp: only_net_def)

lemmas out_half_net [simp] = out_half_only_net [OF only_net_on_net] out_half_only_net [OF only_net_on_w]
  out_half_only_net [OF only_net_SendMessage] out_half_only_net [OF only_net_encrypt]
  out_half_only_net [OF only_net_sendAcknowledge] out_half_only_net [OF only_net_resend]

lemma out_half_handlers [simp]: "out_half (snd (processOutputMessageWithHandlers m c)) = out_half c"
  using handler_frame_fields [OF handlers_frame [of m c]] by (simp add: out_half_def)

lemma out_half_window: "out_half c' = out_half c \<Longrightarrow> window_of c' = window_of c"
  by (simp add: out_half_def window_of_def)

text \<open>Composition of steps that leave the sending half alone.\<close>

lemma out_half_sbind:
  assumes "out_half (snd r) = h" "\<And>x s. out_half s = h \<Longrightarrow> out_half (snd (f x s)) = h"
  shows "out_half (snd (sbind r f)) = h"
  by (rule sbind_snd [where P = "\<lambda>d. out_half d = h"]) (use assms in auto)

section \<open>One message sent\<close>

text \<open>A message was serialized with the current number and remembered under it.\<close>

definition sends_one :: "('w, 'p) sys \<Rightarrow> ('w, 'p) DataChannel \<Rightarrow> ('w, 'p) DataChannel \<Rightarrow> bool" where
  "sends_one S c c' \<longleftrightarrow> (\<exists>u t pt d msg now b.
     SerializeClientMessage (uuidp S) (input_message u t pt d (streamDataSequenceNumber c)) = Ok msg \<and>
     ForcePushBack (outgoingMessageBuffer c) \<lparr>sm_Content = msg, sm_SequenceNumber = streamDataSequenceNumber c,
       sm_LastSentTime = now, sm_ResendAttempt = 0\<rparr> = Ok b \<and>
     out_half c' = (streamDataSequenceNumber c + 1, b))"

definition at_most_one :: "('w, 'p) sys \<Rightarrow> ('w, 'p) DataChannel \<Rightarrow> ('w, 'p) DataChannel \<Rightarrow> bool" where
  "at_most_one S c c' \<longleftrightarrow> out_half c' = out_half c \<or> sends_one S c c'"

lemma at_most_one_cong: "out_half c = out_half d \<Longrightarrow> out_half c' = out_half d' \<Longrightarrow>
    at_most_one S c c' = at_most_one S d d'"
  by (auto simp: at_most_one_def sends_one_def out_half_def)

lemma at_most_one_same: "out_half c' = out_half c \<Longrightarrow> at_most_one S c c'"
  by (simp add: at_most_one_def)

lemma at_most_one_start:
  assumes "out_half (snd r) = out_half c"
    and "\<And>x s. fst r = Ok x \<Longrightarrow> out_half s = out_half c \<Longrightarrow> at_most_one S s (snd (f x s))"
  shows "at_most_one S c (snd (sbind r f))"
proof (cases "fst r")
  case (Ok x)
  have "at_most_one S (snd r) (snd (f x (snd r)))" by (rule assms(2) [OF Ok assms(1)])
  then have "at_most_one S c (snd (f x (snd r)))" by (simp only: at_most_one_cong [OF assms(1) refl])
  then show ?thesis by (simp add: sbind_def Ok)
qed (simp_all add: sbind_def at_most_one_same assms(1))

lemma at_most_one_end:
  assumes "at_most_one S c (snd r)" "\<And>x s. out_half (snd (f x s)) = out_half s"
  shows "at_most_one S c (snd (sbind r f))"
proof (cases "fst r")
  case (Ok x)
  from assms(1) have "at_most_one S c (snd (f x (snd r)))" by (simp only: at_most_one_cong [OF refl assms(2)])
  then show ?thesis by (simp add: sbind_def Ok)
qed (simp_all add: sbind_def assms(1))

text \<open>There is a next number, and the buffer is within its capacity.\<close>

definition sendable :: "('w, 'p) DataChannel \<Rightarrow> bool" where
  "sendable c \<longleftrightarrow> lmb.ok (outgoingMessageBuffer c) \<and> is_i64 (streamDataSequenceNumber c + 1)"

lemma sendable_cong: "out_half c' = out_half c \<Longrightarrow> sendable c' = sendable c"
  by (simp add: sendable_def out_half_def)

lemma inv_sendable: "dc_inv n c \<Longrightarrow> n + 1 < 2 ^ 63 \<Longrightarrow> sendable c"
  by (auto simp: sendable_def dc_inv_def out_inv_def is_i64_def)

lemma record_sent_one:
  assumes "sendable c" "SerializeClientMessage (uuidp S) (input_message u t pt d (streamDataSequenceNumber c)) = Ok msg"
  shows "sends_one S c (snd (record_sent S msg (streamDataSequenceNumber c) c))"
proof -
  have ok: "lmb.ok (outgoingMessageBuffer c)" and i: "is_i64 (streamDataSequenceNumber c + 1)"
    using assms(1) by (simp_all add: sendable_def)
  from record_sent_Ok [OF ok, of S "fst (time_Now S (world (net c)))" "snd (time_Now S (world (net c)))" msg
      "streamDataSequenceNumber c"] assms(2)
  show ?thesis using to_i64_id [OF i] by (fastforce simp: sends_one_def out_half_def)
qed

lemma send_serialized_one:
  assumes "sendable c" "out_half c' = out_half c"
  shows "at_most_one S c (snd (sbind (wrap_err t (SerializeClientMessage (uuidp S)
      (input_message u now pt d (streamDataSequenceNumber c))), c')
    (\<lambda>msg c'. sbind (swrap t' (SendMessage S msg BinaryMessage c')) (\<lambda>_. record_sent S msg (streamDataSequenceNumber c)))))"
proof (cases "SerializeClientMessage (uuidp S) (input_message u now pt d (streamDataSequenceNumber c))")
  case (Ok msg)
  have "at_most_one S e (snd (record_sent S msg (streamDataSequenceNumber c) e))" if "out_half e = out_half c" for e
  proof -
    have e: "sendable e" "streamDataSequenceNumber e = streamDataSequenceNumber c"
      using that assms sendable_cong [of e c] by (simp_all add: out_half_def)
    with record_sent_one [of e S u now pt d msg] Ok show ?thesis by (simp add: at_most_one_def)
  qed
  then show ?thesis unfolding Ok wrap_err_res sbind_res
    by (intro at_most_one_start) (simp_all add: assms(2))
qed (simp_all add: at_most_one_same assms(2))

lemma SendInput_one:
  fixes c :: "('w, 'p) DataChannel"
  assumes "sendable c"
  shows "at_most_one S c (snd (SendInputDataMessage S pt d c))"
  unfolding SendInputDataMessage_record_sent Let_def case_prod_beta
proof (rule at_most_one_start)
  fix u and e :: "('w, 'p) DataChannel"
  assume e: "out_half e = out_half c"
  let ?d = "if d = [10] then [13] else d"
  show "at_most_one S e (snd (sbind (if encryptionEnabled e \<and> pt = Output
      then swrap ''encrypting input data'' (encrypt_with S ?d e) else (Ok ?d, e))
    (\<lambda>d e. sbind (wrap_err ''serializing client message'' (SerializeClientMessage (uuidp S)
        (input_message u (fst (on_w (time_UnixMilli S) e)) pt d (streamDataSequenceNumber e))), snd (on_w (time_UnixMilli S) e))
      (\<lambda>msg c. sbind (swrap ''sending message'' (SendMessage S msg BinaryMessage c))
        (\<lambda>_. record_sent S msg (streamDataSequenceNumber e))))))"
  proof (rule at_most_one_start)
    fix d and e' :: "('w, 'p) DataChannel"
    assume "out_half e' = out_half e"
    then have "sendable e'" using e assms sendable_cong by metis
    then show "at_most_one S e' (snd (sbind (wrap_err ''serializing client message'' (SerializeClientMessage (uuidp S)
        (input_message u (fst (on_w (time_UnixMilli S) e')) pt d (streamDataSequenceNumber e'))), snd (on_w (time_UnixMilli S) e'))
      (\<lambda>msg c. sbind (swrap ''sending message'' (SendMessage S msg BinaryMessage c))
        (\<lambda>_. record_sent S msg (streamDataSequenceNumber e')))))"
      by (rule send_serialized_one) simp
  qed simp
qed simp

lemma one_sbind:
  fixes c :: "('w, 'p) DataChannel"
  assumes "sendable c" "out_half (snd r) = out_half c" "\<And>x s. sendable s \<Longrightarrow> at_most_one S s (snd (f x s))"
  shows "at_most_one S c (snd (sbind r f))"
proof (rule at_most_one_start [OF assms(2)])
  fix x and s :: "('w, 'p) DataChannel" assume "out_half s = out_half c"
  from sendable_cong [OF this] assms(1) show "at_most_one S s (snd (f x s))" by (intro assms(3)) simp
qed

section \<open>Receiving\<close>

lemma out_half_process_action: "out_half (snd (process_action S a c)) = out_half c"
proof -
  have "out_half (snd (ProcessKMSEncryptionHandshakeAction S p c)) = out_half c"
    "out_half (snd (ProcessSessionTypeHandshakeAction S p c)) = out_half c" for p
    unfolding ProcessKMSEncryptionHandshakeAction_def ProcessSessionTypeHandshakeAction_def
    by (intro out_half_sbind; simp)+
  note this [of "ActionParameters a"]
  then show ?thesis
    by (cases "ProcessKMSEncryptionHandshakeAction S (ActionParameters a) c";
        cases "ProcessSessionTypeHandshakeAction S (ActionParameters a) c")
      (auto simp: process_action_def split: res.split option.split)
qed

lemma out_half_process_actions: "out_half (snd (process_actions S as c)) = out_half c"
proof (induction as arbitrary: c)
  case (Cons a as)
  show ?case unfolding process_actions.simps case_prod_beta
    by (intro out_half_sbind) (simp_all add: out_half_process_action Cons)
qed simp

lemma handshake_one: "sendable c \<Longrightarrow> at_most_one S c (snd (handleHandshakeRequest S m c))"
  unfolding handleHandshakeRequest_def Let_def case_prod_beta sendHandshakeResponse_def
  by (intro one_sbind) (simp_all add: SendInput_one out_half_process_actions)

lemma challenge_one: "sendable c \<Longrightarrow> at_most_one S c (snd (handleEncryptionChallengeRequest S m c))"
  unfolding handleEncryptionChallengeRequest_def sendEncryptionChallengeResponse_def
  by (intro one_sbind) (simp_all add: SendInput_one)

lemma out_half_complete: "out_half (snd (handleHandshakeComplete S m c)) = out_half c"
  unfolding handleHandshakeComplete_def by (intro out_half_sbind) simp_all

lemma out_half_default: "out_half (snd (handleDefaultOutputMessage S m c)) = out_half c"
  unfolding handleDefaultOutputMessage_def by (intro out_half_sbind) simp_all

lemma out_half_unexpected: "out_half (snd (handleUnexpectedSequenceMessage S m raw c)) = out_half c"
  by (auto simp: handleUnexpectedSequenceMessage_def Let_def case_prod_beta intro!: out_half_sbind)

lemma out_half_buffered: "out_half (snd (processBufferedMessage S b c)) = out_half c"
  unfolding processBufferedMessage_def Let_def by (intro out_half_sbind) simp_all

lemma out_half_items: "out_half (snd (ProcessIncomingMessageBufferItems S c)) = out_half c"
proof -
  have "out_half (snd r) = out_half c" if "ProcessItems_loop S c = Some r" for r
    using that
  proof (rule ProcessItems_loop.raw_induct [rotated])
    fix loop S c r
    assume "\<And>S' c r. loop S' c = Some r \<Longrightarrow> out_half (snd r) = out_half c"
      and "(if next_buffered c = None then Some (Ok (), c)
        else let r = processBufferedMessage S (the (next_buffered c)) c in
          if fst r = Ok () then loop S (snd r)
          else Some (swrap ''processing incoming message buffer items'' r)) = Some r"
    then show "out_half (snd r) = out_half c"
      using out_half_buffered [of S "the (next_buffered c)" c] by (auto simp: Let_def split: if_splits)
  qed
  then show ?thesis by (auto simp: ProcessIncomingMessageBufferItems_def split: option.split)
qed

lemma handleOutput_one:
  assumes "sendable c"
  shows "at_most_one S c (snd (handleOutputMessage S m raw c))"
proof -
  have "at_most_one S c (snd (handleHandshakeRequestOutputMessage S m c))"
    "at_most_one S c (snd (handleEncryptionChallengeRequestOutputMessage S m c))"
    unfolding handleHandshakeRequestOutputMessage_def handleEncryptionChallengeRequestOutputMessage_def
    by (rule one_sbind [OF assms]; simp add: handshake_one challenge_one)+
  moreover have "out_half (snd (handleHandshakeCompleteOutputMessage S m c)) = out_half c"
    unfolding handleHandshakeCompleteOutputMessage_def by (rule out_half_sbind) (simp_all add: out_half_complete)
  ultimately show ?thesis
    unfolding handleOutputMessage_def
    by (auto intro!: at_most_one_end simp: at_most_one_same out_half_unexpected out_half_items out_half_default)
qed

text \<open>What a received message acknowledges: it deserializes, is valid, and is an acknowledgement.\<close>

definition acknowledges :: "('w, 'p) sys \<Rightarrow> bytes \<Rightarrow> AcknowledgeContent option" where
  "acknowledges S raw =
     (case DeserializeClientMessage (uuidp S) raw of
        Ok m \<Rightarrow>
          if Validate m = Ok () \<and> MessageType m = AcknowledgeMessage
          then (case DeserializeDataStreamAcknowledgeContent (json S) m of Ok a \<Rightarrow> Some a | _ \<Rightarrow> None)
          else None
      | _ \<Rightarrow> None)"

lemma receive_cases:
  assumes "sendable c"
  shows "case acknowledges S raw of
      None \<Rightarrow> at_most_one S c (snd (outputMessageHandler S raw c))
    | Some a \<Rightarrow> outputMessageHandler S raw c = (Ok (), processAcknowledgedMessage S a c)"
proof -
  have k: "at_most_one S c (snd (handleChannelClosedMessage S m c))" for m
    unfolding handleChannelClosedMessage_def by (intro at_most_one_same out_half_sbind) simp_all
  show ?thesis
  proof (cases "DeserializeClientMessage (uuidp S) raw")
    case (Ok m)
    note m = this
    show ?thesis
    proof (cases "Validate m")
      case (Ok x)
      then show ?thesis
        using k [of m] handleOutput_one [OF assms, of S m raw]
        by (auto simp: acknowledges_def outputMessageHandler_def m handleAcknowledgeMessage_def at_most_one_same
            message_types split: res.split)
    qed (simp_all add: acknowledges_def outputMessageHandler_def m at_most_one_same)
  qed (simp_all add: acknowledges_def outputMessageHandler_def at_most_one_same)
qed

section \<open>Refinement\<close>

text \<open>The operations on an open channel: a send of some goroutine, a message that arrives, a round
  of the resender.\<close>

datatype sender_op = SendOp uint32 bytes | ReceiveOp bytes | ResendOp

definition op_step :: "('w, 'p) sys \<Rightarrow> sender_op \<Rightarrow> ('w, 'p) DataChannel \<Rightarrow> ('w, 'p) DataChannel" where
  "op_step S op c =
     (case op of
        SendOp payloadType inputData \<Rightarrow> snd (SendInputDataMessage S payloadType inputData c)
      | ReceiveOp raw \<Rightarrow> snd (outputMessageHandler S raw c)
      | ResendOp \<Rightarrow> snd (resend_round S c))"

text \<open>What an operation is for the window: an acknowledgement that arrives, and a number given out
  when the channel's next number has changed.\<close>

definition events_of :: "('w, 'p) sys \<Rightarrow> sender_op \<Rightarrow> ('w, 'p) DataChannel \<Rightarrow> window_event list" where
  "events_of S op c =
     (case op of
        ReceiveOp raw \<Rightarrow> (case acknowledges S raw of Some a \<Rightarrow> [Acked (ack_SequenceNumber a)] | None \<Rightarrow> [])
      | _ \<Rightarrow> []) @
     (if streamDataSequenceNumber (op_step S op c) \<noteq> streamDataSequenceNumber c then [Submit] else [])"

fun run_ops :: "('w, 'p) sys \<Rightarrow> sender_op list \<Rightarrow> ('w, 'p) DataChannel \<Rightarrow> window_event list \<times> ('w, 'p) DataChannel" where
  "run_ops S [] c = ([], c)"
| "run_ops S (op # ops) c = (let (es, c') = run_ops S ops (op_step S op c) in (events_of S op c @ es, c'))"

lemma inv_op_step: "dc_inv n c \<Longrightarrow> n + 1 < 2 ^ 63 \<Longrightarrow> dc_inv (n + 1) (op_step S op c)"
  using inv_step_mono [OF inv_only_net [OF only_net_resend [of c S], of n]]
  by (cases op) (simp_all add: op_step_def inv_SendInputDataMessage inv_outputMessageHandler)

lemma sends_one_window:
  assumes "sends_one S c c'" "dc_inv n c"
  shows "window_of c' = window_step OutgoingMessageBufferCapacity Submit (window_of c)"
    and "streamDataSequenceNumber c' = streamDataSequenceNumber c + 1"
proof -
  let ?b = "outgoingMessageBuffer c"
  from assms(1) obtain x b where b: "ForcePushBack ?b x = Ok b" "sm_SequenceNumber x = streamDataSequenceNumber c"
    "out_half c' = (streamDataSequenceNumber c + 1, b)" unfolding sends_one_def by force
  have c: "0 < lmb_capacity ?b" "len (lmb_messages ?b) \<le> lmb_capacity ?b" "lmb_capacity ?b = OutgoingMessageBufferCapacity"
    using assms(2) by (simp_all add: dc_inv_def out_inv_def lmb.ok_def)
  from lmb.push_items [OF c(1,2), of x] b
  show "window_of c' = window_step OutgoingMessageBufferCapacity Submit (window_of c)"
    "streamDataSequenceNumber c' = streamDataSequenceNumber c + 1"
    by (auto simp: window_of_def out_half_def c(3) len_def map_tl)
qed

lemma acknowledged_window:
  assumes "dc_inv n c"
  shows "window_of (processAcknowledgedMessage S a c) = window_step k (Acked (ack_SequenceNumber a)) (window_of c)"
    and "streamDataSequenceNumber (processAcknowledgedMessage S a c) = streamDataSequenceNumber c"
proof -
  have "distinct (map sm_SequenceNumber (lmb_messages (outgoingMessageBuffer c)))"
    using assms by (simp add: dc_inv_def out_inv_def strict_sorted_iff)
  from remove_first_filter [OF this, of "ack_SequenceNumber a"]
  show "window_of (processAcknowledgedMessage S a c) = window_step k (Acked (ack_SequenceNumber a)) (window_of c)"
    "streamDataSequenceNumber (processAcknowledgedMessage S a c) = streamDataSequenceNumber c"
    by (auto simp: processAcknowledgedMessage_def RemoveIf_def case_prod_beta Let_def window_of_def calculate_keeps
        filter_map o_def split: option.split)
qed

lemma op_step_cases:
  assumes "dc_inv n c" "n + 1 < 2 ^ 63"
  obtains (ack) raw a where "op = ReceiveOp raw" "acknowledges S raw = Some a" "op_step S op c = processAcknowledgedMessage S a c"
  | (send) "sends_one S c (op_step S op c)" "\<And>raw. op = ReceiveOp raw \<Longrightarrow> acknowledges S raw = None"
  | (idle) "out_half (op_step S op c) = out_half c" "\<And>raw. op = ReceiveOp raw \<Longrightarrow> acknowledges S raw = None"
proof -
  note s = inv_sendable [OF assms]
  show thesis
  proof (cases op)
    case (SendOp pt d)
    with SendInput_one [OF s, of S pt d] send idle show thesis by (auto simp: at_most_one_def op_step_def)
  next
    case (ReceiveOp raw)
    with receive_cases [OF s, of S raw] ack send idle show thesis
      by (cases "acknowledges S raw") (auto simp: at_most_one_def op_step_def)
  next
    case ResendOp
    with idle show thesis by (simp add: op_step_def)
  qed
qed

lemma op_step_refines:
  assumes "dc_inv n c" "n + 1 < 2 ^ 63"
  shows "window_of (op_step S op c) = window_run OutgoingMessageBufferCapacity (events_of S op c) (window_of c)"
  using assms
proof (cases rule: op_step_cases [where op = op and S = S])
  case (ack raw a)
  with acknowledged_window(1) [OF assms(1), of S a OutgoingMessageBufferCapacity] acknowledged_window(2) [OF assms(1), of S a]
  show ?thesis by (simp add: events_of_def)
next
  case send
  with sends_one_window [OF send(1) assms(1)] show ?thesis by (auto simp: events_of_def split: sender_op.split)
next
  case idle
  then have "streamDataSequenceNumber (op_step S op c) = streamDataSequenceNumber c" by (simp add: out_half_def)
  with idle out_half_window [OF idle(1)] show ?thesis by (auto simp: events_of_def split: sender_op.split)
qed

lemma run_ops_refines:
  "dc_inv n c \<Longrightarrow> n + int (length ops) < 2 ^ 63 \<Longrightarrow> run_ops S ops c = (es, c') \<Longrightarrow>
   window_of c' = window_run OutgoingMessageBufferCapacity es (window_of c)"
proof (induction ops arbitrary: n c es)
  case (Cons op ops)
  obtain fs where r: "run_ops S ops (op_step S op c) = (fs, c')" "es = events_of S op c @ fs"
    using Cons.prems(3) by (auto split: prod.splits)
  have "n + 1 < 2 ^ 63" using Cons.prems(2) by simp
  with Cons.IH [OF inv_op_step [OF Cons.prems(1)] _ r(1)] op_step_refines [of n c S op] Cons.prems(1,2) r(2) show ?case
    by (simp add: add.commute add.left_commute)
qed simp

text \<open>What is remembered under a number is a serialized input message that carries it.\<close>

definition genuine :: "('w, 'p) sys \<Rightarrow> StreamingMessage \<Rightarrow> bool" where
  "genuine S m \<longleftrightarrow> (\<exists>u t pt d.
     SerializeClientMessage (uuidp S) (input_message u t pt d (sm_SequenceNumber m)) = Ok (sm_Content m))"

lemma sends_one_genuine:
  assumes "sends_one S c c'" "dc_inv n c" "\<forall>m\<in>set (lmb_messages (outgoingMessageBuffer c)). genuine S m"
  shows "\<forall>m\<in>set (lmb_messages (outgoingMessageBuffer c')). genuine S m"
proof -
  from assms(1) obtain x b where b: "ForcePushBack (outgoingMessageBuffer c) x = Ok b" "genuine S x"
    "outgoingMessageBuffer c' = b" unfolding sends_one_def genuine_def out_half_def by force
  have "lmb.ok (outgoingMessageBuffer c)" using assms(2) by (simp add: dc_inv_def out_inv_def)
  from lmb.push_ok [OF this, of x] b assms(3) show ?thesis by auto
qed

lemma op_step_genuine:
  assumes "dc_inv n c" "n + 1 < 2 ^ 63" "\<forall>m\<in>set (lmb_messages (outgoingMessageBuffer c)). genuine S m"
  shows "\<forall>m\<in>set (lmb_messages (outgoingMessageBuffer (op_step S op c))). genuine S m"
  using assms(1,2)
proof (cases rule: op_step_cases [where op = op and S = S])
  case (ack raw a)
  have "set (lmb_messages (outgoingMessageBuffer (processAcknowledgedMessage S a c))) \<subseteq>
      set (lmb_messages (outgoingMessageBuffer c))"
    using lmb.pull_subset [of "outgoingMessageBuffer c" "\<lambda>m. sm_SequenceNumber m = ack_SequenceNumber a"]
    by (auto simp: processAcknowledgedMessage_def case_prod_beta Let_def calculate_keeps split: option.splits)
  with ack(3) assms(3) show ?thesis by auto
next
  case send
  from sends_one_genuine [OF send(1) assms(1,3)] show ?thesis .
qed (use assms in \<open>auto simp: out_half_def\<close>)

lemma run_ops_genuine:
  "dc_inv n c \<Longrightarrow> n + int (length ops) < 2 ^ 63 \<Longrightarrow> run_ops S ops c = (es, c') \<Longrightarrow>
   \<forall>m\<in>set (lmb_messages (outgoingMessageBuffer c)). genuine S m \<Longrightarrow>
   \<forall>m\<in>set (lmb_messages (outgoingMessageBuffer c')). genuine S m"
proof (induction ops arbitrary: n c es)
  case (Cons op ops)
  obtain fs where r: "run_ops S ops (op_step S op c) = (fs, c')"
    using Cons.prems(3) by (auto split: prod.splits)
  have n: "n + 1 < 2 ^ 63" "n + 1 + int (length ops) < 2 ^ 63" using Cons.prems(2) by simp_all
  from Cons.IH [OF inv_op_step [OF Cons.prems(1) n(1)] n(2) r op_step_genuine [OF Cons.prems(1) n(1) Cons.prems(4)]]
  show ?case .
qed simp

lemma run_ops_submits: "submits (fst (run_ops S ops c)) \<le> int (length ops)"
proof (induction ops arbitrary: c)
  case (Cons op ops)
  have "submits (events_of S op c) \<le> 1" by (auto simp: events_of_def split: sender_op.split option.split)
  with Cons [of "op_step S op c"] show ?case by (simp add: case_prod_beta)
qed simp

lemma window_New:
  "window_of (NewDataChannel nt cl se ta) = (0, [])"
  "lmb_messages (outgoingMessageBuffer (NewDataChannel nt cl se ta)) = []"
  by (simp_all add: window_of_def NewDataChannel_def RegisterStopHandler_def RegisterIncomingMessageHandler_def
      NewListMessageBuffer_def)

section \<open>Properties\<close>

text \<open>
  C5. The sending side refines the window of outstanding numbers.  From any state that satisfies the
  invariant, over any sequence of sends, arriving messages (acknowledgements, the handshake and the
  encryption challenge that answer with messages of their own, output, broken ones) and rounds of
  the resender: the channel's next number and the numbers of its buffer of sent messages are what
  the abstract machine computes from the acknowledgements that arrived and the numbers given out.
\<close>

theorem sender_refines_window:
  assumes "dc_inv n c" "n + int (length ops) < 2 ^ 63" "run_ops S ops c = (es, c')"
  shows "window_of c' = window_run OutgoingMessageBufferCapacity es (window_of c)"
  by (rule run_ops_refines [OF assms])


section \<open>Examples\<close>

theorem sender_refines_window_witness:
  "\<exists>es c'. run_ops demo [SendOp Output [108, 115], ResendOp, ReceiveOp [1, 2]] demo_channel = (es, c') \<and>
     window_of c' = window_run OutgoingMessageBufferCapacity es (0, [])"
proof -
  obtain es c' where r: "run_ops demo [SendOp Output [108, 115], ResendOp, ReceiveOp [1, 2]] demo_channel = (es, c')"
    by force
  have "window_of demo_channel = (0, [])" by (simp add: demo_channel_def window_New)
  with sender_refines_window [OF demo_channel_inv _ r] r show ?thesis by auto
qed


end
