(* ===== verification/Port_Life.thy ===== *)
theory Port_Life
  imports Shell Ports
begin

text \<open>
  The life of a port session: \<^verbatim>\<open>SetSessionHandlers\<close> of \<^verbatim>\<open>portsession.go\<close> with the
  goroutines that it starts, for the multiplexed variant also those of \<^verbatim>\<open>ReadStream\<close>,
  \<^verbatim>\<open>handleClientConnections\<close> and \<^verbatim>\<open>serve\<close>.  A schedule is a list of events; an
  event lets one goroutine take one turn of its loop.  Nested \<^verbatim>\<open>errgroup\<close>s have one
  record each: the goroutines, the first error, and through it the context.
\<close>

definition first_error :: "unit res \<Rightarrow> go_error option \<Rightarrow> go_error option" where
  "first_error r e = (case (r, e) of (Err x, None) \<Rightarrow> Some x | _ \<Rightarrow> e)"

definition group_result :: "go_error option \<Rightarrow> unit res" where
  "group_result e = (case e of None \<Rightarrow> Ok () | Some x \<Rightarrow> Err x)"

section \<open>The goroutines\<close>

text \<open>\<^verbatim>\<open>handleClientConnections\<close>: its listener, the goroutine that serves, the one that
  closes the listener, the accepted connections whose goroutines have not ended, and whether
  one of them called \<^verbatim>\<open>cancel\<close>.\<close>

record clients_run =
  cl_listener :: handle
  cl_serve :: goroutine
  cl_closer :: goroutine
  cl_conns :: "handle list"
  cl_cancelled :: bool
  cl_error :: "go_error option"

datatype clients = NotListening | Serving clients_run | ClientsDone "unit res"

text \<open>\<^verbatim>\<open>ReadStream\<close> of the multiplexed variant.\<close>

record mux_run =
  mr_transfer :: goroutine
  mr_clients :: clients
  mr_error :: "go_error option"

datatype reader = Starting | Reading | ReadingMux mux_run | Finished "unit res"

text \<open>\<^verbatim>\<open>SetSessionHandlers\<close>: its two goroutines, the goroutine of the data channel that
  listens, and whether the caller's context is done.  A panic ends the program.\<close>

record port_run =
  pr_signals :: goroutine
  pr_reader :: reader
  pr_listen :: goroutine
  pr_parent_done :: bool
  pr_error :: "go_error option"
  pr_panic :: bool

definition port_start :: port_run where
  "port_start = \<lparr>pr_signals = Running, pr_reader = Starting, pr_listen = Running, pr_parent_done = False,
     pr_error = None, pr_panic = False\<rparr>"

definition mux_start :: mux_run where
  "mux_start = \<lparr>mr_transfer = Running, mr_clients = NotListening, mr_error = None\<rparr>"

definition clients_start :: "handle \<Rightarrow> clients_run" where
  "clients_start listener = \<lparr>cl_listener = listener, cl_serve = Running, cl_closer = Running, cl_conns = [],
     cl_cancelled = False, cl_error = None\<rparr>"

text \<open>The contexts, each derived from the one around it.\<close>

definition port_ctx_done :: "port_run \<Rightarrow> bool" where
  "port_ctx_done g \<longleftrightarrow> pr_parent_done g \<or> pr_error g \<noteq> None"

definition mux_ctx_done :: "port_run \<Rightarrow> mux_run \<Rightarrow> bool" where
  "mux_ctx_done g m \<longleftrightarrow> port_ctx_done g \<or> mr_error m \<noteq> None"

definition clients_ctx_done :: "port_run \<Rightarrow> mux_run \<Rightarrow> clients_run \<Rightarrow> bool" where
  "clients_ctx_done g m k \<longleftrightarrow> mux_ctx_done g m \<or> cl_cancelled k \<or> cl_error k \<noteq> None"

section \<open>Ends of goroutines and groups\<close>

definition note_panic :: "unit res \<Rightarrow> port_run \<Rightarrow> port_run" where
  "note_panic r g = (if r = Panic then g\<lparr>pr_panic := True\<rparr> else g)"

definition port_return :: "unit res \<Rightarrow> port_run \<Rightarrow> port_run" where
  "port_return r g = note_panic r (g\<lparr>pr_error := first_error r (pr_error g)\<rparr>)"

definition reader_returns :: "unit res \<Rightarrow> port_run \<Rightarrow> port_run" where
  "reader_returns r g = port_return r (g\<lparr>pr_reader := Finished r\<rparr>)"

text \<open>\<^verbatim>\<open>ReadStream\<close> of the multiplexed variant returns when both of its goroutines have.\<close>

definition mux_check :: "mux_run \<Rightarrow> port_run \<Rightarrow> port_run" where
  "mux_check m g =
     (case mr_clients m of
        ClientsDone r \<Rightarrow>
          (if is_returned (mr_transfer m) \<and> r \<noteq> Blocked
           then reader_returns (wrap_err ''reading stream'' (mux_ReadStream_result (group_result (mr_error m)))) g
           else g\<lparr>pr_reader := ReadingMux m\<rparr>)
      | _ \<Rightarrow> g\<lparr>pr_reader := ReadingMux m\<rparr>)"

definition clients_return :: "unit res \<Rightarrow> mux_run \<Rightarrow> port_run \<Rightarrow> port_run" where
  "clients_return r m g =
     mux_check (m\<lparr>mr_clients := ClientsDone r, mr_error := first_error r (mr_error m)\<rparr>) (note_panic r g)"

text \<open>The end of \<^verbatim>\<open>handleClientConnections\<close>, when both goroutines of its group have
  returned: the listener is closed again, and the end of a stream is no error.\<close>

definition clients_check :: "('o, 'p) host \<Rightarrow> clients_run \<Rightarrow> mux_run \<Rightarrow> port_run \<times> ('o proc, 'p) DataChannel \<Rightarrow>
    port_run \<times> ('o proc, 'p) DataChannel" where
  "clients_check H k m st =
     (if is_returned (cl_serve k) \<and> is_returned (cl_closer k) then
        (case logged (on_out (io_Close H (cl_listener k)) (snd st)) of
           (Ok _, c) \<Rightarrow> (clients_return (mux_ReadStream_result (group_result (cl_error k))) m (fst st), c)
         | (r, c) \<Rightarrow> (clients_return r m (fst st), c))
      else (mux_check (m\<lparr>mr_clients := Serving k\<rparr>) (fst st), snd st))"

section \<open>Turns\<close>

text \<open>A goroutine whose call blocks for good has \<open>Returned Blocked\<close>, which does not count as
  having returned.  \<open>PortSignal\<close> says whether a signal arrived, \<open>StartStreams\<close> which of the two
  ends of the local socket was ready first, \<open>Connection\<close> which accepted connection is done and
  which direction ended first.\<close>

datatype port_event =
    PortSignal bool | StartStreams bool | ReadTurn | TransferTurn | SetupClients | ServeTurn
  | Connection nat bool | CloserTurn | PortIncoming bytes | PortParentDone

definition begin_reading :: "port_run \<Rightarrow> ('o proc, 'p) DataChannel \<Rightarrow> port_run \<times> ('o proc, 'p) DataChannel" where
  "begin_reading g c =
     (case portSessionType (port (proc_of c)) of
        Some (Basic _) \<Rightarrow>
          (case basic_ReadStream_lock c of
             (Ok _, c) \<Rightarrow> (g\<lparr>pr_reader := Reading\<rparr>, c)
           | (r, c) \<Rightarrow> (reader_returns r g, c))
      | Some (Mux _) \<Rightarrow> (g\<lparr>pr_reader := ReadingMux mux_start\<rparr>, c)
      | Some (Standard _) \<Rightarrow> (g\<lparr>pr_reader := Reading\<rparr>, c)
      | None \<Rightarrow> (reader_returns Panic g, c))"

definition start_streams :: "('o, 'p) host \<Rightarrow> bool \<Rightarrow> port_run \<Rightarrow> ('o proc, 'p) DataChannel \<Rightarrow>
    port_run \<times> ('o proc, 'p) DataChannel" where
  "start_streams H acceptFirst g c =
     (case swrap ''initializing streams'' (on_net (InitializeStreams H acceptFirst (sess_GetAgentVersion c)) c) of
        (Ok _, c) \<Rightarrow> begin_reading g c
      | (r, c) \<Rightarrow> (reader_returns r g, c))"

definition read_turn :: "('o, 'p) host \<Rightarrow> ('o proc, 'p) DataChannel \<Rightarrow> ('o proc, 'p) DataChannel turn" where
  "read_turn H c =
     (case portSessionType (port (proc_of c)) of
        Some (Basic _) \<Rightarrow> basic_ReadStream_turn H c
      | Some (Standard _) \<Rightarrow> std_ReadStream_turn H c
      | _ \<Rightarrow> (Some Panic, c))"

definition transfer_turn :: "('o, 'p) host \<Rightarrow> mux_run \<Rightarrow> port_run \<Rightarrow> ('o proc, 'p) DataChannel \<Rightarrow>
    port_run \<times> ('o proc, 'p) DataChannel" where
  "transfer_turn H m g c =
     (if mr_transfer m = Running then
        (case transferDataToServer_turn H (mux_ctx_done g m) c of
           (None, c) \<Rightarrow> (g, c)
         | (Some r, c) \<Rightarrow>
             (mux_check (m\<lparr>mr_transfer := Returned r, mr_error := first_error r (mr_error m)\<rparr>) (note_panic r g), c))
      else (g, c))"

definition setup_turn :: "('o, 'p) host \<Rightarrow> mux_run \<Rightarrow> port_run \<Rightarrow> ('o proc, 'p) DataChannel \<Rightarrow>
    port_run \<times> ('o proc, 'p) DataChannel" where
  "setup_turn H m g c =
     (case on_net (on_mux (setup_listener H)) c of
        (Ok listener, c) \<Rightarrow> (g\<lparr>pr_reader := ReadingMux (m\<lparr>mr_clients := Serving (clients_start listener)\<rparr>)\<rparr>, c)
      | (Err e, c) \<Rightarrow> (clients_return (Err e) m g, c)
      | (Panic, c) \<Rightarrow> (clients_return Panic m g, c)
      | (Blocked, c) \<Rightarrow> (clients_return Blocked m g, c))"

definition serve_ends :: "('o, 'p) host \<Rightarrow> unit res \<Rightarrow> clients_run \<Rightarrow> mux_run \<Rightarrow> port_run \<Rightarrow> ('o proc, 'p) DataChannel \<Rightarrow>
    port_run \<times> ('o proc, 'p) DataChannel" where
  "serve_ends H r k m g c =
     clients_check H (k\<lparr>cl_serve := Returned r, cl_error := first_error r (cl_error k)\<rparr>) m (note_panic r g, c)"

definition accept_turn :: "('o, 'p) host \<Rightarrow> clients_run \<Rightarrow> mux_run \<Rightarrow> port_run \<Rightarrow> ('o proc, 'p) DataChannel \<Rightarrow>
    port_run \<times> ('o proc, 'p) DataChannel" where
  "accept_turn H k m g c =
     (if cl_serve k = Running then
        (case swrap ''serving connections'' (on_net (on_mux (serve_turn H (cl_listener k))) c) of
           (Ok conn, c) \<Rightarrow>
             (g\<lparr>pr_reader := ReadingMux (m\<lparr>mr_clients := Serving (k\<lparr>cl_conns := cl_conns k @ [conn]\<rparr>)\<rparr>)\<rparr>, c)
         | (Err e, c) \<Rightarrow> serve_ends H (Err e) k m g c
         | (Panic, c) \<Rightarrow> serve_ends H Panic k m g c
         | (Blocked, c) \<Rightarrow> serve_ends H Blocked k m g c)
      else (g, c))"

text \<open>The goroutine of an accepted connection; one that is still copying when the group is done
  is not followed any further.\<close>

definition connection_turn :: "('o, 'p) host \<Rightarrow> nat \<Rightarrow> bool \<Rightarrow> clients_run \<Rightarrow> mux_run \<Rightarrow> port_run \<Rightarrow>
    ('o proc, 'p) DataChannel \<Rightarrow> port_run \<times> ('o proc, 'p) DataChannel" where
  "connection_turn H i outFirst k m g c =
     (if i < length (cl_conns k) then
        (let (r, c) = on_net (on_mux (mux_acceptConnection H outFirst (cl_conns k ! i))) c;
             k = k\<lparr>cl_conns := take i (cl_conns k) @ drop (Suc i) (cl_conns k)\<rparr>;
             k = (case r of Err _ \<Rightarrow> k\<lparr>cl_cancelled := True\<rparr> | _ \<Rightarrow> k) in
         (note_panic r (g\<lparr>pr_reader := ReadingMux (m\<lparr>mr_clients := Serving k\<rparr>)\<rparr>), c))
      else (g, c))"

definition closer_turn :: "('o, 'p) host \<Rightarrow> clients_run \<Rightarrow> mux_run \<Rightarrow> port_run \<Rightarrow> ('o proc, 'p) DataChannel \<Rightarrow>
    port_run \<times> ('o proc, 'p) DataChannel" where
  "closer_turn H k m g c =
     (if cl_closer k = Running \<and> clients_ctx_done g m k then
        (let (r, c) = swrap ''closing listener'' (on_out (io_Close H (cl_listener k)) c) in
         clients_check H (k\<lparr>cl_closer := Returned r, cl_error := first_error r (cl_error k)\<rparr>) m (note_panic r g, c))
      else (g, c))"

text \<open>The turns of the goroutines below \<^verbatim>\<open>ReadStream\<close> of the multiplexed variant.\<close>

fun mux_event :: "('o, 'p) host \<Rightarrow> port_event \<Rightarrow> mux_run \<Rightarrow> port_run \<Rightarrow> ('o proc, 'p) DataChannel \<Rightarrow>
    port_run \<times> ('o proc, 'p) DataChannel" where
  "mux_event H TransferTurn m g c = transfer_turn H m g c"
| "mux_event H SetupClients m g c = (if mr_clients m = NotListening then setup_turn H m g c else (g, c))"
| "mux_event H ServeTurn m g c = (case mr_clients m of Serving k \<Rightarrow> accept_turn H k m g c | _ \<Rightarrow> (g, c))"
| "mux_event H (Connection i outFirst) m g c =
     (case mr_clients m of Serving k \<Rightarrow> connection_turn H i outFirst k m g c | _ \<Rightarrow> (g, c))"
| "mux_event H CloserTurn m g c = (case mr_clients m of Serving k \<Rightarrow> closer_turn H k m g c | _ \<Rightarrow> (g, c))"
| "mux_event H _ m g c = (g, c)"

fun port_turn :: "('o, 'p) host \<Rightarrow> Session \<Rightarrow> port_event \<Rightarrow> port_run \<Rightarrow> ('o proc, 'p) DataChannel \<Rightarrow>
    port_run \<times> ('o proc, 'p) DataChannel" where
  "port_turn H s (PortSignal signalled) g c =
     (if pr_signals g = Running then
        (case port_HandleControlSignals_turn H s (port_ctx_done g) signalled c of
           (None, c) \<Rightarrow> (g, c)
         | (Some r, c) \<Rightarrow> (port_return r (g\<lparr>pr_signals := Returned r\<rparr>), c))
      else (g, c))"
| "port_turn H s (StartStreams acceptFirst) g c =
     (if pr_reader g = Starting then start_streams H acceptFirst g c else (g, c))"
| "port_turn H s ReadTurn g c =
     (if pr_reader g = Reading then
        (case read_turn H c of
           (None, c) \<Rightarrow> (g, c)
         | (Some r, c) \<Rightarrow> (reader_returns (wrap_err ''reading stream'' r) g, c))
      else (g, c))"
| "port_turn H s (PortIncoming raw) g c =
     (if pr_listen g = Running then
        (case listen_message (ss H) raw c of
           (None, c) \<Rightarrow> (g, c)
         | (Some r, c) \<Rightarrow> (note_panic r (g\<lparr>pr_listen := Returned r\<rparr>), c))
      else (g, c))"
| "port_turn H s PortParentDone g c = (g\<lparr>pr_parent_done := True\<rparr>, c)"
| "port_turn H s e g c = (case pr_reader g of ReadingMux m \<Rightarrow> mux_event H e m g c | _ \<Rightarrow> (g, c))"

definition port_step :: "('o, 'p) host \<Rightarrow> Session \<Rightarrow> port_event \<Rightarrow> port_run \<times> ('o proc, 'p) DataChannel \<Rightarrow>
    port_run \<times> ('o proc, 'p) DataChannel" where
  "port_step H s e st = (if pr_panic (fst st) then st else port_turn H s e (fst st) (snd st))"

definition run_port :: "('o, 'p) host \<Rightarrow> Session \<Rightarrow> port_event list \<Rightarrow> port_run \<times> ('o proc, 'p) DataChannel \<Rightarrow>
    port_run \<times> ('o proc, 'p) DataChannel" where
  "run_port H s schedule st = foldl (\<lambda>st e. port_step H s e st) st schedule"

definition is_finished :: "reader \<Rightarrow> bool" where
  "is_finished r = (case r of Finished x \<Rightarrow> x \<noteq> Blocked | _ \<Rightarrow> False)"

definition port_wait :: "port_run \<Rightarrow> unit res" where
  "port_wait g =
     (if pr_panic g then Panic
      else if is_returned (pr_signals g) \<and> is_finished (pr_reader g) then group_result (pr_error g)
      else Blocked)"

definition port_SetSessionHandlers :: "('o, 'p) host \<Rightarrow> Session \<Rightarrow> port_event list \<Rightarrow> ('o proc, 'p) DataChannel \<Rightarrow>
    unit res \<times> ('o proc, 'p) DataChannel" where
  "port_SetSessionHandlers H s schedule c =
     (let (g, c) = run_port H s schedule (port_start, c) in
      (wrap_err ''waiting for goroutine group'' (port_wait g), c))"

end
