(* ===== verification/Executor.thy ===== *)
theory Executor
  imports Port_Life
begin

text \<open>
  \<^verbatim>\<open>src/executor/executor.go\<close>: starting a session.  The AWS clients and the ARN parser of
  the AWS SDK are the functions of the record \<open>aws\<close>; a pointer that the SDK returns is an
  option, and dereferencing nil panics.
\<close>

record ARN =
  arn_Partition :: string
  arn_Service :: string
  arn_Region :: string
  arn_AccountID :: string
  arn_Resource :: string

text \<open>The session that the service started: \<^verbatim>\<open>SessionId\<close>, \<^verbatim>\<open>StreamUrl\<close> and
  \<^verbatim>\<open>TokenValue\<close>.\<close>

type_synonym started = "string option \<times> string option \<times> string option"

record StartSessionInput =
  ssi_Target :: string
  ssi_DocumentName :: string
  ssi_Parameters :: "(string \<times> string list) list"

record ExecuteCommandInput =
  eci_Cluster :: string
  eci_Task :: string
  eci_Container :: string
  eci_Command :: string
  eci_Interactive :: bool

record 'o aws =
  arn_Parse :: "string \<Rightarrow> ARN res"
  arn_String :: "ARN \<Rightarrow> string"
  uuid_NewRandom :: "'o \<Rightarrow> uuid res \<times> 'o"
  ssm_StartSession :: "StartSessionInput \<Rightarrow> 'o \<Rightarrow> started res \<times> 'o"
  ecs_ExecuteCommand :: "ExecuteCommandInput \<Rightarrow> 'o \<Rightarrow> started option res \<times> 'o"

record PortForwardSessionOptions =
  pfo_ClusterName :: string
  pfo_TaskARN :: string
  pfo_ContainerRuntimeID :: string
  pfo_Host :: string
  pfo_PortNumber :: int
  pfo_LocalPortNumber :: int

record ShellSessionOptions =
  sso_ClusterName :: string
  sso_TaskARN :: string
  sso_ContainerName :: string
  sso_ContainerRuntimeID :: string
  sso_Command :: string

definition buildTargetID :: "'o aws \<Rightarrow> string \<Rightarrow> string \<Rightarrow> string \<Rightarrow> string res" where
  "buildTargetID A clusterName taskARN containerRuntimeID =
     rbind (case arn_Parse A taskARN of Err e \<Rightarrow> Err (Joined [ErrInvalidARN, e]) | r \<Rightarrow> r) (\<lambda>parsedARN.
     let taskResourceParts = split_on (CHR ''/'') (arn_Resource parsedARN) in
     if length taskResourceParts < 3 then Err ErrInvalidARN
     else Ok (''ecs:'' @ clusterName @ ''_'' @ taskResourceParts ! 2 @ ''_'' @ containerRuntimeID))"

text \<open>\<^verbatim>\<open>newSession\<close>: a web socket channel that is not open yet, its data channel and the
  session.  The objects of the plug-ins are their zero values.\<close>

definition new_proc :: "'o \<Rightarrow> 'o proc" where
  "new_proc w = \<lparr>shell = new_shell, port = \<lparr>ps_portParameters = \<lparr>PortNumber = [], LocalPortNumber = [],
     LocalUnixSocket = [], LocalConnectionType = [], pp_Type = []\<rparr>, portSessionType = None\<rparr>, outside = w\<rparr>"

definition newSession :: "('o, 'p) host \<Rightarrow> 'o aws \<Rightarrow> string \<Rightarrow> string \<Rightarrow> string \<Rightarrow> string \<Rightarrow> 'o \<Rightarrow>
    (Session \<times> ('o proc, 'p) DataChannel) res \<times> 'o" where
  "newSession H A target sid streamURL tokenValue w =
     sbind (swrap ''generate UUID'' (uuid_NewRandom A w)) (\<lambda>clientID w.
     let wsChannel = NewWebSocketChannel streamURL tokenValue;
         dataChannel = NewDataChannel \<lparr>ws = wsChannel, world = new_proc w\<rparr>
           (uuid_String (base H) clientID) sid target in
     (Ok (NewSession sid, dataChannel), w))"

text \<open>What happens while a session runs: the turns of the goroutines until the session type is
  known, the choice of its \<^verbatim>\<open>select\<close>, and the schedules of a shell session and of a port
  session.\<close>

record run_of =
  open_schedule :: "open_event list"
  prefer_timeout :: bool
  shell_schedule :: "shell_event list"
  port_schedule :: "port_event list"

text \<open>The end of \<^verbatim>\<open>initSession\<close>: a closed network connection is not an error.\<close>

definition ending :: "unit res \<times> 's \<Rightarrow> unit res \<times> 's" where
  "ending r =
     (case fst r of
        Err e \<Rightarrow> (if errors_Is e ErrClosed then Ok () else Err (Wrap ''ending with error'' e), snd r)
      | _ \<Rightarrow> r)"

definition initSession :: "('o, 'p) host \<Rightarrow> run_of \<Rightarrow> Session \<Rightarrow> ('o proc, 'p) DataChannel \<Rightarrow>
    unit res \<times> ('o proc, 'p) DataChannel" where
  "initSession H R s c =
     sbind (swrap ''opening data channel'' (OpenDataChannel H s (open_schedule R) (prefer_timeout R) c)) (\<lambda>sessionType c.
     if sessionType = ShellPluginName then
       ending (shell_SetSessionHandlers H (shell_schedule R) (NewShellSession H c))
     else if sessionType = PortPluginName then
       sbind (swrap ''creating session subtype'' (NewPortSession H s c)) (\<lambda>_ c.
       ending (port_SetSessionHandlers H s (port_schedule R) c))
     else (Err ErrInvalidSessionType, c))"

text \<open>Dereferencing the pointers of a started session, and running it.\<close>

definition run_started :: "('o, 'p) host \<Rightarrow> 'o aws \<Rightarrow> run_of \<Rightarrow> string \<Rightarrow> started \<Rightarrow> 'o \<Rightarrow> unit res \<times> 'o" where
  "run_started H A R target st w =
     (case st of
        (Some sid, Some streamURL, Some tokenValue) \<Rightarrow>
          sbind (newSession H A target sid streamURL tokenValue w) (\<lambda>(sess, c) w.
          map_prod id (\<lambda>c. outside (proc_of c)) (initSession H R sess c))
      | _ \<Rightarrow> (Panic, w))"

definition PortForwardSession :: "('o, 'p) host \<Rightarrow> 'o aws \<Rightarrow> run_of \<Rightarrow> PortForwardSessionOptions \<Rightarrow> 'o \<Rightarrow>
    unit res \<times> 'o" where
  "PortForwardSession H A R options w =
     sbind (buildTargetID A (pfo_ClusterName options) (pfo_TaskARN options) (pfo_ContainerRuntimeID options), w)
       (\<lambda>target w.
     let params = [(''portNumber'', [Itoa (pfo_PortNumber options)]),
                   (''localPortNumber'', [Itoa (pfo_LocalPortNumber options)])];
         input = (if pfo_Host options \<noteq> []
           then \<lparr>ssi_Target = target, ssi_DocumentName = ''AWS-StartPortForwardingSessionToRemoteHost'',
                 ssi_Parameters = params @ [(''host'', [pfo_Host options])]\<rparr>
           else \<lparr>ssi_Target = target, ssi_DocumentName = ''AWS-StartPortForwardingSession'',
                 ssi_Parameters = params\<rparr>) in
     sbind (swrap ''start session'' (ssm_StartSession A input w)) (\<lambda>st w.
     run_started H A R target st w))"

definition exec_ShellSession :: "('o, 'p) host \<Rightarrow> 'o aws \<Rightarrow> run_of \<Rightarrow> ShellSessionOptions \<Rightarrow> 'o \<Rightarrow>
    unit res \<times> 'o" where
  "exec_ShellSession H A R options w =
     sbind (buildTargetID A (sso_ClusterName options) (sso_TaskARN options) (sso_ContainerRuntimeID options), w)
       (\<lambda>target w.
     sbind (swrap ''execute command'' (ecs_ExecuteCommand A
       \<lparr>eci_Cluster = sso_ClusterName options, eci_Task = sso_TaskARN options,
        eci_Container = sso_ContainerName options, eci_Command = sso_Command options, eci_Interactive = True\<rparr> w))
       (\<lambda>session w.
     case session of None \<Rightarrow> (Panic, w) | Some st \<Rightarrow> run_started H A R target st w))"

lemma ending_simps [simp]: "snd (ending r) = snd r" "settled (fst (ending r)) = settled (fst r)"
  by (cases "fst r"; simp add: ending_def)+

end
