(* ===== verification/Session_Invariant.thy ===== *)
theory Session_Invariant
  imports Sending Executor Host_Demo
begin

text \<open>
  The invariant of the data channel over a whole session.  The plug-ins reach the channel only
  through its methods and the connection, so every turn of their goroutines keeps what holds of
  the channel: the invariant of \<open>Channel_Invariant\<close>, and that what is remembered of a sent message
  is the message.  The number counts the turns that may send.
\<close>

definition chan_inv :: "('w, 'p) sys \<Rightarrow> int \<Rightarrow> ('w, 'p) DataChannel \<Rightarrow> bool" where
  "chan_inv S n c \<longleftrightarrow> dc_inv n c \<and> (\<forall>m \<in> set (lmb_messages (outgoingMessageBuffer c)). genuine S m)"

lemma chan_inv_net [simp]: "chan_inv S n (c\<lparr>net := x\<rparr>) = chan_inv S n c"
  by (simp add: chan_inv_def)

lemma chan_inv_only_net: "only_net c c' \<Longrightarrow> chan_inv S n c' = chan_inv S n c"
  by (auto simp: only_net_def)

lemma chan_inv_keep: "only_net c c' \<Longrightarrow> chan_inv S n c \<Longrightarrow> chan_inv S n c'"
  by (simp add: chan_inv_only_net)

lemma chan_inv_mono: "chan_inv S n c \<Longrightarrow> n \<le> n' \<Longrightarrow> chan_inv S n' c"
  by (auto simp: chan_inv_def intro: inv_mono)

lemma chan_inv_Suc [intro]: "chan_inv S n c \<Longrightarrow> chan_inv S (n + 1) c"
  using chan_inv_mono [of S n c "n + 1"] by simp

lemmas chan_inv_nets = chan_inv_only_net [OF only_net_on_net] chan_inv_only_net [OF only_net_on_w]
  chan_inv_only_net [OF only_net_sleep] chan_inv_only_net [OF only_net_Close] chan_inv_only_net [OF only_net_resend]
  chan_inv_only_net [OF only_net_open] chan_inv_only_net [OF only_net_call_retrier]

lemma chan_inv_out: "chan_inv S n (snd (on_out f c)) = chan_inv S n c" "chan_inv S n (upd_shell g c) = chan_inv S n c"
  by (simp_all add: on_out_def upd_shell_def chan_inv_nets)

lemma chan_inv_New: "chan_inv S 0 (NewDataChannel nt cl se ta)"
  by (simp add: chan_inv_def inv_New window_New)

section \<open>Sending and receiving\<close>

lemma chan_inv_op: "chan_inv S n c \<Longrightarrow> n + 1 < 2 ^ 63 \<Longrightarrow> chan_inv S (n + 1) (op_step S op c)"
  unfolding chan_inv_def by (meson inv_op_step op_step_genuine)

lemma chan_inv_send:
  "chan_inv (ss H) n c \<Longrightarrow> n + 1 < 2 ^ 63 \<Longrightarrow> chan_inv (ss H) (n + 1) (snd (sess_SendInputDataMessage H pt d c))"
  using chan_inv_op [of "ss H" n c "SendOp pt d"] by (simp add: op_step_def sess_SendInputDataMessage_def)

lemma chan_inv_flag:
  "chan_inv (ss H) n c \<Longrightarrow> n + 1 < 2 ^ 63 \<Longrightarrow> chan_inv (ss H) (n + 1) (snd (sess_SendFlag H f c))"
  using chan_inv_op [of "ss H" n c "SendOp Flag (be_bytes 4 (unat f))"] by (simp add: op_step_def sess_SendFlag_def SendFlag_def)

lemma chan_inv_listen_message:
  assumes "chan_inv S n c" "n + 1 < 2 ^ 63"
  shows "chan_inv S (n + 1) (snd (listen_message S raw c))"
proof -
  let ?c = "snd (on_net (incomingMessageHandler c raw) c)"
  have c: "chan_inv S n ?c" using assms by (simp add: chan_inv_nets)
  have o: "chan_inv S (n + 1) (snd (outputMessageHandler S raw ?c))"
    using chan_inv_op [OF c assms(2), of "ReceiveOp raw"] by (simp add: op_step_def)
  have cl: "chan_inv S (n + 1) (snd (sbind (logged (Close S d)) (\<lambda>_ c. (Err e :: unit res, c))))"
    if "chan_inv S (n + 1) d" for d e by (rule sbind_snd) (use that in \<open>auto simp: chan_inv_nets\<close>)
  show ?thesis
    using c o by (auto simp: listen_message_def intro: cl split: prod.split res.split)
qed

lemma chan_inv_listen_round:
  assumes "chan_inv S n c" "n + 1 < 2 ^ 63"
  shows "chan_inv S (n + 1) (snd (listen_round S h r c))"
proof -
  let ?c = "snd (on_net (ws_ReadMessage S) c)"
  let ?d = "call_retrier S r (refresh_and_reconnect S h) ?c"
  have c: "chan_inv S n ?c" "chan_inv S n (snd ?d)" using assms(1) by (simp_all add: chan_inv_nets)
  have cl: "chan_inv S (n + 1) (snd (sbind (logged (Close S d)) (\<lambda>_ c. (Err e :: unit res, c))))"
    if "chan_inv S n d" for d e by (rule sbind_snd) (use that in \<open>auto simp: chan_inv_nets\<close>)
  from c cl chan_inv_listen_message [OF _ assms(2)] show ?thesis
    by (cases "on_net (ws_ReadMessage S) c"; cases ?d)
      (auto simp: listen_round_def split: res.split)
qed

lemma chan_inv_goes_on:
  "chan_inv S n (snd r) \<Longrightarrow> (\<And>c. chan_inv S n (f c) = chan_inv S n c) \<Longrightarrow> chan_inv S n (snd (goes_on f r))"
  by (simp add: goes_on_def split: res.split)

section \<open>The shell session\<close>

text \<open>A step that keeps the invariant, with one more turn counted.\<close>

definition next_inv :: "('w, 'p) sys \<Rightarrow> int \<Rightarrow> ('w, 'p) DataChannel \<Rightarrow> ('w, 'p) DataChannel \<Rightarrow> bool" where
  "next_inv S n c c' \<longleftrightarrow> (chan_inv S n c \<longrightarrow> n + 1 < 2 ^ 63 \<longrightarrow> chan_inv S (n + 1) c')"

lemma next_inv_only_net: "only_net c c' \<Longrightarrow> next_inv S n c c'"
  by (auto simp: next_inv_def chan_inv_only_net)

lemma next_inv_send: "only_net c d \<Longrightarrow> next_inv (ss H) n c (snd (sess_SendInputDataMessage H pt b d))"
  by (auto simp: next_inv_def chan_inv_only_net intro: chan_inv_send)

lemma next_inv_goes_on:
  "next_inv S n c (snd r) \<Longrightarrow> (\<And>d. only_net d (f d)) \<Longrightarrow> next_inv S n c (snd (goes_on f r))"
  by (auto simp: next_inv_def goes_on_def intro: chan_inv_keep split: res.split)

lemma next_inv_start:
  "only_net c (snd r) \<Longrightarrow> (\<And>x d. only_net c d \<Longrightarrow> next_inv S n c (snd (f x d))) \<Longrightarrow> next_inv S n c (snd (sbind r f))"
  by (cases "fst r") (auto simp: sbind_def next_inv_only_net)

lemma next_inv_end:
  "next_inv S n c (snd r) \<Longrightarrow> (\<And>x d. only_net d (snd (f x d))) \<Longrightarrow> next_inv S n c (snd (sbind r f))"
  by (cases "fst r") (auto simp: sbind_def next_inv_def intro: chan_inv_keep)

lemma only_net_on_out [simp]: "only_net c (snd (on_out f c))" "only_net c (upd_shell g c)"
  by (simp_all add: on_out_def upd_shell_def)

lemma only_net_D: "on_net f c = (r, d) \<Longrightarrow> only_net c d" "on_out h c = (r', d) \<Longrightarrow> only_net c d"
  by (metis snd_conv only_net_on_net) (metis snd_conv only_net_on_out(1))

lemma next_inv_resize: "next_inv (ss H) n c (snd (handleTerminalResize_turn H c))"
proof -
  have size: "only_net c (snd (getTerminalSize H c))"
    unfolding getTerminalSize_def by (intro only_net_sbind) (auto intro!: only_net_sbind)
  have "next_inv (ss H) n c (snd (resize_to H w h d))" if "only_net c d" for w h d
  proof -
    let ?d = "upd_shell (shell_SizeData_update (\<lambda>_. \<lparr>Cols = w, Rows = h\<rparr>)) d"
    have "only_net c ?d" by (rule only_net_trans [OF that only_net_on_out(2)])
    then have "next_inv (ss H) n c (snd (sbind (wrap_err t r, ?d) (\<lambda>b c. swrap t' (sess_SendInputDataMessage H Size b c))))" for t t' r
      by (intro next_inv_start) (simp_all add: next_inv_send)
    then show ?thesis using that by (simp add: resize_to_def Let_def next_inv_only_net)
  qed
  with size show ?thesis
    by (cases "getTerminalSize H c") (auto simp: handleTerminalResize_turn_def next_inv_only_net
        intro!: next_inv_goes_on split: res.split)
qed

lemma next_inv_shell_turns:
  "next_inv (ss H) n c (snd (HandleControlSignals_turn H sig c))" "next_inv (ss H) n c (snd (keyboard_top c))"
  "next_inv (ss H) n c (snd (keyboard_read H ready c))" "next_inv (ss H) n c (snd (listen_message (ss H) raw c))"
proof -
  have "only_net c (snd (ctx_Read H ready StdinBufferLimit c))" by (simp add: ctx_Read_def)
  then show "next_inv (ss H) n c (snd (keyboard_read H ready c))"
    by (cases "ctx_Read H ready StdinBufferLimit c")
      (auto simp: keyboard_read_def next_inv_only_net intro!: next_inv_goes_on next_inv_send split: res.split)
qed (auto simp: HandleControlSignals_turn_def keyboard_top_def next_inv_only_net next_inv_def [of _ _ _ "snd (listen_message _ _ _)"]
    chan_inv_listen_message intro!: next_inv_goes_on next_inv_send split: option.split)

lemma next_inv_shell_step: "next_inv (ss H) n (snd st) (snd (shell_step H e st))"
proof -
  obtain g c where st: "st = (g, c)" by force
  have ret: "next_inv (ss H) n c (snd (group_return r (g', d)))" if "next_inv (ss H) n c d" for r g' d
    using that by (auto simp: group_return_def next_inv_def chan_inv_out split: res.split)
  have turns: "handleTerminalResize_turn H c = (r, d) \<Longrightarrow> next_inv (ss H) n c d"
    "HandleControlSignals_turn H sig c = (r, d) \<Longrightarrow> next_inv (ss H) n c d"
    "keyboard_top c = (r, d) \<Longrightarrow> next_inv (ss H) n c d" "keyboard_read H ready c = (r, d) \<Longrightarrow> next_inv (ss H) n c d"
    "listen_message (ss H) raw c = (r, d) \<Longrightarrow> next_inv (ss H) n c d" for r d sig ready raw
    by (metis snd_conv next_inv_resize next_inv_shell_turns)+
  show ?thesis
    by (cases e) (auto simp: st next_inv_only_net dest: turns intro!: ret split: prod.split option.split goroutine.split)
qed

lemma chan_inv_run:
  assumes "\<And>n e st. next_inv S n (snd st) (snd (step e st))"
  shows "chan_inv S n (snd st) \<Longrightarrow> n + int (length es) < 2 ^ 63 \<Longrightarrow>
    chan_inv S (n + int (length es)) (snd (foldl (\<lambda>st e. step e st) st es))"
proof (induction es arbitrary: n st)
  case (Cons e es)
  from assms [of n st e] Cons.prems have "chan_inv S (n + 1) (snd (step e st))" by (simp add: next_inv_def)
  from Cons.IH [OF this] Cons.prems(2) show ?case by (simp add: ac_simps)
qed simp

section \<open>The port session\<close>

lemma next_inv_flag: "only_net c d \<Longrightarrow> next_inv (ss H) n c (snd (sess_SendFlag H f d))"
  by (auto simp: next_inv_def chan_inv_only_net intro: chan_inv_flag)

lemma next_inv_flag_then:
  "only_net c d \<Longrightarrow> (\<And>x. only_net x (snd (g x))) \<Longrightarrow>
   next_inv (ss H) n c (snd (sbind (swrap t (sess_SendFlag H f d)) (\<lambda>_ c. g c)))"
  by (rule next_inv_end) (simp_all add: next_inv_flag)

lemma next_inv_basic_read: "next_inv (ss H) n c (snd (basic_read H c))"
proof -
  have "next_inv (ss H) n c (snd (case on_out f c of
      (Err e, c) \<Rightarrow> goes_on (\<lambda>c. c)
        (sbind (swrap t (sess_SendFlag H DisconnectToPort c)) (\<lambda>_ c. swrap t' (on_net (on_basic (basic_reconnect H)) c)))
    | (Ok msg, c) \<Rightarrow> goes_on (dc_sleep (ss H) Millisecond) (swrap t'' (sess_SendInputDataMessage H Output msg c))
    | (Panic, c) \<Rightarrow> (Some Panic, c) | (Blocked, c) \<Rightarrow> (Some Blocked, c)))" for f t t' t''
    using only_net_on_out(1) [of c f]
    by (cases "on_out f c") (auto split: res.split simp: next_inv_only_net
        intro!: next_inv_goes_on next_inv_flag_then next_inv_send)
  then show ?thesis by (auto simp: basic_read_def next_inv_only_net split: option.split IPortSession.split)
qed

lemma next_inv_read_turn: "next_inv (ss H) n c (snd (read_turn H c))"
proof -
  have "next_inv (ss H) n c (snd (basic_ReadStream_turn H c))"
    using next_inv_basic_read [of H n c]
    by (auto simp: basic_ReadStream_turn_def basic_unlock_def next_inv_def chan_inv_nets split: prod.split option.split res.split)
  moreover have "next_inv (ss H) n c (snd (std_ReadStream_turn H c))"
    unfolding std_ReadStream_turn_def
    by (auto split: prod.split res.split simp: next_inv_only_net only_net_D intro!: next_inv_goes_on next_inv_send)
  ultimately show ?thesis by (auto simp: read_turn_def next_inv_only_net split: option.split IPortSession.split)
qed

lemma next_inv_transfer: "next_inv (ss H) n c (snd (transferDataToServer_turn H b c))"
proof -
  have "next_inv (ss H) n c (snd (case on_out f c of
      (Err e, c) \<Rightarrow> (Some (Err (k e)), c)
    | (Ok msg, c) \<Rightarrow> goes_on (dc_sleep (ss H) Millisecond) (swrap t (sess_SendInputDataMessage H Output msg c))
    | (Panic, c) \<Rightarrow> (Some Panic, c) | (Blocked, c) \<Rightarrow> (Some Blocked, c)))" for f k t
    using only_net_on_out(1) [of c f]
    by (cases "on_out f c") (auto split: res.split simp: next_inv_only_net intro!: next_inv_goes_on next_inv_send)
  then show ?thesis
    by (auto simp: transferDataToServer_turn_def next_inv_only_net split: option.split IPortSession.split)
qed

lemma next_inv_signals: "next_inv (ss H) n c (snd (port_HandleControlSignals_turn H s b sig c))"
  by (auto simp: port_HandleControlSignals_turn_def basic_HandleControlSignals_turn_def mux_HandleControlSignals_turn_def
      Let_def next_inv_only_net intro!: next_inv_goes_on next_inv_flag_then split: option.split IPortSession.split)

text \<open>Everything else leaves all of the channel but the connection and the world alone.\<close>

lemma only_net_start_streams: "only_net c (snd (start_streams H a g c))"
proof -
  have b: "only_net d (snd (begin_reading g d))" for d :: "('a proc, 'b) DataChannel"
    by (auto simp: begin_reading_def basic_ReadStream_lock_def only_net_D split: option.split IPortSession.split prod.split res.split)
  show ?thesis
    by (auto simp: start_streams_def swrap_def intro: only_net_trans [OF only_net_on_net b] split: res.split)
qed

lemma only_net_clients_check: "only_net (snd st) (snd (clients_check H k m st))"
  using only_net_on_out(1) [of "snd st" "io_Close H (cl_listener k)"]
  by (auto simp: clients_check_def logged_def only_net_D split: prod.split res.split)

lemma only_net_mux_turns:
  "only_net c (snd (setup_turn H m g c))" "only_net c (snd (accept_turn H k m g c))"
  "only_net c (snd (connection_turn H i b k m g c))" "only_net c (snd (closer_turn H k m g c))"
proof -
  have chk: "only_net d (snd (clients_check H k m (g, d)))" for k m g and d :: "('a proc, 'b) DataChannel"
    using only_net_clients_check [of "(g, d)" H k m] by simp
  show "only_net c (snd (setup_turn H m g c))"
    by (auto simp: setup_turn_def only_net_D split: prod.split res.split)
  show "only_net c (snd (accept_turn H k m g c))"
    by (auto simp: accept_turn_def serve_ends_def swrap_def intro: only_net_trans [OF only_net_on_net chk] split: res.split)
  show "only_net c (snd (connection_turn H i b k m g c))"
    by (auto simp: connection_turn_def Let_def only_net_D split: prod.split)
  show "only_net c (snd (closer_turn H k m g c))"
    by (auto simp: closer_turn_def Let_def swrap_def case_prod_beta intro: only_net_trans [OF only_net_on_out(1) chk])
qed

lemma next_inv_mux_event: "next_inv (ss H) n c (snd (mux_event H e m g c))"
proof -
  have "next_inv (ss H) n c (snd (transfer_turn H m g c))"
    using next_inv_transfer [of H n c "mux_ctx_done g m"]
    by (auto simp: transfer_turn_def next_inv_only_net split: prod.split option.split)
  then show ?thesis
    by (cases e) (auto simp: next_inv_only_net only_net_mux_turns split: clients.split)
qed

lemma next_inv_port_step: "next_inv (ss H) n (snd st) (snd (port_step H s e st))"
proof -
  let ?c = "snd st"
  have mux: "next_inv (ss H) n ?c (snd (case pr_reader (fst st) of
      ReadingMux m \<Rightarrow> mux_event H e m (fst st) ?c | _ \<Rightarrow> (fst st, ?c)))" for e
    by (auto simp: next_inv_mux_event next_inv_only_net split: reader.split)
  have turns: "port_HandleControlSignals_turn H s b sig ?c = (r, d) \<Longrightarrow> next_inv (ss H) n ?c d"
    "read_turn H ?c = (r, d) \<Longrightarrow> next_inv (ss H) n ?c d"
    "listen_message (ss H) raw ?c = (r, d) \<Longrightarrow> next_inv (ss H) n ?c d" for r d b sig raw
    by (metis snd_conv next_inv_signals next_inv_read_turn next_inv_shell_turns(4))+
  have "next_inv (ss H) n ?c (snd (port_turn H s e (fst st) ?c))"
    using mux by (cases e) (auto simp: next_inv_only_net only_net_start_streams dest: turns split: prod.split option.split)
  then show ?thesis by (simp add: port_step_def next_inv_only_net)
qed

section \<open>The whole session\<close>

lemma chan_inv_regs [simp]:
  "chan_inv S n (RegisterOutputStreamHandler h b c) = chan_inv S n c"
  "chan_inv S n (RegisterStopHandler s c) = chan_inv S n c"
  "chan_inv S n (RegisterIncomingMessageHandler i c) = chan_inv S n c"
  by (simp_all add: chan_inv_def RegisterOutputStreamHandler_def RegisterStopHandler_def RegisterIncomingMessageHandler_def
      inv_more_updates)

lemma chan_inv_connect:
  assumes "chan_inv S n c"
  shows "chan_inv S n (snd (Open_connect S c))"
proof -
  let ?d = "snd (channel_retrier S (RegisterOutputStreamHandler FirstMessageHandler False c))"
  have d: "chan_inv S n (snd (dc_open S ?d))"
    using assms by (simp add: channel_retrier_def case_prod_beta chan_inv_nets)
  then have "chan_inv S n (snd (call_retrier S r (reconnect S) (snd (dc_open S ?d))))" for r
    by (simp add: chan_inv_nets)
  with d show ?thesis by (auto simp: Open_connect_def Let_def case_prod_beta split: res.split)
qed

lemma chan_inv_report: "chan_inv S n c \<Longrightarrow> chan_inv S n (snd (report_resend_error r c))"
proof -
  have "outgoingMessageBuffer (snd (report_resend_error r c)) = outgoingMessageBuffer c"
    by (simp add: report_resend_error_def chan_send_def split: res.split)
  then show "chan_inv S n c \<Longrightarrow> ?thesis" by (simp add: chan_inv_def inv_report)
qed

lemma next_inv_open_step:
  assumes "\<And>b c. next_inv S n c (snd (caller b c))"
  shows "next_inv S n (snd st) (snd (open_step S refresh caller e st))"
proof -
  obtain g c where st: "st = (g, c)" by force
  have l: "next_inv S n c (snd (listener_turn S refresh l c))" for l
    using chan_inv_listen_round [of S n c refresh]
    by (auto simp: listener_turn_def channel_retrier_def case_prod_beta next_inv_def chan_inv_nets
        split: listener.split option.split)
  have "next_inv S n c (snd (resender_turn S c))"
  proof -
    have "next_inv S n c (snd (report_resend_error r d))" if "only_net c d" for r d
      using chan_inv_report [of S n d r] by (auto simp: next_inv_def chan_inv_only_net [OF that])
    with only_net_resend [of c S] show ?thesis
      by (auto simp: resender_turn_def case_prod_beta next_inv_only_net split: option.split)
  qed
  with l assms show ?thesis by (cases e) (auto simp: st case_prod_beta next_inv_only_net)
qed

lemma next_inv_display: "next_inv (ss H) n c (snd (display_round H b c))"
proof (cases "displayMessages c")
  case (Cons m ms)
  have "chan_inv (ss H) n (c\<lparr>displayMessages := ms\<rparr>)" if "chan_inv (ss H) n c"
    using that inv_more_updates(4) [of n c] by (simp add: chan_inv_def Cons)
  then show ?thesis by (auto simp: display_round_def Cons next_inv_def chan_inv_nets)
qed (simp add: display_round_def next_inv_only_net)

lemma chan_inv_establish: "chan_inv S n c \<Longrightarrow> chan_inv S n (snd (establishSessionType th p c))"
proof -
  have "outgoingMessageBuffer (snd (sbind (swrap t (on_net th (c\<lparr>isStreamMessageResendTimeout := ts\<rparr>)))
      (\<lambda>_ c. (Err e :: string res, c)))) = outgoingMessageBuffer c" for t ts e
    by (rule sbind_snd [where P = "\<lambda>d. outgoingMessageBuffer d = outgoingMessageBuffer c"]) (simp_all add: on_net_def Let_def)
  then have "outgoingMessageBuffer (snd (establishSessionType th p c)) = outgoingMessageBuffer c"
    by (auto simp: establishSessionType_def split: list.split)
  then show "chan_inv S n c \<Longrightarrow> ?thesis" by (simp add: chan_inv_def inv_establish)
qed

lemma chan_inv_OpenDataChannel:
  assumes "chan_inv (ss H) n c" "n + int (length schedule) < 2 ^ 63"
  shows "chan_inv (ss H) (n + int (length schedule)) (snd (OpenDataChannel H s schedule preferTimeout c))"
proof -
  let ?N = "n + int (length schedule)" and ?o = "Open_connect (ss H) c"
  let ?run = "run_open (ss H) (getResumeSessionParams H s) (display_round H) schedule (open_start, snd ?o)"
  have o: "chan_inv (ss H) n (snd ?o)" by (rule chan_inv_connect [OF assms(1)])
  have "chan_inv (ss H) ?N (snd ?run)"
    unfolding run_open_def by (rule chan_inv_run) (use o assms(2) in \<open>auto intro!: next_inv_open_step next_inv_display\<close>)
  then have r: "chan_inv (ss H) ?N (snd (if open_panicked (fst ?run) then (Panic, snd ?run)
      else establishSessionType th p (snd ?run)))" for th p
    by (simp add: chan_inv_establish)
  have "chan_inv (ss H) ?N (snd ?o)" using o by (rule chan_inv_mono) simp
  with r show ?thesis
    by (cases "fst ?o") (simp_all add: OpenDataChannel_def dc_Open_def sbind_def case_prod_beta)
qed

lemma chan_inv_shell:
  assumes "chan_inv (ss H) n c" "n + int (length schedule) < 2 ^ 63"
  shows "chan_inv (ss H) (n + int (length schedule)) (snd (shell_SetSessionHandlers H schedule (NewShellSession H c)))"
proof -
  let ?N = "n + int (length schedule)"
  have n: "chan_inv (ss H) ?N d" if "chan_inv (ss H) n d" for d using that by (rule chan_inv_mono) simp
  have stty: "chan_inv (ss H) k (snd (setState H t d)) = chan_inv (ss H) k d" "chan_inv (ss H) k (snd (getState H d)) = chan_inv (ss H) k d"
    for k t and d :: "('a proc, 'b) DataChannel" by (simp_all add: setState_def getState_def case_prod_beta Let_def chan_inv_out)
  have dis: "chan_inv (ss H) n (snd (disableEchoAndInputBuffering H d))" if "chan_inv (ss H) n d" for d
    unfolding disableEchoAndInputBuffering_def using that
    by (intro sbind_snd [where P = "chan_inv (ss H) n"]) (simp_all add: stty)
  have en: "chan_inv (ss H) ?N (snd (restore_terminal H r d))" if "chan_inv (ss H) ?N d" for r d
  proof -
    have "chan_inv (ss H) ?N (snd (enableEchoAndInputBuffering H d))"
      unfolding enableEchoAndInputBuffering_def using that
      by (intro sbind_snd [where P = "chan_inv (ss H) ?N"]) (simp_all add: stty)
    then show ?thesis by (auto simp: restore_terminal_def split: prod.split res.split)
  qed
  have run: "chan_inv (ss H) ?N (snd (run_shell H schedule (shell_start, d)))" if "chan_inv (ss H) n d" for d
    unfolding run_shell_def by (rule chan_inv_run) (use that assms(2) next_inv_shell_step in auto)
  show ?thesis
    unfolding shell_SetSessionHandlers_def Let_def
  proof (intro sbind_snd [where P = "chan_inv (ss H) ?N"], goal_cases)
    case 1
    show ?case
      using dis [of "upd_shell (\<lambda>s. s\<lparr>shutdown_set := True\<rparr>) (NewShellSession H c)"] assms(1)
      by (intro n) (simp add: chan_inv_out NewShellSession_def Let_def)
  next
    case (2 x d)
    then have "chan_inv (ss H) n d"
      using dis [of "upd_shell (\<lambda>s. s\<lparr>shutdown_set := True\<rparr>) (NewShellSession H c)"] assms(1)
      by (simp add: chan_inv_out NewShellSession_def Let_def)
    from run [OF this] en show ?case by (auto simp: case_prod_beta split: res.split)
  qed
qed

lemma chan_inv_port:
  assumes "chan_inv (ss H) n c" "n + int (length schedule) < 2 ^ 63"
  shows "chan_inv (ss H) (n + int (length schedule)) (snd (port_SetSessionHandlers H s schedule c))"
proof -
  have "chan_inv (ss H) (n + int (length schedule)) (snd (run_port H s schedule (port_start, c)))"
    unfolding run_port_def by (rule chan_inv_run) (use assms next_inv_port_step in auto)
  then show ?thesis by (simp add: port_SetSessionHandlers_def case_prod_beta)
qed

lemma chan_inv_NewPortSession: "chan_inv S n c \<Longrightarrow> chan_inv S n (snd (NewPortSession H s c))"
  unfolding NewPortSession_def by (intro sbind_snd [where P = "chan_inv S n"]) (simp_all add: Let_def)



end
