(* ===== verification/Port_Life_Props.thy ===== *)
theory Port_Life_Props
  imports Port_Life Port_Props
begin

text \<open>
  The life of a port session as a whole, over every schedule of its goroutines: the variant that
  is chosen at the start stays, and each goroutine runs on the variant it was started for.
\<close>

section \<open>The variant\<close>

datatype variant = VBasic | VMux | VStandard

definition variant_of :: "IPortSession \<Rightarrow> variant" where
  "variant_of p = (case p of Basic _ \<Rightarrow> VBasic | Mux _ \<Rightarrow> VMux | Standard _ \<Rightarrow> VStandard)"

lemma variant_of_simps [simp]:
  "variant_of (Basic b) = VBasic" "variant_of (Mux m) = VMux" "variant_of (Standard q) = VStandard"
  by (simp_all add: variant_of_def)

lemma variant_of_iff:
  "variant_of p = VBasic \<longleftrightarrow> (\<exists>b. p = Basic b)" "variant_of p = VMux \<longleftrightarrow> (\<exists>m. p = Mux m)"
  "variant_of p = VStandard \<longleftrightarrow> (\<exists>q. p = Standard q)"
  by (cases p; simp add: variant_of_def)+

definition has_variant :: "variant \<Rightarrow> PortSession \<Rightarrow> bool" where
  "has_variant v p \<longleftrightarrow> map_option variant_of (portSessionType p) = Some v"

abbreviation variant_inv :: "variant \<Rightarrow> ('o proc, 'p) DataChannel \<Rightarrow> bool" where
  "variant_inv v \<equiv> world_inv (about_objects (\<lambda>s. has_variant v))"

abbreviation keeps_variant :: "variant \<Rightarrow> ('o proc net \<Rightarrow> 'a \<times> 'o proc net) \<Rightarrow> bool" where
  "keeps_variant v \<equiv> net_keeps (about_objects (\<lambda>s. has_variant v))"

lemma on_variant_kept [simp]:
  "keeps_variant v (on_basic f)" "keeps_variant v (on_mux f')" "keeps_variant v (on_std f'')"
  by (auto simp: net_keeps_def has_variant_def variant_of_def on_basic_def on_mux_def on_std_def case_prod_beta Let_def
      split: option.splits IPortSession.splits)

lemma net_keeps_swrap [simp]: "net_keeps I (\<lambda>n. swrap t (f n)) = net_keeps I f"
  by (simp add: net_keeps_def)

lemma net_keeps_sbind:
  "net_keeps I f \<Longrightarrow> (\<And>x. net_keeps I (g x)) \<Longrightarrow> net_keeps I (\<lambda>n. sbind (f n) g)"
  by (auto simp: net_keeps_def intro!: sbind_snd [where P = "\<lambda>n. I (world n)"])

lemma net_keeps_return [simp]: "net_keeps I (\<lambda>n. (r, n))"
  by (simp add: net_keeps_def)

text \<open>Dispatch on the variant.\<close>

lemma net_keeps_dispatch:
  assumes "keeps_variant v f" "keeps_variant v g" "keeps_variant v h"
  shows "keeps_variant v (\<lambda>n. case portSessionType (port (world n)) of
    Some (Basic _) \<Rightarrow> f n | Some (Mux _) \<Rightarrow> g n | Some (Standard _) \<Rightarrow> h n | None \<Rightarrow> (Panic, n))"
  using assms by (auto simp: net_keeps_def split: option.splits IPortSession.splits)

lemma methods_kept [simp]:
  "keeps_variant v (IsStreamNotSet H)" "keeps_variant v (WriteStream H m)" "keeps_variant v (port_Stop H)"
  "keeps_variant v (InitializeStreams H a t)"
  unfolding IsStreamNotSet_def [abs_def] WriteStream_def [abs_def] port_Stop_def [abs_def] InitializeStreams_def [abs_def]
    net_keeps_swrap
  by (intro net_keeps_dispatch; simp)+

lemma handlers_kept [simp]:
  "keeps_variant v (port_ProcessStreamMessagePayload H m)" "keeps_variant v (port_incoming H b)"
  unfolding port_ProcessStreamMessagePayload_def [abs_def] port_incoming_def [abs_def]
  by (intro net_keeps_sbind; auto simp: net_keeps_def intro!: sbind_snd [where P = "\<lambda>n. has_variant v (port (world n))"]
      methods_kept [unfolded net_keeps_def, rule_format])+

lemma variant_NewPortSession:
  assumes "NewPortSession H s c = (Ok (), c')" "set (outputStreamHandlers c) \<subseteq> {FirstMessageHandler}"
  shows "\<exists>v. variant_inv v c'"
proof -
  from assms(1) obtain p where p: "portSessionType (port (proc_of c')) = Some p"
    unfolding NewPortSession_def
    by (elim sbind_OkE) (auto simp: Let_def RegisterIncomingMessageHandler_def RegisterStopHandler_def
        RegisterOutputStreamHandler_def)
  have h: "outputStreamHandlers c' = outputStreamHandlers c @ [HandlerFunc (port_ProcessStreamMessagePayload H)]"
      "stopHandler c' = port_Stop H" "incomingMessageHandler c' = port_incoming H"
    using assms(1) unfolding NewPortSession_def
    by (auto elim!: sbind_OkE simp: Let_def RegisterIncomingMessageHandler_def RegisterStopHandler_def
        RegisterOutputStreamHandler_def)
  have "list_all (handler_keeps (about_objects (\<lambda>s. has_variant v))) (outputStreamHandlers c')" for v
    using assms(2) by (auto simp: h list_all_iff)
  moreover have "has_variant (variant_of p) (port (proc_of c'))" by (simp add: p has_variant_def)
  ultimately have "variant_inv (variant_of p) c'" by (simp add: kept_inv_def h)
  then show ?thesis ..
qed

section \<open>Turns\<close>

lemmas variant_inv_out = shell_inv_out [where Q = "\<lambda>s. has_variant v"] for v
lemmas variant_inv_send = shell_inv_send [where Q = "\<lambda>s. has_variant v"] for v
lemmas variant_inv_goes_on = shell_inv_goes_on [where Q = "\<lambda>s. has_variant v"] for v

lemma variant_inv_flag: "variant_inv v c \<Longrightarrow> variant_inv v (snd (sess_SendFlag H f c))"
  by (simp add: sess_SendFlag_def SendFlag_def kept.SendInput_kept [where Q = "\<lambda>s. has_variant v"])

lemma variant_inv_sleep: "variant_inv v c \<Longrightarrow> variant_inv v (dc_sleep (ss H) d c)"
  by (rule kept.sleep_kept [where Q = "\<lambda>s. has_variant v"])

lemmas variant_intros = variant_inv_out variant_inv_send variant_inv_goes_on variant_inv_flag variant_inv_sleep
  world_inv_on_net [OF on_variant_kept(1)] world_inv_on_net [OF on_variant_kept(2)]
  world_inv_on_net [OF on_variant_kept(3)]

lemma variant_inv_flag_then:
  "variant_inv v c \<Longrightarrow> (\<And>d. variant_inv v d \<Longrightarrow> variant_inv v (snd (g d))) \<Longrightarrow>
   variant_inv v (snd (sbind (swrap t (sess_SendFlag H f c)) (\<lambda>_ c. g c)))"
  by (rule sbind_snd [where P = "variant_inv v"]) (simp_all add: variant_inv_flag)

lemma variant_inv_basic_read: "variant_inv v c \<Longrightarrow> variant_inv v (snd (basic_read H c))"
proof -
  assume c: "variant_inv v c"
  have "variant_inv v (snd (case on_out (io_Read H h StreamDataPayloadSize) c of
      (Err e, c) \<Rightarrow> goes_on (\<lambda>c. c)
        (sbind (swrap ''sending disconnect flag'' (sess_SendFlag H DisconnectToPort c)) (\<lambda>_ c.
         swrap ''reconnecting'' (on_net (on_basic (basic_reconnect H)) c)))
    | (Ok msg, c) \<Rightarrow> goes_on (dc_sleep (ss H) Millisecond)
        (swrap ''sending input data message'' (sess_SendInputDataMessage H Output msg c))
    | (Panic, c) \<Rightarrow> (Some Panic, c) | (Blocked, c) \<Rightarrow> (Some Blocked, c)))" for h
    using variant_inv_out [OF c, of "io_Read H h StreamDataPayloadSize"]
    by (auto split: prod.split res.split intro!: variant_inv_goes_on variant_inv_flag_then variant_inv_sleep
        simp: variant_inv_send variant_intros(6))
  then show ?thesis using c by (auto simp: basic_read_def split: option.split IPortSession.split)
qed

lemma variant_inv_std_turn: "variant_inv v c \<Longrightarrow> variant_inv v (snd (std_ReadStream_turn H c))"
  unfolding std_ReadStream_turn_def
  using variant_intros(8) [of v _ c "\<lambda>st. on_file (inputStream (fst st)) (\<lambda>h. io_Read H h StreamDataPayloadSize) st"]
  by (auto split: prod.split res.split intro!: variant_inv_goes_on variant_inv_sleep simp: variant_inv_send)

lemma variant_inv_read_turn: "variant_inv v c \<Longrightarrow> variant_inv v (snd (read_turn H c))"
  using variant_inv_basic_read [of v c H] variant_inv_std_turn [of v c H]
  by (auto simp: read_turn_def basic_ReadStream_turn_def basic_unlock_def variant_intros(6)
      split: option.split IPortSession.split prod.split res.split)

lemma variant_inv_transfer: "variant_inv v c \<Longrightarrow> variant_inv v (snd (transferDataToServer_turn H b c))"
proof -
  assume c: "variant_inv v c"
  have "variant_inv v (snd (case on_out (io_Read H h StreamDataPayloadSize) c of
      (Err e, c) \<Rightarrow> (Some (Err (f e)), c)
    | (Ok msg, c) \<Rightarrow> goes_on (dc_sleep (ss H) Millisecond)
        (swrap ''sending input data message'' (sess_SendInputDataMessage H Output msg c))
    | (Panic, c) \<Rightarrow> (Some Panic, c) | (Blocked, c) \<Rightarrow> (Some Blocked, c)))" for h f
    using variant_inv_out [OF c, of "io_Read H h StreamDataPayloadSize"]
    by (auto split: prod.split res.split intro!: variant_inv_goes_on variant_inv_sleep simp: variant_inv_send)
  then show ?thesis using c by (auto simp: transferDataToServer_turn_def split: option.split IPortSession.split)
qed

lemma variant_inv_signals: "variant_inv v c \<Longrightarrow> variant_inv v (snd (port_HandleControlSignals_turn H s b sig c))"
proof -
  assume c: "variant_inv v c"
  have "keeps_variant v (sess_TerminateSession H s)"
    using net_out_kept [of "\<lambda>s. has_variant v" "ssm_TerminateSession H (sess_sessionID s)"]
    by (simp add: sess_TerminateSession_def [abs_def])
  note t = world_inv_on_net [OF this c]
  have m: "variant_inv v (snd (mux_HandleControlSignals_turn H b sig c))"
    by (simp add: mux_HandleControlSignals_turn_def c variant_inv_flag_then variant_intros(7))
  have "variant_inv v (snd (basic_HandleControlSignals_turn H s b sig c))"
    unfolding basic_HandleControlSignals_turn_def Let_def
    by (auto simp: c t variant_intros(6) intro!: variant_inv_goes_on variant_inv_flag_then)
  with m c show ?thesis
    by (auto simp: port_HandleControlSignals_turn_def split: option.split IPortSession.split)
qed

section \<open>Schedules\<close>

definition fits :: "variant \<Rightarrow> reader \<Rightarrow> bool" where
  "fits v r = (case r of Reading \<Rightarrow> v \<noteq> VMux | ReadingMux _ \<Rightarrow> v = VMux | _ \<Rightarrow> True)"

definition run_inv :: "variant \<Rightarrow> port_run \<times> ('o proc, 'p) DataChannel \<Rightarrow> bool" where
  "run_inv v st \<longleftrightarrow> variant_inv v (snd st) \<and> fits v (pr_reader (fst st))"

lemma fits_simps [simp]:
  "fits v Starting" "fits v (Finished r)" "fits v Reading \<longleftrightarrow> v \<noteq> VMux" "fits v (ReadingMux m) \<longleftrightarrow> v = VMux"
  by (simp_all add: fits_def)

lemma reader_simps [simp]:
  "pr_reader (note_panic r g) = pr_reader g" "pr_reader (port_return r g) = pr_reader g"
  "pr_reader (reader_returns r g) = Finished r"
  by (simp_all add: note_panic_def port_return_def reader_returns_def)

lemma fits_mux [simp]: "fits VMux (pr_reader (mux_check m g))" "fits VMux (pr_reader (clients_return r m g))"
  by (simp_all add: mux_check_def clients_return_def split: clients.splits)

lemma run_inv_clients_check: "variant_inv VMux (snd st) \<Longrightarrow> run_inv VMux (clients_check H k m st)"
  using variant_inv_out [of VMux "snd st" "io_Close H (cl_listener k)"]
  by (auto simp: clients_check_def run_inv_def logged_def split: prod.split res.split)

lemma run_inv_accept:
  "variant_inv VMux c \<Longrightarrow> fits VMux (pr_reader g) \<Longrightarrow> run_inv VMux (accept_turn H k m g c)"
  using variant_intros(7) [of VMux _ c "serve_turn H (cl_listener k)"]
  by (auto simp: accept_turn_def serve_ends_def swrap_def intro!: run_inv_clients_check split: res.split)
    (auto simp: run_inv_def)

lemma run_inv_mux_event:
  assumes "variant_inv VMux c" "fits VMux (pr_reader g)"
  shows "run_inv VMux (mux_event H e m g c)"
proof -
  have same: "run_inv VMux (g, c)" using assms by (simp add: run_inv_def)
  have t: "run_inv VMux (transfer_turn H m g c)"
    using same variant_inv_transfer [OF assms(1), of H "mux_ctx_done g m"]
    by (auto simp: transfer_turn_def run_inv_def split: prod.split option.split)
  have u: "run_inv VMux (setup_turn H m g c)"
    using variant_intros(7) [OF assms(1), of "setup_listener H"]
    by (auto simp: setup_turn_def run_inv_def split: prod.split res.split)
  have n: "run_inv VMux (connection_turn H i b k m g c)" for i b k
    using same variant_intros(7) [OF assms(1), of "mux_acceptConnection H b (cl_conns k ! i)"]
    by (auto simp: connection_turn_def run_inv_def Let_def split: prod.split)
  have "run_inv VMux (closer_turn H k m g c)" for k
    using same variant_inv_out [OF assms(1), of "io_Close H (cl_listener k)"]
    by (auto simp: closer_turn_def Let_def swrap_def run_inv_clients_check)
  with same t u n run_inv_accept [OF assms] show ?thesis by (cases e) (auto split: clients.split)
qed

lemma run_inv_start_streams: "variant_inv v c \<Longrightarrow> run_inv v (start_streams H a g c)"
proof -
  assume "variant_inv v c"
  note i = world_inv_on_net [OF methods_kept(4) this, of H a "sess_GetAgentVersion c"]
  have "run_inv v (begin_reading g d)" if d: "variant_inv v d" for d
  proof -
    from d obtain p where p: "portSessionType (port (proc_of d)) = Some p" "v = variant_of p"
      by (auto simp: kept_inv_def has_variant_def)
    have "variant_inv v (snd (basic_ReadStream_lock d))" unfolding basic_ReadStream_lock_def by (rule variant_intros(6) [OF d])
    with d p show ?thesis
      by (cases p) (auto simp: begin_reading_def run_inv_def variant_of_def split: prod.split res.split)
  qed
  with i show ?thesis by (auto simp: start_streams_def run_inv_def swrap_def split: res.split)
qed

lemma run_inv_step: "run_inv v st \<Longrightarrow> run_inv v (port_step H s e st)"
proof -
  assume st: "run_inv v st"
  then have c: "variant_inv v (snd st)" by (simp add: run_inv_def)
  have mux: "run_inv v (case pr_reader (fst st) of
      ReadingMux m \<Rightarrow> mux_event H e m (fst st) (snd st) | _ \<Rightarrow> (fst st, snd st))" for e
    using st run_inv_mux_event [of "snd st" "fst st" H e]
    by (auto simp: run_inv_def split: reader.split)
  have "run_inv v (port_turn H s e (fst st) (snd st))"
  proof (cases e)
    case (PortIncoming raw)
    then show ?thesis
      using st kept.listen_message_kept [where Q = "\<lambda>s. has_variant v", OF c, of "base H" raw]
      by (auto simp: run_inv_def split: prod.split option.split)
  next
    case (PortSignal sig)
    then show ?thesis
      using st variant_inv_signals [OF c, of H s "port_ctx_done (fst st)" sig]
      by (auto simp: run_inv_def split: prod.split option.split)
  next
    case ReadTurn
    then show ?thesis
      using st variant_inv_read_turn [OF c, of H] by (auto simp: run_inv_def split: prod.split option.split)
  next
    case (StartStreams a)
    then show ?thesis using st run_inv_start_streams [OF c, of H a "fst st"] by simp
  next
    case PortParentDone
    then show ?thesis using st by (simp add: run_inv_def)
  qed (use mux in simp_all)
  then show ?thesis using st by (simp add: port_step_def)
qed

lemma run_inv_run: "run_inv v st \<Longrightarrow> run_inv v (run_port H s es st)"
  by (induction es arbitrary: st) (simp_all add: run_port_def run_inv_step)


section \<open>The end of a cancelled session\<close>

text \<open>A listener that is closed, in the words of \<^verbatim>\<open>net.Listener\<close>: \<^verbatim>\<open>Close\<close> makes
  \<^verbatim>\<open>Accept\<close> return \<^verbatim>\<open>net.ErrClosed\<close>, until something else happens.\<close>

definition closes_listener :: "('o, 'p) host \<Rightarrow> handle \<Rightarrow> bool" where
  "closes_listener H l \<longleftrightarrow> (\<forall>w. fst (io_Close H l w) = Ok () \<and>
     fst (listener_Accept H l (snd (io_Close H l w))) = Err ErrClosed)"

text \<open>The multiplexed variant in the middle of its work.\<close>

definition mux_forwarding :: "port_run \<Rightarrow> mux_run \<Rightarrow> clients_run \<Rightarrow> bool" where
  "mux_forwarding g m k \<longleftrightarrow> \<not> pr_panic g \<and> pr_signals g = Running \<and> pr_error g = None \<and> pr_reader g = ReadingMux m \<and>
     mr_transfer m = Running \<and> mr_error m = None \<and> mr_clients m = Serving k \<and>
     cl_serve k = Running \<and> cl_closer k = Running \<and> cl_error k = None"

lemma on_mux_calling:
  assumes "has_variant VMux (port (proc_of c))"
  shows "on_net (on_mux (calling f)) c = on_out f c"
proof -
  from assms obtain p where p: "portSessionType (port (proc_of c)) = Some (Mux p)"
    by (auto simp: has_variant_def variant_of_iff)
  then have "(proc_of c)\<lparr>port := (port (proc_of c))\<lparr>portSessionType := Some (Mux p)\<rparr>, outside := w\<rparr> =
      (proc_of c)\<lparr>outside := w\<rparr>" for w
    by (cases "proc_of c"; cases "port (proc_of c)") simp
  then show ?thesis
    by (simp add: on_net_def on_mux_def p on_out_net net_out_def on_world_def via_def' calling_def Let_def)
qed

lemma on_mux_swrap: "on_mux (\<lambda>st. swrap t (f st)) n = swrap t (on_mux f n)"
  by (simp add: on_mux_def swrap_def case_prod_beta Let_def split: option.split IPortSession.split)

lemma variant_out: "has_variant v (port (proc_of (snd (on_out f c)))) = has_variant v (port (proc_of c))"
  by (simp add: on_out_net net_out_def on_net_def on_world_def Let_def)

lemma outside_out: "outside (proc_of (snd (on_out f c))) = snd (f (outside (proc_of c)))"
  by (simp add: on_out_net net_out_def on_net_def on_world_def Let_def)

lemma fst_out: "fst (on_out f c) = fst (f (outside (proc_of c)))"
  by (simp add: on_out_net net_out_def on_net_def on_world_def Let_def)

lemma close_and_accept:
  assumes "mux_forwarding g m k" "pr_parent_done g" "has_variant VMux (port (proc_of c))"
    and "closes_listener H (cl_listener k)"
  shows "\<exists>y m' c'. run_port H s [CloserTurn, ServeTurn] (g, c) = (g\<lparr>pr_reader := ReadingMux m'\<rparr>, c') \<and>
    mr_transfer m' = Running \<and> mr_clients m' = ClientsDone (Err y) \<and> mr_error m' = Some y \<and> errors_Is y ErrClosed \<and>
    \<not> errors_Is y EOF \<and> has_variant VMux (port (proc_of c'))"
proof -
  let ?l = "cl_listener k"
  define c1 where "c1 = snd (on_out (io_Close H ?l) c)"
  define m1 where "m1 = m\<lparr>mr_clients := Serving (k\<lparr>cl_closer := Returned (Ok ())\<rparr>)\<rparr>"
  have close: "fst (on_out (io_Close H ?l) d) = Ok ()" for d :: "('a proc, 'b) DataChannel"
    using assms(4) by (simp add: fst_out closes_listener_def)
  have v1: "has_variant VMux (port (proc_of c1))" by (simp add: c1_def variant_out assms(3))
  have ctx: "clients_ctx_done g m k"
    using assms(2) by (simp add: clients_ctx_done_def mux_ctx_done_def port_ctx_done_def)
  have first: "port_step H s CloserTurn (g, c) = (g\<lparr>pr_reader := ReadingMux m1\<rparr>, c1)"
    using assms(1) ctx close [of c]
    by (simp add: port_step_def mux_forwarding_def closer_turn_def swrap_def clients_check_def is_returned_def mux_check_def
        note_panic_def first_error_def c1_def m1_def)
  have acc: "fst (on_out (listener_Accept H ?l) c1) = Err ErrClosed"
    using assms(4) by (simp add: fst_out c1_def outside_out closes_listener_def)
  let ?x = "Wrap ''serving connections'' (Wrap ''accepting connection'' ErrClosed)"
  let ?c2 = "snd (on_out (listener_Accept H ?l) c1)"
  have serve: "on_net (on_mux (serve_turn H ?l)) c1 = (Err (Wrap ''accepting connection'' ErrClosed), ?c2)"
  proof -
    have "on_net (on_mux (serve_turn H ?l)) c1 =
        swrap ''accepting connection'' (on_net (on_mux (calling (listener_Accept H ?l))) c1)"
      by (simp add: serve_turn_def [abs_def] on_mux_swrap on_net_def Let_def)
    then show ?thesis using acc by (simp add: on_mux_calling [OF v1] swrap_def)
  qed
  define y where "y = Wrap ''waiting for goroutine group'' ?x"
  define m2 where "m2 = m1\<lparr>mr_clients := ClientsDone (Err y), mr_error := Some y\<rparr>"
  define c3 where "c3 = snd (on_out (io_Close H ?l) ?c2)"
  have close2: "on_out (io_Close H ?l) ?c2 = (Ok (), c3)"
    using close [of ?c2] by (simp add: c3_def prod_eq_iff)
  have second: "port_step H s ServeTurn (g\<lparr>pr_reader := ReadingMux m1\<rparr>, c1) = (g\<lparr>pr_reader := ReadingMux m2\<rparr>, c3)"
    using assms(1)
    by (simp add: port_step_def mux_forwarding_def accept_turn_def serve serve_ends_def clients_check_def is_returned_def close2
        logged_def note_panic_def first_error_def group_result_def mux_ReadStream_result_def clients_return_def
        mux_check_def m1_def m2_def y_def)
  have "has_variant VMux (port (proc_of c3))" by (simp add: c3_def variant_out v1)
  moreover have "mr_transfer m2 = Running" "mr_clients m2 = ClientsDone (Err y)" "mr_error m2 = Some y"
    using assms(1) by (simp_all add: m2_def m1_def mux_forwarding_def)
  moreover have "errors_Is y ErrClosed" "\<not> errors_Is y EOF" by (simp_all add: y_def)
  moreover have "run_port H s [CloserTurn, ServeTurn] (g, c) = (g\<lparr>pr_reader := ReadingMux m2\<rparr>, c3)"
    by (simp add: run_port_def first second)
  ultimately show ?thesis by blast
qed

lemma cancelled_mux_ends:
  assumes "mux_forwarding g m k" "pr_parent_done g" "has_variant VMux (port (proc_of c))"
    and "closes_listener H (cl_listener k)"
  shows "\<exists>e. port_wait (fst (run_port H s [CloserTurn, ServeTurn, TransferTurn, PortSignal False] (g, c))) = Err e \<and>
    errors_Is e ErrClosed"
proof -
  from close_and_accept [OF assms, of s] obtain y m' c' where
    run: "run_port H s [CloserTurn, ServeTurn] (g, c) = (g\<lparr>pr_reader := ReadingMux m'\<rparr>, c')"
    and m': "mr_transfer m' = Running" "mr_clients m' = ClientsDone (Err y)" "mr_error m' = Some y"
    and y: "errors_Is y ErrClosed" "\<not> errors_Is y EOF" and v: "has_variant VMux (port (proc_of c'))" by blast
  from v obtain p where p: "portSessionType (port (proc_of c')) = Some (Mux p)"
    by (auto simp: has_variant_def variant_of_iff)
  have g: "\<not> pr_panic g" "pr_signals g = Running" "pr_error g = None"
    using assms(1) by (simp_all add: mux_forwarding_def)
  let ?e = "Wrap ''reading stream'' (Wrap ''waiting for goroutine group'' y)"
  have all: "run_port H s [CloserTurn, ServeTurn, TransferTurn, PortSignal False] (g, c) =
      run_port H s [TransferTurn, PortSignal False] (g\<lparr>pr_reader := ReadingMux m'\<rparr>, c')"
    using run by (simp add: run_port_def)
  have "port_wait (fst (run_port H s [TransferTurn, PortSignal False] (g\<lparr>pr_reader := ReadingMux m'\<rparr>, c'))) = Err ?e"
    using assms(2) g m' y(2)
    by (simp add: run_port_def port_step_def transfer_turn_def transferDataToServer_turn_def mux_ctx_done_def
        port_ctx_done_def mux_check_def is_returned_def first_error_def mux_ReadStream_result_def group_result_def
        reader_returns_def port_return_def note_panic_def port_HandleControlSignals_turn_def p
        mux_HandleControlSignals_turn_def port_wait_def is_finished_def)
  with y(1) show ?thesis unfolding all by auto
qed

section \<open>A run\<close>


end
