(* ===== verification/Executor_Props.thy ===== *)
theory Executor_Props
  imports Executor Port_Life_Props
begin

text \<open>
  What the executor guarantees of the identifier it asks a session for, and how a session ends.
\<close>

section \<open>Target identifiers\<close>

lemma split_unique:
  assumes "(c :: char) \<notin> set xs" "c \<notin> set xs'" "xs @ c # ys = xs' @ c # ys'"
  shows "xs = xs' \<and> ys = ys'"
proof -
  have "split_on c (xs @ c # ys) = split_on c (xs' @ c # ys')" using assms(3) by simp
  then have "xs = xs'" using assms(1,2) by (simp add: split_on_append)
  with assms(3) show ?thesis by simp
qed

lemma buildTargetID_OkD:
  assumes "buildTargetID A cl task rid = Ok t"
  shows "\<exists>a. arn_Parse A task = Ok a \<and> 3 \<le> length (split_on (CHR ''/'') (arn_Resource a)) \<and>
    t = ''ecs:'' @ cl @ ''_'' @ split_on (CHR ''/'') (arn_Resource a) ! 2 @ ''_'' @ rid"
  using assms by (cases "arn_Parse A task") (auto simp: buildTargetID_def Let_def split: if_splits)

text \<open>
  What a target identifier is made of: the resource of the task's ARN, written as its parts
  between slashes, must have at least three, and the third, the task's own identifier, goes
  between the cluster's name and the container's runtime identifier.  With fewer parts, and when
  the ARN does not parse, the result is an error that is an \<^verbatim>\<open>ErrInvalidARN\<close>.
\<close>

theorem buildTargetID_behaviour:
  assumes "arn_Parse A task = Ok a" "arn_Resource a = join_with ''/'' parts" "parts \<noteq> []"
    and "\<forall>p \<in> set parts. CHR ''/'' \<notin> set p" "arn_Parse A bad = Err e"
  shows "buildTargetID A cl task rid =
      (if 3 \<le> length parts then Ok (''ecs:'' @ cl @ ''_'' @ parts ! 2 @ ''_'' @ rid) else Err ErrInvalidARN) \<and>
    (\<exists>x. buildTargetID A cl bad rid = Err x \<and> errors_Is x ErrInvalidARN)"
  using assms by (auto simp: buildTargetID_def Let_def split_join)

text \<open>
  C35. A target identifier names one container: if the task identifiers and the runtime
  identifiers have no underscore (cluster names may), two calls that give the same identifier
  were made for the same cluster, the same task and the same container.
\<close>

theorem target_id_unique:
  assumes "buildTargetID A cl task rid = Ok t" "buildTargetID A cl' task' rid' = Ok t"
    and "arn_Parse A task = Ok a" "arn_Parse A task' = Ok a'"
    and "CHR ''_'' \<notin> set (split_on (CHR ''/'') (arn_Resource a) ! 2)" "CHR ''_'' \<notin> set rid"
    and "CHR ''_'' \<notin> set (split_on (CHR ''/'') (arn_Resource a') ! 2)" "CHR ''_'' \<notin> set rid'"
  shows "cl = cl' \<and> rid = rid' \<and>
    split_on (CHR ''/'') (arn_Resource a) ! 2 = split_on (CHR ''/'') (arn_Resource a') ! 2"
proof -
  let ?t = "split_on (CHR ''/'') (arn_Resource a) ! 2" and ?t' = "split_on (CHR ''/'') (arn_Resource a') ! 2"
  from buildTargetID_OkD [OF assms(1)] buildTargetID_OkD [OF assms(2)] assms(3,4)
  have "cl @ CHR ''_'' # ?t @ CHR ''_'' # rid = cl' @ CHR ''_'' # ?t' @ CHR ''_'' # rid'" by auto
  from arg_cong [OF this, of rev]
  have e: "rev rid @ CHR ''_'' # (rev ?t @ CHR ''_'' # rev cl) = rev rid' @ CHR ''_'' # (rev ?t' @ CHR ''_'' # rev cl')" by simp
  from split_unique [OF _ _ e] assms(6,8)
  have r: "rid = rid'" "rev ?t @ CHR ''_'' # rev cl = rev ?t' @ CHR ''_'' # rev cl'" by auto
  from split_unique [OF _ _ r(2)] assms(5,7) have "?t = ?t'" "cl = cl'" by auto
  with r show ?thesis by blast
qed

section \<open>The end of a session\<close>


section \<open>The terminal over a whole session\<close>

text \<open>The calls that a data channel makes while it is opened do not touch the terminal's
  settings: those of the packages and services it uses, and printing a message.\<close>

definition apart :: "('o \<Rightarrow> 't) \<Rightarrow> ('o \<Rightarrow> 'a \<times> 'o) \<Rightarrow> bool" where
  "apart tty f \<longleftrightarrow> (\<forall>w. tty (snd (f w)) = tty w)"

definition terminal_apart :: "('o, 'p) host \<Rightarrow> ('o \<Rightarrow> 't) \<Rightarrow> bool" where
  "terminal_apart H tty \<longleftrightarrow>
     apart tty (uuid_New (base H)) \<and> apart tty (time_Now (base H)) \<and> apart tty (time_UnixMilli (base H)) \<and>
     (\<forall>d. apart tty (\<lambda>w. ((), time_Sleep (base H) d w))) \<and> (\<forall>k. apart tty (rand_Intn (base H) k)) \<and>
     (\<forall>k. apart tty (rand_ReadFull (base H) k)) \<and> (\<forall>key k ctx. apart tty (kms_GenerateDataKey (base H) key k ctx)) \<and>
     (\<forall>u. apart tty (dialer_Dial (base H) u)) \<and> (\<forall>h t b. apart tty (conn_WriteMessage (base H) h t b)) \<and>
     (\<forall>h. apart tty (conn_ReadMessage (base H) h)) \<and> (\<forall>h. apart tty (conn_Close (base H) h)) \<and>
     (\<forall>i. apart tty (ssm_TerminateSession H i)) \<and> (\<forall>i. apart tty (ssm_ResumeSession H i)) \<and>
     (\<forall>b. apart tty (stdout_Print H b))"

text \<open>The handlers of a data channel as \<^verbatim>\<open>NewDataChannel\<close> makes it.\<close>

definition new_handlers :: "('w, 'p) DataChannel \<Rightarrow> bool" where
  "new_handlers c \<longleftrightarrow> outputStreamHandlers c = [] \<and> stopHandler c = (\<lambda>n. (Ok (), n)) \<and>
     incomingMessageHandler c = (\<lambda>b n. (Ok (), n))"

lemma terminal_kept_world:
  "terminal_apart H tty \<Longrightarrow> kept_world (ss H) (\<lambda>p. tty (outside p) = t) (\<lambda>h. h = FirstMessageHandler)"
  by unfold_locales (simp_all add: terminal_apart_def apart_def)

lemma net_out_apart: "apart tty f \<Longrightarrow> net_keeps (\<lambda>p. tty (outside p) = t) (net_out f)"
  by (simp add: net_keeps_def net_out_def on_world_def apart_def Let_def)

lemma OpenDataChannel_terminal:
  assumes "terminal_apart H tty" "new_handlers c" "OpenDataChannel H s schedule preferTimeout c = (r, d)"
  shows "tty (outside (proc_of d)) = tty (outside (proc_of c))" "set (outputStreamHandlers d) \<subseteq> {FirstMessageHandler}"
proof -
  let ?I = "\<lambda>p. tty (outside p) = tty (outside (proc_of c))" and ?P = "\<lambda>h. h = FirstMessageHandler"
  have i: "kept_inv ?I ?P c" using assms(2) by (simp add: kept_inv_def new_handlers_def net_keeps_def)
  have a: "apart tty (ssm_TerminateSession H i)" "apart tty (ssm_ResumeSession H i)" "apart tty (stdout_Print H b)" for i b
    using assms(1) by (simp_all add: terminal_apart_def)
  have t: "net_keeps ?I (sess_TerminateSession H s)"
    using net_out_apart [OF a(1)] by (simp add: net_keeps_def sess_TerminateSession_def)
  have u: "net_keeps ?I (getResumeSessionParams H s)"
    unfolding net_keeps_def getResumeSessionParams_def
    by (intro allI impI sbind_snd [where P = "\<lambda>n. ?I (world n)"])
      (use net_out_apart [OF a(2)] in \<open>simp_all add: net_keeps_def\<close>)
  have "net_keeps ?I (DisplayMessage H m)" for m
    using net_out_apart [OF a(3)] by (simp add: net_keeps_def DisplayMessage_def)
  then have v: "kept_inv ?I ?P (snd (display_round H b d))" if "kept_inv ?I ?P d" for b d
    using that by (auto simp: display_round_def split: list.split intro!: world_inv_on_net)
  have "kept_inv ?I ?P (snd (dc_Open (ss H) (getResumeSessionParams H s) (sess_TerminateSession H s) (display_round H)
      schedule preferTimeout c))"
    by (rule kept_world.dc_Open_kept [OF terminal_kept_world [OF assms(1)] u t _ _ i]) (simp_all add: v)
  with assms(3) have "kept_inv ?I ?P d" by (simp add: OpenDataChannel_def swrap_def split: prod.splits)
  then show "tty (outside (proc_of d)) = tty (outside (proc_of c))" "set (outputStreamHandlers d) \<subseteq> {FirstMessageHandler}"
    by (auto simp: kept_inv_def list_all_iff)
qed


section \<open>Examples\<close>

definition demo_arn :: ARN where
  "demo_arn = \<lparr>arn_Partition = ''aws'', arn_Service = ''ecs'', arn_Region = ''us-east-1'', arn_AccountID = ''1'',
     arn_Resource = ''task/my_cluster/0ab''\<rparr>"

definition demo_aws :: "demo_os aws" where
  "demo_aws =
    \<lparr>arn_Parse = (\<lambda>s. if take 4 s = ''arn:'' then Ok demo_arn else Err (External 1)), arn_String = arn_Resource,
     uuid_NewRandom = (\<lambda>w. (Ok (replicate 16 0), w)), ssm_StartSession = (\<lambda>i w. (Ok (None, None, None), w)),
     ecs_ExecuteCommand = (\<lambda>i w. (Ok None, w))\<rparr>"

theorem buildTargetID_behaviour_witness:
  "buildTargetID demo_aws ''my_cluster'' ''arn:x'' ''0ab-1'' = Ok ''ecs:my_cluster_0ab_0ab-1'' \<and>
   (\<exists>x. buildTargetID demo_aws ''my_cluster'' ''x'' ''0ab-1'' = Err x \<and> errors_Is x ErrInvalidARN)"
  using buildTargetID_behaviour [of demo_aws "''arn:x''" demo_arn "[''task'', ''my_cluster'', ''0ab'']" "''x''" "External 1"
      "''my_cluster''" "''0ab-1''"]
  by (simp add: demo_aws_def demo_arn_def)

theorem target_id_unique_witness:
  "\<exists>t. buildTargetID demo_aws ''my_cluster'' ''arn:x'' ''0ab-1'' = Ok t \<and>
     (\<forall>cl. buildTargetID demo_aws cl ''arn:y'' ''0ab-1'' = Ok t \<longrightarrow> cl = ''my_cluster'')"
proof -
  have a: "arn_Parse demo_aws ''arn:x'' = Ok demo_arn" "arn_Parse demo_aws ''arn:y'' = Ok demo_arn"
    by (simp_all add: demo_aws_def)
  have s: "split_on (CHR ''/'') (arn_Resource demo_arn) = [''task'', ''my_cluster'', ''0ab'']" by (simp add: demo_arn_def)
  then obtain t where t: "buildTargetID demo_aws ''my_cluster'' ''arn:x'' ''0ab-1'' = Ok t"
    by (simp add: buildTargetID_def a Let_def)
  have "cl = ''my_cluster''" if "buildTargetID demo_aws cl ''arn:y'' ''0ab-1'' = Ok t" for cl
    using target_id_unique [OF t that a] s by simp
  with t show ?thesis by blast
qed

definition closing_host :: "(demo_os, unit) host" where
  "closing_host = demo_host\<lparr>listener_Accept := (\<lambda>h w. (Err ErrClosed, w))\<rparr>"


lemma demo_terminal_apart: "terminal_apart demo_host os_tty"
  by (auto simp: terminal_apart_def apart_def demo_host_def sys_over_def over_def Let_def)

text \<open>A channel on which the handshake of a shell session is complete when \<^verbatim>\<open>Open\<close> waits.\<close>

definition handshaken_channel :: "(demo_os proc, unit) DataChannel" where
  "handshaken_channel = host_channel\<lparr>sessionType := ShellPluginName, isSessionTypeSet := [True]\<rparr>"

definition demo_run :: run_of where
  "demo_run = \<lparr>open_schedule = [CallerTurn False, ListenTurn], prefer_timeout = False, shell_schedule = short_schedule,
     port_schedule = []\<rparr>"

lemma demo_run_simps:
  "open_schedule demo_run = [CallerTurn False, ListenTurn]" "prefer_timeout demo_run = False"
  "shell_schedule demo_run = short_schedule"
  by (simp_all add: demo_run_def)

lemma sys_over_dial: "dialer_Dial (sys_over g p S) u = over g p (dialer_Dial S u)"
  by (simp add: sys_over_def)

lemma demo_opens:
  "\<exists>d. OpenDataChannel demo_host (NewSession ''session'') (open_schedule demo_run) False handshaken_channel =
     (Ok ShellPluginName, d)"
proof -
  let ?S = "ss demo_host" and ?c = "snd (channel_retrier (ss demo_host)
    (RegisterOutputStreamHandler FirstMessageHandler False handshaken_channel))"
  have w: "\<exists>n. ws_Open ?S m = (Ok (), n) \<and> isOpen (ws n) \<and> connection (ws n) = Some 1" for m
    by (simp add: ws_Open_def OpenConnection_def on_world_def Let_def sys_over_dial over_def via_def' demo_simps)
  have "fst (SendMessage ?S [123] TextMessage c) = Ok ()" if "isOpen (ws (net c))" "connection (ws (net c)) = Some 1" for c
    using that by (simp add: SendMessage_def ws_SendMessage_def on_net_def on_world_def Let_def over_def demo_simps len_def)
  then have f: "fst (finalizeDataChannelHandshake ?S t c) = Ok ()"
    if "isOpen (ws (net c))" "connection (ws (net c)) = Some 1" for t c
    using that by (simp add: finalizeDataChannelHandshake_def on_w_def on_net_def on_world_def over_def Let_def demo_simps json_toy_def)
  have "fst (dc_open ?S c) = Ok ()" for c
  proof -
    obtain n where "ws_Open ?S (net c) = (Ok (), n)" "isOpen (ws n)" "connection (ws n) = Some 1" using w by blast
    then show ?thesis using f [of "c\<lparr>net := n\<rparr>"] by (simp add: dc_open_def on_net_def Let_def)
  qed
  then obtain d where d: "dc_open ?S ?c = (Ok (), d)" by (metis prod.collapse)
  have "only_net ?c d" using only_net_open [of ?c ?S] by (simp only: d snd_conv)
  then have f: "isSessionTypeSet d = [True]" "sessionType d = ShellPluginName" "displayMessages d = []"
    "isStreamMessageResendTimeout d = []"
    by (auto simp: only_net_def channel_retrier_def case_prod_beta RegisterOutputStreamHandler_def handshaken_channel_def
        on_w_eq host_channel_def NewDataChannel_def RegisterStopHandler_def RegisterIncomingMessageHandler_def)
  from d have "Open_connect ?S handshaken_channel = (Ok (), d)" by (simp add: Open_connect_def Let_def case_prod_beta)
  then show ?thesis
    using f by (simp add: OpenDataChannel_def dc_Open_def demo_run_simps run_open_def case_prod_beta display_round_def
        listener_turn_def open_start_def open_panicked_def establishSessionType_def channel_retrier_def on_w_def on_net_def Let_def)
qed


end
