(* ===== verification/Cluster.thy ===== *)
theory Cluster
  imports Executor Safe
begin

text \<open>
  \<^verbatim>\<open>src/cluster\<close> (\<^verbatim>\<open>cluster.go\<close>, \<^verbatim>\<open>scale.go\<close>, \<^verbatim>\<open>autoscale.go\<close>): the
  operations on the services and tasks of a cluster.  The calls of the AWS clients are the
  functions of the record \<open>clients\<close>.  Of the types of the AWS SDK the model has the fields
  that the sources read; a value that they only pass on has the type \<open>'v\<close>.  A pointer is an
  option, and dereferencing nil panics.
\<close>

section \<open>Types of the SDK\<close>

record AwsVpcConfiguration =
  vpc_Subnets :: "string list"
  vpc_AssignPublicIp :: string
  vpc_SecurityGroups :: "string list"

record 'v Service =
  svc_TaskDefinition :: "string option"
  svc_NetworkConfiguration :: "AwsVpcConfiguration option option"
  svc_other :: 'v

record LogConfiguration =
  LogDriver :: string
  log_Options :: "(string \<times> string) list"

record 'v ContainerDefinition =
  cd_Image :: "string option"
  cd_LogConfiguration :: "LogConfiguration option"
  cd_other :: 'v

record 'v TaskDefinition =
  td_Arn :: "string option"
  td_ContainerDefinitions :: "'v ContainerDefinition list"
  td_Family :: 'v
  td_Cpu :: 'v
  td_EphemeralStorage :: 'v
  td_ExecutionRoleArn :: 'v
  td_InferenceAccelerators :: 'v
  td_IpcMode :: 'v
  td_Memory :: 'v
  td_NetworkMode :: 'v
  td_PidMode :: 'v
  td_PlacementConstraints :: 'v
  td_ProxyConfiguration :: 'v
  td_RequiresCompatibilities :: 'v
  td_RuntimePlatform :: 'v
  td_Volumes :: 'v
  td_TaskRoleArn :: 'v

record 'v RegisterTaskDefinitionInput =
  reg_Family :: 'v
  reg_Cpu :: 'v
  reg_EphemeralStorage :: 'v
  reg_ExecutionRoleArn :: 'v
  reg_InferenceAccelerators :: 'v
  reg_IpcMode :: 'v
  reg_Memory :: 'v
  reg_NetworkMode :: 'v
  reg_PidMode :: 'v
  reg_PlacementConstraints :: 'v
  reg_ProxyConfiguration :: 'v
  reg_RequiresCompatibilities :: 'v
  reg_RuntimePlatform :: 'v
  reg_Volumes :: 'v
  reg_TaskRoleArn :: 'v
  reg_ContainerDefinitions :: "'v ContainerDefinition list"
  reg_Tags :: 'v

text \<open>\<^verbatim>\<open>DescribeTaskDefinitionOutput\<close>.\<close>

record 'v described =
  out_TaskDefinition :: "'v TaskDefinition option"
  out_Tags :: 'v

record container =
  con_Name :: "string option"
  con_RuntimeId :: "string option"

record task =
  TaskArn :: "string option"
  Containers :: "container list"

record RunTaskInput =
  rt_Cluster :: string
  rt_TaskDefinition :: "string option"
  rt_Count :: int32
  rt_EnableECSManagedTags :: bool
  rt_EnableExecuteCommand :: bool
  rt_LaunchType :: string
  rt_AwsvpcConfiguration :: AwsVpcConfiguration
  rt_ContainerOverrides :: "(string \<times> string list) list"
  rt_PropagateTags :: string
  rt_StartedBy :: string
  rt_Tags :: "(string \<times> string) list"

record UpdateServiceInput =
  us_Cluster :: string
  us_Service :: string
  us_TaskDefinition :: "string option"
  us_ForceNewDeployment :: bool
  us_DesiredCount :: "int32 option"

record SuspendedState =
  DynamicScalingInSuspended :: "bool option"
  DynamicScalingOutSuspended :: "bool option"
  ScheduledScalingSuspended :: "bool option"

record ScalableTarget =
  MinCapacity :: "int32 option"
  MaxCapacity :: "int32 option"

record ('o, 'v) clients =
  sdk :: "'o aws"
  NewListServicesPaginator :: "string \<Rightarrow> int32 \<Rightarrow> 'o \<Rightarrow> handle \<times> 'o"
  HasMorePages :: "handle \<Rightarrow> 'o \<Rightarrow> bool"
  NextPage :: "handle \<Rightarrow> 'o \<Rightarrow> string list res \<times> 'o"
  ecs_DescribeServices :: "string \<Rightarrow> string list \<Rightarrow> 'o \<Rightarrow> 'v Service list res \<times> 'o"
  ecs_RunTask :: "RunTaskInput \<Rightarrow> 'o \<Rightarrow> task list res \<times> 'o"
  ecs_WaitTasksRunning :: "string \<Rightarrow> string list \<Rightarrow> duration \<Rightarrow> 'o \<Rightarrow> unit res \<times> 'o"
  ecs_DescribeTaskDefinition :: "string \<Rightarrow> 'o \<Rightarrow> 'v described res \<times> 'o"
  ecs_RegisterTaskDefinition :: "'v RegisterTaskDefinitionInput \<Rightarrow> 'o \<Rightarrow> 'v TaskDefinition option res \<times> 'o"
  ecs_UpdateService :: "UpdateServiceInput \<Rightarrow> 'o \<Rightarrow> unit res \<times> 'o"
  ecs_ListTasks :: "string \<Rightarrow> string \<Rightarrow> 'o \<Rightarrow> string list res \<times> 'o"
  ecs_DescribeTasks :: "string \<Rightarrow> string list \<Rightarrow> 'o \<Rightarrow> task list res \<times> 'o"
  sts_GetCallerIdentity :: "'o \<Rightarrow> (string option \<times> string option) res \<times> 'o"
  scaling_DescribeTargets :: "string \<Rightarrow> 'o \<Rightarrow> ScalableTarget list res \<times> 'o"
  scaling_RegisterTarget :: "string \<Rightarrow> SuspendedState \<Rightarrow> 'o \<Rightarrow> unit res \<times> 'o"

section \<open>The cluster\<close>

definition maxWaitTime :: duration where "maxWaitTime = 5 * 60 * 1000000000"

record Cluster =
  clusterName :: string
  region :: string
  userID :: string
  accountID :: string

type_synonym 'o cluster_state = "Cluster \<times> 'o"

definition NewCluster :: "string \<Rightarrow> string \<Rightarrow> Cluster" where
  "NewCluster awsRegion name = \<lparr>clusterName = name, region = awsRegion, userID = [], accountID = []\<rparr>"

text \<open>\<^verbatim>\<open>chunk\<close>; \<open>chunk_from\<close> is its loop from index \<open>i\<close> on.  (The sum \<open>i + n\<close> leaves
  the width of \<^verbatim>\<open>int\<close> for no slice that fits in memory.)\<close>

function chunk_from :: "'a list \<Rightarrow> int \<Rightarrow> int \<Rightarrow> 'a list list" where
  "chunk_from xs n i =
     (if 0 < n \<and> i < len xs
      then (let stop = min (i + n) (len xs) in
            take (nat (stop - i)) (drop (nat i) xs) # chunk_from xs n (i + n))
      else [])"
  by pat_completeness auto
termination
  by (relation "measure (\<lambda>(xs, n, i). nat (len xs - i))") auto

declare chunk_from.simps [simp del]

definition chunk :: "'a list \<Rightarrow> int \<Rightarrow> 'a list list" where
  "chunk xs n = (if n \<le> 0 then [xs] else chunk_from xs n 0)"

definition DescribeTaskDefinition :: "('o, 'v) clients \<Rightarrow> string \<Rightarrow> 'o cluster_state \<Rightarrow>
    'v described res \<times> 'o cluster_state" where
  "DescribeTaskDefinition C family st =
     swrap ''describing task definition'' (calling (ecs_DescribeTaskDefinition C family) st)"

definition DescribeService :: "('o, 'v) clients \<Rightarrow> string \<Rightarrow> 'o cluster_state \<Rightarrow> 'v Service res \<times> 'o cluster_state" where
  "DescribeService C serviceName st =
     sbind (swrap ''describe services'' (calling (ecs_DescribeServices C (clusterName (fst st)) [serviceName]) st))
       (\<lambda>services st. case services of [] \<Rightarrow> (Err ErrServiceNotFound, st) | s # _ \<Rightarrow> (Ok s, st))"

text \<open>\<^verbatim>\<open>DescribeAllServices\<close>: the inner loop over chunks, the body of the loop over pages,
  and that loop, which ends when the paginator has no more pages.\<close>

definition MaxListServices :: int32 where "MaxListServices = 100"
definition MaxDescribeServices :: int where "MaxDescribeServices = 10"

fun describe_chunks :: "('o, 'v) clients \<Rightarrow> string list list \<Rightarrow> 'v Service list \<Rightarrow> 'o cluster_state \<Rightarrow>
    'v Service list res \<times> 'o cluster_state" where
  "describe_chunks C [] services st = (Ok services, st)"
| "describe_chunks C (ch # chs) services st =
     sbind (swrap ''describing services'' (calling (ecs_DescribeServices C (clusterName (fst st)) ch) st))
       (\<lambda>described st. describe_chunks C chs (services @ described) st)"

definition describe_page :: "('o, 'v) clients \<Rightarrow> handle \<Rightarrow> 'v Service list \<Rightarrow> 'o cluster_state \<Rightarrow>
    'v Service list res \<times> 'o cluster_state" where
  "describe_page C p services st =
     sbind (swrap ''getting next page'' (calling (NextPage C p) st)) (\<lambda>serviceArns st.
     describe_chunks C (chunk serviceArns MaxDescribeServices) services st)"

definition succeeded :: "'a res \<Rightarrow> bool" where
  "succeeded r = (case r of Ok _ \<Rightarrow> True | _ \<Rightarrow> False)"

definition elements :: "'a list res \<Rightarrow> 'a list" where
  "elements r = (case r of Ok xs \<Rightarrow> xs | _ \<Rightarrow> [])"

partial_function (option) describe_pages :: "('o, 'v) clients \<Rightarrow> handle \<Rightarrow> 'v Service list \<Rightarrow> 'o cluster_state \<Rightarrow>
    ('v Service list res \<times> 'o cluster_state) option" where
  "describe_pages C p services st =
     (if \<not> HasMorePages C p (snd st) then Some (Ok services, st)
      else let r = describe_page C p services st in
        if succeeded (fst r) then describe_pages C p (elements (fst r)) (snd r) else Some r)"

definition DescribeAllServices :: "('o, 'v) clients \<Rightarrow> 'o cluster_state \<Rightarrow>
    ('v Service list res \<times> 'o cluster_state) option" where
  "DescribeAllServices C st =
     (let (p, st) = calling (NewListServicesPaginator C (clusterName (fst st)) MaxListServices) st in
      describe_pages C p [] st)"

section \<open>Identity\<close>

definition getCallerIdentity :: "('o, 'v) clients \<Rightarrow> 'o cluster_state \<Rightarrow> unit res \<times> 'o cluster_state" where
  "getCallerIdentity C st =
     sbind (swrap ''get caller identity'' (calling (sts_GetCallerIdentity C) st)) (\<lambda>identity (c, w).
     case identity of
       (None, _) \<Rightarrow> (Panic, (c, w))
     | (Some u, None) \<Rightarrow> (Panic, (c\<lparr>userID := u\<rparr>, w))
     | (Some u, Some a) \<Rightarrow> (Ok (), (c\<lparr>userID := u, accountID := a\<rparr>, w)))"

definition getUserID :: "('o, 'v) clients \<Rightarrow> 'o cluster_state \<Rightarrow> string res \<times> 'o cluster_state" where
  "getUserID C st =
     (if userID (fst st) \<noteq> [] then (Ok (userID (fst st)), st)
      else sbind (getCallerIdentity C st) (\<lambda>_ st. (Ok (userID (fst st)), st)))"

definition getAccountID :: "('o, 'v) clients \<Rightarrow> 'o cluster_state \<Rightarrow> string res \<times> 'o cluster_state" where
  "getAccountID C st =
     (if accountID (fst st) \<noteq> [] then (Ok (accountID (fst st)), st)
      else sbind (getCallerIdentity C st) (\<lambda>_ st. (Ok (accountID (fst st)), st)))"

section \<open>Names\<close>

text \<open>\<^verbatim>\<open>strings.SplitN\<close> with the limit 2: at the first separator only.\<close>

definition split_first :: "char \<Rightarrow> string \<Rightarrow> string list" where
  "split_first sep s =
     (if sep \<in> set s
      then [takeWhile (\<lambda>c. c \<noteq> sep) s, tl (dropWhile (\<lambda>c. c \<noteq> sep) s)] else [s])"

definition splitImage :: "string \<Rightarrow> (string \<times> string \<times> string) res" where
  "splitImage uri =
     (let firstParts = split_first (CHR ''/'') uri in
      if length firstParts < 2 then Err ErrInvalidImage
      else
        (let secondParts = split_on (CHR '':'') (firstParts ! 1) in
         if length secondParts < 2 then Err ErrInvalidImage
         else Ok (firstParts ! 0, secondParts ! 0, secondParts ! 1)))"

text \<open>\<^verbatim>\<open>strconv.ParseInt(s, 10, 64)\<close> is \<^verbatim>\<open>strconv.Atoi\<close>.\<close>

definition splitTaskDefinitionARN :: "ARN \<Rightarrow> (string \<times> int) res" where
  "splitTaskDefinitionARN taskDefinitionARN =
     (let taskDefinitionResource = split_on (CHR ''/'') (arn_Resource taskDefinitionARN) in
      if length taskDefinitionResource < 2 then Err ErrInvalidTaskDefinition
      else
        (let resourceParts = split_on (CHR '':'') (taskDefinitionResource ! 1) in
         if length resourceParts < 2 then Err ErrInvalidTaskDefinition
         else rbind (wrap_err ''parsing revision'' (Atoi (resourceParts ! 1))) (\<lambda>revision.
           Ok (resourceParts ! 0, revision))))"

section \<open>Task definitions\<close>

text \<open>The loop of \<^verbatim>\<open>ReplaceTaskDefinitionTag\<close> over the container definitions.\<close>

fun replace_images :: "(string \<Rightarrow> string \<Rightarrow> string \<Rightarrow> string) \<Rightarrow> 'v ContainerDefinition list \<Rightarrow>
    'v ContainerDefinition list res" where
  "replace_images replacer [] = Ok []"
| "replace_images replacer (container # rest) =
     (case cd_Image container of
        None \<Rightarrow> Panic
      | Some uri \<Rightarrow>
          rbind (wrap_err ''split image'' (splitImage uri)) (\<lambda>(repo, image, tag).
          let replacement = replacer repo image tag in
          rbind (replace_images replacer rest) (\<lambda>rest'.
          Ok (container\<lparr>cd_Image := Some (repo @ ''/'' @ image @ '':'' @ replacement)\<rparr> # rest'))))"

definition register_input :: "'v TaskDefinition \<Rightarrow> 'v ContainerDefinition list \<Rightarrow> 'v \<Rightarrow> 'v RegisterTaskDefinitionInput" where
  "register_input t containers tags =
     \<lparr>reg_Family = td_Family t, reg_Cpu = td_Cpu t, reg_EphemeralStorage = td_EphemeralStorage t,
      reg_ExecutionRoleArn = td_ExecutionRoleArn t, reg_InferenceAccelerators = td_InferenceAccelerators t,
      reg_IpcMode = td_IpcMode t, reg_Memory = td_Memory t, reg_NetworkMode = td_NetworkMode t,
      reg_PidMode = td_PidMode t, reg_PlacementConstraints = td_PlacementConstraints t,
      reg_ProxyConfiguration = td_ProxyConfiguration t, reg_RequiresCompatibilities = td_RequiresCompatibilities t,
      reg_RuntimePlatform = td_RuntimePlatform t, reg_Volumes = td_Volumes t, reg_TaskRoleArn = td_TaskRoleArn t,
      reg_ContainerDefinitions = containers, reg_Tags = tags\<rparr>"

definition deref :: "'a option \<Rightarrow> 's \<Rightarrow> 'a res \<times> 's" where
  "deref p st = (case p of None \<Rightarrow> Panic | Some x \<Rightarrow> Ok x, st)"

definition ReplaceTaskDefinitionTag :: "('o, 'v) clients \<Rightarrow> ARN \<Rightarrow> (string \<Rightarrow> string \<Rightarrow> string \<Rightarrow> string) \<Rightarrow>
    'o cluster_state \<Rightarrow> ARN res \<times> 'o cluster_state" where
  "ReplaceTaskDefinitionTag C taskDefinitionARN replacer st =
     sbind (wrap_err ''split task definition arn'' (splitTaskDefinitionARN taskDefinitionARN), st) (\<lambda>(family, _) st.
     sbind (DescribeTaskDefinition C family st) (\<lambda>describe st.
     sbind (deref (out_TaskDefinition describe) st) (\<lambda>taskDefinition st.
     sbind (replace_images replacer (td_ContainerDefinitions taskDefinition), st) (\<lambda>containerDefinitions st.
     sbind (swrap ''registering task definition'' (calling (ecs_RegisterTaskDefinition C
       (register_input taskDefinition containerDefinitions (out_Tags describe))) st)) (\<lambda>registered st.
     sbind (deref registered st) (\<lambda>registered st.
     sbind (deref (td_Arn registered) st) (\<lambda>arn st.
     (wrap_err ''parsing replacement task definition arn'' (arn_Parse (sdk C) arn), st))))))))"

record 'v ServiceTaskDefinition =
  std_Service :: "'v Service"
  std_TaskDefinition :: "'v TaskDefinition"

fun describe_definitions :: "('o, 'v) clients \<Rightarrow> 'v Service list \<Rightarrow> 'v ServiceTaskDefinition list \<Rightarrow>
    'o cluster_state \<Rightarrow> 'v ServiceTaskDefinition list res \<times> 'o cluster_state" where
  "describe_definitions C [] results st = (Ok results, st)"
| "describe_definitions C (service # services) results st =
     sbind (deref (svc_TaskDefinition service) st) (\<lambda>family st.
     sbind (DescribeTaskDefinition C family st) (\<lambda>describe st.
     sbind (deref (out_TaskDefinition describe) st) (\<lambda>taskDefinition st.
     describe_definitions C services (results @ [\<lparr>std_Service = service, std_TaskDefinition = taskDefinition\<rparr>]) st)))"

definition DescribeServiceTaskDefinitions :: "('o, 'v) clients \<Rightarrow> 'o cluster_state \<Rightarrow>
    ('v ServiceTaskDefinition list res \<times> 'o cluster_state) option" where
  "DescribeServiceTaskDefinitions C st =
     map_option (\<lambda>r. sbind r (\<lambda>services st. describe_definitions C services [] st)) (DescribeAllServices C st)"

text \<open>The log groups of a container: the options are a map, so at most one has the key.  The
  names found so far are a set, kept in the order of insertion; ranging over a Go map visits
  its keys in no fixed order, which is the parameter \<open>ranged\<close>.\<close>

definition container_groups :: "'v ContainerDefinition \<Rightarrow> string list \<Rightarrow> string list" where
  "container_groups container names =
     (case cd_LogConfiguration container of
        None \<Rightarrow> names
      | Some conf \<Rightarrow>
          (if LogDriver conf \<noteq> ''awslogs'' then names
           else foldl (\<lambda>names (k, v). if k \<noteq> ''awslogs-group'' then names else List.insert v names) names
             (log_Options conf)))"

fun collect_groups :: "('o, 'v) clients \<Rightarrow> 'v Service list \<Rightarrow> string list \<Rightarrow> 'o cluster_state \<Rightarrow>
    string list res \<times> 'o cluster_state" where
  "collect_groups C [] names st = (Ok names, st)"
| "collect_groups C (service # services) names st =
     sbind (deref (svc_TaskDefinition service) st) (\<lambda>family st.
     sbind (DescribeTaskDefinition C family st) (\<lambda>describe st.
     sbind (deref (out_TaskDefinition describe) st) (\<lambda>taskDefinition st.
     collect_groups C services
       (foldl (\<lambda>names container. container_groups container names) names (td_ContainerDefinitions taskDefinition)) st)))"

definition log_group_arn :: "string \<Rightarrow> string \<Rightarrow> string \<Rightarrow> string" where
  "log_group_arn reg account name = ''arn:aws:logs:'' @ reg @ '':'' @ account @ '':log-group:'' @ name"

definition AggregateLogGroupARNs :: "('o, 'v) clients \<Rightarrow> (string list \<Rightarrow> string list) \<Rightarrow> 'v Service list \<Rightarrow>
    'o cluster_state \<Rightarrow> string list res \<times> 'o cluster_state" where
  "AggregateLogGroupARNs C ranged services st =
     sbind (collect_groups C services [] st) (\<lambda>logGroupNames st.
     sbind (swrap ''get account ID'' (getAccountID C st)) (\<lambda>account st.
     (Ok (map (log_group_arn (region (fst st)) account) (ranged logGroupNames)), st)))"

section \<open>Tasks\<close>

definition GetFirstTaskARN :: "('o, 'v) clients \<Rightarrow> string \<Rightarrow> 'o cluster_state \<Rightarrow> ARN res \<times> 'o cluster_state" where
  "GetFirstTaskARN C serviceName st =
     sbind (swrap ''listing tasks'' (calling (ecs_ListTasks C (clusterName (fst st)) serviceName) st)) (\<lambda>taskArns st.
     case taskArns of
       [] \<Rightarrow> (Err ErrNoTasks, st)
     | t # _ \<Rightarrow> (wrap_err ''parsing task ARN'' (arn_Parse (sdk C) t), st))"

text \<open>\<^verbatim>\<open>NetworkConfiguration\<close> and its \<^verbatim>\<open>AwsvpcConfiguration\<close> are dereferenced, and so
  is the first of the started tasks.\<close>

definition RunConsole :: "('o, 'v) clients \<Rightarrow> string \<Rightarrow> string \<Rightarrow> 'o cluster_state \<Rightarrow> ARN res \<times> 'o cluster_state" where
  "RunConsole C serviceName containerName st =
     sbind (DescribeService C serviceName st) (\<lambda>service st.
     sbind (swrap ''get caller identity'' (getUserID C st)) (\<lambda>user st.
     sbind (deref (svc_NetworkConfiguration service) st) (\<lambda>network st.
     sbind (deref network st) (\<lambda>vpc st.
     sbind (swrap ''running task'' (calling (ecs_RunTask C
       \<lparr>rt_Cluster = clusterName (fst st), rt_TaskDefinition = svc_TaskDefinition service, rt_Count = 1,
        rt_EnableECSManagedTags = True, rt_EnableExecuteCommand = True, rt_LaunchType = ''FARGATE'',
        rt_AwsvpcConfiguration = vpc, rt_ContainerOverrides = [(containerName, [''sleep'', ''86400''])],
        rt_PropagateTags = ''TASK_DEFINITION'', rt_StartedBy = user, rt_Tags = [(''StartedBy'', user)]\<rparr>) st))
       (\<lambda>tasks st.
     case tasks of
       [] \<Rightarrow> (Panic, st)
     | t # _ \<Rightarrow>
         sbind (deref (TaskArn t) st) (\<lambda>arn st.
         sbind (wrap_err ''parsing running task arn'' (arn_Parse (sdk C) arn), st) (\<lambda>taskARN st.
         sbind (swrap ''waiting for task to start'' (calling (ecs_WaitTasksRunning C (clusterName (fst st))
           [arn_String (sdk C) taskARN] maxWaitTime) st)) (\<lambda>_ st.
         (Ok taskARN, st)))))))))"

fun find_container :: "string \<Rightarrow> container list \<Rightarrow> string option" where
  "find_container name [] = None"
| "find_container name (c # cs) =
     (case (con_Name c, con_RuntimeId c) of
        (Some n, Some r) \<Rightarrow> if n = name then Some r else find_container name cs
      | _ \<Rightarrow> find_container name cs)"

fun find_in_tasks :: "string \<Rightarrow> task list \<Rightarrow> string option" where
  "find_in_tasks name [] = None"
| "find_in_tasks name (t # ts) =
     (case find_container name (Containers t) of Some r \<Rightarrow> Some r | None \<Rightarrow> find_in_tasks name ts)"

definition getContainerRuntimeID :: "('o, 'v) clients \<Rightarrow> ARN \<Rightarrow> string \<Rightarrow> 'o cluster_state \<Rightarrow>
    string res \<times> 'o cluster_state" where
  "getContainerRuntimeID C taskARN containerName st =
     sbind (swrap ''describing tasks''
       (calling (ecs_DescribeTasks C (clusterName (fst st)) [arn_String (sdk C) taskARN]) st)) (\<lambda>tasks st.
     if tasks = [] then (Err ErrTaskNotFound, st)
     else (case find_in_tasks containerName tasks of None \<Rightarrow> Err ErrContainerNotFound | Some r \<Rightarrow> Ok r, st))"

definition AttachPortForwardingSession :: "('o, 'p) host \<Rightarrow> ('o, 'v) clients \<Rightarrow> run_of \<Rightarrow> ARN \<Rightarrow> string \<Rightarrow>
    string \<Rightarrow> int \<Rightarrow> int \<Rightarrow> 'o cluster_state \<Rightarrow> unit res \<times> 'o cluster_state" where
  "AttachPortForwardingSession H C R taskARN containerName host portNumber localPortNumber st =
     sbind (getContainerRuntimeID C taskARN containerName st) (\<lambda>containerRuntimeID st.
     swrap ''starting port forwarding session'' (calling (PortForwardSession H (sdk C) R
       \<lparr>pfo_ClusterName = clusterName (fst st), pfo_TaskARN = arn_String (sdk C) taskARN,
        pfo_ContainerRuntimeID = containerRuntimeID, pfo_Host = host, pfo_PortNumber = portNumber,
        pfo_LocalPortNumber = localPortNumber\<rparr>) st))"

definition AttachShellSession :: "('o, 'p) host \<Rightarrow> ('o, 'v) clients \<Rightarrow> run_of \<Rightarrow> ARN \<Rightarrow> string \<Rightarrow>
    string list \<Rightarrow> 'o cluster_state \<Rightarrow> unit res \<times> 'o cluster_state" where
  "AttachShellSession H C R taskARN containerName command st =
     sbind (getContainerRuntimeID C taskARN containerName st) (\<lambda>containerRuntimeID st.
     swrap ''starting shell session'' (calling (exec_ShellSession H (sdk C) R
       \<lparr>sso_ClusterName = clusterName (fst st), sso_TaskARN = arn_String (sdk C) taskARN,
        sso_ContainerName = containerName, sso_ContainerRuntimeID = containerRuntimeID,
        sso_Command = join_with '' '' command\<rparr>) st))"

section \<open>Deploying and scaling\<close>

definition update_service :: "Cluster \<Rightarrow> string \<Rightarrow> UpdateServiceInput" where
  "update_service c serviceName = \<lparr>us_Cluster = clusterName c, us_Service = serviceName, us_TaskDefinition = None,
     us_ForceNewDeployment = False, us_DesiredCount = None\<rparr>"

definition Deploy :: "('o, 'v) clients \<Rightarrow> string \<Rightarrow> ARN \<Rightarrow> 'o cluster_state \<Rightarrow> unit res \<times> 'o cluster_state" where
  "Deploy C serviceName taskDefinitionARN st =
     swrap ''update service'' (calling (ecs_UpdateService C ((update_service (fst st) serviceName)
       \<lparr>us_TaskDefinition := Some (arn_String (sdk C) taskDefinitionARN), us_ForceNewDeployment := True\<rparr>)) st)"

definition Restart :: "('o, 'v) clients \<Rightarrow> string \<Rightarrow> 'o cluster_state \<Rightarrow> unit res \<times> 'o cluster_state" where
  "Restart C serviceName st =
     swrap ''forcing new deployment'' (calling (ecs_UpdateService C
       ((update_service (fst st) serviceName)\<lparr>us_ForceNewDeployment := True\<rparr>)) st)"

definition setDesiredCount :: "('o, 'v) clients \<Rightarrow> string \<Rightarrow> int32 \<Rightarrow> 'o cluster_state \<Rightarrow>
    unit res \<times> 'o cluster_state" where
  "setDesiredCount C serviceName desiredCount st =
     swrap ''updating desired count'' (calling (ecs_UpdateService C
       ((update_service (fst st) serviceName)\<lparr>us_DesiredCount := Some desiredCount\<rparr>)) st)"

definition resource_id :: "Cluster \<Rightarrow> string \<Rightarrow> string" where
  "resource_id c serviceName = ''service/'' @ clusterName c @ ''/'' @ serviceName"

definition describeScalableTargets :: "('o, 'v) clients \<Rightarrow> string \<Rightarrow> 'o cluster_state \<Rightarrow>
    ScalableTarget list res \<times> 'o cluster_state" where
  "describeScalableTargets C serviceName st =
     swrap ''describing scalable targets''
       (calling (scaling_DescribeTargets C (resource_id (fst st) serviceName)) st)"

record AutoscalingOptions =
  ScaleIn :: "bool option"
  ScaleOut :: "bool option"
  ScheduledScaling :: "bool option"

definition Autoscale :: "('o, 'v) clients \<Rightarrow> string \<Rightarrow> AutoscalingOptions \<Rightarrow> 'o cluster_state \<Rightarrow>
    unit res \<times> 'o cluster_state" where
  "Autoscale C serviceName options st =
     (let state = \<lparr>DynamicScalingInSuspended = map_option Not (ScaleIn options),
        DynamicScalingOutSuspended = map_option Not (ScaleOut options),
        ScheduledScalingSuspended = map_option Not (ScheduledScaling options)\<rparr> in
      swrap ''updating autoscaling''
        (calling (scaling_RegisterTarget C (resource_id (fst st) serviceName) state) st))"

definition cluster_Start :: "('o, 'v) clients \<Rightarrow> string \<Rightarrow> 'o cluster_state \<Rightarrow> unit res \<times> 'o cluster_state" where
  "cluster_Start C serviceName st =
     Autoscale C serviceName \<lparr>ScaleIn = Some True, ScaleOut = Some True, ScheduledScaling = Some True\<rparr> st"

definition cluster_Stop :: "('o, 'v) clients \<Rightarrow> string \<Rightarrow> 'o cluster_state \<Rightarrow> unit res \<times> 'o cluster_state" where
  "cluster_Stop C serviceName st =
     sbind (Autoscale C serviceName \<lparr>ScaleIn = Some False, ScaleOut = Some False, ScheduledScaling = Some False\<rparr> st)
       (\<lambda>_ st. setDesiredCount C serviceName 0 st)"

record ScaleOptions =
  so_Min :: bool
  so_Max :: bool
  so_Size :: int

text \<open>The loop of \<^verbatim>\<open>scaleMinMax\<close> starts one goroutine for each target; it gives the counts
  of the goroutines it started and the error with which it returned early, if it did.\<close>

fun start_scaling :: "bool \<Rightarrow> bool \<Rightarrow> ScalableTarget list \<Rightarrow> int32 list \<times> go_error option" where
  "start_scaling isMin isMax [] = ([], None)"
| "start_scaling isMin isMax (t # ts) =
     (case (if isMin then MinCapacity t else if isMax then MaxCapacity t else Some 0) of
        None \<Rightarrow> ([], Some ErrInvalidOption)
      | Some desiredCount \<Rightarrow> (let (counts, e) = start_scaling isMin isMax ts in (desiredCount # counts, e)))"

text \<open>Goroutines of a group that have run, one after the other; the first error is the group's.\<close>

fun run_group :: "('s \<Rightarrow> unit res \<times> 's) list \<Rightarrow> 's \<Rightarrow> unit res \<times> 's" where
  "run_group [] s = (Ok (), s)"
| "run_group (f # fs) s = both f (run_group fs) s"

text \<open>The parameter \<open>finished\<close> gives, of the goroutines started, those that have run when the
  call returns, in their order: all of them when the call waits, some of them when it
  returns early.\<close>

definition scaleMinMax :: "('o, 'v) clients \<Rightarrow> (int32 list \<Rightarrow> int32 list) \<Rightarrow> string \<Rightarrow> bool \<Rightarrow> bool \<Rightarrow> 'o cluster_state \<Rightarrow>
    unit res \<times> 'o cluster_state" where
  "scaleMinMax C finished serviceName isMin isMax st =
     sbind (describeScalableTargets C serviceName st) (\<lambda>scaleTargets st.
     let (counts, early) = start_scaling isMin isMax scaleTargets;
         (r, st) = run_group (map (setDesiredCount C serviceName) (finished counts)) st in
     case early of
       Some e \<Rightarrow> (if r = Panic then Panic else Err e, st)
     | None \<Rightarrow> (wrap_err (''scaling service '' @ serviceName) r, st))"

definition Scale :: "('o, 'v) clients \<Rightarrow> (int32 list \<Rightarrow> int32 list) \<Rightarrow> string \<Rightarrow> ScaleOptions \<Rightarrow> 'o cluster_state \<Rightarrow>
    unit res \<times> 'o cluster_state" where
  "Scale C finished serviceName options st =
     (if so_Min options \<or> so_Max options then
        scaleMinMax C finished serviceName (so_Min options) (so_Max options) st
      else
        (case SafeInt32 (Predeclared K_int) (so_Size options) of
           Ok desiredCount \<Rightarrow> setDesiredCount C serviceName desiredCount st
         | Err e \<Rightarrow> (Err (Joined [ErrInvalidOption, e]), st)
         | Panic \<Rightarrow> (Panic, st)
         | Blocked \<Rightarrow> (Blocked, st)))"

end
