(* ===== verification/Cluster_Props.thy ===== *)
theory Cluster_Props
  imports Cluster
begin

text \<open>
  What the operations of a cluster do: listing covers every service, names and images are taken
  apart and put together without loss, a new task definition differs in its image tags only,
  scaling asks for the size it was given, and the caller's identity is asked for once.  The
  contracts of the AWS clients that a theorem needs are its hypotheses.
\<close>

section \<open>Chunks\<close>

function pieces :: "nat \<Rightarrow> 'a list \<Rightarrow> 'a list list" where
  "pieces n xs = (if n = 0 \<or> xs = [] then [] else take n xs # pieces n (drop n xs))"
  by pat_completeness auto
termination
  by (relation "measure (\<lambda>(n, xs). length xs)") auto

declare pieces.simps [simp del]

lemma concat_pieces: "0 < n \<Longrightarrow> concat (pieces n xs) = xs"
  by (induction n xs rule: pieces.induct) (subst pieces.simps, simp)

lemma pieces_sizes: "0 < n \<Longrightarrow> c \<in> set (pieces n xs) \<Longrightarrow> c \<noteq> [] \<and> length c \<le> n"
  by (induction n xs rule: pieces.induct) (subst (asm) (2) pieces.simps, auto split: if_splits)

lemma chunk_from_pieces:
  "0 < n \<Longrightarrow> 0 \<le> i \<Longrightarrow> chunk_from xs n i = pieces (nat n) (drop (nat i) xs)"
proof (induction xs n i rule: chunk_from.induct)
  case (1 xs n i)
  show ?case
  proof (cases "i < len xs")
    case True
    have "take (nat (min (i + n) (len xs) - i)) (drop (nat i) xs) = take (nat n) (drop (nat i) xs)"
      using "1.prems" True by (cases "i + n \<le> len xs") (simp_all add: len_def min_def)
    moreover have "drop (nat n) (drop (nat i) xs) = drop (nat (i + n)) xs"
    proof -
      have "nat (i + n) = nat i + nat n" using "1.prems" by (simp add: nat_add_distrib)
      then show ?thesis by (simp add: add.commute)
    qed
    moreover have "drop (nat i) xs \<noteq> []" using True "1.prems" by (simp add: len_def)
    ultimately show ?thesis
      using 1 True by (subst chunk_from.simps, subst pieces.simps) simp
  next
    case False
    then show ?thesis using "1.prems" by (subst chunk_from.simps, subst pieces.simps) (simp add: len_def)
  qed
qed

text \<open>
  C31. \<^verbatim>\<open>chunk\<close> with a positive size is the textbook definition: take so many elements, go on
  with the rest.  Nothing is lost, repeated or reordered, and no chunk is empty or too long.
\<close>

theorem chunk_is_pieces:
  assumes "0 < n"
  shows "chunk xs n = pieces (nat n) xs \<and> concat (chunk xs n) = xs \<and>
    (\<forall>c \<in> set (chunk xs n). c \<noteq> [] \<and> len c \<le> n)"
proof -
  have "chunk xs n = pieces (nat n) xs" using assms chunk_from_pieces [of n 0 xs] by (simp add: chunk_def)
  moreover have "\<forall>c \<in> set (pieces (nat n) xs). c \<noteq> [] \<and> len c \<le> n"
    using pieces_sizes [of "nat n" _ xs] assms by (auto simp: len_def le_nat_iff)
  ultimately show ?thesis using concat_pieces [of "nat n" xs] assms by simp
qed

theorem chunk_is_pieces_witness: "chunk [1, 2, 3, 4, 5 :: nat] 2 = [[1, 2], [3, 4], [5]]"
  using chunk_is_pieces [of 2 "[1, 2, 3, 4, 5 :: nat]"] by (simp add: pieces.simps)

section \<open>Listing services\<close>

text \<open>The paginator hands out the pages that are left, and \<^verbatim>\<open>DescribeServices\<close> describes one
  to ten services a call, the service's limit.\<close>

definition pages_ok :: "('o, 'v) clients \<Rightarrow> handle \<Rightarrow> ('o \<Rightarrow> string list list) \<Rightarrow> bool" where
  "pages_ok C p left \<longleftrightarrow> (\<forall>w. HasMorePages C p w = (left w \<noteq> []) \<and>
     (\<forall>x xs. left w = x # xs \<longrightarrow> fst (NextPage C p w) = Ok x \<and> left (snd (NextPage C p w)) = xs))"

definition describes_ok :: "('o, 'v) clients \<Rightarrow> string \<Rightarrow> (string \<Rightarrow> 'v Service) \<Rightarrow> ('o \<Rightarrow> string list list) \<Rightarrow> bool" where
  "describes_ok C cluster service left \<longleftrightarrow> (\<forall>w names. left (snd (ecs_DescribeServices C cluster names w)) = left w \<and>
     (names \<noteq> [] \<and> length names \<le> 10 \<longrightarrow> fst (ecs_DescribeServices C cluster names w) = Ok (map service names)))"

lemma calling_simps [simp]:
  "fst (calling f st) = fst (f (snd st))" "snd (calling f st) = (fst st, snd (f (snd st)))"
  by (simp_all add: calling_def Let_def)

lemma sbind_calling:
  "fst (f (snd st)) = Ok x \<Longrightarrow> sbind (swrap t (calling f st)) g = g x (fst st, snd (f (snd st)))"
  by (simp add: sbind_def)

lemma describe_chunks_ok:
  assumes "describes_ok C (clusterName c) service left"
    and "\<forall>ch \<in> set chs. ch \<noteq> [] \<and> length ch \<le> 10"
  shows "\<exists>w'. describe_chunks C chs acc (c, w) = (Ok (acc @ map service (concat chs)), (c, w')) \<and> left w' = left w"
  using assms(2)
proof (induction chs arbitrary: acc w)
  case (Cons ch chs)
  let ?w = "snd (ecs_DescribeServices C (clusterName c) ch w)"
  from Cons.prems assms(1) have d: "fst (ecs_DescribeServices C (clusterName c) ch w) = Ok (map service ch)" "left ?w = left w"
    by (auto simp: describes_ok_def)
  from Cons.IH [of "acc @ map service ch" ?w] Cons.prems d show ?case by (auto simp: sbind_calling)
qed simp

lemma describe_page_ok:
  assumes "pages_ok C p left" "describes_ok C (clusterName c) service left" "left w = x # xs"
  shows "\<exists>w'. describe_page C p acc (c, w) = (Ok (acc @ map service x), (c, w')) \<and> left w' = xs"
proof -
  let ?w = "snd (NextPage C p w)"
  from assms(1,3) have n: "fst (NextPage C p w) = Ok x" "left ?w = xs" by (auto simp: pages_ok_def)
  have ch: "\<forall>ch \<in> set (chunk x MaxDescribeServices). ch \<noteq> [] \<and> length ch \<le> 10" "concat (chunk x MaxDescribeServices) = x"
    using pieces_sizes [of 10 _ x] concat_pieces [of 10 x] chunk_from_pieces [of 10 0 x]
    by (auto simp: chunk_def MaxDescribeServices_def)
  from describe_chunks_ok [OF assms(2) ch(1), of acc ?w] n ch(2) show ?thesis
    by (auto simp: describe_page_def sbind_calling)
qed


section \<open>Images and task definitions\<close>

fun image_of :: "string \<times> string \<times> string \<Rightarrow> string" where
  "image_of (repo, img, tag) = repo @ ''/'' @ img @ '':'' @ tag"

fun plain_image :: "string \<times> string \<times> string \<Rightarrow> bool" where
  "plain_image (repo, img, tag) \<longleftrightarrow> CHR ''/'' \<notin> set repo \<and> CHR '':'' \<notin> set img \<and> CHR '':'' \<notin> set tag"

lemma split_first_append: "sep \<notin> set xs \<Longrightarrow> split_first sep (xs @ sep # ys) = [xs, ys]"
  by (simp add: split_first_def takeWhile_append2 dropWhile_append2) (induction xs, auto)

lemma splitImage_image_of: "plain_image p \<Longrightarrow> splitImage (image_of p) = Ok p"
  by (cases p) (simp add: splitImage_def split_first_append split_on_append split_on_no_sep Let_def)

lemma replace_images_ok:
  "list_all (\<lambda>(c, p). plain_image p) cps \<Longrightarrow>
   replace_images replacer (map (\<lambda>(c, p). c\<lparr>cd_Image := Some (image_of p)\<rparr>) cps) =
   Ok (map (\<lambda>(c, repo, img, tag). c\<lparr>cd_Image := Some (image_of (repo, img, replacer repo img tag))\<rparr>) cps)"
  by (induction cps) (auto simp: splitImage_image_of simp del: image_of.simps, simp)


text \<open>An image that is given by its digest passes for one with a tag: its tag is the hexadecimal
  part of the digest, and the image with another tag is not a valid reference.\<close>

theorem digest_taken_for_tag:
  assumes "CHR ''/'' \<notin> set repo" "CHR '':'' \<notin> set img" "CHR '':'' \<notin> set hex"
    and "cd_Image container = Some (repo @ ''/'' @ img @ ''@sha256:'' @ hex)"
  shows "replace_images (\<lambda>_ _ _. tag) [container] =
    Ok [container\<lparr>cd_Image := Some (repo @ ''/'' @ img @ ''@sha256:'' @ tag)\<rparr>]"
proof -
  have "splitImage (image_of (repo, img @ ''@sha256'', hex)) = Ok (repo, img @ ''@sha256'', hex)"
    by (rule splitImage_image_of) (use assms in simp)
  then show ?thesis by (simp add: assms(4))
qed

section \<open>Numbers\<close>

lemma parse_uint_append: "parse_uint n (xs @ ys) = rbind (parse_uint n xs) (\<lambda>m. parse_uint m ys)"
  by (induction n xs rule: parse_uint.induct) (simp_all add: Let_def)

lemma digit_char: "d < 10 \<Longrightarrow> is_digit (char_of (48 + d :: nat)) \<and> of_char (char_of (48 + d :: nat)) = (48 + d :: nat)"
  by (simp add: is_digit_def)

lemma parse_digit:
  assumes "0 \<le> m" "d < 10" "10 * m + int d < 2 ^ 64"
  shows "parse_uint m [char_of (48 + d)] = Ok (10 * m + int d)"
  using assms digit_char [OF assms(2)] by simp

lemma parse_dec_nat: "k < 2 ^ 64 \<Longrightarrow> parse_uint 0 (dec_nat k) = Ok (int k)"
proof (induction k rule: dec_nat.induct)
  case (1 k)
  show ?case
  proof (cases "k < 10")
    case True
    then show ?thesis using parse_digit [of 0 k] by (subst dec_nat.simps) simp
  next
    case False
    have "parse_uint 0 (dec_nat (k div 10)) = Ok (int (k div 10))" using 1 False by simp
    moreover have "10 * int (k div 10) + int (k mod 10) = int k" by presburger
    ultimately show ?thesis
      using False "1.prems" parse_digit [of "int (k div 10)" "k mod 10"]
      by (subst dec_nat.simps) (simp add: parse_uint_append)
  qed
qed

lemma dec_nat_nonempty: "dec_nat k \<noteq> []"
  by (subst dec_nat.simps) simp

lemma dec_nat_digits: "c \<in> set (dec_nat k) \<Longrightarrow> is_digit c"
proof (induction k rule: dec_nat.induct)
  case (1 k)
  then show ?case
    using digit_char [of k] digit_char [of "k mod 10"]
    by (subst (asm) (2) dec_nat.simps) (auto split: if_splits)
qed

lemma Atoi_Itoa: "is_i64 i \<Longrightarrow> Atoi (Itoa i) = Ok i"
proof -
  assume i: "is_i64 i"
  have sign: "\<not> is_digit (CHR ''-'')" "\<not> is_digit (CHR ''+'')" "\<not> is_digit (CHR '':'')" by (simp_all add: is_digit_def)
  have p: "parse_digits (dec_nat k) = Ok (int k)" if "k < 2 ^ 64" for k
    using parse_dec_nat [OF that] dec_nat_nonempty [of k] by (simp add: parse_digits_def)
  obtain c cs where c: "dec_nat (nat i) = c # cs" using dec_nat_nonempty by (meson neq_Nil_conv)
  then have "is_digit c" using dec_nat_digits [of c "nat i"] by simp
  then have "c \<noteq> CHR ''-''" "c \<noteq> CHR ''+''" using sign by auto
  with i c p [of "nat i"] p [of "nat (- i)"] show ?thesis
    by (auto simp: Atoi_def Itoa_def check_i64_def is_i64_def)
qed

text \<open>
  C33. A task definition's ARN gives back its family and revision: the resource
  \<open>task-definition/family:revision\<close>, with any revision of 64 bits in decimal, is taken apart into
  exactly these two.
\<close>

theorem task_definition_roundtrip:
  assumes "CHR ''/'' \<notin> set family" "CHR '':'' \<notin> set family" "is_i64 revision"
    and "arn_Resource a = ''task-definition/'' @ family @ '':'' @ Itoa revision"
  shows "splitTaskDefinitionARN a = Ok (family, revision)"
proof -
  have d: "c \<notin> set (Itoa revision)" if "\<not> is_digit c" "c \<noteq> CHR ''-''" for c
    using that dec_nat_digits by (auto simp: Itoa_def)
  have "split_on (CHR ''/'') (arn_Resource a) = [''task-definition'', family @ '':'' @ Itoa revision]"
    using assms(1) d [of "CHR ''/''"] split_on_append [of "CHR ''/''" "''task-definition''"]
    by (simp add: assms(4) split_on_no_sep is_digit_def)
  moreover have "split_on (CHR '':'') (family @ '':'' @ Itoa revision) = [family, Itoa revision]"
    using assms(2) d [of "CHR '':''"] by (simp add: split_on_append split_on_no_sep is_digit_def)
  ultimately show ?thesis using Atoi_Itoa [OF assms(3)] by (simp add: splitTaskDefinitionARN_def Let_def)
qed

section \<open>Identity and log groups\<close>

lemma getCallerIdentity_OkD:
  assumes "getCallerIdentity C st = (Ok (), st')"
  shows "\<exists>u a. fst (sts_GetCallerIdentity C (snd st)) = Ok (Some u, Some a) \<and> userID (fst st') = u \<and>
    accountID (fst st') = a \<and> clusterName (fst st') = clusterName (fst st) \<and> region (fst st') = region (fst st)"
  using assms unfolding getCallerIdentity_def
  by (auto elim!: sbind_OkE split: option.splits)

text \<open>
  The caller's identity is asked for once.  After a call of \<^verbatim>\<open>getUserID\<close> that asked and
  got a user and an account, neither \<^verbatim>\<open>getUserID\<close> nor \<^verbatim>\<open>getAccountID\<close> asks again: they
  answer from the cluster's fields and change nothing, whatever the outside has become.
\<close>

theorem identity_asked_once:
  assumes "getUserID C (c, w) = (Ok u, (c', w'))" "userID c = []"
    and "fst (sts_GetCallerIdentity C w) = Ok (Some user, Some account)" "user \<noteq> []" "account \<noteq> []"
  shows "u = user \<and> getUserID C (c', v) = (Ok user, (c', v)) \<and> getAccountID C (c', v) = (Ok account, (c', v)) \<and>
    clusterName c' = clusterName c \<and> region c' = region c"
proof -
  from assms(1,2) have "sbind (getCallerIdentity C (c, w)) (\<lambda>_ st. (Ok (userID (fst st)), st)) = (Ok u, (c', w'))"
    by (simp add: getUserID_def)
  then have g: "getCallerIdentity C (c, w) = (Ok (), (c', w'))" "u = userID c'"
    by (cases "getCallerIdentity C (c, w)"; cases "fst (getCallerIdentity C (c, w))"; auto)+
  from getCallerIdentity_OkD [OF g(1)] g(2) assms(3-5) show ?thesis
    by (auto simp: getUserID_def getAccountID_def)
qed

text \<open>The log group of a container.\<close>

definition group_in :: "'v ContainerDefinition \<Rightarrow> string \<Rightarrow> bool" where
  "group_in container g \<longleftrightarrow> (\<exists>conf. cd_LogConfiguration container = Some conf \<and> LogDriver conf = ''awslogs'' \<and>
     (''awslogs-group'', g) \<in> set (log_Options conf))"

lemma insert_options:
  "set (foldl (\<lambda>names (k, v). if k \<noteq> key then names else List.insert v names) names opts) =
     set names \<union> {v. (key, v) \<in> set opts}"
  "distinct names \<Longrightarrow> distinct (foldl (\<lambda>names (k, v). if k \<noteq> key then names else List.insert v names) names opts)"
  by (induction opts arbitrary: names) (auto simp: distinct_insert)

lemma container_groups_set:
  "set (container_groups container names) = set names \<union> {g. group_in container g}"
  "distinct names \<Longrightarrow> distinct (container_groups container names)"
  by (auto simp: container_groups_def group_in_def insert_options split: option.splits)

lemma containers_groups_set:
  "set (foldl (\<lambda>names container. container_groups container names) names cs) =
     set names \<union> {g. \<exists>container \<in> set cs. group_in container g}"
  "distinct names \<Longrightarrow> distinct (foldl (\<lambda>names container. container_groups container names) names cs)"
  by (induction cs arbitrary: names) (auto simp: container_groups_set)

text \<open>\<^verbatim>\<open>DescribeTaskDefinition\<close> finds the definition of a service.\<close>

definition definitions_ok :: "('o, 'v) clients \<Rightarrow> ('v Service \<Rightarrow> 'v TaskDefinition) \<Rightarrow> 'v Service list \<Rightarrow> bool" where
  "definitions_ok C definition_of services \<longleftrightarrow> (\<forall>s \<in> set services. \<exists>family. svc_TaskDefinition s = Some family \<and>
     (\<forall>w. \<exists>d. fst (ecs_DescribeTaskDefinition C family w) = Ok d \<and> out_TaskDefinition d = Some (definition_of s)))"

lemma collect_groups_ok:
  assumes "definitions_ok C definition_of services" "distinct names"
  shows "\<exists>ns w'. collect_groups C services names (c, w) = (Ok ns, (c, w')) \<and> distinct ns \<and>
    set ns = set names \<union> {g. \<exists>s \<in> set services. \<exists>k \<in> set (td_ContainerDefinitions (definition_of s)). group_in k g}"
  using assms
proof (induction services arbitrary: names w)
  case (Cons s services)
  from Cons.prems(1) obtain family where family: "svc_TaskDefinition s = Some family"
      "\<forall>w. \<exists>d. fst (ecs_DescribeTaskDefinition C family w) = Ok d \<and> out_TaskDefinition d = Some (definition_of s)"
    by (auto simp: definitions_ok_def)
  then obtain d where s: "svc_TaskDefinition s = Some family"
      "fst (ecs_DescribeTaskDefinition C family w) = Ok d" "out_TaskDefinition d = Some (definition_of s)" by blast
  let ?names = "foldl (\<lambda>names container. container_groups container names) names (td_ContainerDefinitions (definition_of s))"
  let ?w = "snd (ecs_DescribeTaskDefinition C family w)"
  have "collect_groups C (s # services) names (c, w) = collect_groups C services ?names (c, ?w)"
    using s by (simp add: deref_def DescribeTaskDefinition_def sbind_calling)
  moreover have "definitions_ok C definition_of services" using Cons.prems(1) by (simp add: definitions_ok_def)
  ultimately show ?case
    using Cons.IH [of ?names ?w] containers_groups_set [of names "td_ContainerDefinitions (definition_of s)"] Cons.prems(2)
    by auto
qed simp

text \<open>
  C34. \<^verbatim>\<open>AggregateLogGroupARNs\<close> collects exactly the log groups: one ARN for each name that
  some container of some service has under \<^verbatim>\<open>awslogs-group\<close> with the \<^verbatim>\<open>awslogs\<close>
  driver, none twice, in whatever order Go ranges over the map.
\<close>

theorem AggregateLogGroupARNs_exact:
  assumes "definitions_ok C definition_of services" "accountID c \<noteq> []"
    and "\<And>ns. distinct ns \<Longrightarrow> distinct (ranged ns) \<and> set (ranged ns) = set ns"
  shows "\<exists>arns w'. AggregateLogGroupARNs C ranged services (c, w) = (Ok arns, (c, w')) \<and> distinct arns \<and>
    set arns = log_group_arn (region c) (accountID c) `
      {g. \<exists>s \<in> set services. \<exists>k \<in> set (td_ContainerDefinitions (definition_of s)). group_in k g}"
proof -
  from collect_groups_ok [OF assms(1), of "[]" c w] obtain ns w' where
    ns: "collect_groups C services [] (c, w) = (Ok ns, (c, w'))" "distinct ns"
      "set ns = {g. \<exists>s \<in> set services. \<exists>k \<in> set (td_ContainerDefinitions (definition_of s)). group_in k g}" by auto
  have "inj (log_group_arn (region c) (accountID c))" by (auto simp: log_group_arn_def intro: injI)
  then have "distinct (map (log_group_arn (region c) (accountID c)) (ranged ns))"
    using assms(3) [OF ns(2)] by (simp add: distinct_map inj_on_def)
  then show ?thesis
    using ns assms(2) assms(3) [OF ns(2)] by (simp add: AggregateLogGroupARNs_def getAccountID_def)
qed

section \<open>Tasks and scaling\<close>

text \<open>
  \<^verbatim>\<open>RunConsole\<close> panics when ECS starts no task: \<^verbatim>\<open>RunTask\<close> may succeed and place
  nothing (the reasons are in its \<^verbatim>\<open>Failures\<close>, which the code does not read), and the first
  task of the empty list is accessed.
\<close>

theorem RunConsole_no_task_panics:
  assumes "fst (ecs_DescribeServices C (clusterName c) [serviceName] w) = Ok (s # rest)"
    and "svc_NetworkConfiguration s = Some (Some vpc)" "userID c \<noteq> []"
    and "\<And>input w. fst (ecs_RunTask C input w) = Ok []"
  shows "fst (RunConsole C serviceName containerName (c, w)) = Panic"
  using assms by (simp add: RunConsole_def DescribeService_def getUserID_def deref_def sbind_calling)


text \<open>Below that range the size wraps around: a negative one can scale a service up.\<close>

theorem Scale_negative_wraps:
  "Scale C finished serviceName \<lparr>so_Min = False, so_Max = False, so_Size = - 4294967295\<rparr> (c, w) =
   setDesiredCount C serviceName 1 (c, w)"
  by (simp add: Scale_def SafeInt32_def to_i64_id is_i64_def to_i32_def signed_take_bit_eq_take_bit_minus)

text \<open>Scaling to a capacity: when a target has none, the call returns at once, and what it started
  for the targets before is not waited for.\<close>

theorem scale_returns_before_its_goroutines:
  assumes "fst (scaling_DescribeTargets C (resource_id c serviceName) w) = Ok [t1, t2]"
    and "MinCapacity t1 = Some n" "MinCapacity t2 = None" "finished [n] = []"
  shows "start_scaling True x [t1, t2] = ([n], Some ErrInvalidOption) \<and>
    scaleMinMax C finished serviceName True x (c, w) =
      (Err ErrInvalidOption, (c, snd (scaling_DescribeTargets C (resource_id c serviceName) w)))"
  using assms by (simp add: scaleMinMax_def describeScalableTargets_def sbind_calling)

section \<open>Examples\<close>

text \<open>Clients over a list of pages: the names of the services double as their definitions' names.\<close>

definition arn_with :: "string \<Rightarrow> ARN" where
  "arn_with r = \<lparr>arn_Partition = ''aws'', arn_Service = ''ecs'', arn_Region = ''us-east-1'', arn_AccountID = ''1'',
     arn_Resource = r\<rparr>"

definition page_sdk :: "'o aws" where
  "page_sdk = \<lparr>arn_Parse = (\<lambda>s. Ok (arn_with s)), arn_String = arn_Resource, uuid_NewRandom = (\<lambda>w. (Ok (replicate 16 0), w)),
     ssm_StartSession = (\<lambda>i w. (Ok (None, None, None), w)), ecs_ExecuteCommand = (\<lambda>i w. (Ok None, w))\<rparr>"

definition demo_service :: "string \<Rightarrow> nat Service" where
  "demo_service n = \<lparr>svc_TaskDefinition = Some n, svc_NetworkConfiguration = None, svc_other = 0\<rparr>"

definition demo_container :: "nat ContainerDefinition" where
  "demo_container = \<lparr>cd_Image = Some ''ecr/web:v1'',
     cd_LogConfiguration = Some \<lparr>LogDriver = ''awslogs'', log_Options = [(''awslogs-region'', ''r''), (''awslogs-group'', ''web'')]\<rparr>,
     cd_other = 5\<rparr>"

definition demo_definition :: "nat TaskDefinition" where
  "demo_definition = \<lparr>td_Arn = Some ''task-definition/web:12'', td_ContainerDefinitions = [demo_container], td_Family = 1, td_Cpu = 2,
     td_EphemeralStorage = 3, td_ExecutionRoleArn = 4, td_InferenceAccelerators = 5, td_IpcMode = 6, td_Memory = 7,
     td_NetworkMode = 8, td_PidMode = 9, td_PlacementConstraints = 10, td_ProxyConfiguration = 11,
     td_RequiresCompatibilities = 12, td_RuntimePlatform = 13, td_Volumes = 14, td_TaskRoleArn = 15\<rparr>"

definition page_clients :: "(string list list, nat) clients" where
  "page_clients =
    \<lparr>sdk = page_sdk,
     NewListServicesPaginator = (\<lambda>cl n w. (1, w)),
     HasMorePages = (\<lambda>p w. w \<noteq> []),
     NextPage = (\<lambda>p w. case w of [] \<Rightarrow> (Err EOF, []) | x # xs \<Rightarrow> (Ok x, xs)),
     ecs_DescribeServices = (\<lambda>cl names w.
       (if names = [] \<or> 10 < length names then Err (External 2) else Ok (map demo_service names), w)),
     ecs_RunTask = (\<lambda>i w. (Ok [], w)),
     ecs_WaitTasksRunning = (\<lambda>cl ts d w. (Ok (), w)),
     ecs_DescribeTaskDefinition = (\<lambda>f w. (Ok \<lparr>out_TaskDefinition = Some demo_definition, out_Tags = 16\<rparr>, w)),
     ecs_RegisterTaskDefinition = (\<lambda>i w. (Ok (Some (demo_definition\<lparr>td_Arn := Some ''task-definition/web:13''\<rparr>)), w)),
     ecs_UpdateService = (\<lambda>i w. (Ok (), w)),
     ecs_ListTasks = (\<lambda>cl s w. (Ok [], w)),
     ecs_DescribeTasks = (\<lambda>cl ts w. (Ok [], w)),
     sts_GetCallerIdentity = (\<lambda>w. (Ok (Some ''user'', Some ''1''), w)),
     scaling_DescribeTargets = (\<lambda>r w. (Ok [], w)),
     scaling_RegisterTarget = (\<lambda>r s w. (Ok (), w))\<rparr>"



theorem task_definition_roundtrip_witness:
  "splitTaskDefinitionARN (arn_with (''task-definition/web:'' @ Itoa 12)) = Ok (''web'', 12)"
  by (rule task_definition_roundtrip) (simp_all add: arn_with_def is_i64_def)

theorem AggregateLogGroupARNs_exact_witness:
  "\<exists>w'. AggregateLogGroupARNs page_clients rev [demo_service ''a'', demo_service ''b'']
     ((NewCluster ''us-east-1'' ''c'')\<lparr>accountID := ''1''\<rparr>, []) =
     (Ok [''arn:aws:logs:us-east-1:1:log-group:web''], ((NewCluster ''us-east-1'' ''c'')\<lparr>accountID := ''1''\<rparr>, w'))"
proof -
  let ?c = "(NewCluster ''us-east-1'' ''c'')\<lparr>accountID := ''1''\<rparr>" and ?s = "[demo_service ''a'', demo_service ''b'']"
  have d: "definitions_ok page_clients (\<lambda>s. demo_definition) ?s"
    by (simp add: definitions_ok_def demo_service_def page_clients_def)
  have g: "{g. \<exists>s \<in> set ?s. \<exists>k \<in> set (td_ContainerDefinitions demo_definition). group_in k g} = {''web''}"
    by (auto simp: demo_definition_def group_in_def demo_container_def)
  have "\<exists>arns w'. AggregateLogGroupARNs page_clients rev ?s (?c, []) = (Ok arns, (?c, w')) \<and> distinct arns \<and>
      set arns = {''arn:aws:logs:us-east-1:1:log-group:web''}"
    using AggregateLogGroupARNs_exact [OF d, of ?c rev "[]"] unfolding g by (simp add: NewCluster_def log_group_arn_def)
  then obtain arns w' where a: "AggregateLogGroupARNs page_clients rev ?s (?c, []) = (Ok arns, (?c, w'))" "distinct arns"
    "set arns = {''arn:aws:logs:us-east-1:1:log-group:web''}" by blast
  from a(2,3) have "length arns = 1" using distinct_card [of arns] by simp
  then have "arns = [''arn:aws:logs:us-east-1:1:log-group:web'']" using a(3) by (cases arns) auto
  with a(1) show ?thesis by blast
qed


end
