(* ===== verification/Spec2Isabelle.thy ===== *)
theory Spec2Isabelle
  imports Safe Versions Logger Channel_Props Shell_Props Port_Props Session_Invariant
    Executor_Props Cluster_Props
begin

text \<open>
  \<^bold>\<open>ecstoolkit.\<close>

  The program manages the services of an ECS cluster (\<^verbatim>\<open>src/cluster\<close>), opens an SSM session to
  a task (\<^verbatim>\<open>src/executor\<close>) and runs a shell or forwards a port over it
  (\<^verbatim>\<open>src/session\<close>).  The core below the sessions is a reliable, ordered message channel between the client (this program) and the
  agent on the target, over a web socket: \<^verbatim>\<open>src/datachannel\<close> on top of
  \<^verbatim>\<open>src/communicator\<close>, speaking the binary format of \<^verbatim>\<open>src/message\<close>, with the
  encryption of \<^verbatim>\<open>src/encryption\<close> and the retry strategies of \<^verbatim>\<open>src/retry\<close>.  This
  development models the program operation by operation, from the wire format up to the cluster,
  and proves what makes it correct.

  \<^bold>\<open>Theories, in the order of their imports.\<close>

  \<^item> \<open>Prelude\<close>: Go's errors, outcomes, integer widths, slices, big-endian integers and
    string functions.  A call returns an outcome \<open>'a res\<close>: a value, an error, a panic, or
    blocked (on a channel, or for ever).  A call with effects returns the outcome paired with
    the state; \<open>rbind\<close> and \<open>sbind\<close> are the early return on an error.
  \<^item> \<open>Safe\<close> (\<^verbatim>\<open>util/safe.go\<close>), \<open>Config\<close> (\<^verbatim>\<open>config/config.go\<close>),
    \<open>Versions\<close> (\<^verbatim>\<open>version\<close>), \<open>Retry\<close> (\<^verbatim>\<open>retry\<close>), \<open>Sha256\<close>
    (the function of \<^verbatim>\<open>crypto/sha256\<close> that the message digest uses).
  \<^item> \<open>Logger\<close> (\<^verbatim>\<open>log\<close>): the levels and methods of the logger over
    \<^verbatim>\<open>log/slog\<close>.
  \<^item> \<open>Codec\<close> (\<^verbatim>\<open>message/readers.go\<close>, \<^verbatim>\<open>writers.go\<close>): the field readers and
    writers with their bounds checks; the locale \<open>field_codec\<close> says what a reader and a
    writer of one field owe each other, and is interpreted on each pair of the code.
  \<^item> \<open>Message\<close> (\<^verbatim>\<open>message/types.go\<close>, \<^verbatim>\<open>clientmessage.go\<close>): the record
    \<open>ClientMessage\<close>, serialization, deserialization, validation.
  \<^item> \<open>Handshake\<close> (\<^verbatim>\<open>handshakemessage.go\<close>, \<^verbatim>\<open>messageparser.go\<close>,
    \<^verbatim>\<open>service/service.go\<close>): the JSON payloads; the JSON text is a parameter.
  \<^item> \<open>Buffers\<close> (\<^verbatim>\<open>listmessagebuffer.go\<close>, \<^verbatim>\<open>mapmessagebuffer.go\<close>,
    \<^verbatim>\<open>streaming.go\<close>): the two message buffers, with the locales \<open>evicting_queue\<close> and
    \<open>bounded_map\<close> as their contracts towards the data channel.
  \<^item> \<open>System\<close>: the record \<open>sys\<close> of everything outside the sources (clock, randomness,
    ids, ciphers, KMS, connections, \<^verbatim>\<open>float64\<close> rounding), the predicates by which theorems
    state what they need of it, and a concrete system for evaluation.
  \<^item> \<open>Encryption\<close> (\<^verbatim>\<open>encryption\<close>, \<^verbatim>\<open>datachannel/encryption.go\<close>).
  \<^item> \<open>Websocket\<close> (\<^verbatim>\<open>communicator/websocketchannel.go\<close>, \<^verbatim>\<open>websocketutil\<close>), with
    the locale \<open>websocket_channel\<close> as its contract.
  \<^item> \<open>DataChannel\<close> (\<^verbatim>\<open>datachannel/datachannel.go\<close>): the record \<open>DataChannel\<close> with the
    fields of the Go struct, and one definition for every method.  The goroutines are modelled
    by the rounds of their loops (\<open>listen_round\<close>, \<open>resend_round\<close>), and \<^verbatim>\<open>Open\<close>
    by a schedule of them (\<open>run_open\<close>).
  \<^item> \<open>Channel_Invariant\<close>: the step relation \<open>reachable\<close> over all rounds, sends,
    registrations and outside events in any order, and the invariant of every reachable state.
  \<^item> \<open>Reorder\<close>: an abstract reordering machine, with a sequence of numbers and a set of early
    arrivals as its state, and what it delivers.
  \<^item> \<open>Delivery\<close>: the data channel refines that machine, step by step; in-order, exactly-once,
    complete delivery of the agent's stream follows.
  \<^item> \<open>Channel_Props\<close>: the behaviour of single operations.
  \<^item> \<open>Window\<close>: an abstract sending window, with the next number and the outstanding ones as its
    state and submissions and acknowledgements as its events; what is outstanding is a function of
    the history.
  \<^item> \<open>Sending\<close>: sends, arriving messages and rounds of the resender give events of that machine
    (\<open>events_of\<close>), and the sending side of the channel refines it (\<open>window_of\<close>).
  \<^item> \<open>Channel_Frame\<close>: what the channel leaves alone.  The locale \<open>kept_world\<close> proves once that a
    property which the outside and the registered handlers keep is kept by the whole channel.
  \<^item> \<open>Objects\<close>: the plug-in objects of a session (records with the fields of the Go structs), the
    process state \<open>proc\<close> around them, and the record \<open>host\<close> of what they call outside:
    operating system, terminal, sockets, the smux library, the SSM client.
  \<^item> \<open>Session\<close> (\<^verbatim>\<open>session/session.go\<close>, \<^verbatim>\<open>sessionutil\<close>), with the contract of the
    session towards its plug-ins as the locale \<open>session_support\<close>, and one turn and the whole of
    a goroutine's loop.
  \<^item> \<open>Shell\<close> (\<^verbatim>\<open>shellsession\<close>), \<open>Mux\<close>, \<open>Ports\<close> and \<open>Port_Life\<close>
    (\<^verbatim>\<open>portsession\<close>): every method, and the life of a session as a fold over a schedule, a
    list that says which goroutine takes its next turn.  \<open>Jsonutil\<close> (\<^verbatim>\<open>jsonutil\<close>).
  \<^item> \<open>Shell_Props\<close>, \<open>Port_Props\<close>, \<open>Port_Life_Props\<close>: their behaviour;
    \<open>Host_Demo\<close> is a concrete host for evaluation.
  \<^item> \<open>Executor\<close>, \<open>Executor_Props\<close> (\<^verbatim>\<open>executor/executor.go\<close>): from a task to a running
    session and its end.
  \<^item> \<open>Session_Invariant\<close>: the channel's invariant through connecting, the schedules of shell and
    port sessions, and \<open>initSession\<close> as a whole.
  \<^item> \<open>Cluster\<close>, \<open>Cluster_Props\<close> (\<^verbatim>\<open>cluster\<close>): services, task definitions, tasks,
    scaling.

  \<^bold>\<open>What is shown.\<close>  The wire format: exactly which messages serialize and to which bytes,
  the round trip, what validation detects, which inputs are errors and which panic
  (\<open>Message\<close>, \<open>Handshake\<close>).  The buffers: refinement of a bounded partial function,
  eviction of the oldest (\<open>Buffers\<close>).  The channel: the invariant over all interleavings of
  its operations, termination of the loop over buffered messages, delivery, sending,
  acknowledging, that nothing sent is forgotten before it is acknowledged, the invariant over every
  schedule of a whole session, the bounds of the retransmission timeout, the handshake.  Encryption: the key
  split and the round trip between the two ends.  Retrying and reading: termination with the
  number of attempts.  Versions: the order and the errors.  Sessions: the agent's output reaches the
  terminal or the local connection completely and in order, whatever the network does; input is
  sent completely and in order; a closed channel ends a shell session, and from connecting to the
  end of the session, under every schedule, the terminal gets its settings back; over every schedule the methods of a port session run on the variant they belong to; a
  cancelled one ends without an error.  Executor and cluster: a target identifier names one
  container; listing is complete and ends; chunks equal their textbook definition; a new task
  definition differs in its tags only; log groups are collected exactly; scaling asks for the size
  given.  Some theorems state a weakness of the code: the basic port session whose reader never
  releases its mutex, the panics of sessions that get a message too early, the resender that never gives up, the reconnection that ends the session, the message
  that is lost before a handler is registered, two sends under one number, and the panics that a
  malformed message can cause.

  \<^bold>\<open>Modelling decisions.\<close>  Signed Go integers are HOL integers, and a result that can leave
  its width goes through \<open>to_i64\<close> or \<open>to_i32\<close>; unsigned ones are words.  \<^verbatim>\<open>float64\<close>
  values are rationals, each operation followed by the rounding of the system.  Loops whose end
  is not evident are \<open>partial_function (option)\<close>; there is no fuel anywhere.  Methods run one
  at a time in \<open>reachable\<close>; the one place where their overlapping matters is stated as a
  theorem of its own.  The calls of the logger are left out of
  the operations; the logger itself is \<open>Logger\<close>.  Errors keep their sentinel and their wrapping
  context, not the values printed into them.

  A schedule of a session interleaves whole turns of loops; a call that blocks for ever is the
  outcome \<open>Blocked\<close>, and a goroutine that ended with it has not returned.

  \<^bold>\<open>Not modelled.\<close>  The mocks (test doubles), the
  constructors that only store the AWS clients, and the code outside the sources: AWS SDK, smux,
  gorilla/websocket, JSON, AES-GCM, which enter as functions with hypotheses where a theorem needs
  one.
\<close>

end
